(* ===== verification/Prelude.thy ===== *)
theory Prelude
  imports Main "HOL-Library.Word" "HOL-Library.Sublist"
begin

text \<open>
  Shared vocabulary of the development: the types that stand for the JavaScript values the kit
  handles, the error values, the result type with its bind, and the parts of the JavaScript
  standard library that several components use (decimal printing and parsing, \<open>String.trim\<close>,
  \<open>TextEncoder\<close>, \<open>BigInt\<close> of a string, big-endian integer encodings), each with the lemmas the
  components rest on.

  Conventions.
  \<^item> A JavaScript string is a \<^typ>\<open>string\<close>; a \<^typ>\<open>char\<close> stands for one UTF-16 code unit in the
    range U+0000 to U+00FF. \<open>utf8_encode\<close> is \<open>TextEncoder.encode\<close> on that range.
  \<^item> A \<open>bigint\<close> is an \<^typ>\<open>int\<close>. A \<open>number\<close> that counts something (an index, a height, seconds,
    bytes) is an \<^typ>\<open>int\<close> too: the values are integers below \<open>2 ^ 53\<close>, where doubles are exact.
  \<^item> A \<open>Uint8Array\<close> is a list of 8-bit words.
  \<^item> A thrown error is \<^term>\<open>Inl e\<close> of a sum type; there is one constructor per message template,
    carrying the values the template interpolates, and \<open>JsError\<close> for an error given by its message.
\<close>

unbundle bit_operations_syntax

type_synonym byte = "8 word"
type_synonym bytes = "byte list"

named_theorems enc_simps \<open>lengths and evaluations of the byte encodings\<close>
named_theorems enc_inj \<open>injectivity of the byte encodings\<close>
named_theorems res_simps \<open>case analysis of results\<close>

subsection \<open>Errors and results\<close>

datatype error =
    InvalidHex string
  | NotAnInteger string
  | InvalidQorAmount string
  | InvalidUqorAmount string
  | TooManyDigits string nat
  | NegativeAmount
  | InvalidDecimal string
  | LeafIndexOutOfRange int nat
  | NoWithdrawals
  | ChainIdMissing
  | TransitionIdsMissing
  | WithdrawalsRootLength nat
  | FraudProofLength
  | RollupActionRefused string string
  | Network string
  | HttpFailed string nat string
  | NotNonNegative string string
  | BlobTooLarge nat int
  | RollupConfigError "string list"
  | JsError string

text \<open>
  \<open>res_bind\<close> is the sequencing of statements: an \<open>Inl\<close> is a throw that leaves the function.
  \<open>res_catch\<close> is \<open>try ... catch\<close>.
\<close>

definition res_bind :: "'e + 'a \<Rightarrow> ('a \<Rightarrow> 'e + 'b) \<Rightarrow> 'e + 'b" where
  "res_bind m f = (case m of Inl e \<Rightarrow> Inl e | Inr x \<Rightarrow> f x)"

definition res_catch :: "'e + 'a \<Rightarrow> ('e \<Rightarrow> 'a) \<Rightarrow> 'a" where
  "res_catch m h = (case m of Inl e \<Rightarrow> h e | Inr x \<Rightarrow> x)"

fun res_mapM :: "('a \<Rightarrow> 'e + 'b) \<Rightarrow> 'a list \<Rightarrow> 'e + 'b list" where
  "res_mapM f [] = Inr []"
| "res_mapM f (x # xs) = res_bind (f x) (\<lambda>y. res_bind (res_mapM f xs) (\<lambda>ys. Inr (y # ys)))"

lemma res_bind_Inl [simp]: "res_bind (Inl e) f = Inl e"
  by (simp add: res_bind_def)

lemma res_bind_Inr [simp]: "res_bind (Inr x) f = f x"
  by (simp add: res_bind_def)

lemma res_catch_simps [simp]: "res_catch (Inl e) h = h e" "res_catch (Inr x) h = x"
  by (simp_all add: res_catch_def)

lemma res_bind_eq_Inr [res_simps]:
  "res_bind m f = Inr y \<longleftrightarrow> (\<exists>x. m = Inr x \<and> f x = Inr y)"
  by (cases m) simp_all

lemma res_bind_eq_Inl [res_simps]:
  "res_bind m f = Inl e \<longleftrightarrow> m = Inl e \<or> (\<exists>x. m = Inr x \<and> f x = Inl e)"
  by (cases m) simp_all

lemma res_mapM_Inr: "(\<And>x. x \<in> set xs \<Longrightarrow> f x = Inr (g x)) \<Longrightarrow> res_mapM f xs = Inr (map g xs)"
  by (induction xs) simp_all

lemma res_mapM_eq_Inr:
  "res_mapM f xs = Inr ys \<longleftrightarrow> length ys = length xs \<and> (\<forall>i < length xs. f (xs ! i) = Inr (ys ! i))"
proof (induction xs arbitrary: ys)
  case Nil
  then show ?case by auto
next
  case (Cons x xs)
  show ?case
    by (cases ys) (auto simp: res_bind_eq_Inr Cons.IH nth_Cons split: nat.splits)
qed

subsection \<open>Characters, digits and decimal numbers\<close>

definition code :: "char \<Rightarrow> nat" where
  "code c = of_char c"

definition is_digit :: "char \<Rightarrow> bool" where
  "is_digit c \<longleftrightarrow> 48 \<le> code c \<and> code c \<le> 57"

text \<open>White space that \<open>String.trim\<close>, \<open>Number\<close> and \<open>BigInt\<close> skip, in the modelled range.\<close>

definition js_space :: "char \<Rightarrow> bool" where
  "js_space c \<longleftrightarrow> code c \<in> set [9, 10, 11, 12, 13, 32, 160]"

definition trim :: "string \<Rightarrow> string" where
  "trim s = rev (dropWhile js_space (rev (dropWhile js_space s)))"

text \<open>\<open>String.toLowerCase\<close> on the modelled code units.\<close>

definition lower_char :: "char \<Rightarrow> char" where
  "lower_char c =
     (if (65 \<le> code c \<and> code c \<le> 90) \<or> (192 \<le> code c \<and> code c \<le> 222 \<and> code c \<noteq> 215)
      then char_of (code c + 32) else c)"

definition toLowerCase :: "string \<Rightarrow> string" where
  "toLowerCase s = map lower_char s"

definition digit_char :: "nat \<Rightarrow> char" where
  "digit_char n = ''0123456789'' ! n"

definition digit_val :: "char \<Rightarrow> nat" where
  "digit_val c = code c - 48"

fun show_nat :: "nat \<Rightarrow> string" where
  "show_nat n = (if n < 10 then [digit_char n] else show_nat (n div 10) @ [digit_char (n mod 10)])"

declare show_nat.simps [simp del]

definition show_int :: "int \<Rightarrow> string" where
  "show_int i = (if i < 0 then CHR ''-'' # show_nat (nat (- i)) else show_nat (nat i))"

definition nat_of_digits :: "string \<Rightarrow> nat" where
  "nat_of_digits s = foldl (\<lambda>a c. 10 * a + digit_val c) 0 s"

lemma code_char_of [simp]: "n < 256 \<Longrightarrow> code (char_of n) = n"
  by (simp add: code_def)

lemma code_char_inject: "code c = code d \<longleftrightarrow> c = d"
  by (simp add: code_def)

lemma digit_char_props:
  assumes "n < 10"
  shows code_digit_char: "code (digit_char n) = 48 + n"
    and is_digit_digit_char: "is_digit (digit_char n)"
    and digit_val_digit_char: "digit_val (digit_char n) = n"
proof -
  show c: "code (digit_char n) = 48 + n"
  proof -
    have "\<forall>m < 10. code (digit_char m) = 48 + m" by code_simp
    with assms show ?thesis by blast
  qed
  with assms show "is_digit (digit_char n)" "digit_val (digit_char n) = n"
    by (simp_all add: is_digit_def digit_val_def)
qed

lemma show_nat_digits: "list_all is_digit (show_nat n)"
proof (induction n rule: show_nat.induct)
  case (1 n)
  show ?case
  proof (cases "n < 10")
    case True
    then show ?thesis by (subst show_nat.simps) (simp add: is_digit_digit_char)
  next
    case False
    with 1 show ?thesis by (subst show_nat.simps) (simp add: is_digit_digit_char)
  qed
qed

lemma show_nat_nonempty [simp]: "show_nat n \<noteq> []"
  by (subst show_nat.simps) simp

lemma nat_of_digits_Nil [simp]: "nat_of_digits [] = 0"
  by (simp add: nat_of_digits_def)

lemma nat_of_digits_snoc: "nat_of_digits (s @ [c]) = 10 * nat_of_digits s + digit_val c"
  by (simp add: nat_of_digits_def)

lemma nat_of_digits_append:
  "nat_of_digits (s @ t) = nat_of_digits s * 10 ^ length t + nat_of_digits t"
proof (induction t rule: rev_induct)
  case Nil
  then show ?case by simp
next
  case (snoc c t)
  have "nat_of_digits (s @ t @ [c]) = 10 * nat_of_digits (s @ t) + digit_val c"
    using nat_of_digits_snoc [of "s @ t" c] by simp
  with snoc show ?case by (simp add: nat_of_digits_snoc algebra_simps)
qed

lemma nat_of_digits_show_nat [simp]: "nat_of_digits (show_nat n) = n"
proof (induction n rule: show_nat.induct)
  case (1 n)
  show ?case
  proof (cases "n < 10")
    case True
    then show ?thesis
      by (subst show_nat.simps)
        (simp add: nat_of_digits_snoc [of "[]", simplified] digit_val_digit_char)
  next
    case False
    with 1 have "nat_of_digits (show_nat (n div 10)) = n div 10" by simp
    with False show ?thesis
      by (subst show_nat.simps) (simp add: nat_of_digits_snoc digit_val_digit_char)
  qed
qed

lemma show_nat_inject [simp]: "show_nat m = show_nat n \<longleftrightarrow> m = n"
  by (metis nat_of_digits_show_nat)

lemma digit_not_special:
  assumes "is_digit c"
  shows "c \<noteq> CHR ''-''" "c \<noteq> CHR ''+''" "c \<noteq> CHR '':''" "c \<noteq> CHR ''.''" "c \<noteq> CHR ''x''"
    "c \<noteq> CHR ''X''" "\<not> js_space c"
  using assms by (auto simp: is_digit_def code_def js_space_def)

lemma list_all_hd: "list_all P xs \<Longrightarrow> xs \<noteq> [] \<Longrightarrow> P (hd xs)"
  by (cases xs) simp_all

lemma list_all_last: "list_all P xs \<Longrightarrow> xs \<noteq> [] \<Longrightarrow> P (last xs)"
  by (simp add: list_all_iff)

lemma show_int_inject [simp]: "show_int i = show_int j \<longleftrightarrow> i = j"
proof
  assume eq: "show_int i = show_int j"
  have hd: "hd (show_nat n) \<noteq> CHR ''-''" for n
    using list_all_hd [OF show_nat_digits show_nat_nonempty] digit_not_special(1) by blast
  have ne: "CHR ''-'' # s \<noteq> show_nat n" for s n
    using hd [of n] by (metis list.sel(1))
  from eq ne ne [symmetric] show "i = j"
    by (auto simp: show_int_def split: if_splits)
qed simp

lemma trim_no_space:
  assumes "list_all (\<lambda>c. \<not> js_space c) s"
  shows "trim s = s"
proof -
  have "dropWhile js_space t = t" if "list_all (\<lambda>c. \<not> js_space c) t" for t
    using that by (cases t) simp_all
  with assms show ?thesis by (simp add: trim_def)
qed

lemma trim_digits: "list_all is_digit s \<Longrightarrow> trim s = s"
  by (rule trim_no_space) (auto simp: list_all_iff dest: digit_not_special(7))

subsection \<open>TextEncoder: UTF-8 on the modelled code units\<close>

definition utf8_char :: "char \<Rightarrow> bytes" where
  "utf8_char c =
     (let n = code c in
      if n < 128 then [of_nat n] else [of_nat (192 + n div 64), of_nat (128 + n mod 64)])"

definition utf8_encode :: "string \<Rightarrow> bytes" where
  "utf8_encode s = concat (map utf8_char s)"

lemma code_less: "code c < 256"
  by (simp add: code_def)

lemma utf8_encode_Nil [simp, enc_simps]: "utf8_encode [] = []"
  by (simp add: utf8_encode_def)

lemma utf8_encode_Cons [enc_simps]: "utf8_encode (c # s) = utf8_char c @ utf8_encode s"
  by (simp add: utf8_encode_def)

lemma utf8_char_nonempty [simp]: "utf8_char c \<noteq> []"
  by (simp add: utf8_char_def Let_def)

lemma unat_of_nat_byte: "n < 256 \<Longrightarrow> unat (of_nat n :: byte) = n"
  by (simp add: unat_of_nat)

lemma unat_byte_less [simp]: "unat (b :: byte) < 256"
  using unsigned_less [of b] by simp

lemma of_nat_byte_inject: "m < 256 \<Longrightarrow> n < 256 \<Longrightarrow> (of_nat m :: byte) = of_nat n \<longleftrightarrow> m = n"
  by (metis unat_of_nat_byte)

text \<open>UTF-8 is a prefix code, so equal encodings with any tails give the same character.\<close>

lemma utf8_char_prefix_code:
  assumes "utf8_char c @ xs = utf8_char d @ ys"
  shows "c = d \<and> xs = ys"
proof -
  have bounds: "192 + code c div 64 < 256" "128 + code c mod 64 < 256"
    "192 + code d div 64 < 256" "128 + code d mod 64 < 256"
    using code_less [of c] code_less [of d] by auto
  consider (ascii) "code c < 128" "code d < 128" | (l) "code c < 128" "\<not> code d < 128"
    | (r) "\<not> code c < 128" "code d < 128" | (wide) "\<not> code c < 128" "\<not> code d < 128"
    by blast
  then show ?thesis
  proof cases
    case ascii
    with assms show ?thesis
      by (simp add: utf8_char_def of_nat_byte_inject code_char_inject)
  next
    case l
    with assms bounds of_nat_byte_inject [of "code c" "192 + code d div 64"] show ?thesis
      by (simp add: utf8_char_def Let_def)
  next
    case r
    with assms bounds of_nat_byte_inject [of "192 + code c div 64" "code d"] show ?thesis
      by (simp add: utf8_char_def Let_def)
  next
    case wide
    with assms have e: "(of_nat (192 + code c div 64) :: byte) = of_nat (192 + code d div 64)"
      "(of_nat (128 + code c mod 64) :: byte) = of_nat (128 + code d mod 64)" "xs = ys"
      by (simp_all add: utf8_char_def Let_def)
    from e(1) bounds have "192 + code c div 64 = 192 + code d div 64"
      using of_nat_byte_inject by blast
    moreover from e(2) bounds have "128 + code c mod 64 = 128 + code d mod 64"
      using of_nat_byte_inject by blast
    ultimately have "code c = code d"
      by (metis add_left_cancel div_mult_mod_eq)
    with e(3) show ?thesis by (simp add: code_char_inject)
  qed
qed

lemma utf8_encode_inject [simp, enc_inj]: "utf8_encode s = utf8_encode t \<longleftrightarrow> s = t"
proof (induction s arbitrary: t)
  case Nil
  then show ?case by (cases t) (simp_all add: utf8_encode_Cons)
next
  case (Cons c s)
  show ?case
  proof (cases t)
    case Nil
    then show ?thesis by (simp add: utf8_encode_Cons)
  next
    case (Cons d t')
    with Cons.IH show ?thesis
      by (auto simp: utf8_encode_Cons dest: utf8_char_prefix_code)
  qed
qed

subsection \<open>Big-endian integer encodings\<close>

text \<open>
  The loop \<open>for (let i = n - 1; i >= 0; i--) { out[i] = Number(v & 0xffn); v >>= 8n; }\<close> that the
  source writes for 64-bit and 256-bit integers, filling \<open>out\<close> from its last byte.
\<close>

fun be_loop :: "nat \<Rightarrow> int \<Rightarrow> bytes \<Rightarrow> bytes" where
  "be_loop 0 v out = out"
| "be_loop (Suc i) v out = be_loop i (drop_bit 8 v) (of_int (v AND 255) # out)"

definition be_bytes :: "nat \<Rightarrow> int \<Rightarrow> bytes" where
  "be_bytes n v = be_loop n v []"

fun be_val :: "bytes \<Rightarrow> int" where
  "be_val [] = 0"
| "be_val (b # bs) = uint b * 256 ^ length bs + be_val bs"

lemma be_loop_append_gen: "be_loop n v (xs @ out) = be_loop n v xs @ out"
  by (induction n v xs rule: be_loop.induct) (simp_all flip: append_Cons)

lemma be_bytes_0 [simp]: "be_bytes 0 v = []"
  by (simp add: be_bytes_def)

lemma be_bytes_Suc: "be_bytes (Suc n) v = be_bytes n (v div 256) @ [of_int (v mod 256)]"
proof -
  have "v AND 255 = v mod 256"
    using take_bit_eq_mask [of 8 v] by (simp add: take_bit_eq_mod mask_eq_exp_minus_1)
  then show ?thesis
    using be_loop_append_gen [of n "drop_bit 8 v" "[]" "[of_int (v AND 255)]"]
    by (simp add: be_bytes_def drop_bit_eq_div)
qed

lemma length_be_bytes [simp, enc_simps]: "length (be_bytes n v) = n"
  by (induction n arbitrary: v) (simp_all add: be_bytes_Suc)

lemma be_val_snoc: "be_val (bs @ [b]) = 256 * be_val bs + uint b"
  by (induction bs) (simp_all add: algebra_simps)

lemma be_val_be_bytes [enc_simps]: "be_val (be_bytes n v) = v mod 256 ^ n"
proof (induction n arbitrary: v)
  case 0
  then show ?case by simp
next
  case (Suc n)
  have "v mod (256 * 256 ^ n) = 256 * (v div 256 mod 256 ^ n) + v mod 256"
    by (rule zmod_zmult2_eq) simp
  then show ?case
    by (simp add: be_bytes_Suc be_val_snoc Suc.IH uint_word_of_int)
qed

lemma base_256_unique:
  fixes a b r s :: int
  assumes "256 * a + r = 256 * b + s" "0 \<le> r" "r < 256" "0 \<le> s" "s < 256"
  shows "r = s \<and> a = b"
proof -
  have "(256 * a + r) mod 256 = r" "(256 * b + s) mod 256 = s"
    "(256 * a + r) div 256 = a" "(256 * b + s) div 256 = b"
    using assms(2-5) by simp_all
  with assms(1) show ?thesis by simp
qed

lemma be_bytes_inject [enc_inj]:
  "be_bytes n v = be_bytes n w \<longleftrightarrow> v mod 256 ^ n = w mod 256 ^ n"
proof
  assume "be_bytes n v = be_bytes n w"
  then show "v mod 256 ^ n = w mod 256 ^ n"
    by (metis be_val_be_bytes)
next
  show "v mod 256 ^ n = w mod 256 ^ n \<Longrightarrow> be_bytes n v = be_bytes n w"
  proof (induction n arbitrary: v w)
    case (Suc n)
    have split: "u mod (256 * 256 ^ n) = 256 * (u div 256 mod 256 ^ n) + u mod 256" for u :: int
      by (rule zmod_zmult2_eq) simp
    from Suc.prems split [of v] split [of w]
    have eq: "256 * (v div 256 mod 256 ^ n) + v mod 256 = 256 * (w div 256 mod 256 ^ n) + w mod 256"
      by simp
    have "v mod 256 = w mod 256 \<and> v div 256 mod 256 ^ n = w div 256 mod 256 ^ n"
      by (rule base_256_unique [OF eq]) simp_all
    with Suc.IH [of "v div 256" "w div 256"] show ?case by (simp add: be_bytes_Suc)
  qed simp
qed

definition u64be :: "int \<Rightarrow> bytes" where
  "u64be v = be_loop 8 v []"

text \<open>
  \<open>u32be\<close> works on a \<open>number\<close> with \<open>>>>\<close>, which first reduces it modulo \<open>2 ^ 32\<close>.
\<close>

definition u32be :: "int \<Rightarrow> bytes" where
  "u32be n =
     (let m = take_bit 32 n in
      [of_int (drop_bit 24 m AND 255), of_int (drop_bit 16 m AND 255),
       of_int (drop_bit 8 m AND 255), of_int (m AND 255)])"

lemma u64be_eq: "u64be v = be_bytes 8 v"
  by (simp add: u64be_def be_bytes_def)

lemma length_u64be [simp, enc_simps]: "length (u64be v) = 8"
  by (simp add: u64be_eq)

lemma u64be_inject [enc_inj]: "u64be v = u64be w \<longleftrightarrow> v mod 2 ^ 64 = w mod 2 ^ 64"
  by (simp add: u64be_eq be_bytes_inject)

lemma u32be_eq: "u32be n = be_bytes 4 n"
proof -
  have m: "v AND 255 = take_bit 8 v" for v :: int
    by (simp add: take_bit_eq_mask mask_eq_exp_minus_1)
  have "be_bytes 4 n = [of_int (take_bit 8 (drop_bit 24 n)), of_int (take_bit 8 (drop_bit 16 n)),
      of_int (take_bit 8 (drop_bit 8 n)), of_int (take_bit 8 n)]"
    by (simp add: be_bytes_Suc eval_nat_numeral take_bit_eq_mod drop_bit_eq_div
        flip: zdiv_zmult2_eq)
  then show ?thesis
    by (simp add: u32be_def Let_def m drop_bit_take_bit)
qed

lemma length_u32be [simp, enc_simps]: "length (u32be n) = 4"
  by (simp add: u32be_eq)

lemma u32be_inject [enc_inj]: "u32be v = u32be w \<longleftrightarrow> v mod 2 ^ 32 = w mod 2 ^ 32"
  by (simp add: u32be_eq be_bytes_inject)

subsection \<open>Self-delimiting encodings\<close>

text \<open>
  The contract of a field encoding that a reader can split off the front of a message: on the
  values of \<open>ok\<close>, an encoding followed by anything determines the value and the rest. The message
  formats of the kit are concatenations of such fields, so a client of this interface gets the
  injectivity of a whole message field by field.
\<close>

locale field_code =
  fixes enc :: "'a \<Rightarrow> bytes" and ok :: "'a \<Rightarrow> bool"
  assumes split: "ok a \<Longrightarrow> ok b \<Longrightarrow> enc a @ xs = enc b @ ys \<Longrightarrow> a = b \<and> xs = ys"
begin

lemma append_iff: "ok a \<Longrightarrow> ok b \<Longrightarrow> enc a @ xs = enc b @ ys \<longleftrightarrow> a = b \<and> xs = ys"
  using split by blast

lemma inject: "ok a \<Longrightarrow> ok b \<Longrightarrow> enc a = enc b \<longleftrightarrow> a = b"
  using append_iff [of a b "[]" "[]"] by simp

lemma concat_inject:
  assumes "length as = length bs" "\<And>a. a \<in> set as \<union> set bs \<Longrightarrow> ok a"
    and "concat (map enc as) @ xs = concat (map enc bs) @ ys"
  shows "as = bs \<and> xs = ys"
  using assms
proof (induction as bs rule: list_induct2)
  case (Cons a as b bs)
  then have "a = b \<and> concat (map enc as) @ xs = concat (map enc bs) @ ys"
    by (intro split) simp_all
  with Cons show ?case by simp
qed simp

end

text \<open>Field codes of fixed width: equal lengths split every concatenation.\<close>

locale fixed_code =
  fixes enc :: "'a \<Rightarrow> bytes" and ok :: "'a \<Rightarrow> bool" and width :: nat
  assumes width: "ok a \<Longrightarrow> length (enc a) = width"
    and fixed_inject: "ok a \<Longrightarrow> ok b \<Longrightarrow> enc a = enc b \<Longrightarrow> a = b"

sublocale fixed_code \<subseteq> field_code enc ok
proof
  fix a b xs ys
  assume "ok a" "ok b" "enc a @ xs = enc b @ ys"
  then show "a = b \<and> xs = ys"
    using width [of a] width [of b] fixed_inject [of a b] by simp
qed

text \<open>A field behind its own length, written by a fixed-width code of lengths.\<close>

definition lp_with :: "(int \<Rightarrow> bytes) \<Rightarrow> bytes \<Rightarrow> bytes" where
  "lp_with p b = p (int (length b)) @ b"

locale length_code = fixed_code p "\<lambda>n. 0 \<le> n \<and> n < bound" w for p :: "int \<Rightarrow> bytes" and bound w

sublocale length_code \<subseteq> prefixed: field_code "lp_with p" "\<lambda>b. int (length b) < bound"
proof
  fix a b :: bytes and xs ys
  assume ok: "int (length a) < bound" "int (length b) < bound"
    and "lp_with p a @ xs = lp_with p b @ ys"
  then have "int (length a) = int (length b) \<and> a @ xs = b @ ys"
    by (intro split) (simp_all add: lp_with_def)
  then show "a = b \<and> xs = ys" by (elim conjE) simp
qed

interpretation u64: length_code u64be "2 ^ 64" 8
  by unfold_locales (simp_all add: u64be_inject)

interpretation u32: length_code u32be "2 ^ 32" 4
  by unfold_locales (simp_all add: u32be_inject)

text \<open>UTF-8 characters are a field code too, which is why \<open>TextEncoder\<close> is injective.\<close>

interpretation utf8: field_code utf8_char "\<lambda>_. True"
  by unfold_locales (rule utf8_char_prefix_code)

subsection \<open>BigInt of a number, a bigint or a string\<close>

datatype numeric = NNum int | NBig int | NStr string

fun radix_val :: "nat \<Rightarrow> nat list \<Rightarrow> nat" where
  "radix_val r ds = foldl (\<lambda>a d. r * a + d) 0 ds"

definition radix_digit :: "char \<Rightarrow> nat option" where
  "radix_digit ch =
     (let c = code ch in
      if 48 \<le> c \<and> c \<le> 57 then Some (c - 48)
      else if 97 \<le> c \<and> c \<le> 102 then Some (c - 87)
      else if 65 \<le> c \<and> c \<le> 70 then Some (c - 55)
      else None)"

definition radix_literal :: "nat \<Rightarrow> string \<Rightarrow> int option" where
  "radix_literal r s =
     (let ds = map radix_digit s in
      if s \<noteq> [] \<and> list_all (\<lambda>d. case d of None \<Rightarrow> False | Some v \<Rightarrow> v < r) ds
      then Some (int (radix_val r (map the ds))) else None)"

text \<open>
  The string grammar of \<open>BigInt\<close>: white space is trimmed, the empty string is 0, a decimal literal
  may carry a sign, and \<open>0x\<close>, \<open>0o\<close>, \<open>0b\<close> literals may not.
\<close>

definition string_to_bigint :: "string \<Rightarrow> int option" where
  "string_to_bigint str =
     (let s = trim str in
      if s = [] then Some 0
      else if prefix ''0x'' s \<or> prefix ''0X'' s then radix_literal 16 (drop 2 s)
      else if prefix ''0o'' s \<or> prefix ''0O'' s then radix_literal 8 (drop 2 s)
      else if prefix ''0b'' s \<or> prefix ''0B'' s then radix_literal 2 (drop 2 s)
      else if hd s = CHR ''-'' then map_option uminus (radix_literal 10 (tl s))
      else if hd s = CHR ''+'' then radix_literal 10 (tl s)
      else radix_literal 10 s)"

fun js_BigInt :: "numeric \<Rightarrow> error + int" where
  "js_BigInt (NNum n) = Inr n"
| "js_BigInt (NBig n) = Inr n"
| "js_BigInt (NStr s) =
     (case string_to_bigint s of None \<Rightarrow> Inl (NotAnInteger s) | Some n \<Rightarrow> Inr n)"

lemma radix_digit_digit: "is_digit c \<Longrightarrow> radix_digit c = Some (digit_val c) \<and> digit_val c < 10"
  by (auto simp: radix_digit_def is_digit_def digit_val_def Let_def)

lemma radix_literal_10:
  assumes "s \<noteq> []" "list_all is_digit s"
  shows "radix_literal 10 s = Some (int (nat_of_digits s))"
proof -
  have "list_all (\<lambda>d. case d of None \<Rightarrow> False | Some v \<Rightarrow> v < 10) (map radix_digit s)"
    "map the (map radix_digit s) = map digit_val s"
    using assms(2) by (induction s) (simp_all add: radix_digit_digit)
  moreover have "foldl (\<lambda>a d. 10 * a + d) x (map digit_val s)
      = foldl (\<lambda>a c. 10 * a + digit_val c) x s" for x
    by (induction s arbitrary: x) simp_all
  ultimately show ?thesis
    using assms(1) by (simp add: radix_literal_def Let_def nat_of_digits_def del: map_map)
qed

lemma string_to_bigint_digits:
  assumes "s \<noteq> []" "list_all is_digit s"
  shows "string_to_bigint s = Some (int (nat_of_digits s))"
proof -
  have no: "\<not> prefix [CHR ''0'', c] s" if "\<not> is_digit c" for c
    using assms(2) that by (auto simp: prefix_def)
  have "\<not> is_digit CHR ''x''" "\<not> is_digit CHR ''X''" "\<not> is_digit CHR ''o''" "\<not> is_digit CHR ''O''"
    "\<not> is_digit CHR ''b''" "\<not> is_digit CHR ''B''"
    by (simp_all add: is_digit_def code_def)
  moreover have "hd s \<noteq> CHR ''-''" "hd s \<noteq> CHR ''+''"
    using digit_not_special list_all_hd [OF assms(2,1)] by blast+
  ultimately show ?thesis
    using assms by (simp add: string_to_bigint_def trim_digits no radix_literal_10)
qed

lemma js_BigInt_show_nat [simp]: "js_BigInt (NStr (show_nat n)) = Inr (int n)"
  by (simp add: string_to_bigint_digits show_nat_digits)

end
