(* ===== verification/Bytes.thy ===== *)
theory Bytes
  imports Prelude
begin

text \<open>
  Byte and hex helpers: \<open>packages/ts/src/utils/bytes.ts\<close> and the address helpers of
  \<open>utils/bech32.ts\<close>. Modelled are \<open>bytesToHex\<close>, \<open>hexToBytes\<close>, \<open>toBytes\<close>, the base64 pair on the
  Node path (\<open>Buffer\<close>) and \<open>decodeWireBytes\<close>. The lemmas give the round trips, the exact domain of
  \<open>hexToBytes\<close>, and which base64 strings \<open>decodeWireBytes\<close> can mistake for hex.
\<close>

subsection \<open>Hex\<close>

definition hex_char :: "nat \<Rightarrow> char" where
  "hex_char n = (if n < 10 then char_of (48 + n) else char_of (87 + n))"

definition is_hex_char :: "char \<Rightarrow> bool" where
  "is_hex_char c \<longleftrightarrow> is_digit c \<or> (97 \<le> code c \<and> code c \<le> 102) \<or> (65 \<le> code c \<and> code c \<le> 70)"

definition hex_val :: "char \<Rightarrow> nat" where
  "hex_val c = (if is_digit c then code c - 48 else if 97 \<le> code c then code c - 87 else code c - 55)"

text \<open>\<open>Number.prototype.toString(16)\<close> on a natural number, and \<open>String.prototype.padStart\<close>.\<close>

fun toString16 :: "nat \<Rightarrow> string" where
  "toString16 n = (if n < 16 then [hex_char n] else toString16 (n div 16) @ [hex_char (n mod 16)])"

declare toString16.simps [simp del]

definition padStart :: "nat \<Rightarrow> char \<Rightarrow> string \<Rightarrow> string" where
  "padStart n c s = replicate (n - length s) c @ s"

definition padEnd :: "nat \<Rightarrow> char \<Rightarrow> string \<Rightarrow> string" where
  "padEnd n c s = s @ replicate (n - length s) c"

definition bytesToHex :: "bytes \<Rightarrow> string" where
  "bytesToHex bs = concat (map (\<lambda>b. padStart 2 CHR ''0'' (toString16 (unat b))) bs)"

definition strip0x :: "string \<Rightarrow> string" where
  "strip0x h = (if prefix ''0x'' h \<or> prefix ''0X'' h then drop 2 h else h)"

fun hex_pairs :: "string \<Rightarrow> bytes" where
  "hex_pairs (a # b # h) = of_nat (16 * hex_val a + hex_val b) # hex_pairs h"
| "hex_pairs _ = []"

definition hexToBytes :: "string \<Rightarrow> error + bytes" where
  "hexToBytes hex =
     (let h = strip0x hex in
      if length h mod 2 \<noteq> 0 \<or> \<not> list_all is_hex_char h then Inl (InvalidHex hex)
      else Inr (hex_pairs h))"

text \<open>A \<open>string | Uint8Array\<close> argument.\<close>

datatype bytes_like = Hex string | Raw bytes

fun toBytes :: "bytes_like \<Rightarrow> error + bytes" where
  "toBytes (Hex s) = hexToBytes s"
| "toBytes (Raw b) = Inr b"

subsection \<open>Base64 (RFC 4648, as Node's Buffer reads and writes it)\<close>

definition b64_char :: "nat \<Rightarrow> char" where
  "b64_char n =
     (if n < 26 then char_of (65 + n) else if n < 52 then char_of (71 + n)
      else if n < 62 then char_of (n - 4) else if n = 62 then CHR ''+'' else CHR ''/'')"

text \<open>Node's decoder also takes the URL-safe alphabet and skips every other character.\<close>

definition b64_val :: "char \<Rightarrow> nat option" where
  "b64_val ch =
     (let c = code ch in
      if 65 \<le> c \<and> c \<le> 90 then Some (c - 65)
      else if 97 \<le> c \<and> c \<le> 122 then Some (c - 71)
      else if 48 \<le> c \<and> c \<le> 57 then Some (c + 4)
      else if c = 43 \<or> c = 45 then Some 62
      else if c = 47 \<or> c = 95 then Some 63
      else None)"

fun sextets_to_bytes :: "nat list \<Rightarrow> bytes" where
  "sextets_to_bytes (a # b # c # d # r) =
     of_nat (a * 4 + b div 16) # of_nat (b mod 16 * 16 + c div 4) # of_nat (c mod 4 * 64 + d)
     # sextets_to_bytes r"
| "sextets_to_bytes [a, b, c] = [of_nat (a * 4 + b div 16), of_nat (b mod 16 * 16 + c div 4)]"
| "sextets_to_bytes [a, b] = [of_nat (a * 4 + b div 16)]"
| "sextets_to_bytes [a] = []"
| "sextets_to_bytes [] = []"

definition base64ToBytes :: "string \<Rightarrow> bytes" where
  "base64ToBytes b64 = (if b64 = [] then [] else sextets_to_bytes (List.map_filter b64_val b64))"

fun bytesToBase64 :: "bytes \<Rightarrow> string" where
  "bytesToBase64 (x # y # z # r) =
     (let a = unat x; b = unat y; c = unat z in
      [b64_char (a div 4), b64_char (a mod 4 * 16 + b div 16),
       b64_char (b mod 16 * 4 + c div 64), b64_char (c mod 64)] @ bytesToBase64 r)"
| "bytesToBase64 [x, y] =
     (let a = unat x; b = unat y in
      [b64_char (a div 4), b64_char (a mod 4 * 16 + b div 16), b64_char (b mod 16 * 4), CHR ''=''])"
| "bytesToBase64 [x] =
     (let a = unat x in [b64_char (a div 4), b64_char (a mod 4 * 16), CHR ''='', CHR ''=''])"
| "bytesToBase64 [] = []"

text \<open>The two regular expressions of \<open>decodeWireBytes\<close>.\<close>

definition looksBase64 :: "string \<Rightarrow> bool" where
  "looksBase64 v \<longleftrightarrow>
     list_ex (\<lambda>c. c \<in> set ''+/='') v \<or>
     list_ex (\<lambda>c. (103 \<le> code c \<and> code c \<le> 122) \<or> (71 \<le> code c \<and> code c \<le> 90)) v"

definition decodeWireBytes :: "string \<Rightarrow> error + bytes" where
  "decodeWireBytes v =
     (if v = [] then Inr []
      else let isHex = (length v mod 2 = 0 \<and> list_all is_hex_char v) in
        if isHex \<and> \<not> looksBase64 v then hexToBytes v else Inr (base64ToBytes v))"

subsection \<open>Hex: characters and round trips\<close>

lemma hex_char_simps [simp]:
  assumes "n < 16"
  shows "hex_val (hex_char n) = n" "is_hex_char (hex_char n)"
  using assms by (auto simp: hex_char_def hex_val_def is_hex_char_def is_digit_def)

lemma byte_hex: "padStart 2 CHR ''0'' (toString16 (unat (b :: byte)))
    = [hex_char (unat b div 16), hex_char (unat b mod 16)]"
proof (cases "unat b < 16")
  case True
  then have "toString16 (unat b) = [hex_char (unat b)]"
    by (subst toString16.simps) simp
  moreover have "hex_char 0 = CHR ''0''" by code_simp
  ultimately show ?thesis using True by (simp add: padStart_def)
next
  case False
  have lt: "unat b div 16 < 16"
    using unat_byte_less [of b] by linarith
  from False have "toString16 (unat b) = toString16 (unat b div 16) @ [hex_char (unat b mod 16)]"
    by (subst toString16.simps) simp
  also have "toString16 (unat b div 16) = [hex_char (unat b div 16)]"
    using lt by (subst toString16.simps) simp
  finally show ?thesis by (simp add: padStart_def)
qed

lemma bytesToHex_Nil [simp]: "bytesToHex [] = []"
  by (simp add: bytesToHex_def)

lemma bytesToHex_Cons [simp]:
  "bytesToHex (b # bs) = hex_char (unat b div 16) # hex_char (unat b mod 16) # bytesToHex bs"
  by (simp add: bytesToHex_def byte_hex)

lemma nibble_less [simp]: "unat (b :: byte) div 16 < 16" "unat (b :: byte) mod 16 < 16"
  using unat_byte_less [of b] by linarith+

lemma bytesToHex_hex: "list_all is_hex_char (bytesToHex bs)"
  by (induction bs) simp_all

lemma length_bytesToHex [simp]: "length (bytesToHex bs) = 2 * length bs"
  by (induction bs) simp_all

lemma hex_not_x: "is_hex_char c \<Longrightarrow> c \<noteq> CHR ''x'' \<and> c \<noteq> CHR ''X''"
  by (auto simp: is_hex_char_def is_digit_def code_def)

lemma strip0x_hex: "list_all is_hex_char h \<Longrightarrow> strip0x h = h"
  by (auto simp: strip0x_def prefix_def dest: hex_not_x)

lemma strip0x_0x [simp]: "strip0x (CHR ''0'' # CHR ''x'' # h) = h"
  by (simp add: strip0x_def)

lemma hex_pairs_bytesToHex [simp]: "hex_pairs (bytesToHex bs) = bs"
  by (induction bs) simp_all

lemma hexToBytes_bytesToHex [simp]: "hexToBytes (bytesToHex bs) = Inr bs"
  by (simp add: hexToBytes_def strip0x_hex bytesToHex_hex)

lemma hexToBytes_0x_bytesToHex [simp]:
  "hexToBytes (CHR ''0'' # CHR ''x'' # bytesToHex bs) = Inr bs"
  by (simp add: hexToBytes_def bytesToHex_hex)

lemma bytesToHex_inject [simp]: "bytesToHex a = bytesToHex b \<longleftrightarrow> a = b"
  by (metis hex_pairs_bytesToHex)

lemma bytesToHex_eq_Nil [simp]: "bytesToHex a = [] \<longleftrightarrow> a = []"
  by (cases a) simp_all

lemma hex_char_hex_val:
  assumes "is_hex_char c"
  shows "hex_val c < 16" "hex_char (hex_val c) = lower_char c"
  using assms
  by (auto simp: is_hex_char_def is_digit_def hex_val_def hex_char_def lower_char_def code_def
      add.commute split: if_splits)

lemma bytesToHex_hex_pairs:
  "length h mod 2 = 0 \<Longrightarrow> list_all is_hex_char h \<Longrightarrow> bytesToHex (hex_pairs h) = toLowerCase h"
proof (induction h rule: hex_pairs.induct)
  case (1 a b h)
  then have v: "hex_val a < 16" "hex_val b < 16" by (simp_all add: hex_char_hex_val)
  then have "unat (of_nat (16 * hex_val a + hex_val b) :: byte) = 16 * hex_val a + hex_val b"
    by (intro unat_of_nat_byte) simp
  with 1 v show ?case
    by (simp add: toLowerCase_def hex_char_hex_val)
qed (simp_all add: toLowerCase_def)

lemma length_hex_pairs: "length (hex_pairs h) = length h div 2"
  by (induction h rule: hex_pairs.induct) simp_all

lemma hexToBytes_eq_Inr:
  "hexToBytes s = Inr bs \<longleftrightarrow>
     length (strip0x s) mod 2 = 0 \<and> list_all is_hex_char (strip0x s) \<and> bs = hex_pairs (strip0x s)"
  by (auto simp: hexToBytes_def Let_def)

subsection \<open>Base64: round trip\<close>

lemma b64_val_b64_char [simp]: "n < 64 \<Longrightarrow> b64_val (b64_char n) = Some n"
  by (auto simp: b64_val_def b64_char_def Let_def code_def)

lemma b64_val_pad [simp]: "b64_val CHR ''='' = None"
  by (simp add: b64_val_def code_def)

lemma map_filter_Cons: "List.map_filter f (x # xs) =
    (case f x of None \<Rightarrow> List.map_filter f xs | Some y \<Rightarrow> y # List.map_filter f xs)"
  by (simp add: List.map_filter_def split: option.splits)

lemma div_mod_pack:
  fixes n q r :: nat
  assumes "r < n"
  shows "(q * n + r) div n = q" "(q * n + r) mod n = r"
  using assms by simp_all

lemma b64_group_first:
  fixes a b :: nat
  assumes "b < 256"
  shows "a div 4 * 4 + (a mod 4 * 16 + b div 16) div 16 = a"
proof -
  have "b div 16 < 16" using assms by linarith
  then show ?thesis by (simp only: div_mod_pack div_mult_mod_eq)
qed

lemma b64_group:
  fixes a b c :: nat
  assumes "b < 256" "c < 256"
  shows "(a mod 4 * 16 + b div 16) mod 16 * 16 + (b mod 16 * 4 + c div 64) div 4 = b"
    "(b mod 16 * 4 + c div 64) mod 4 * 64 + c mod 64 = c"
proof -
  have "b div 16 < 16" "c div 64 < 4" using assms by linarith+
  then show "(a mod 4 * 16 + b div 16) mod 16 * 16 + (b mod 16 * 4 + c div 64) div 4 = b"
    "(b mod 16 * 4 + c div 64) mod 4 * 64 + c mod 64 = c"
    by (simp_all only: div_mod_pack div_mult_mod_eq)
qed

lemma b64_small [simp]:
  "unat (x :: byte) div 4 < 64" "unat (x :: byte) mod 4 * 16 + unat (y :: byte) div 16 < 64"
  "unat (y :: byte) mod 16 * 4 + unat (z :: byte) div 64 < 64"
  "unat (x :: byte) mod 4 * 16 < 64" "unat (y :: byte) mod 16 * 4 < 64" "unat z mod 64 < 64"
  using unat_byte_less [of x] unat_byte_less [of y] unat_byte_less [of z] by linarith+

lemma sextets_bytesToBase64:
  "sextets_to_bytes (List.map_filter b64_val (bytesToBase64 bs)) = bs"
proof (induction bs rule: bytesToBase64.induct)
  case (1 x y z r)
  from 1 [OF refl refl refl] show ?case
    by (simp only: bytesToBase64.simps Let_def append.simps map_filter_Cons b64_val_b64_char b64_small
        option.case sextets_to_bytes.simps b64_group_first b64_group unat_byte_less of_nat_unat ucast_id)
next
  case (2 x y)
  then show ?case
    using b64_group_first [of "unat y" "unat x"] b64_group(1) [of "unat y" 0 "unat x"]
    by (simp add: map_filter_Cons Let_def List.map_filter_def del: of_nat_add of_nat_mult)
next
  case (3 x)
  then show ?case
    using b64_group_first [of 0 "unat x"]
    by (simp add: map_filter_Cons Let_def List.map_filter_def del: of_nat_add of_nat_mult)
qed (simp add: List.map_filter_def)

lemma bytesToBase64_eq_Nil [simp]: "bytesToBase64 bs = [] \<longleftrightarrow> bs = []"
  by (cases bs rule: bytesToBase64.cases) (simp_all add: Let_def)

lemma base64ToBytes_bytesToBase64 [simp]: "base64ToBytes (bytesToBase64 bs) = bs"
  by (simp add: base64ToBytes_def sextets_bytesToBase64)

lemma bytesToBase64_padded:
  "length bs mod 3 \<noteq> 0 \<Longrightarrow> CHR ''='' \<in> set (bytesToBase64 bs)"
  by (induction bs rule: bytesToBase64.induct) (simp_all add: Let_def)

subsection \<open>Wire bytes\<close>

lemma hex_not_looksBase64: "list_all is_hex_char v \<Longrightarrow> \<not> looksBase64 v"
  by (induction v) (auto simp: looksBase64_def is_hex_char_def is_digit_def code_def)

lemma pad_not_hex: "CHR ''='' \<in> set v \<Longrightarrow> \<not> list_all is_hex_char v"
  by (induction v) (auto simp: is_hex_char_def is_digit_def code_def)

lemma decodeWireBytes_hex [simp]: "decodeWireBytes (bytesToHex bs) = Inr bs"
  by (simp add: decodeWireBytes_def bytesToHex_hex hex_not_looksBase64)

lemma decodeWireBytes_base64:
  assumes "length bs mod 3 \<noteq> 0"
  shows "decodeWireBytes (bytesToBase64 bs) = Inr bs"
  using pad_not_hex [OF bytesToBase64_padded [OF assms]] by (auto simp: decodeWireBytes_def)

lemma decodeWireBytes_total: "\<exists>bs. decodeWireBytes v = Inr bs"
  by (auto simp: decodeWireBytes_def hexToBytes_def strip0x_hex)

lemma length_bytesToBase64: "length (bytesToBase64 bs) = 4 * ((length bs + 2) div 3)"
proof (induction bs rule: bytesToBase64.induct)
  case (1 x y z r)
  have "(length (x # y # z # r) + 2) div 3 = (length r + 2) div 3 + 1"
    using div_add_self1 [of 3 "length r + 2"] by simp
  with 1 [OF refl refl refl] show ?case by (simp add: Let_def)
qed (simp_all add: Let_def)

subsection \<open>Properties\<close>

text \<open>
  Hex round trips. \<open>hexToBytes\<close> inverts \<open>bytesToHex\<close>, with or without a \<open>0x\<close> prefix, and whatever
  \<open>hexToBytes\<close> accepts prints back as the same digits in lower case without the prefix; it accepts
  exactly the strings of an even number of hex digits behind an optional prefix.
\<close>

theorem hex_round_trip:
  "hexToBytes (bytesToHex bs) = Inr bs \<and> hexToBytes (''0x'' @ bytesToHex bs) = Inr bs \<and>
   (if even (length (strip0x s)) \<and> list_all is_hex_char (strip0x s)
    then \<exists>b. hexToBytes s = Inr b \<and> bytesToHex b = toLowerCase (strip0x s) \<and>
           2 * length b = length (strip0x s)
    else hexToBytes s = Inl (InvalidHex s))"
  by (simp add: hexToBytes_def even_iff_mod_2_eq_zero bytesToHex_hex_pairs length_hex_pairs
      dvd_mult_div_cancel strip0x_hex bytesToHex_hex)

text \<open>
  What \<open>decodeWireBytes\<close> reads back. A hex string decodes to its bytes always; a base64 string
  decodes to its bytes exactly when it is empty or holds a character that is not a hex digit, which
  every padded string does. So a 32-byte value round-trips in both encodings.
\<close>

theorem wire_bytes_round_trip:
  "decodeWireBytes (bytesToHex bs) = Inr bs \<and>
   (decodeWireBytes (bytesToBase64 bs) = Inr bs \<longleftrightarrow>
      bs = [] \<or> \<not> list_all is_hex_char (bytesToBase64 bs)) \<and>
   (length bs mod 3 \<noteq> 0 \<longrightarrow> decodeWireBytes (bytesToBase64 bs) = Inr bs)"
proof -
  let ?v = "bytesToBase64 bs"
  have "decodeWireBytes ?v \<noteq> Inr bs" if h: "list_all is_hex_char ?v" and ne: "bs \<noteq> []"
  proof
    assume "decodeWireBytes ?v = Inr bs"
    moreover have "length ?v mod 2 = 0" by (simp add: length_bytesToBase64)
    ultimately have "hex_pairs ?v = bs"
      using h ne by (simp add: decodeWireBytes_def hex_not_looksBase64 hexToBytes_def strip0x_hex)
    then have "length ?v div 2 = length bs" by (metis length_hex_pairs)
    then have len: "length bs = 2 * ((length bs + 2) div 3)"
      by (simp add: length_bytesToBase64)
    have "length bs mod 3 = 0"
      using h pad_not_hex bytesToBase64_padded by blast
    then obtain k where "length bs = 3 * k" by (metis mod_0_imp_dvd dvdE)
    moreover have "(3 * k + 2) div 3 = k" by presburger
    ultimately show False using len ne by simp
  qed
  moreover have "decodeWireBytes ?v = Inr bs" if "\<not> list_all is_hex_char ?v"
    using that by (auto simp: decodeWireBytes_def)
  moreover have "decodeWireBytes ?v = Inr bs" if "bs = []"
    using that by (simp add: decodeWireBytes_def)
  ultimately show ?thesis using decodeWireBytes_base64 [of bs] by auto
qed

lemma wire_bytes_round_trip_witness:
  "decodeWireBytes (bytesToBase64 [1, 2]) = Inr [1, 2]"
  using wire_bytes_round_trip [of "[1, 2]"] by simp

text \<open>
  The two encodings are not always told apart: the base64 text of the three bytes 69 b7 1d is
  \<open>abcd\<close>, which \<open>decodeWireBytes\<close> reads as the two hex bytes ab cd.
\<close>

theorem wire_bytes_ambiguous:
  "bytesToBase64 [0x69, 0xb7, 0x1d] = ''abcd'' \<and>
   decodeWireBytes (bytesToBase64 [0x69, 0xb7, 0x1d]) = Inr [0xab, 0xcd]"
  by code_simp

end
