(* ===== verification/Merkle.thy ===== *)
theory Merkle
  imports Bytes
begin

text \<open>
  The binary Merkle tree of \<open>packages/ts/src/bridge/merkle.ts\<close> and the hash of
  \<open>utils/qorehash.ts\<close>. SHAKE-256 comes from a third-party package, so it is the parameter \<open>shake\<close> of
  every definition that reaches it; nothing but its output length is ever assumed, and where an
  argument needs collision resistance the theorem exhibits the collision instead.

  Shown: the two loops terminate and agree on the root, every proof that \<open>binaryMerkleProof\<close> builds
  is accepted by \<open>verifyBinaryMerkleProof\<close> when odd nodes are paired with themselves, the proof length
  is the tree's depth, and a proof for another leaf at the same position yields a hash collision. A
  tree that promotes odd nodes instead (\<open>duplicateOdd: false\<close>) has leaves whose own proof is refused.
\<close>

subsection \<open>Operations\<close>

text \<open>\<open>qorehash(...parts)\<close>: updates with each part in turn, so it hashes their concatenation.\<close>

definition qorehash :: "(bytes \<Rightarrow> bytes) \<Rightarrow> bytes list \<Rightarrow> bytes" where
  "qorehash shake parts = shake (concat parts)"

record MerkleOptions =
  opt_hash :: "(bytes \<Rightarrow> bytes) option"
  opt_hashLeaves :: "bool option"
  opt_duplicateOdd :: "bool option"

record merkle_opts =
  hash :: "bytes \<Rightarrow> bytes"
  hashLeaves :: bool
  duplicateOdd :: bool

definition default_opts :: MerkleOptions where
  "default_opts = \<lparr>opt_hash = None, opt_hashLeaves = None, opt_duplicateOdd = None\<rparr>"

definition resolved :: "(bytes \<Rightarrow> bytes) \<Rightarrow> MerkleOptions \<Rightarrow> merkle_opts" where
  "resolved shake o1 =
     \<lparr>hash = (case opt_hash o1 of None \<Rightarrow> (\<lambda>data. qorehash shake [data]) | Some h \<Rightarrow> h),
      hashLeaves = (case opt_hashLeaves o1 of None \<Rightarrow> True | Some b \<Rightarrow> b),
      duplicateOdd = (case opt_duplicateOdd o1 of None \<Rightarrow> True | Some b \<Rightarrow> b)\<rparr>"

definition leafNodes :: "bytes list \<Rightarrow> merkle_opts \<Rightarrow> bytes list" where
  "leafNodes leaves opts = (if hashLeaves opts then map (hash opts) leaves else leaves)"

text \<open>The inner \<open>for\<close> loop: one level up. A missing right node is the left one, or none.\<close>

fun next_level :: "merkle_opts \<Rightarrow> bytes list \<Rightarrow> bytes list" where
  "next_level opts (l # r # ns) = hash opts (l @ r) # next_level opts ns"
| "next_level opts [l] = [if duplicateOdd opts then hash opts (l @ l) else l]"
| "next_level opts [] = []"

lemma length_next_level [simp]: "length (next_level opts ns) = (length ns + 1) div 2"
  by (induction opts ns rule: next_level.induct) simp_all

lemma next_level_eq_Nil [simp]: "next_level opts ns = [] \<longleftrightarrow> ns = []"
  by (cases ns rule: remdups_adj.cases) simp_all

function root_loop :: "merkle_opts \<Rightarrow> bytes list \<Rightarrow> bytes" where
  "root_loop opts level =
     (if 1 < length level then root_loop opts (next_level opts level) else level ! 0)"
  by pat_completeness auto
termination
  by (relation "measure (\<lambda>(opts, level). length level)") auto

declare root_loop.simps [simp del]

definition binaryMerkleRoot :: "(bytes \<Rightarrow> bytes) \<Rightarrow> bytes list \<Rightarrow> MerkleOptions \<Rightarrow> bytes" where
  "binaryMerkleRoot shake leaves options =
     (let opts = resolved shake options in
      if leaves = [] then hash opts [] else root_loop opts (leafNodes leaves opts))"

record MerkleProof =
  siblings :: "bytes list"
  proof_root :: bytes
  proof_index :: int

text \<open>What one turn of the proof loop pushes: the sibling, the node itself, or nothing.\<close>

definition level_sibling :: "merkle_opts \<Rightarrow> bytes list \<Rightarrow> nat \<Rightarrow> bytes list" where
  "level_sibling opts level idx =
     (let isRight = (idx mod 2 = 1);
          siblingIdx = (if isRight then idx - 1 else idx + 1)
      in if siblingIdx < length level then [level ! siblingIdx]
         else if duplicateOdd opts then [level ! idx] else [])"

function proof_loop ::
  "merkle_opts \<Rightarrow> bytes list \<Rightarrow> nat \<Rightarrow> bytes list \<Rightarrow> bytes list \<times> bytes" where
  "proof_loop opts level idx sibs =
     (if 1 < length level
      then proof_loop opts (next_level opts level) (idx div 2) (sibs @ level_sibling opts level idx)
      else (sibs, level ! 0))"
  by pat_completeness auto
termination
  by (relation "measure (\<lambda>(opts, level, idx, sibs). length level)") auto

declare proof_loop.simps [simp del]

definition binaryMerkleProof ::
  "(bytes \<Rightarrow> bytes) \<Rightarrow> bytes list \<Rightarrow> int \<Rightarrow> MerkleOptions \<Rightarrow> error + MerkleProof" where
  "binaryMerkleProof shake leaves index options =
     (if index < 0 \<or> int (length leaves) \<le> index
      then Inl (LeafIndexOutOfRange index (length leaves))
      else
        let opts = resolved shake options;
            (sibs, root) = proof_loop opts (leafNodes leaves opts) (nat index) []
        in Inr \<lparr>siblings = sibs, proof_root = root, proof_index = index\<rparr>)"

text \<open>
  The verifier's loop. \<open>idx % 2 === 1\<close> is false for every negative \<open>idx\<close>, since the remainder takes
  the sign of \<open>idx\<close>.
\<close>

definition node_input :: "int \<Rightarrow> bytes \<Rightarrow> bytes \<Rightarrow> bytes" where
  "node_input idx sibling node =
     (let isRight = (0 \<le> idx \<and> idx mod 2 = 1) in if isRight then sibling @ node else node @ sibling)"

fun verify_loop :: "merkle_opts \<Rightarrow> bytes \<Rightarrow> int \<Rightarrow> bytes list \<Rightarrow> bytes" where
  "verify_loop opts node idx [] = node"
| "verify_loop opts node idx (s # ss) =
     verify_loop opts (hash opts (node_input idx s node)) (idx div 2) ss"

definition sameBytes :: "bytes \<Rightarrow> bytes \<Rightarrow> bool" where
  "sameBytes a b \<longleftrightarrow> length a = length b \<and> list_all (\<lambda>i. a ! i = b ! i) [0..<length a]"

definition verifyBinaryMerkleProof ::
  "(bytes \<Rightarrow> bytes) \<Rightarrow> bytes \<Rightarrow> int \<Rightarrow> bytes list \<Rightarrow> bytes \<Rightarrow> MerkleOptions \<Rightarrow> bool" where
  "verifyBinaryMerkleProof shake leaf index sibs root options =
     (let opts = resolved shake options;
          node = verify_loop opts (if hashLeaves opts then hash opts leaf else leaf) index sibs
      in sameBytes node root)"

subsection \<open>Levels, roots and proofs\<close>

lemma sameBytes_eq [simp]: "sameBytes a b \<longleftrightarrow> a = b"
  by (auto simp: sameBytes_def list_all_iff intro: nth_equalityI)

lemma leafNodes_length [simp]: "length (leafNodes leaves opts) = length leaves"
  by (simp add: leafNodes_def)

lemma leafNodes_nth: "i < length leaves \<Longrightarrow>
    leafNodes leaves opts ! i = (if hashLeaves opts then hash opts (leaves ! i) else leaves ! i)"
  by (simp add: leafNodes_def)

text \<open>A node of the next level is the hash of its two children.\<close>

lemma next_level_nth:
  assumes "j < length ns" "duplicateOdd opts"
  shows "next_level opts ns ! (j div 2) =
    hash opts (if j mod 2 = 1 then ns ! (j - 1) @ ns ! j
               else ns ! j @ (if j + 1 < length ns then ns ! (j + 1) else ns ! j))"
  using assms
proof (induction opts ns arbitrary: j rule: next_level.induct)
  case (1 opts l r ns)
  show ?case
  proof (cases "j < 2")
    case True
    then have "j = 0 \<or> j = 1" by auto
    then show ?thesis by auto
  next
    case False
    define k where "k = j - 2"
    with False have j: "j = Suc (Suc k)" by simp
    with 1 have "next_level opts ns ! (k div 2) =
      hash opts (if k mod 2 = 1 then ns ! (k - 1) @ ns ! k
                 else ns ! k @ (if k + 1 < length ns then ns ! (k + 1) else ns ! k))"
      by (intro "1.IH") simp_all
    moreover have "(l # r # ns) ! (j - 1) = ns ! (k - 1)" if "k mod 2 = 1"
      using that j by (cases k) simp_all
    ultimately show ?thesis using j by auto
  qed
next
  case (2 opts l)
  then show ?case by simp
qed simp

lemma proof_loop_root: "snd (proof_loop opts level idx sibs) = root_loop opts level"
proof (induction opts level idx sibs rule: proof_loop.induct)
  case (1 opts level idx sibs)
  show ?case
    by (cases "1 < length level")
      (simp_all add: proof_loop.simps [of opts level] root_loop.simps [of opts level] 1)
qed

lemma proof_loop_acc:
  "fst (proof_loop opts level idx sibs) = sibs @ fst (proof_loop opts level idx [])"
proof (induction "length level" arbitrary: level idx sibs rule: less_induct)
  case less
  show ?case
  proof (cases "1 < length level")
    case True
    then have IH: "fst (proof_loop opts (next_level opts level) j s) =
        s @ fst (proof_loop opts (next_level opts level) j [])" for j s
      by (intro less) auto
    let ?s = "level_sibling opts level idx"
    from True show ?thesis
      using IH [of "idx div 2" "sibs @ ?s"] IH [of "idx div 2" ?s]
      by (simp add: proof_loop.simps [of opts level idx])
  next
    case False
    then show ?thesis by (simp add: proof_loop.simps [of opts level])
  qed
qed

lemma proof_loop_verifies:
  assumes "idx < length level" "duplicateOdd opts"
  shows "verify_loop opts (level ! idx) (int idx) (fst (proof_loop opts level idx []))
    = root_loop opts level"
  using assms
proof (induction "length level" arbitrary: level idx rule: less_induct)
  case less
  show ?case
  proof (cases "1 < length level")
    case False
    with less.prems have "idx = 0" by simp
    with False show ?thesis
      by (simp add: proof_loop.simps [of opts level] root_loop.simps [of opts level])
  next
    case True
    let ?up = "next_level opts level"
    define s where "s = (if idx mod 2 = 1 then level ! (idx - 1)
      else if idx + 1 < length level then level ! (idx + 1) else level ! idx)"
    have sibs: "fst (proof_loop opts level idx []) = s # fst (proof_loop opts ?up (idx div 2) [])"
      using True less.prems proof_loop_acc [of opts ?up "idx div 2" "[s]"]
      by (auto simp: proof_loop.simps [of opts level] level_sibling_def Let_def s_def)
    have half: "int idx mod 2 = 1 \<longleftrightarrow> idx mod 2 = 1" "int idx div 2 = int (idx div 2)"
      by presburger+
    then have node: "?up ! (idx div 2) = hash opts (node_input (int idx) s (level ! idx))"
      using next_level_nth [OF less.prems] by (simp add: s_def node_input_def)
    have "verify_loop opts (?up ! (idx div 2)) (int (idx div 2))
        (fst (proof_loop opts ?up (idx div 2) [])) = root_loop opts ?up"
      using True less.prems by (intro less.hyps) auto
    then show ?thesis
      using True sibs node half by (simp add: root_loop.simps [of opts level])
  qed
qed

subsection \<open>Proof length and node sizes\<close>

lemma proof_loop_depth:
  assumes "duplicateOdd opts" "length level \<le> 2 ^ k"
  shows "length (fst (proof_loop opts level idx [])) \<le> k"
  using assms
proof (induction k arbitrary: level idx)
  case 0
  then show ?case by (simp add: proof_loop.simps [of opts level])
next
  case (Suc k)
  show ?case
  proof (cases "1 < length level")
    case True
    have "length (fst (proof_loop opts (next_level opts level) (idx div 2) [])) \<le> k"
      using Suc.prems by (intro Suc.IH) auto
    moreover have "length (level_sibling opts level idx) \<le> 1"
      by (simp add: level_sibling_def Let_def)
    ultimately show ?thesis
      using True proof_loop_acc [of opts "next_level opts level" "idx div 2"
          "level_sibling opts level idx"]
      by (simp add: proof_loop.simps [of opts level])
  next
    case False
    then show ?thesis by (simp add: proof_loop.simps [of opts level])
  qed
qed

lemma next_level_sizes:
  assumes "\<And>x. length (hash opts x) = n" "list_all (\<lambda>x. length x = n) level"
  shows "list_all (\<lambda>x. length x = n) (next_level opts level)"
  using assms by (induction opts level rule: next_level.induct) simp_all

lemma proof_loop_sizes:
  assumes "\<And>x. length (hash opts x) = n" "list_all (\<lambda>x. length x = n) level" "idx < length level"
  shows "list_all (\<lambda>x. length x = n) (fst (proof_loop opts level idx []))"
  using assms(2,3)
proof (induction "length level" arbitrary: level idx rule: less_induct)
  case less
  show ?case
  proof (cases "1 < length level")
    case True
    have "list_all (\<lambda>x. length x = n) (level_sibling opts level idx)"
      using less.prems by (auto simp: level_sibling_def Let_def list_all_length)
    moreover have "list_all (\<lambda>x. length x = n)
        (fst (proof_loop opts (next_level opts level) (idx div 2) []))"
      using True less.prems assms(1) by (intro less.hyps next_level_sizes) auto
    ultimately show ?thesis
      using True proof_loop_acc [of opts "next_level opts level" "idx div 2"
          "level_sibling opts level idx"]
      by (simp add: proof_loop.simps [of opts level])
  next
    case False
    then show ?thesis by (simp add: proof_loop.simps [of opts level])
  qed
qed

lemma root_loop_size:
  assumes "\<And>x. length (hash opts x) = n" "list_all (\<lambda>x. length x = n) level" "level \<noteq> []"
  shows "length (root_loop opts level) = n"
  using assms(2,3)
proof (induction "length level" arbitrary: level rule: less_induct)
  case less
  show ?case
  proof (cases "1 < length level")
    case True
    then have "length (root_loop opts (next_level opts level)) = n"
      using less.prems assms(1) by (intro less.hyps next_level_sizes) auto
    with True show ?thesis by (simp add: root_loop.simps [of opts level])
  next
    case False
    with less.prems show ?thesis
      by (subst root_loop.simps) (cases level, simp_all)
  qed
qed

subsection \<open>Binding: two leaves under one root give a collision\<close>

text \<open>The inputs a verification hashes, in order.\<close>

fun verify_inputs :: "merkle_opts \<Rightarrow> bytes \<Rightarrow> int \<Rightarrow> bytes list \<Rightarrow> bytes list" where
  "verify_inputs opts node idx [] = []"
| "verify_inputs opts node idx (s # ss) =
     node_input idx s node # verify_inputs opts (hash opts (node_input idx s node)) (idx div 2) ss"

lemma verify_loop_binding:
  assumes "length ss = length ts" "verify_loop opts a idx ss = verify_loop opts b idx ts"
    and "length a = n" "length b = n" "\<And>x. length (hash opts x) = n"
    and "list_all (\<lambda>x. length x = n) ss" "list_all (\<lambda>x. length x = n) ts"
  shows "(a = b \<and> ss = ts) \<or>
    (\<exists>x \<in> set (verify_inputs opts a idx ss). \<exists>y \<in> set (verify_inputs opts b idx ts).
       x \<noteq> y \<and> hash opts x = hash opts y)"
  using assms
proof (induction ss ts arbitrary: a b idx rule: list_induct2)
  case Nil
  then show ?case by simp
next
  case (Cons s ss t ts)
  define x where "x = node_input idx s a"
  define y where "y = node_input idx t b"
  have "(hash opts x = hash opts y \<and> ss = ts) \<or>
    (\<exists>u \<in> set (verify_inputs opts (hash opts x) (idx div 2) ss).
       \<exists>v \<in> set (verify_inputs opts (hash opts y) (idx div 2) ts). u \<noteq> v \<and> hash opts u = hash opts v)"
    using Cons.prems by (intro Cons.IH) (simp_all add: x_def y_def)
  moreover have "x = y \<Longrightarrow> a = b \<and> s = t"
    using Cons.prems by (auto simp: x_def y_def node_input_def Let_def split: if_splits)
  ultimately show ?case
    by (auto simp flip: x_def y_def)
qed

subsection \<open>The interface a client of the tree uses\<close>

text \<open>
  A vector commitment: \<open>commit\<close> a list, \<open>open_at\<close> a position, \<open>accepts\<close> an opening. The law is
  completeness; what the withdrawal tree needs of the Merkle code is exactly this.
\<close>

locale vector_commitment =
  fixes commit :: "'a list \<Rightarrow> 'r"
    and open_at :: "'a list \<Rightarrow> int \<Rightarrow> 'e + 'p"
    and accepts :: "'a \<Rightarrow> int \<Rightarrow> 'p \<Rightarrow> 'r \<Rightarrow> bool"
  assumes opens: "0 \<le> i \<Longrightarrow> i < int (length xs) \<Longrightarrow>
      \<exists>p. open_at xs i = Inr p \<and> accepts (xs ! nat i) i p (commit xs)"
    and refuses: "i < 0 \<or> int (length xs) \<le> i \<Longrightarrow> \<exists>e. open_at xs i = Inl e"
begin

lemma open_iff_in_range: "(\<exists>p. open_at xs i = Inr p) \<longleftrightarrow> 0 \<le> i \<and> i < int (length xs)"
  using opens [of i xs] refuses [of i xs] by (metis Inl_Inr_False linorder_not_less)

lemma open_accepts:
  "open_at xs i = Inr p \<Longrightarrow> accepts (xs ! nat i) i p (commit xs)"
  using opens [of i xs] open_iff_in_range [of xs i] by auto

end

lemma binaryMerkleProof_complete:
  assumes "0 \<le> i" "i < int (length leaves)" "opt_duplicateOdd options \<noteq> Some False"
  shows "\<exists>p. binaryMerkleProof shake leaves i options = Inr p \<and>
    proof_root p = binaryMerkleRoot shake leaves options \<and>
    verifyBinaryMerkleProof shake (leaves ! nat i) i (siblings p)
      (binaryMerkleRoot shake leaves options) options"
proof -
  let ?o = "resolved shake options"
  let ?p = "proof_loop ?o (leafNodes leaves ?o) (nat i) []"
  from assms(3) have "duplicateOdd ?o"
    by (auto simp: resolved_def split: option.splits)
  moreover have "nat i < length leaves" using assms by simp
  ultimately have "verify_loop ?o (leafNodes leaves ?o ! nat i) (int (nat i)) (fst ?p)
      = root_loop ?o (leafNodes leaves ?o)"
    by (intro proof_loop_verifies) simp_all
  then show ?thesis
    using assms proof_loop_root [of ?o "leafNodes leaves ?o" "nat i" "[]"]
    by (auto simp: binaryMerkleProof_def binaryMerkleRoot_def verifyBinaryMerkleProof_def Let_def
        leafNodes_nth split_beta)
qed

text \<open>The model's tree, for any hash and any options that pair odd nodes with themselves.\<close>

definition pairing :: "MerkleOptions \<Rightarrow> MerkleOptions" where
  "pairing options = options\<lparr>opt_duplicateOdd := Some True\<rparr>"

interpretation tree: vector_commitment
  "\<lambda>leaves. binaryMerkleRoot shake leaves (pairing options)"
  "\<lambda>leaves i. binaryMerkleProof shake leaves i (pairing options)"
  "\<lambda>leaf i p root. verifyBinaryMerkleProof shake leaf i (siblings p) root (pairing options)"
  for shake options
proof
  fix i :: int and xs :: "bytes list"
  assume "0 \<le> i" "i < int (length xs)"
  then show "\<exists>p. binaryMerkleProof shake xs i (pairing options) = Inr p \<and>
      verifyBinaryMerkleProof shake (xs ! nat i) i (siblings p)
        (binaryMerkleRoot shake xs (pairing options)) (pairing options)"
    using binaryMerkleProof_complete [of i xs "pairing options" shake] by (auto simp: pairing_def)
next
  fix i :: int and xs :: "bytes list"
  assume "i < 0 \<or> int (length xs) \<le> i"
  then show "\<exists>e. binaryMerkleProof shake xs i (pairing options) = Inl e"
    by (simp add: binaryMerkleProof_def)
qed

subsection \<open>Properties\<close>

text \<open>
  C13: For every list of leaves, every position in range and every hash, when odd nodes are paired
  with themselves (the default), \<open>binaryMerkleProof\<close> returns a proof for that position whose root is
  \<open>binaryMerkleRoot\<close> of the leaves, whose length is at most \<open>k\<close> for up to \<open>2 ^ k\<close> leaves, and which
  \<open>verifyBinaryMerkleProof\<close> accepts for that leaf.
\<close>

theorem merkle_proof_verifies:
  assumes "0 \<le> i" "i < int (length leaves)" "opt_duplicateOdd options \<noteq> Some False"
    and "length leaves \<le> 2 ^ k"
  shows "\<exists>p. binaryMerkleProof shake leaves i options = Inr p \<and> proof_index p = i \<and>
    proof_root p = binaryMerkleRoot shake leaves options \<and> length (siblings p) \<le> k \<and>
    verifyBinaryMerkleProof shake (leaves ! nat i) i (siblings p) (proof_root p) options"
proof -
  obtain p where p: "binaryMerkleProof shake leaves i options = Inr p"
    "proof_root p = binaryMerkleRoot shake leaves options"
    "verifyBinaryMerkleProof shake (leaves ! nat i) i (siblings p)
       (binaryMerkleRoot shake leaves options) options"
    using binaryMerkleProof_complete [OF assms(1-3)] by blast
  let ?o = "resolved shake options"
  from assms(3) have "duplicateOdd ?o"
    by (auto simp: resolved_def split: option.splits)
  with assms(4) have "length (fst (proof_loop ?o (leafNodes leaves ?o) (nat i) [])) \<le> k"
    by (intro proof_loop_depth) simp_all
  moreover from p(1) assms(1,2) have "proof_index p = i"
    "siblings p = fst (proof_loop ?o (leafNodes leaves ?o) (nat i) [])"
    by (auto simp: binaryMerkleProof_def Let_def split_beta split: if_splits)
  ultimately show ?thesis using p by auto
qed

lemma merkle_proof_verifies_witness:
  "\<exists>p. binaryMerkleProof (\<lambda>d. rev d) [[1], [2], [3]] 2 default_opts = Inr p \<and> proof_index p = 2 \<and>
     proof_root p = binaryMerkleRoot (\<lambda>d. rev d) [[1], [2], [3]] default_opts \<and>
     length (siblings p) \<le> 2 \<and>
     verifyBinaryMerkleProof (\<lambda>d. rev d) [3] 2 (siblings p) (proof_root p) default_opts"
  using merkle_proof_verifies [of 2 "[[1], [2], [3]]" default_opts 2 "\<lambda>d. rev d"]
  by (simp add: default_opts_def)

text \<open>
  C14: Binding. Two verifications of already-hashed leaves at the same position, with paths of the
  same length, against the same root, with all nodes of the hash's output size: either the leaves
  and the paths are equal, or two of the inputs the verifications hashed collide.
\<close>

theorem merkle_proof_binding:
  assumes "opt_hashLeaves options = Some False"
    and "verifyBinaryMerkleProof shake a i ss root options"
    and "verifyBinaryMerkleProof shake b i ts root options"
    and "length ss = length ts" "length a = n" "length b = n"
    and "\<And>x. length (hash (resolved shake options) x) = n"
    and "list_all (\<lambda>x. length x = n) ss" "list_all (\<lambda>x. length x = n) ts"
  shows "(a = b \<and> ss = ts) \<or>
    (\<exists>x \<in> set (verify_inputs (resolved shake options) a i ss).
     \<exists>y \<in> set (verify_inputs (resolved shake options) b i ts).
       x \<noteq> y \<and> hash (resolved shake options) x = hash (resolved shake options) y)"
proof -
  have "\<not> hashLeaves (resolved shake options)" using assms(1) by (simp add: resolved_def)
  with assms(2,3) have "verify_loop (resolved shake options) a i ss = verify_loop (resolved shake options) b i ts"
    by (simp add: verifyBinaryMerkleProof_def)
  with assms(4-) show ?thesis by (intro verify_loop_binding) simp_all
qed

lemma merkle_proof_binding_witness:
  "let o1 = \<lparr>opt_hash = None, opt_hashLeaves = Some False, opt_duplicateOdd = None\<rparr>;
       h = (\<lambda>d. [sum_list d]) in
   verifyBinaryMerkleProof h [1] 0 [[2]] [3] o1 \<and> verifyBinaryMerkleProof h [2] 0 [[1]] [3] o1 \<and>
   (\<exists>x \<in> set (verify_inputs (resolved h o1) [1] 0 [[2]]).
    \<exists>y \<in> set (verify_inputs (resolved h o1) [2] 0 [[1]]). x \<noteq> y \<and> h x = h y)"
  using merkle_proof_binding [of "\<lparr>opt_hash = None, opt_hashLeaves = Some False, opt_duplicateOdd = None\<rparr>"
      "\<lambda>d. [sum_list d]" "[1]" 0 "[[2]]" "[3]" "[2]" "[[1]]" 1]
  by (simp add: verifyBinaryMerkleProof_def resolved_def qorehash_def node_input_def Let_def)

text \<open>
  With \<open>duplicateOdd: false\<close> the verifier does not follow the builder: of three leaves, the proof
  that \<open>binaryMerkleProof\<close> builds for the promoted last leaf is refused by
  \<open>verifyBinaryMerkleProof\<close>, because the builder skips a level for which it pushes no sibling and the
  verifier halves the index only once per sibling.
\<close>

theorem merkle_promoted_leaf_refused:
  "let o1 = \<lparr>opt_hash = Some (\<lambda>d. d), opt_hashLeaves = Some False, opt_duplicateOdd = Some False\<rparr>;
       leaves = [[1], [2], [3]] in
   \<exists>p. binaryMerkleProof shake leaves 2 o1 = Inr p \<and>
     proof_root p = binaryMerkleRoot shake leaves o1 \<and>
     \<not> verifyBinaryMerkleProof shake (leaves ! 2) 2 (siblings p) (proof_root p) o1"
  by (simp add: binaryMerkleProof_def binaryMerkleRoot_def verifyBinaryMerkleProof_def resolved_def
      leafNodes_def Let_def proof_loop.simps root_loop.simps level_sibling_def node_input_def)

end
