(* ===== verification/MerkleReference.thy ===== *)
theory MerkleReference
  imports Merkle
begin

text \<open>
  A reference for the loops of \<open>packages/ts/src/bridge/merkle.ts\<close>. The code works level by level from the
  leaves; the reference is recursive from the root, as Merkle trees are specified: the leaves are split at the
  largest power of two below their number. A part that is too small for its height is paired with itself, or
  kept as it is, as the options say.

  Shown: the root that the loop computes is that of the reference, for every hash and all options; with
  \<open>duplicateOdd: false\<close> the reference is the tree of RFC 6962 without its prefixes; and a proof has one sibling
  for each level of the reference.
\<close>

subsection \<open>The reference\<close>

text \<open>The largest power of two below a number, and the height of the tree.\<close>

fun split_point :: "nat \<Rightarrow> nat" where
  "split_point n = (if n \<le> 2 then 1 else 2 * split_point ((n + 1) div 2))"

fun height_of :: "nat \<Rightarrow> nat" where
  "height_of n = (if n \<le> 1 then 0 else Suc (height_of ((n + 1) div 2)))"

declare split_point.simps [simp del] height_of.simps [simp del]

fun subtree :: "merkle_opts \<Rightarrow> nat \<Rightarrow> bytes list \<Rightarrow> bytes" where
  "subtree opts 0 ls = ls ! 0"
| "subtree opts (Suc k) ls =
     (if length ls \<le> 2 ^ k
      then (let t = subtree opts k ls in if duplicateOdd opts then hash opts (t @ t) else t)
      else hash opts (subtree opts k (take (2 ^ k) ls) @ subtree opts k (drop (2 ^ k) ls)))"

text \<open>The Merkle tree hash of RFC 6962.\<close>

function tree_hash :: "(bytes \<Rightarrow> bytes) \<Rightarrow> bytes list \<Rightarrow> bytes" where
  "tree_hash h ls =
     (if length ls \<le> 1 then ls ! 0
      else let k = split_point (length ls) in h (tree_hash h (take k ls) @ tree_hash h (drop k ls)))"
  by pat_completeness auto

lemma two_leaves: "split_point 2 = 1" "height_of 2 = 1"
  by code_simp+

lemma split_point_bounds:
  assumes "2 \<le> n"
  shows "split_point n = 2 ^ (height_of n - 1) \<and> split_point n < n \<and> n \<le> 2 * split_point n"
  using assms
proof (induction n rule: split_point.induct)
  case (1 n)
  show ?case
  proof (cases "n = 2")
    case True
    then show ?thesis by (simp add: two_leaves)
  next
    case False
    with 1(2) have "\<not> n \<le> 2" "2 \<le> (n + 1) div 2" by auto
    from 1(1) [OF this] have IH: "split_point ((n + 1) div 2) = 2 ^ (height_of ((n + 1) div 2) - 1)"
      "split_point ((n + 1) div 2) < (n + 1) div 2" "(n + 1) div 2 \<le> 2 * split_point ((n + 1) div 2)" by simp_all
    have n: "split_point n = 2 * split_point ((n + 1) div 2)" "height_of n = Suc (height_of ((n + 1) div 2))"
      using False 1(2) by (simp_all add: split_point.simps [of n] height_of.simps [of n])
    have "0 < height_of ((n + 1) div 2)"
      using \<open>2 \<le> (n + 1) div 2\<close> by (subst height_of.simps) simp
    then have "split_point n = 2 ^ (height_of n - 1)"
      using n IH(1) by (cases "height_of ((n + 1) div 2)") simp_all
    then show ?thesis using n IH(2,3) by linarith
  qed
qed

lemma split_point_pos: "2 \<le> n \<Longrightarrow> 0 < split_point n"
  using split_point_bounds [of n] by simp

lemma split_point_less: "2 \<le> n \<Longrightarrow> split_point n < n"
  using split_point_bounds [of n] by simp

termination tree_hash
  by (relation "measure (\<lambda>(h, ls). length ls)") (auto simp: not_le min_def split_point_less split_point_pos intro!: diff_less)

declare tree_hash.simps [simp del]

lemma height_bounds: "1 \<le> n \<Longrightarrow> n \<le> 2 ^ height_of n \<and> (1 < n \<longrightarrow> 2 ^ (height_of n - 1) < n)"
  using split_point_bounds [of n]
  by (cases "n = 1") (auto simp: height_of.simps [of n] simp flip: power_Suc split: if_splits)

lemma height_unique:
  assumes "n \<le> 2 ^ k" "k = 0 \<or> 2 ^ (k - 1) < n" "1 \<le> n"
  shows "height_of n = k"
  using assms
proof (induction k arbitrary: n)
  case 0
  then show ?case by (simp add: height_of.simps [of n])
next
  case (Suc k)
  then have "1 < n" by (cases k) auto
  moreover have "height_of ((n + 1) div 2) = k"
    using Suc.prems \<open>1 < n\<close> by (intro Suc.IH) (cases k; auto)+
  ultimately show ?case by (simp add: height_of.simps [of n])
qed

subsection \<open>One level\<close>

lemma next_level_append: "even (length xs) \<Longrightarrow> next_level opts (xs @ ys) = next_level opts xs @ next_level opts ys"
  by (induction opts xs rule: next_level.induct) auto

lemma next_level_split:
  assumes "even m" "m \<le> length ls"
  shows "take (m div 2) (next_level opts ls) = next_level opts (take m ls)"
    "drop (m div 2) (next_level opts ls) = next_level opts (drop m ls)"
proof -
  have "next_level opts ls = next_level opts (take m ls) @ next_level opts (drop m ls)"
    using next_level_append [of "take m ls" opts "drop m ls"] assms by simp
  moreover have "length (next_level opts (take m ls)) = m div 2" using assms by (auto elim: evenE)
  ultimately show "take (m div 2) (next_level opts ls) = next_level opts (take m ls)"
    "drop (m div 2) (next_level opts ls) = next_level opts (drop m ls)" by simp_all
qed

text \<open>Hashing one level and then the smaller tree is hashing the tree.\<close>

lemma subtree_level:
  "ls \<noteq> [] \<Longrightarrow> length ls \<le> 2 ^ Suc k \<Longrightarrow> subtree opts (Suc k) ls = subtree opts k (next_level opts ls)"
proof (induction k arbitrary: ls)
  case 0
  then consider x where "ls = [x]" | x y where "ls = [x, y]"
    by (cases ls rule: remdups_adj.cases) auto
  then show ?case by cases simp_all
next
  case (Suc k)
  show ?case
  proof (cases "length ls \<le> 2 ^ Suc k")
    case True
    then have "subtree opts (Suc k) ls = subtree opts k (next_level opts ls)" by (rule Suc.IH [OF Suc.prems(1)])
    moreover from True have "length (next_level opts ls) \<le> 2 ^ k" by simp
    ultimately show ?thesis
      using True by (simp add: subtree.simps(2) [of opts "Suc k"] subtree.simps(2) [of opts k "next_level opts ls"] Let_def del: subtree.simps length_next_level)
  next
    case False
    let ?m = "2 ^ Suc k :: nat"
    have "subtree opts (Suc k) (take ?m ls) = subtree opts k (next_level opts (take ?m ls))"
      "subtree opts (Suc k) (drop ?m ls) = subtree opts k (next_level opts (drop ?m ls))"
      using False Suc.prems by (intro Suc.IH; auto)+
    moreover have "\<not> length (next_level opts ls) \<le> 2 ^ k" using False by simp
    ultimately show ?thesis
      using False next_level_split [of ?m ls opts]
      by (simp add: subtree.simps(2) [of opts "Suc k"] subtree.simps(2) [of opts k] del: subtree.simps)
  qed
qed

lemma root_loop_subtree:
  assumes "ls \<noteq> []"
  shows "root_loop opts ls = subtree opts (height_of (length ls)) ls"
  using assms
proof (induction opts ls rule: root_loop.induct)
  case (1 opts ls)
  show ?case
  proof (cases "1 < length ls")
    case True
    have "height_of (length ls) = Suc (height_of (length (next_level opts ls)))"
      using True by (simp add: height_of.simps [of "length ls"])
    moreover have "length ls \<le> 2 ^ height_of (length ls)"
      using height_bounds [of "length ls"] True by simp
    ultimately show ?thesis
      using 1 True subtree_level [of ls "height_of (length (next_level opts ls))" opts]
      by (simp add: root_loop.simps [of opts ls] del: subtree.simps)
  next
    case False
    then show ?thesis by (simp add: root_loop.simps [of opts ls] height_of.simps [of "length ls"])
  qed
qed

text \<open>Where odd nodes are kept, the height of a part does not matter, so the reference is that of RFC 6962.\<close>

lemma subtree_tree_hash:
  assumes "\<not> duplicateOdd opts" "ls \<noteq> []" "length ls \<le> 2 ^ k"
  shows "subtree opts k ls = tree_hash (hash opts) ls"
  using assms(2,3)
proof (induction k arbitrary: ls)
  case 0
  then show ?case by (simp add: tree_hash.simps [of _ ls])
next
  case (Suc k)
  show ?case
  proof (cases "length ls \<le> 2 ^ k")
    case True
    with Suc.prems Suc.IH assms(1) show ?thesis by (simp add: Let_def)
  next
    case False
    have "1 \<le> (2 ^ k :: nat)" by simp
    with False have two: "2 \<le> length ls" by linarith
    have "height_of (length ls) = Suc k" using False Suc.prems by (intro height_unique) auto
    then have split: "split_point (length ls) = 2 ^ k" using split_point_bounds [OF two] by simp
    have "subtree opts k (take (2 ^ k) ls) = tree_hash (hash opts) (take (2 ^ k) ls)"
      "subtree opts k (drop (2 ^ k) ls) = tree_hash (hash opts) (drop (2 ^ k) ls)"
      using False Suc.prems by (intro Suc.IH; auto)+
    with False two show ?thesis by (simp add: tree_hash.simps [of _ ls] split Let_def)
  qed
qed

lemma proof_loop_height:
  assumes "ls \<noteq> []"
  shows "if duplicateOdd opts then length (fst (proof_loop opts ls idx sibs)) = length sibs + height_of (length ls)
    else length (fst (proof_loop opts ls idx sibs)) \<le> length sibs + height_of (length ls)"
  using assms
proof (induction opts ls idx sibs rule: proof_loop.induct)
  case (1 opts ls idx sibs)
  then show ?case
    by (cases "1 < length ls")
      (auto simp: proof_loop.simps [of opts ls] height_of.simps [of "length ls"] level_sibling_def Let_def split: if_splits)
qed

subsection \<open>Properties\<close>

text \<open>
  C38: The Merkle root is the specified one. The root that \<open>binaryMerkleRoot\<close> computes level by level is that of the
  tree which splits its leaves at the largest power of two below their number, where a part too small for its
  height is paired with itself; with \<open>duplicateOdd: false\<close> it is the tree of RFC 6962 over the same hash. A proof
  is refused exactly for an index out of range; it has one sibling for each level of the tree, or at most one
  where odd nodes are kept.
\<close>

theorem merkle_root_is_recursive:
  "binaryMerkleRoot shake leaves options =
     (let opts = resolved shake options; ls = leafNodes leaves opts in
      if ls = [] then hash opts []
      else if duplicateOdd opts then subtree opts (height_of (length ls)) ls
      else tree_hash (hash opts) ls) \<and>
   (case binaryMerkleProof shake leaves index options of
      Inl e \<Rightarrow> index < 0 \<or> int (length leaves) \<le> index
    | Inr p \<Rightarrow> 0 \<le> index \<and> index < int (length leaves) \<and>
        (if duplicateOdd (resolved shake options) then length (siblings p) = height_of (length leaves)
         else length (siblings p) \<le> height_of (length leaves)))"
proof -
  let ?opts = "resolved shake options"
  let ?ls = "leafNodes leaves ?opts"
  have nil: "?ls = [] \<longleftrightarrow> leaves = []" by (simp flip: length_0_conv)
  have "binaryMerkleRoot shake leaves options =
      (if ?ls = [] then hash ?opts [] else subtree ?opts (height_of (length ?ls)) ?ls)"
    by (simp add: binaryMerkleRoot_def Let_def root_loop_subtree nil del: leafNodes_length)
  moreover have "\<not> duplicateOdd ?opts \<Longrightarrow> ?ls \<noteq> [] \<Longrightarrow>
      subtree ?opts (height_of (length ?ls)) ?ls = tree_hash (hash ?opts) ?ls"
    using height_bounds [of "length ?ls"] by (intro subtree_tree_hash) (simp_all add: Suc_le_eq del: leafNodes_length)
  moreover have "case binaryMerkleProof shake leaves index options of
      Inl e \<Rightarrow> index < 0 \<or> int (length leaves) \<le> index
    | Inr p \<Rightarrow> 0 \<le> index \<and> index < int (length leaves) \<and>
        (if duplicateOdd ?opts then length (siblings p) = height_of (length leaves)
         else length (siblings p) \<le> height_of (length leaves))"
    using nil proof_loop_height [of ?ls ?opts "nat index" "[]"]
    by (auto simp: binaryMerkleProof_def Let_def split_beta split: if_splits)
  ultimately show ?thesis by (simp add: Let_def)
qed

lemma merkle_root_is_recursive_example:
  "binaryMerkleRoot (\<lambda>b. [of_nat (length b)] @ b) [[1], [2], [3]] \<lparr>opt_hash = None, opt_hashLeaves = Some False, opt_duplicateOdd = Some False\<rparr> =
   [4, 2, 1, 2, 3]"
  by code_simp

end
