(* ===== verification/Withdrawal.thy ===== *)
theory Withdrawal
  imports Merkle
begin

text \<open>
  Withdrawal leaves, the withdrawals tree of a batch and the proof a \<open>MsgExecuteWithdrawal\<close> carries:
  \<open>packages/ts/src/bridge/withdrawal.ts\<close>. The tree is the Merkle code's, reached through the
  interpretation \<open>tree\<close> of its interface.

  Shown: every withdrawal of a built tree has a proof that verifies against the tree's root, of
  32-byte siblings; and a leaf binds its fields, in that two leaves with equal hashes either agree on
  every field or exhibit two different SHAKE-256 inputs with one output.
\<close>

subsection \<open>Leaves\<close>

record WithdrawalLeafInput =
  wl_rollupId :: string
  wl_withdrawalIndex :: int
  wl_recipient :: string
  wl_denom :: string
  wl_amount :: numeric

definition u64be_num :: "numeric \<Rightarrow> error + bytes" where
  "u64be_num value = res_bind (js_BigInt value) (\<lambda>v. Inr (u64be v))"

definition lp :: "bytes \<Rightarrow> bytes list" where
  "lp b = [u32be (int (length b)), b]"

definition ZERO :: bytes where
  "ZERO = [0]"

text \<open>
  The arguments of the two \<open>qorehash\<close> calls. They are named so that a theorem can speak of the bytes
  that were hashed. Evaluating \<open>amount\<close> is the only step that can throw.
\<close>

definition leafV1_parts :: "WithdrawalLeafInput \<Rightarrow> error + bytes list" where
  "leafV1_parts w =
     res_bind (u64be_num (wl_amount w)) (\<lambda>amount. Inr
       [utf8_encode (wl_rollupId w), ZERO, u64be (wl_withdrawalIndex w),
        utf8_encode (wl_recipient w), ZERO, utf8_encode (wl_denom w), ZERO, amount])"

definition withdrawalLeafV1 :: "(bytes \<Rightarrow> bytes) \<Rightarrow> WithdrawalLeafInput \<Rightarrow> error + bytes" where
  "withdrawalLeafV1 shake w = res_bind (leafV1_parts w) (\<lambda>parts. Inr (qorehash shake parts))"

definition leafV2_parts :: "string \<Rightarrow> WithdrawalLeafInput \<Rightarrow> error + bytes list" where
  "leafV2_parts chainId w =
     res_bind (u64be_num (wl_amount w)) (\<lambda>amount. Inr
       (lp (utf8_encode ''qorechain-rdk-withdrawal/v2'') @ lp (utf8_encode chainId) @
        lp (utf8_encode (wl_rollupId w)) @ [u64be (wl_withdrawalIndex w)] @
        lp (utf8_encode (wl_recipient w)) @ lp (utf8_encode (wl_denom w)) @ [amount]))"

definition withdrawalLeafV2 ::
  "(bytes \<Rightarrow> bytes) \<Rightarrow> string \<Rightarrow> WithdrawalLeafInput \<Rightarrow> error + bytes" where
  "withdrawalLeafV2 shake chainId w =
     (if chainId = '''' then Inl ChainIdMissing
      else res_bind (leafV2_parts chainId w) (\<lambda>parts. Inr (qorehash shake parts)))"

subsection \<open>The tree and its proofs\<close>

definition CHAIN_TREE :: MerkleOptions where
  "CHAIN_TREE = \<lparr>opt_hash = None, opt_hashLeaves = Some False, opt_duplicateOdd = Some True\<rparr>"

record WithdrawalProof =
  wp_proof :: "bytes list"
  wp_withdrawalsRoot :: bytes
  wp_withdrawalIndex :: int

record WithdrawalsTree =
  wt_root :: bytes
  wt_leaves :: "bytes list"
  wt_proof :: "int \<Rightarrow> error + WithdrawalProof"

record Withdrawal =
  wd_recipient :: string
  wd_denom :: string
  wd_amount :: numeric

datatype TransitionRootVersion = V1 | V2

record WithdrawalsTreeOpts =
  wo_rollupId :: string
  wo_version :: TransitionRootVersion
  wo_chainId :: "string option"

definition assembleWithdrawalProof ::
  "(bytes \<Rightarrow> bytes) \<Rightarrow> bytes list \<Rightarrow> int \<Rightarrow> MerkleOptions \<Rightarrow> error + WithdrawalProof" where
  "assembleWithdrawalProof shake leaves withdrawalIndex options =
     res_bind (binaryMerkleProof shake leaves withdrawalIndex options) (\<lambda>p.
       Inr \<lparr>wp_proof = siblings p, wp_withdrawalsRoot = proof_root p,
            wp_withdrawalIndex = withdrawalIndex\<rparr>)"

definition tree_leaf ::
  "(bytes \<Rightarrow> bytes) \<Rightarrow> WithdrawalsTreeOpts \<Rightarrow> int \<times> Withdrawal \<Rightarrow> error + bytes" where
  "tree_leaf shake opts = (\<lambda>(i, w).
     let input = \<lparr>wl_rollupId = wo_rollupId opts, wl_withdrawalIndex = i,
                  wl_recipient = wd_recipient w, wl_denom = wd_denom w, wl_amount = wd_amount w\<rparr>
     in case wo_version opts of
          V2 \<Rightarrow> withdrawalLeafV2 shake (case wo_chainId opts of None \<Rightarrow> '''' | Some c \<Rightarrow> c) input
        | V1 \<Rightarrow> withdrawalLeafV1 shake input)"

definition withdrawalsTree ::
  "(bytes \<Rightarrow> bytes) \<Rightarrow> Withdrawal list \<Rightarrow> WithdrawalsTreeOpts \<Rightarrow> error + WithdrawalsTree" where
  "withdrawalsTree shake withdrawals opts =
     (if withdrawals = [] then Inl NoWithdrawals
      else res_bind (res_mapM (tree_leaf shake opts) (zip (map int [0..<length withdrawals]) withdrawals))
        (\<lambda>leaves. Inr
          \<lparr>wt_root = binaryMerkleRoot shake leaves CHAIN_TREE, wt_leaves = leaves,
           wt_proof = (\<lambda>i. assembleWithdrawalProof shake leaves i CHAIN_TREE)\<rparr>))"

record ExecuteWithdrawalInput =
  ew_submitter :: string
  ew_rollupId :: string
  ew_batchIndex :: numeric
  ew_withdrawalIndex :: numeric
  ew_recipient :: string
  ew_denom :: string
  ew_amount :: numeric
  ew_proof :: "bytes_like list option"

definition buildExecuteWithdrawalInput ::
  "string \<Rightarrow> string \<Rightarrow> numeric \<Rightarrow> string \<Rightarrow> string \<Rightarrow> numeric \<Rightarrow> WithdrawalProof \<Rightarrow> ExecuteWithdrawalInput" where
  "buildExecuteWithdrawalInput submitter rollupId batchIndex recipient denom amount withdrawal =
     \<lparr>ew_submitter = submitter, ew_rollupId = rollupId, ew_batchIndex = batchIndex,
      ew_withdrawalIndex = NNum (wp_withdrawalIndex withdrawal), ew_recipient = recipient,
      ew_denom = denom, ew_amount = amount, ew_proof = Some (map Raw (wp_proof withdrawal))\<rparr>"

subsection \<open>Trees\<close>

lemma resolved_CHAIN_TREE [simp]:
  "resolved shake CHAIN_TREE = \<lparr>hash = (\<lambda>d. shake d), hashLeaves = False, duplicateOdd = True\<rparr>"
  by (simp add: resolved_def CHAIN_TREE_def qorehash_def)

lemma withdrawalLeaf_length:
  assumes "\<And>d. length (shake d) = 32"
  shows "withdrawalLeafV1 shake w = Inr l \<Longrightarrow> length l = 32"
    and "withdrawalLeafV2 shake c w = Inr l \<Longrightarrow> length l = 32"
  using assms
  by (auto simp: withdrawalLeafV1_def withdrawalLeafV2_def qorehash_def res_simps split: if_splits)

lemma tree_leaf_length:
  assumes "\<And>d. length (shake d) = 32" "tree_leaf shake opts iw = Inr l"
  shows "length l = 32"
  using assms(2) withdrawalLeaf_length [OF assms(1)]
  by (auto simp: tree_leaf_def Let_def split: prod.splits TransitionRootVersion.splits)

lemma withdrawalsTree_eq_Inr:
  assumes "withdrawalsTree shake ws opts = Inr t"
  shows "ws \<noteq> []" "length (wt_leaves t) = length ws"
    and "i < length ws \<Longrightarrow> tree_leaf shake opts (int i, ws ! i) = Inr (wt_leaves t ! i)"
    and "wt_root t = binaryMerkleRoot shake (wt_leaves t) CHAIN_TREE"
    and "wt_proof t = (\<lambda>i. assembleWithdrawalProof shake (wt_leaves t) i CHAIN_TREE)"
  using assms
  by (auto simp: withdrawalsTree_def res_simps res_mapM_eq_Inr split: if_splits)

lemma withdrawalsTree_sizes:
  assumes "\<And>d. length (shake d) = 32" "withdrawalsTree shake ws opts = Inr t"
  shows "list_all (\<lambda>l. length l = 32) (wt_leaves t)"
  using tree_leaf_length [OF assms(1)] withdrawalsTree_eq_Inr(2,3) [OF assms(2)]
  by (fastforce simp: list_all_length)

lemma pairing_CHAIN_TREE: "pairing CHAIN_TREE = CHAIN_TREE"
  by (simp add: pairing_def CHAIN_TREE_def)

text \<open>Opening the tree at a position, by the interface of the Merkle code.\<close>

lemma wt_proof_opens:
  assumes "withdrawalsTree shake ws opts = Inr t" "0 \<le> i" "i < int (length ws)"
  shows "\<exists>p. wt_proof t i = Inr p \<and> wp_withdrawalIndex p = i \<and> wp_withdrawalsRoot p = wt_root t \<and>
    verifyBinaryMerkleProof shake (wt_leaves t ! nat i) i (wp_proof p) (wt_root t) CHAIN_TREE"
proof -
  note t = withdrawalsTree_eq_Inr [OF assms(1)]
  obtain p where "binaryMerkleProof shake (wt_leaves t) i CHAIN_TREE = Inr p"
    "proof_root p = wt_root t"
    using binaryMerkleProof_complete [of i "wt_leaves t" CHAIN_TREE shake] assms(2,3) t
    by (auto simp: CHAIN_TREE_def)
  with tree.open_accepts [of shake "wt_leaves t" i CHAIN_TREE p] show ?thesis
    by (simp add: t(4,5) assembleWithdrawalProof_def pairing_CHAIN_TREE)
qed

lemma wt_proof_sizes:
  assumes "\<And>d. length (shake d) = 32" "withdrawalsTree shake ws opts = Inr t"
    and "wt_proof t i = Inr p"
  shows "list_all (\<lambda>s. length s = 32) (wp_proof p)"
    and "length ws \<le> 2 ^ k \<Longrightarrow> length (wp_proof p) \<le> k"
proof -
  let ?o = "resolved shake CHAIN_TREE"
  note t = withdrawalsTree_eq_Inr [OF assms(2)]
  from assms(3) have i: "0 \<le> i" "i < int (length ws)"
    and p: "wp_proof p = fst (proof_loop ?o (wt_leaves t) (nat i) [])"
    by (auto simp: t(2,5) assembleWithdrawalProof_def binaryMerkleProof_def leafNodes_def Let_def
        split_beta res_simps split: if_splits)
  show "list_all (\<lambda>s. length s = 32) (wp_proof p)"
    unfolding p using i assms(1) withdrawalsTree_sizes [OF assms(1,2)] t(2)
    by (intro proof_loop_sizes) simp_all
  show "length (wp_proof p) \<le> k" if "length ws \<le> 2 ^ k"
    unfolding p using that t(2) by (intro proof_loop_depth) simp_all
qed

subsection \<open>What a leaf binds\<close>

text \<open>The fields of a leaf, as the chain reads them: integers at their 64-bit width.\<close>

definition leaf_fields :: "WithdrawalLeafInput \<Rightarrow> string \<times> int \<times> string \<times> string \<times> (error + int)" where
  "leaf_fields w = (wl_rollupId w, wl_withdrawalIndex w mod 2 ^ 64, wl_recipient w, wl_denom w,
     res_bind (js_BigInt (wl_amount w)) (\<lambda>a. Inr (a mod 2 ^ 64)))"

definition lp_bytes :: "string \<Rightarrow> bytes" where
  "lp_bytes s = lp_with u32be (utf8_encode s)"

definition short :: "string \<Rightarrow> bool" where
  "short s \<longleftrightarrow> int (length (utf8_encode s)) < 2 ^ 32"

interpretation lps: field_code lp_bytes short
proof
  fix a b :: string and xs ys
  assume "short a" "short b" "lp_bytes a @ xs = lp_bytes b @ ys"
  then show "a = b \<and> xs = ys"
    using u32.prefixed.split [of "utf8_encode a" "utf8_encode b" xs ys]
    by (simp add: lp_bytes_def short_def)
qed

lemma u64be_split: "u64be m @ xs = u64be n @ ys \<longleftrightarrow> m mod 2 ^ 64 = n mod 2 ^ 64 \<and> xs = ys"
  by (auto simp: u64be_inject append_eq_append_conv)

lemma leafV2_parts_eq:
  assumes "leafV2_parts c w = Inr ps"
  shows "\<exists>a. js_BigInt (wl_amount w) = Inr a \<and>
    concat ps = lp_bytes ''qorechain-rdk-withdrawal/v2'' @ lp_bytes c @ lp_bytes (wl_rollupId w) @
      u64be (wl_withdrawalIndex w) @ lp_bytes (wl_recipient w) @ lp_bytes (wl_denom w) @ u64be a"
  using assms
  by (auto simp: leafV2_parts_def u64be_num_def lp_def lp_bytes_def lp_with_def res_simps)

definition short_leaf :: "string \<Rightarrow> WithdrawalLeafInput \<Rightarrow> bool" where
  "short_leaf c w \<longleftrightarrow> short c \<and> short (wl_rollupId w) \<and> short (wl_recipient w) \<and> short (wl_denom w)"

lemma leafV2_parts_inject:
  assumes "leafV2_parts c w = Inr ps" "leafV2_parts d v = Inr qs" "concat ps = concat qs"
    and "short_leaf c w" "short_leaf d v"
  shows "c = d \<and> leaf_fields w = leaf_fields v"
proof -
  obtain a b where "js_BigInt (wl_amount w) = Inr a" "js_BigInt (wl_amount v) = Inr b"
    and "lp_bytes c @ lp_bytes (wl_rollupId w) @ u64be (wl_withdrawalIndex w) @
        lp_bytes (wl_recipient w) @ lp_bytes (wl_denom w) @ u64be a =
      lp_bytes d @ lp_bytes (wl_rollupId v) @ u64be (wl_withdrawalIndex v) @
        lp_bytes (wl_recipient v) @ lp_bytes (wl_denom v) @ u64be b"
    using leafV2_parts_eq [OF assms(1)] leafV2_parts_eq [OF assms(2)] assms(3) by auto
  with assms(4,5) show ?thesis
    by (simp add: short_leaf_def lps.append_iff lps.inject u64be_split u64be_inject leaf_fields_def)
qed

text \<open>
  The version 1 leaf ends a string with a zero byte. Strings without U+0000 are a field code under
  that terminator.
\<close>

definition zstring :: "string \<Rightarrow> bytes" where
  "zstring s = utf8_encode s @ ZERO"

definition no_nul :: "string \<Rightarrow> bool" where
  "no_nul s \<longleftrightarrow> list_all (\<lambda>c. code c \<noteq> 0) s"

lemma utf8_char_no_zero: "code c \<noteq> 0 \<Longrightarrow> 0 \<notin> set (utf8_char c)"
proof -
  assume "code c \<noteq> 0"
  moreover have "192 + code c div 64 < 256" "128 + code c mod 64 < 256"
    using code_less [of c] by auto
  ultimately show ?thesis
    using of_nat_byte_inject [of 0 "code c"] of_nat_byte_inject [of 0 "192 + code c div 64"]
      of_nat_byte_inject [of 0 "128 + code c mod 64"] code_less [of c]
    by (auto simp: utf8_char_def Let_def)
qed

lemma utf8_encode_no_zero: "no_nul s \<Longrightarrow> 0 \<notin> set (utf8_encode s)"
  using utf8_char_no_zero by (auto simp: no_nul_def utf8_encode_def list_all_iff)

lemma zero_terminated_split:
  assumes "(0 :: byte) \<notin> set a" "0 \<notin> set b" "a @ 0 # xs = b @ 0 # ys"
  shows "a = b \<and> xs = ys"
  using assms by (induction a arbitrary: b) (auto simp: Cons_eq_append_conv)

interpretation zs: field_code zstring no_nul
proof
  fix a b :: string and xs ys
  assume "no_nul a" "no_nul b" "zstring a @ xs = zstring b @ ys"
  then show "a = b \<and> xs = ys"
    using zero_terminated_split [of "utf8_encode a" "utf8_encode b" xs ys] utf8_encode_no_zero
    by (simp add: zstring_def ZERO_def)
qed

definition nul_free_leaf :: "WithdrawalLeafInput \<Rightarrow> bool" where
  "nul_free_leaf w \<longleftrightarrow> no_nul (wl_rollupId w) \<and> no_nul (wl_recipient w) \<and> no_nul (wl_denom w)"

lemma leafV1_parts_eq:
  assumes "leafV1_parts w = Inr ps"
  shows "\<exists>a. js_BigInt (wl_amount w) = Inr a \<and>
    concat ps = zstring (wl_rollupId w) @ u64be (wl_withdrawalIndex w) @ zstring (wl_recipient w) @
      zstring (wl_denom w) @ u64be a"
  using assms by (auto simp: leafV1_parts_def u64be_num_def zstring_def res_simps)

lemma leafV1_parts_inject:
  assumes "leafV1_parts w = Inr ps" "leafV1_parts v = Inr qs" "concat ps = concat qs"
    and "nul_free_leaf w" "nul_free_leaf v"
  shows "leaf_fields w = leaf_fields v"
proof -
  obtain a b where "js_BigInt (wl_amount w) = Inr a" "js_BigInt (wl_amount v) = Inr b"
    and "zstring (wl_rollupId w) @ u64be (wl_withdrawalIndex w) @ zstring (wl_recipient w) @
        zstring (wl_denom w) @ u64be a =
      zstring (wl_rollupId v) @ u64be (wl_withdrawalIndex v) @ zstring (wl_recipient v) @
        zstring (wl_denom v) @ u64be b"
    using leafV1_parts_eq [OF assms(1)] leafV1_parts_eq [OF assms(2)] assms(3) by auto
  with assms(4,5) show ?thesis
    by (simp add: nul_free_leaf_def zs.append_iff zs.inject u64be_split u64be_inject leaf_fields_def)
qed

subsection \<open>Properties\<close>

text \<open>
  C11: For a 32-byte hash, every withdrawal of a tree that \<open>withdrawalsTree\<close> builds has a proof: it
  names the tree's root and the withdrawal's index, all its siblings are 32 bytes, it has at most
  \<open>k\<close> of them when the batch holds at most \<open>2 ^ k\<close> withdrawals, and the verifier accepts it for
  exactly the leaf of that withdrawal at that index.
\<close>

theorem withdrawals_tree_proves_every_withdrawal:
  assumes "\<And>d. length (shake d) = 32" "withdrawalsTree shake ws opts = Inr t"
    and "i < length ws" "length ws \<le> 2 ^ k"
  shows "\<exists>p leaf. wt_proof t (int i) = Inr p \<and> tree_leaf shake opts (int i, ws ! i) = Inr leaf \<and>
    wp_withdrawalIndex p = int i \<and> wp_withdrawalsRoot p = wt_root t \<and>
    list_all (\<lambda>s. length s = 32) (wp_proof p) \<and> length (wp_proof p) \<le> k \<and>
    verifyBinaryMerkleProof shake leaf (int i) (wp_proof p) (wt_root t) CHAIN_TREE"
proof -
  obtain p where "wt_proof t (int i) = Inr p" "wp_withdrawalIndex p = int i"
    "wp_withdrawalsRoot p = wt_root t"
    "verifyBinaryMerkleProof shake (wt_leaves t ! i) (int i) (wp_proof p) (wt_root t) CHAIN_TREE"
    using wt_proof_opens [OF assms(2), of "int i"] assms(3) by auto
  with wt_proof_sizes [OF assms(1,2)] withdrawalsTree_eq_Inr(3) [OF assms(2,3)] assms(4)
  show ?thesis by blast
qed

definition sample_opts :: WithdrawalsTreeOpts where
  "sample_opts = \<lparr>wo_rollupId = ''r1'', wo_version = V2, wo_chainId = Some ''q''\<rparr>"

definition sample_withdrawals :: "Withdrawal list" where
  "sample_withdrawals =
     [\<lparr>wd_recipient = ''a'', wd_denom = ''u'', wd_amount = NNum 1\<rparr>,
      \<lparr>wd_recipient = ''b'', wd_denom = ''u'', wd_amount = NBig 2\<rparr>,
      \<lparr>wd_recipient = ''c'', wd_denom = ''u'', wd_amount = NStr ''3''\<rparr>]"

definition toy_hash :: "bytes \<Rightarrow> bytes" where
  "toy_hash d = take 32 (d @ replicate 32 0)"

lemma length_toy_hash [simp]: "length (toy_hash d) = 32"
  by (simp add: toy_hash_def)

lemma sample_tree_built: "\<exists>t. withdrawalsTree toy_hash sample_withdrawals sample_opts = Inr t"
proof -
  have "js_BigInt (NStr ''3'') = Inr 3" by code_simp
  then show ?thesis
    by (simp add: withdrawalsTree_def sample_withdrawals_def sample_opts_def tree_leaf_def
        withdrawalLeafV2_def leafV2_parts_def u64be_num_def del: js_BigInt.simps(3))
qed

lemma withdrawals_tree_proves_every_withdrawal_witness:
  "\<exists>t p leaf. withdrawalsTree toy_hash sample_withdrawals sample_opts = Inr t \<and>
     wt_proof t 2 = Inr p \<and> tree_leaf toy_hash sample_opts (2, sample_withdrawals ! 2) = Inr leaf \<and>
     length (wp_proof p) \<le> 2 \<and>
     verifyBinaryMerkleProof toy_hash leaf 2 (wp_proof p) (wt_root t) CHAIN_TREE"
proof -
  obtain t where t: "withdrawalsTree toy_hash sample_withdrawals sample_opts = Inr t"
    using sample_tree_built by blast
  from withdrawals_tree_proves_every_withdrawal [OF length_toy_hash t, of 2 2] show ?thesis
    using t by (auto simp: sample_withdrawals_def)
qed

text \<open>
  C16: The version 2 leaf binds the chain id and every field. When two leaves (of fields shorter than
  \<open>2 ^ 32\<close> bytes) hash to the same value, either the chain ids and all fields agree, integers at
  their 64-bit width, or the two byte strings that were hashed are different and collide.
\<close>

theorem withdrawal_leaf_v2_binds:
  assumes "withdrawalLeafV2 shake c w = Inr l" "withdrawalLeafV2 shake d v = Inr l"
    and "short_leaf c w" "short_leaf d v"
  shows "(c = d \<and> leaf_fields w = leaf_fields v) \<or>
    (\<exists>ps qs. leafV2_parts c w = Inr ps \<and> leafV2_parts d v = Inr qs \<and>
       concat ps \<noteq> concat qs \<and> shake (concat ps) = shake (concat qs))"
proof -
  obtain ps qs where pq: "leafV2_parts c w = Inr ps" "leafV2_parts d v = Inr qs"
    "shake (concat ps) = l" "shake (concat qs) = l"
    using assms(1,2) by (auto simp: withdrawalLeafV2_def qorehash_def res_simps split: if_splits)
  with leafV2_parts_inject [OF pq(1,2) _ assms(3,4)] show ?thesis by metis
qed

definition sample_leaf :: "string \<Rightarrow> WithdrawalLeafInput" where
  "sample_leaf rid = \<lparr>wl_rollupId = rid, wl_withdrawalIndex = 0, wl_recipient = ''a'',
     wl_denom = ''u'', wl_amount = NBig 7\<rparr>"

lemma withdrawal_leaf_v2_binds_witness:
  "\<exists>ps qs. leafV2_parts ''q1'' (sample_leaf ''r'') = Inr ps \<and>
     leafV2_parts ''q2'' (sample_leaf ''r'') = Inr qs \<and> concat ps \<noteq> concat qs"
proof -
  have small: "short_leaf ''q1'' (sample_leaf ''r'')" "short_leaf ''q2'' (sample_leaf ''r'')"
    by (simp_all add: short_leaf_def short_def sample_leaf_def utf8_encode_def utf8_char_def Let_def code_def)
  have "withdrawalLeafV2 (\<lambda>_. [0]) ''q1'' (sample_leaf ''r'') = Inr [0]"
    "withdrawalLeafV2 (\<lambda>_. [0]) ''q2'' (sample_leaf ''r'') = Inr [0]"
    by (simp_all add: withdrawalLeafV2_def leafV2_parts_def u64be_num_def sample_leaf_def qorehash_def)
  from withdrawal_leaf_v2_binds [OF this small] show ?thesis by auto
qed

text \<open>
  The version 1 leaf, whose strings end at a zero byte, binds its fields as far as the strings
  hold no U+0000: equal hashes of two such leaves give equal fields, integers at their 64-bit width,
  or the two different byte strings that collide.
\<close>

theorem withdrawal_leaf_v1_binds:
  assumes "withdrawalLeafV1 shake w = Inr l" "withdrawalLeafV1 shake v = Inr l"
    and "nul_free_leaf w" "nul_free_leaf v"
  shows "leaf_fields w = leaf_fields v \<or>
    (\<exists>ps qs. leafV1_parts w = Inr ps \<and> leafV1_parts v = Inr qs \<and>
       concat ps \<noteq> concat qs \<and> shake (concat ps) = shake (concat qs))"
proof -
  obtain ps qs where pq: "leafV1_parts w = Inr ps" "leafV1_parts v = Inr qs"
    "shake (concat ps) = l" "shake (concat qs) = l"
    using assms(1,2) by (auto simp: withdrawalLeafV1_def qorehash_def res_simps)
  with leafV1_parts_inject [OF pq(1,2) _ assms(3,4)] show ?thesis by metis
qed

lemma withdrawal_leaf_v1_binds_witness:
  "\<exists>ps qs. leafV1_parts (sample_leaf ''r'') = Inr ps \<and> leafV1_parts (sample_leaf ''s'') = Inr qs \<and>
     concat ps \<noteq> concat qs"
proof -
  have "nul_free_leaf (sample_leaf ''r'')" "nul_free_leaf (sample_leaf ''s'')"
    by (simp_all add: nul_free_leaf_def no_nul_def sample_leaf_def code_def)
  moreover have "withdrawalLeafV1 (\<lambda>_. [0]) (sample_leaf ''r'') = Inr [0]"
    "withdrawalLeafV1 (\<lambda>_. [0]) (sample_leaf ''s'') = Inr [0]"
    by (simp_all add: withdrawalLeafV1_def leafV1_parts_def u64be_num_def sample_leaf_def qorehash_def)
  moreover have "leaf_fields (sample_leaf ''r'') \<noteq> leaf_fields (sample_leaf ''s'')"
    by (simp add: leaf_fields_def sample_leaf_def)
  ultimately show ?thesis
    using withdrawal_leaf_v1_binds [of "\<lambda>_. [0]" "sample_leaf ''r''" "[0]" "sample_leaf ''s''"]
    by auto
qed

end
