(* ===== verification/Transition.thy ===== *)
theory Transition
  imports Withdrawal
begin

text \<open>
  The canonical batch transition root and the fraud proof built on it:
  \<open>packages/ts/src/transition/index.ts\<close>. The chain queries that choose the version are arguments of
  the two selection functions, as they are in the source.

  Shown: the version 2 root binds every field it covers, the version 1 root binds its fields for
  previous roots of one length, a version 2 root is never a version 2 withdrawal leaf unless SHAKE-256
  collides, and the fraud proof has exactly the layout the chain reads.
\<close>

subsection \<open>Operations\<close>

definition FEATURE_RDK_CHALLENGE_SETTLEMENT :: string where
  "FEATURE_RDK_CHALLENGE_SETTLEMENT = ''rdk-challenge-settlement''"

definition FEATURE_RDK_WITHDRAWALS_BINDING :: string where
  "FEATURE_RDK_WITHDRAWALS_BINDING = ''rdk-withdrawals-binding''"

definition WITHDRAWALS_BINDING_UPGRADE :: string where
  "WITHDRAWALS_BINDING_UPGRADE = ''v3.2.5''"

record TransitionInput =
  ti_prevStateRoot :: bytes_like
  ti_dataHash :: "bytes_like option"
  ti_txCount :: int
  ti_chainId :: "string option"
  ti_rollupId :: "string option"
  ti_withdrawalsRoot :: "bytes_like option"

definition shake32 :: "(bytes \<Rightarrow> bytes) \<Rightarrow> bytes list \<Rightarrow> bytes" where
  "shake32 shake parts = qorehash shake parts"

definition bytesOf :: "bytes_like option \<Rightarrow> error + bytes" where
  "bytesOf b = (case b of None \<Rightarrow> Inr [] | Some x \<Rightarrow> toBytes x)"

definition rootV1_parts :: "TransitionInput \<Rightarrow> error + bytes list" where
  "rootV1_parts input =
     res_bind (bytesOf (Some (ti_prevStateRoot input))) (\<lambda>prev.
     res_bind (bytesOf (ti_dataHash input)) (\<lambda>data.
       Inr [prev, data, u64be (ti_txCount input)]))"

definition batchTransitionRootV1 :: "(bytes \<Rightarrow> bytes) \<Rightarrow> TransitionInput \<Rightarrow> error + bytes" where
  "batchTransitionRootV1 shake input =
     res_bind (rootV1_parts input) (\<lambda>parts. Inr (shake32 shake parts))"

text \<open>\<open>!input.chainId\<close> holds for an absent and for an empty string.\<close>

definition falsy :: "string option \<Rightarrow> bool" where
  "falsy s \<longleftrightarrow> s = None \<or> s = Some ''''"

definition rootV2_parts :: "TransitionInput \<Rightarrow> error + bytes list" where
  "rootV2_parts input =
     (if falsy (ti_chainId input) \<or> falsy (ti_rollupId input) then Inl TransitionIdsMissing
      else
        res_bind (bytesOf (ti_withdrawalsRoot input)) (\<lambda>withdrawalsRoot.
        if length withdrawalsRoot \<noteq> 0 \<and> length withdrawalsRoot \<noteq> 32
        then Inl (WithdrawalsRootLength (length withdrawalsRoot))
        else
          res_bind (bytesOf (Some (ti_prevStateRoot input))) (\<lambda>prev.
          res_bind (bytesOf (ti_dataHash input)) (\<lambda>data. Inr
            (lp (utf8_encode ''qorechain-rdk-transition/v2'') @
             lp (utf8_encode (the (ti_chainId input))) @
             lp (utf8_encode (the (ti_rollupId input))) @
             lp prev @ lp data @ [u64be (ti_txCount input)] @ lp withdrawalsRoot)))))"

definition batchTransitionRootV2 :: "(bytes \<Rightarrow> bytes) \<Rightarrow> TransitionInput \<Rightarrow> error + bytes" where
  "batchTransitionRootV2 shake input =
     res_bind (rootV2_parts input) (\<lambda>parts. Inr (shake32 shake parts))"

definition batchTransitionRoot ::
  "(bytes \<Rightarrow> bytes) \<Rightarrow> TransitionInput \<Rightarrow> TransitionRootVersion \<Rightarrow> error + bytes" where
  "batchTransitionRoot shake input version =
     (case version of V2 \<Rightarrow> batchTransitionRootV2 shake input | V1 \<Rightarrow> batchTransitionRootV1 shake input)"

definition transitionRootVersionFor :: "(string \<Rightarrow> error + bool) \<Rightarrow> error + TransitionRootVersion" where
  "transitionRootVersionFor isProtocolFeatureEnabled =
     res_bind (isProtocolFeatureEnabled FEATURE_RDK_WITHDRAWALS_BINDING) (\<lambda>on.
       Inr (if on then V2 else V1))"

definition transitionRootVersionForBatch ::
  "(string \<Rightarrow> error + int) \<Rightarrow> int \<Rightarrow> bool option \<Rightarrow> error + TransitionRootVersion" where
  "transitionRootVersionForBatch getAppliedPlanHeight submittedAt withdrawalsBound =
     (if withdrawalsBound = Some True then Inr V2
      else res_bind (getAppliedPlanHeight WITHDRAWALS_BINDING_UPGRADE) (\<lambda>applied.
        Inr (if 0 < applied \<and> applied \<le> submittedAt then V2 else V1)))"

definition fraudProof :: "bytes_like \<Rightarrow> bytes_like \<Rightarrow> error + bytes" where
  "fraudProof prevStateRoot correctStateRoot =
     res_bind (toBytes prevStateRoot) (\<lambda>prev.
     res_bind (toBytes correctStateRoot) (\<lambda>correct.
       if length prev \<noteq> 32 \<or> length correct \<noteq> 32 then Inl FraudProofLength
       else Inr (prev @ correct)))"

subsection \<open>What the bindings cover\<close>

definition lpb :: "bytes \<Rightarrow> bytes" where
  "lpb b = lp_with u32be b"

definition short_bytes :: "bytes \<Rightarrow> bool" where
  "short_bytes b \<longleftrightarrow> int (length b) < 2 ^ 32"

interpretation lpbs: field_code lpb short_bytes
  unfolding lpb_def short_bytes_def by (rule u32.prefixed.field_code_axioms)

lemma concat_lp: "concat (lp b) = lpb b" "lpb (utf8_encode s) = lp_bytes s"
  by (simp_all add: lp_def lpb_def lp_bytes_def lp_with_def)

text \<open>The covered fields of the version 2 root, as the chain reads them, when the code accepts them.\<close>

definition root_fields ::
  "TransitionInput \<Rightarrow> string option \<times> string option \<times> (error + bytes) \<times> (error + bytes) \<times> int \<times> (error + bytes)"
where
  "root_fields i = (ti_chainId i, ti_rollupId i, toBytes (ti_prevStateRoot i), bytesOf (ti_dataHash i),
     ti_txCount i mod 2 ^ 64, bytesOf (ti_withdrawalsRoot i))"

definition short_input :: "TransitionInput \<Rightarrow> bool" where
  "short_input i \<longleftrightarrow>
     (case ti_chainId i of None \<Rightarrow> True | Some c \<Rightarrow> short c) \<and>
     (case ti_rollupId i of None \<Rightarrow> True | Some c \<Rightarrow> short c) \<and>
     (case toBytes (ti_prevStateRoot i) of Inl _ \<Rightarrow> True | Inr b \<Rightarrow> short_bytes b) \<and>
     (case bytesOf (ti_dataHash i) of Inl _ \<Rightarrow> True | Inr b \<Rightarrow> short_bytes b)"

lemma rootV2_parts_eq:
  assumes "rootV2_parts i = Inr ps"
  shows "\<exists>c r prev data wr. ti_chainId i = Some c \<and> ti_rollupId i = Some r \<and>
    toBytes (ti_prevStateRoot i) = Inr prev \<and> bytesOf (ti_dataHash i) = Inr data \<and>
    bytesOf (ti_withdrawalsRoot i) = Inr wr \<and> (length wr = 0 \<or> length wr = 32) \<and>
    concat ps = lp_bytes ''qorechain-rdk-transition/v2'' @ lp_bytes c @ lp_bytes r @ lpb prev @
      lpb data @ u64be (ti_txCount i) @ lpb wr"
  using assms
  by (auto simp: rootV2_parts_def falsy_def bytesOf_def res_simps concat_lp split: if_splits)

lemma rootV2_parts_inject:
  assumes "rootV2_parts i = Inr ps" "rootV2_parts j = Inr qs" "concat ps = concat qs"
    and "short_input i" "short_input j"
  shows "root_fields i = root_fields j"
proof -
  obtain c r p d w where i: "ti_chainId i = Some c" "ti_rollupId i = Some r"
    "toBytes (ti_prevStateRoot i) = Inr p" "bytesOf (ti_dataHash i) = Inr d"
    "bytesOf (ti_withdrawalsRoot i) = Inr w" "length w = 0 \<or> length w = 32"
    "concat ps = lp_bytes ''qorechain-rdk-transition/v2'' @ lp_bytes c @ lp_bytes r @ lpb p @
      lpb d @ u64be (ti_txCount i) @ lpb w"
    using rootV2_parts_eq [OF assms(1)] by blast
  obtain c' r' p' d' w' where j: "ti_chainId j = Some c'" "ti_rollupId j = Some r'"
    "toBytes (ti_prevStateRoot j) = Inr p'" "bytesOf (ti_dataHash j) = Inr d'"
    "bytesOf (ti_withdrawalsRoot j) = Inr w'" "length w' = 0 \<or> length w' = 32"
    "concat qs = lp_bytes ''qorechain-rdk-transition/v2'' @ lp_bytes c' @ lp_bytes r' @ lpb p' @
      lpb d' @ u64be (ti_txCount j) @ lpb w'"
    using rootV2_parts_eq [OF assms(2)] by blast
  have ok: "short c" "short r" "short_bytes p" "short_bytes d" "short_bytes w"
    "short c'" "short r'" "short_bytes p'" "short_bytes d'" "short_bytes w'"
    using assms(4,5) i j by (auto simp: short_input_def short_bytes_def)
  from assms(3) i(7) j(7) have "lp_bytes c @ lp_bytes r @ lpb p @ lpb d @ u64be (ti_txCount i) @ lpb w
    = lp_bytes c' @ lp_bytes r' @ lpb p' @ lpb d' @ u64be (ti_txCount j) @ lpb w'"
    by simp
  with ok have "c = c' \<and> r = r' \<and> p = p' \<and> d = d' \<and>
      ti_txCount i mod 2 ^ 64 = ti_txCount j mod 2 ^ 64 \<and> w = w'"
    by (simp add: lps.append_iff lpbs.append_iff lpbs.inject u64be_split)
  with i j show ?thesis by (simp add: root_fields_def)
qed

lemma rootV1_parts_eq:
  assumes "rootV1_parts i = Inr ps"
  shows "\<exists>prev data. toBytes (ti_prevStateRoot i) = Inr prev \<and> bytesOf (ti_dataHash i) = Inr data \<and>
    concat ps = prev @ data @ u64be (ti_txCount i)"
  using assms by (auto simp: rootV1_parts_def bytesOf_def res_simps)

lemma rootV1_parts_inject:
  assumes "rootV1_parts i = Inr ps" "rootV1_parts j = Inr qs" "concat ps = concat qs"
    and "toBytes (ti_prevStateRoot i) = Inr p" "toBytes (ti_prevStateRoot j) = Inr q"
    and "length p = length q"
  shows "p = q \<and> bytesOf (ti_dataHash i) = bytesOf (ti_dataHash j) \<and>
    ti_txCount i mod 2 ^ 64 = ti_txCount j mod 2 ^ 64"
proof -
  obtain d e where "bytesOf (ti_dataHash i) = Inr d" "bytesOf (ti_dataHash j) = Inr e"
    "p @ d @ u64be (ti_txCount i) = q @ e @ u64be (ti_txCount j)"
    using rootV1_parts_eq [OF assms(1)] rootV1_parts_eq [OF assms(2)] assms(3-5) by auto
  with assms(6) show ?thesis by (simp add: u64be_inject append_eq_append_conv)
qed

lemma tags_differ: "lp_bytes ''qorechain-rdk-transition/v2'' @ xs \<noteq> lp_bytes ''qorechain-rdk-withdrawal/v2'' @ ys"
proof -
  have "short ''qorechain-rdk-transition/v2''" "short ''qorechain-rdk-withdrawal/v2''"
    by (simp_all add: short_def utf8_encode_def utf8_char_def Let_def code_def)
  then show ?thesis by (simp add: lps.append_iff)
qed

subsection \<open>Properties\<close>

text \<open>
  C15: The version 2 transition root binds the chain id, the rollup id, the previous root, the data
  hash, the transaction count at its 64-bit width and the withdrawals root: two inputs with equal
  roots (and no field of \<open>2 ^ 32\<close> bytes or more) agree on all of them, or the two different byte
  strings that were hashed collide.
\<close>

theorem transition_root_v2_binds:
  assumes "batchTransitionRootV2 shake i = Inr r" "batchTransitionRootV2 shake j = Inr r"
    and "short_input i" "short_input j"
  shows "root_fields i = root_fields j \<or>
    (\<exists>ps qs. rootV2_parts i = Inr ps \<and> rootV2_parts j = Inr qs \<and>
       concat ps \<noteq> concat qs \<and> shake (concat ps) = shake (concat qs))"
proof -
  obtain ps qs where pq: "rootV2_parts i = Inr ps" "rootV2_parts j = Inr qs"
    "shake (concat ps) = r" "shake (concat qs) = r"
    using assms(1,2) by (auto simp: batchTransitionRootV2_def shake32_def qorehash_def res_simps)
  with rootV2_parts_inject [OF pq(1,2) _ assms(3,4)] show ?thesis by metis
qed

definition sample_input :: "int \<Rightarrow> TransitionInput" where
  "sample_input n = \<lparr>ti_prevStateRoot = Raw [1], ti_dataHash = None, ti_txCount = n,
     ti_chainId = Some ''q'', ti_rollupId = Some ''r'', ti_withdrawalsRoot = None\<rparr>"

lemma sample_input_short: "short_input (sample_input n)"
  by (simp add: short_input_def sample_input_def short_def short_bytes_def bytesOf_def utf8_encode_def
      utf8_char_def Let_def code_def)

lemma sample_input_root: "batchTransitionRootV2 (\<lambda>_. [0]) (sample_input n) = Inr [0]"
  by (simp add: batchTransitionRootV2_def rootV2_parts_def falsy_def sample_input_def bytesOf_def
      shake32_def qorehash_def)

lemma transition_root_v2_binds_witness:
  "\<exists>ps qs. rootV2_parts (sample_input 1) = Inr ps \<and> rootV2_parts (sample_input 2) = Inr qs \<and>
     concat ps \<noteq> concat qs"
  using transition_root_v2_binds [OF sample_input_root [of 1] sample_input_root [of 2]
      sample_input_short sample_input_short]
  by (auto simp: root_fields_def sample_input_def)

text \<open>
  Domain separation. A value that is both a version 2 transition root and a version 2 withdrawal
  leaf comes from two different byte strings that collide: neither construction can be passed off as
  the other.
\<close>

theorem transition_root_is_no_withdrawal_leaf:
  assumes "batchTransitionRootV2 shake i = Inr h" "withdrawalLeafV2 shake c w = Inr h"
  shows "\<exists>ps qs. rootV2_parts i = Inr ps \<and> leafV2_parts c w = Inr qs \<and>
    concat ps \<noteq> concat qs \<and> shake (concat ps) = shake (concat qs)"
proof -
  obtain ps qs where pq: "rootV2_parts i = Inr ps" "leafV2_parts c w = Inr qs"
    "shake (concat ps) = h" "shake (concat qs) = h"
    using assms
    by (auto simp: batchTransitionRootV2_def withdrawalLeafV2_def shake32_def qorehash_def res_simps
        split: if_splits)
  moreover have "concat ps \<noteq> concat qs"
    using rootV2_parts_eq [OF pq(1)] leafV2_parts_eq [OF pq(2)] tags_differ by metis
  ultimately show ?thesis by metis
qed

lemma transition_root_is_no_withdrawal_leaf_witness:
  "\<exists>ps qs. rootV2_parts (sample_input 1) = Inr ps \<and> leafV2_parts ''q'' (sample_leaf ''r'') = Inr qs \<and>
     concat ps \<noteq> concat qs"
proof -
  have "withdrawalLeafV2 (\<lambda>_. [0]) ''q'' (sample_leaf ''r'') = Inr [0]"
    by (simp add: withdrawalLeafV2_def leafV2_parts_def u64be_num_def sample_leaf_def qorehash_def)
  from transition_root_is_no_withdrawal_leaf [OF sample_input_root [of 1] this] show ?thesis by blast
qed

text \<open>
  The version 1 root concatenates the previous root and the data hash with no length between them.
  Two inputs whose previous roots have the same length and whose version 1 roots are equal agree on
  the previous root, the data hash and the 64-bit transaction count, or exhibit a collision.
\<close>

theorem transition_root_v1_binds:
  assumes "batchTransitionRootV1 shake i = Inr r" "batchTransitionRootV1 shake j = Inr r"
    and "toBytes (ti_prevStateRoot i) = Inr p" "toBytes (ti_prevStateRoot j) = Inr q"
    and "length p = length q"
  shows "(p = q \<and> bytesOf (ti_dataHash i) = bytesOf (ti_dataHash j) \<and>
     ti_txCount i mod 2 ^ 64 = ti_txCount j mod 2 ^ 64) \<or>
    (\<exists>ps qs. rootV1_parts i = Inr ps \<and> rootV1_parts j = Inr qs \<and>
       concat ps \<noteq> concat qs \<and> shake (concat ps) = shake (concat qs))"
proof -
  obtain ps qs where pq: "rootV1_parts i = Inr ps" "rootV1_parts j = Inr qs"
    "shake (concat ps) = r" "shake (concat qs) = r"
    using assms(1,2) by (auto simp: batchTransitionRootV1_def shake32_def qorehash_def res_simps)
  with rootV1_parts_inject [OF pq(1,2) _ assms(3-5)] show ?thesis by metis
qed

lemma transition_root_v1_binds_witness:
  "\<exists>ps qs. rootV1_parts (sample_input 1) = Inr ps \<and> rootV1_parts (sample_input 2) = Inr qs \<and>
     concat ps \<noteq> concat qs"
proof -
  have "batchTransitionRootV1 (\<lambda>_. [0]) (sample_input n) = Inr [0]" for n
    by (simp add: batchTransitionRootV1_def rootV1_parts_def sample_input_def bytesOf_def
        shake32_def qorehash_def)
  from transition_root_v1_binds [OF this [of 1] this [of 2], of "[1]" "[1]"] show ?thesis
    by (auto simp: sample_input_def)
qed

text \<open>
  \<open>fraudProof\<close> returns the 32 bytes of the previous root followed by the 32 bytes of the correct
  root, from which both are read back, and refuses every other pair of lengths; a malformed hex string
  is refused before the lengths are looked at.
\<close>

theorem fraud_proof_layout:
  "fraudProof a b =
     (case (toBytes a, toBytes b) of
        (Inl e, _) \<Rightarrow> Inl e
      | (Inr _, Inl e) \<Rightarrow> Inl e
      | (Inr p, Inr c) \<Rightarrow> if length p = 32 \<and> length c = 32 then Inr (p @ c) else Inl FraudProofLength) \<and>
   (\<forall>out. fraudProof a b = Inr out \<longrightarrow> length out = 64 \<and>
      toBytes a = Inr (take 32 out) \<and> toBytes b = Inr (drop 32 out))"
  by (auto simp: fraudProof_def res_simps split: sum.splits if_splits)

lemma fraud_proof_layout_witness:
  "length (replicate 32 1 @ replicate 32 2 :: bytes) = 64 \<and>
   fraudProof (Raw (replicate 32 1)) (Raw (replicate 32 2)) = Inr (replicate 32 1 @ replicate 32 2)"
  using fraud_proof_layout [of "Raw (replicate 32 1)" "Raw (replicate 32 2)"] by simp

end
