(* ===== verification/Lifecycle.thy ===== *)
theory Lifecycle
  imports Prelude
begin

text \<open>
  The rollup and settlement-batch lifecycles of \<open>packages/ts/src/lifecycle/state-machine.ts\<close>, with the
  status values of \<open>config/enums.ts\<close> they range over: the action table, the batch transition table as
  a step relation, and the challenge window under both of the chain's rules.

  Shown: a batch settles after at most two steps, rejection only follows a challenge, the settled
  statuses are the ones with no successor; a window never is neither open nor finalizable, and it is
  both only at one height of the block rule.
\<close>

subsection \<open>Statuses and tables\<close>

datatype RollupStatus = pending | active | paused | stopped

datatype BatchStatus = submitted | challenged | finalized | rejected

datatype RollupAction = pause | resume | stop

fun rollupStatusName :: "RollupStatus \<Rightarrow> string" where
  "rollupStatusName pending = ''pending''"
| "rollupStatusName active = ''active''"
| "rollupStatusName paused = ''paused''"
| "rollupStatusName stopped = ''stopped''"

fun batchStatusName :: "BatchStatus \<Rightarrow> string" where
  "batchStatusName submitted = ''submitted''"
| "batchStatusName challenged = ''challenged''"
| "batchStatusName finalized = ''finalized''"
| "batchStatusName rejected = ''rejected''"

fun rollupActionName :: "RollupAction \<Rightarrow> string" where
  "rollupActionName pause = ''pause''"
| "rollupActionName resume = ''resume''"
| "rollupActionName stop = ''stop''"

fun ROLLUP_ACTION_FROM :: "RollupAction \<Rightarrow> RollupStatus list" where
  "ROLLUP_ACTION_FROM pause = [active]"
| "ROLLUP_ACTION_FROM resume = [paused]"
| "ROLLUP_ACTION_FROM stop = [active, paused]"

definition canPerformRollupAction :: "RollupAction \<Rightarrow> RollupStatus \<Rightarrow> bool" where
  "canPerformRollupAction action status \<longleftrightarrow> status \<in> set (ROLLUP_ACTION_FROM action)"

definition assertRollupAction :: "RollupAction \<Rightarrow> RollupStatus \<Rightarrow> error + unit" where
  "assertRollupAction action status =
     (if \<not> canPerformRollupAction action status
      then Inl (RollupActionRefused (rollupActionName action) (rollupStatusName status))
      else Inr ())"

fun BATCH_TRANSITIONS :: "BatchStatus \<Rightarrow> BatchStatus list" where
  "BATCH_TRANSITIONS submitted = [finalized, challenged]"
| "BATCH_TRANSITIONS challenged = [rejected, finalized]"
| "BATCH_TRANSITIONS finalized = []"
| "BATCH_TRANSITIONS rejected = []"

definition isBatchFinal :: "BatchStatus \<Rightarrow> bool" where
  "isBatchFinal status \<longleftrightarrow> length (BATCH_TRANSITIONS status) = 0"

subsection \<open>Challenge windows\<close>

definition challengeWindowDeadline :: "int \<Rightarrow> int \<Rightarrow> int" where
  "challengeWindowDeadline submittedAtSecs windowSecs = submittedAtSecs + windowSecs"

definition isChallengeWindowClosed :: "int \<Rightarrow> int \<Rightarrow> int \<Rightarrow> bool" where
  "isChallengeWindowClosed submittedAtSecs windowSecs nowSecs \<longleftrightarrow>
     challengeWindowDeadline submittedAtSecs windowSecs \<le> nowSecs"

datatype window_mode = Time | Blocks

record ChallengeWindowStatus =
  cw_mode :: window_mode
  cw_open :: bool
  cw_finalizable :: bool
  cw_deadlineSecs :: "int option"
  cw_secondsRemaining :: "int option"
  cw_windowBlocks :: "int option"
  cw_deadlineHeight :: "int option"
  cw_blocksRemaining :: "int option"

record ChainTip =
  tip_height :: int
  tip_timeSecs :: int

text \<open>\<open>Math.floor (windowSecs / 6)\<close> is integer division for the whole seconds a window has.\<close>

definition batchChallengeWindow ::
  "int \<Rightarrow> int option \<Rightarrow> int \<Rightarrow> ChainTip \<Rightarrow> ChallengeWindowStatus" where
  "batchChallengeWindow submittedAt submittedTime0 windowSecs tip =
     (let submittedTime = (case submittedTime0 of None \<Rightarrow> 0 | Some t \<Rightarrow> t) in
      if 0 < submittedTime then
        let elapsed = tip_timeSecs tip - submittedTime;
            elapsedFully = (0 \<le> elapsed \<and> windowSecs \<le> elapsed);
            deadlineSecs = submittedTime + windowSecs
        in \<lparr>cw_mode = Time, cw_open = (\<not> elapsedFully), cw_finalizable = elapsedFully,
            cw_deadlineSecs = Some deadlineSecs,
            cw_secondsRemaining = Some (deadlineSecs - tip_timeSecs tip),
            cw_windowBlocks = None, cw_deadlineHeight = None, cw_blocksRemaining = None\<rparr>
      else
        let windowBlocks = windowSecs div 6;
            sinceSubmit = tip_height tip - submittedAt;
            deadlineHeight = submittedAt + windowBlocks
        in \<lparr>cw_mode = Blocks, cw_open = (sinceSubmit \<le> windowBlocks),
            cw_finalizable = (windowBlocks \<le> sinceSubmit),
            cw_deadlineSecs = None, cw_secondsRemaining = None,
            cw_windowBlocks = Some windowBlocks, cw_deadlineHeight = Some deadlineHeight,
            cw_blocksRemaining = Some (deadlineHeight - tip_height tip)\<rparr>)"

subsection \<open>The batch state machine\<close>

inductive batch_step :: "BatchStatus \<Rightarrow> BatchStatus \<Rightarrow> bool" where
  move: "t \<in> set (BATCH_TRANSITIONS s) \<Longrightarrow> batch_step s t"

text \<open>A run of the machine, with the statuses it visits.\<close>

inductive batch_run :: "BatchStatus \<Rightarrow> BatchStatus list \<Rightarrow> BatchStatus \<Rightarrow> bool" where
  here: "batch_run s [s] s"
| there: "batch_run s vs t \<Longrightarrow> batch_step t u \<Longrightarrow> batch_run s (vs @ [u]) u"

inductive_cases batch_stepE: "batch_step s t"
inductive_simps batch_step_iff: "batch_step s t"

fun rank :: "BatchStatus \<Rightarrow> nat" where
  "rank submitted = 2"
| "rank challenged = 1"
| "rank finalized = 0"
| "rank rejected = 0"

lemma batch_step_rank: "batch_step s t \<Longrightarrow> rank t < rank s"
  by (cases s) (auto simp: batch_step_iff)

lemma batch_run_rank: "batch_run s vs t \<Longrightarrow> rank t + length vs \<le> rank s + 1"
proof (induction rule: batch_run.induct)
  case (there s vs t u)
  with batch_step_rank [of t u] show ?case by simp
qed simp

lemma batch_run_last: "batch_run s vs t \<Longrightarrow> t \<in> set vs"
  by (induction rule: batch_run.induct) auto

lemma batch_run_rejected:
  "batch_run s vs t \<Longrightarrow> t = rejected \<Longrightarrow> s \<noteq> rejected \<Longrightarrow> challenged \<in> set vs"
proof (induction rule: batch_run.induct)
  case (there s vs t u)
  then have "t = challenged" by (cases t) (auto simp: batch_step_iff)
  with batch_run_last [OF there.hyps(1)] show ?case by simp
qed simp

lemma isBatchFinal_iff: "isBatchFinal s \<longleftrightarrow> s = finalized \<or> s = rejected"
  by (cases s) (simp_all add: isBatchFinal_def)

lemma isBatchFinal_stuck: "isBatchFinal s \<longleftrightarrow> (\<nexists>t. batch_step s t)"
proof -
  have "(\<nexists>t. t \<in> set (BATCH_TRANSITIONS s)) \<longleftrightarrow> BATCH_TRANSITIONS s = []"
    by (cases "BATCH_TRANSITIONS s") auto
  then show ?thesis by (simp add: batch_step_iff isBatchFinal_def)
qed

subsection \<open>Properties\<close>

text \<open>
  The batch lifecycle settles. A status is final exactly when it has no successor, every run from
  any status takes at most two steps, a run that cannot be extended has ended in \<open>finalized\<close> or
  \<open>rejected\<close>, and a batch that was not rejected from the start becomes rejected only by a run that
  visits \<open>challenged\<close>.
\<close>

theorem batch_lifecycle_settles:
  assumes "batch_run s vs t"
  shows "length vs \<le> 3 \<and> (isBatchFinal t \<longleftrightarrow> (\<nexists>u. batch_step t u)) \<and>
    ((\<nexists>u. batch_step t u) \<longleftrightarrow> t = finalized \<or> t = rejected) \<and>
    (t = rejected \<and> s \<noteq> rejected \<longrightarrow> challenged \<in> set vs)"
proof -
  have "rank s \<le> 2" by (cases s) simp_all
  then have "length vs \<le> 3" using batch_run_rank [OF assms] by simp
  then show ?thesis
    using batch_run_rejected [OF assms] isBatchFinal_stuck [of t] isBatchFinal_iff [of t] by blast
qed

lemma batch_lifecycle_settles_witness:
  "batch_run submitted [submitted, challenged, rejected] rejected \<and> challenged \<in> set [submitted, challenged, rejected]"
proof -
  have "batch_step submitted challenged" "batch_step challenged rejected"
    by (simp_all add: batch_step_iff)
  then have "batch_run submitted (([submitted] @ [challenged]) @ [rejected]) rejected"
    by (blast intro: batch_run.intros)
  then have r: "batch_run submitted [submitted, challenged, rejected] rejected" by simp
  with batch_lifecycle_settles [OF r] show ?thesis by simp
qed

text \<open>
  The challenge window. By time, a batch is open exactly while it is not finalizable, and it is
  finalizable exactly when \<open>isChallengeWindowClosed\<close> says the deadline has passed. By blocks, it is
  always open or finalizable, and both exactly at the deadline height. Under either rule a later tip
  never reopens a closed window nor withdraws finalizability.
\<close>

theorem challenge_window_rules:
  assumes "0 \<le> windowSecs" "tip_height tip \<le> tip_height later" "tip_timeSecs tip \<le> tip_timeSecs later"
    and "w = batchChallengeWindow submittedAt submittedTime windowSecs"
  shows "(cw_mode (w tip) = Time \<longrightarrow> (cw_open (w tip) \<longleftrightarrow> \<not> cw_finalizable (w tip)) \<and>
       (\<exists>t. submittedTime = Some t \<and> 0 < t \<and>
          (cw_finalizable (w tip) \<longleftrightarrow> isChallengeWindowClosed t windowSecs (tip_timeSecs tip)))) \<and>
    (cw_mode (w tip) = Blocks \<longrightarrow> (cw_open (w tip) \<or> cw_finalizable (w tip)) \<and>
       (cw_open (w tip) \<and> cw_finalizable (w tip) \<longleftrightarrow> cw_deadlineHeight (w tip) = Some (tip_height tip)) \<and>
       (\<exists>r. cw_blocksRemaining (w tip) = Some r \<and> (cw_open (w tip) \<longleftrightarrow> 0 \<le> r))) \<and>
    (cw_finalizable (w tip) \<longrightarrow> cw_finalizable (w later)) \<and>
    (cw_open (w later) \<longrightarrow> cw_open (w tip)) \<and> cw_mode (w later) = cw_mode (w tip)"
  using assms(1-3) unfolding assms(4)
  by (auto simp: batchChallengeWindow_def Let_def isChallengeWindowClosed_def
      challengeWindowDeadline_def split: option.splits)

lemma challenge_window_rules_witness:
  "let tip = \<lparr>tip_height = 110, tip_timeSecs = 0\<rparr>; w = batchChallengeWindow 100 None 60 tip in
   cw_open w \<and> cw_finalizable w \<and> cw_deadlineHeight w = Some 110 \<and>
   cw_finalizable (batchChallengeWindow 100 None 60 \<lparr>tip_height = 111, tip_timeSecs = 6\<rparr>)"
proof -
  let ?tip = "\<lparr>tip_height = 110, tip_timeSecs = 0\<rparr>"
  have "cw_mode (batchChallengeWindow 100 None 60 ?tip) = Blocks"
    "cw_deadlineHeight (batchChallengeWindow 100 None 60 ?tip) = Some 110"
    by (simp_all add: batchChallengeWindow_def)
  then show ?thesis
    using challenge_window_rules [of 60 ?tip "\<lparr>tip_height = 111, tip_timeSecs = 6\<rparr>"
        "batchChallengeWindow 100 None 60" 100 None]
    by (simp add: Let_def)
qed

text \<open>
  \<open>assertRollupAction\<close> lets an action through exactly from the statuses its table row lists, and
  otherwise throws the error that names the action and the status; nothing is allowed on a pending or
  a stopped rollup, and no status allows both pausing and resuming.
\<close>

theorem rollup_actions_guarded:
  "(assertRollupAction a s = Inr () \<longleftrightarrow>
      (a = pause \<and> s = active) \<or> (a = resume \<and> s = paused) \<or> (a = stop \<and> s \<in> {active, paused})) \<and>
   assertRollupAction a s \<in> {Inr (), Inl (RollupActionRefused (rollupActionName a) (rollupStatusName s))} \<and>
   assertRollupAction a pending \<noteq> Inr () \<and> assertRollupAction a stopped \<noteq> Inr () \<and>
   \<not> (canPerformRollupAction pause s \<and> canPerformRollupAction resume s)"
  by (cases a; cases s) (simp_all add: assertRollupAction_def canPerformRollupAction_def)

end
