(* ===== verification/Rules.thy ===== *)
theory Rules
  imports Transition Lifecycle
begin

text \<open>
  The client-side copies of the chain's rules, \<open>packages/ts/src/rules/index.ts\<close>. Bech32 decoding is
  third-party code, the parameter \<open>bech32\<close>, which gives the prefix and the data of an address or
  \<open>None\<close> where the library throws. The reasons are the strings the code returns.

  Shown: \<open>rollupIdError\<close> decides exactly the documented grammar, ids of the grammar cannot run into
  each other when joined with \<open>/\<close>, \<open>withdrawalErrors\<close> is empty exactly under the listed conditions and
  is empty for every message assembled from a withdrawals tree, and \<open>stopRollupError\<close> agrees with the
  batch lifecycle.
\<close>

subsection \<open>Operations\<close>

definition ID_MIN_LENGTH :: nat where
  "ID_MIN_LENGTH = 3"

definition ID_MAX_LENGTH :: nat where
  "ID_MAX_LENGTH = 64"

definition lowerOrDigit :: "char \<Rightarrow> bool" where
  "lowerOrDigit c \<longleftrightarrow> (97 \<le> code c \<and> code c \<le> 122) \<or> (48 \<le> code c \<and> code c \<le> 57)"

text \<open>A text between single quotation marks.\<close>

definition apos :: "string \<Rightarrow> string" where
  "apos s = CHR 0x27 # s @ [CHR 0x27]"

text \<open>The \<open>for\<close> loop over the characters, at position \<open>i\<close>.\<close>

fun id_loop :: "nat \<Rightarrow> string \<Rightarrow> string option" where
  "id_loop i [] = None"
| "id_loop i (c # cs) =
     (if lowerOrDigit c then id_loop (i + 1) cs
      else if c \<in> set ''._-'' \<and> 0 < i then id_loop (i + 1) cs
      else Some (if i = 0 then ''must start with a lowercase letter or a digit''
                 else ''may contain only lowercase letters, digits, '' @ apos ''.'' @ '', '' @
                      apos ''_'' @ '' and '' @ apos ''-''))"

definition rollupIdError :: "string \<Rightarrow> string option" where
  "rollupIdError i =
     (let len = length (utf8_encode i) in
      if len < ID_MIN_LENGTH \<or> ID_MAX_LENGTH < len
      then Some (''must be '' @ show_nat ID_MIN_LENGTH @ '' to '' @ show_nat ID_MAX_LENGTH @ '' characters'')
      else id_loop 0 i)"

definition isValidRollupId :: "string \<Rightarrow> bool" where
  "isValidRollupId i \<longleftrightarrow> rollupIdError i = None"

definition ROLLUP_ESCROW_DENOM :: string where
  "ROLLUP_ESCROW_DENOM = ''uqor''"

definition MAX_WITHDRAWAL_PROOF_DEPTH :: nat where
  "MAX_WITHDRAWAL_PROOF_DEPTH = 64"

record WithdrawalForValidation =
  wv_submitter :: string
  wv_rollupId :: string
  wv_recipient :: string
  wv_denom :: string
  wv_amount :: numeric
  wv_proof :: "bytes_like list option"

type_synonym bech32_decoder = "string \<Rightarrow> (string \<times> nat list) option"

definition isBech32 :: "bech32_decoder \<Rightarrow> string \<Rightarrow> bool" where
  "isBech32 bech32 address \<longleftrightarrow> bech32 address \<noteq> None"

fun byteLength :: "bytes_like \<Rightarrow> int" where
  "byteLength (Raw b) = int (length b)"
| "byteLength (Hex x) =
     (let h = strip0x x in
      if length h mod 2 = 0 \<and> list_all is_hex_char h then int (length h div 2) else - 1)"

definition quote :: "string \<Rightarrow> string" where
  "quote s = ''\"'' @ s @ ''\"''"

definition level_error :: "nat \<times> bytes_like \<Rightarrow> string list" where
  "level_error = (\<lambda>(i, sibling).
     let n = byteLength sibling in
     if n \<noteq> 32 then [''proof level '' @ show_nat i @ '' is '' @
       (if n < 0 then ''not valid hex'' else show_int n @ '' bytes'') @ '', want 32''] else [])"

definition withdrawalErrors :: "bech32_decoder \<Rightarrow> WithdrawalForValidation \<Rightarrow> string list" where
  "withdrawalErrors bech32 w =
     (let proof = (case wv_proof w of None \<Rightarrow> [] | Some p \<Rightarrow> p);
          positive = res_catch (res_bind (js_BigInt (wv_amount w)) (\<lambda>a. Inr (0 < a))) (\<lambda>_. False)
      in (if \<not> isBech32 bech32 (wv_submitter w)
          then [''invalid submitter address '' @ quote (wv_submitter w)] else []) @
         (if wv_rollupId w = '''' then [''rollup_id cannot be empty''] else []) @
         (if \<not> isBech32 bech32 (wv_recipient w)
          then [''invalid recipient address '' @ quote (wv_recipient w)] else []) @
         (if wv_denom w \<noteq> ROLLUP_ESCROW_DENOM
          then [''denom '' @ quote (wv_denom w) @ '': rollup escrow is held in '' @ ROLLUP_ESCROW_DENOM @ '' only'']
          else []) @
         (if \<not> positive then [''amount must be a positive integer''] else []) @
         (if MAX_WITHDRAWAL_PROOF_DEPTH < length proof
          then [''proof has '' @ show_nat (length proof) @ '' levels, at most '' @
                show_nat MAX_WITHDRAWAL_PROOF_DEPTH] else []) @
         concat (map level_error (zip [0..<length proof] proof)))"

definition dataHashError :: "string \<Rightarrow> bytes_like option \<Rightarrow> string option" where
  "dataHashError daBackend dataHash =
     (let isEmpty = (case dataHash of None \<Rightarrow> True | Some (Hex s) \<Rightarrow> strip0x s = ''''
                     | Some (Raw b) \<Rightarrow> length b = 0) in
      if isEmpty \<or> (daBackend \<noteq> ''native'' \<and> daBackend \<noteq> ''both'') then None
      else Some (''dataHash must be empty on a rollup with '' @ daBackend @
        '' data availability: no transaction stores '' @
        ''a data-availability blob on chain, so the chain refuses a batch that claims one''))"

text \<open>
  \<open>withdrawalsRoot.length / 2\<close> of an odd-length text is a fraction, so the model keeps the length in
  half bytes and prints the half.
\<close>

definition show_half :: "nat \<Rightarrow> string" where
  "show_half h = (if even h then show_nat (h div 2) else show_nat (h div 2) @ ''.5'')"

definition withdrawalsRootError :: "bytes_like option \<Rightarrow> string option" where
  "withdrawalsRootError withdrawalsRoot =
     (case withdrawalsRoot of
        None \<Rightarrow> None
      | Some r \<Rightarrow>
          let halves = (case r of Hex s \<Rightarrow> length (strip0x s) | Raw b \<Rightarrow> 2 * length b) in
          if halves = 0 \<or> halves = 64 then None
          else Some (''withdrawalsRoot must be empty or 32 bytes, got '' @ show_half halves))"

definition MAX_PENDING_OPTIMISTIC_BATCHES :: int where
  "MAX_PENDING_OPTIMISTIC_BATCHES = 4096"

definition stopRollupError :: "string option \<Rightarrow> string option" where
  "stopRollupError latestBatchStatus =
     (case latestBatchStatus of
        None \<Rightarrow> None
      | Some s \<Rightarrow>
          if s = ''submitted'' \<or> s = ''challenged''
          then Some (''the rollup'' @ [CHR 0x27] @ ''s latest batch is '' @ s @
                 ''; stop it once that batch is finalized or rejected'')
          else None)"

subsection \<open>The id grammar\<close>

text \<open>The regular expression \<open>^[a-z0-9][a-z0-9._-]{2,63}$\<close> of the chain, written as a predicate.\<close>

definition id_grammar :: "string \<Rightarrow> bool" where
  "id_grammar s \<longleftrightarrow> (case s of [] \<Rightarrow> False | c # cs \<Rightarrow>
     lowerOrDigit c \<and> list_all (\<lambda>d. lowerOrDigit d \<or> d \<in> set ''._-'') cs \<and>
     2 \<le> length cs \<and> length cs \<le> 63)"

definition id_char :: "char \<Rightarrow> bool" where
  "id_char d \<longleftrightarrow> lowerOrDigit d \<or> d \<in> set ''._-''"

lemma id_loop_None:
  "id_loop i s = None \<longleftrightarrow> list_all id_char s \<and> (i = 0 \<longrightarrow> s \<noteq> [] \<longrightarrow> lowerOrDigit (hd s))"
  by (induction i s rule: id_loop.induct) (auto simp: id_char_def)

lemma id_char_ascii: "id_char c \<Longrightarrow> code c < 128 \<and> c \<noteq> CHR ''/''"
  by (auto simp: id_char_def lowerOrDigit_def code_def)

lemma utf8_ascii_length: "list_all (\<lambda>c. code c < 128) s \<Longrightarrow> length (utf8_encode s) = length s"
  by (induction s) (simp_all add: utf8_encode_Cons utf8_char_def Let_def)

lemma id_chars_length: "list_all id_char s \<Longrightarrow> length (utf8_encode s) = length s"
  by (rule utf8_ascii_length) (auto simp: list_all_iff dest: id_char_ascii)

lemma rollupIdError_None:
  "rollupIdError s = None \<longleftrightarrow> list_all id_char s \<and> s \<noteq> [] \<and> lowerOrDigit (hd s) \<and> 3 \<le> length s \<and> length s \<le> 64"
  using id_chars_length [of s]
  by (auto simp: rollupIdError_def Let_def id_loop_None ID_MIN_LENGTH_def ID_MAX_LENGTH_def)

lemma id_grammar_iff: "id_grammar s \<longleftrightarrow> rollupIdError s = None"
  by (cases s) (auto simp: id_grammar_def rollupIdError_None id_char_def list_all_iff)

lemma slash_free: "isValidRollupId s \<Longrightarrow> CHR ''/'' \<notin> set s"
  using id_char_ascii by (auto simp: isValidRollupId_def rollupIdError_None list_all_iff)

lemma split_at_first:
  assumes "c \<notin> set a" "c \<notin> set b" "a @ c # xs = b @ c # ys"
  shows "a = b \<and> xs = ys"
  using assms by (induction a arbitrary: b) (auto simp: Cons_eq_append_conv)

subsection \<open>Withdrawals\<close>

lemma level_errors_Nil:
  "concat (map level_error (zip [0..<length p] p)) = [] \<longleftrightarrow> list_all (\<lambda>s. byteLength s = 32) p"
proof -
  have "concat (map level_error (zip js p)) = [] \<longleftrightarrow> list_all (\<lambda>s. byteLength s = 32) p"
    if "length js = length p" for js
    using that by (induction js p rule: list_induct2) (simp_all add: level_error_def Let_def)
  then show ?thesis by simp
qed

lemma withdrawalErrors_Nil:
  "withdrawalErrors bech32 w = [] \<longleftrightarrow>
     bech32 (wv_submitter w) \<noteq> None \<and> bech32 (wv_recipient w) \<noteq> None \<and> wv_rollupId w \<noteq> '''' \<and>
     wv_denom w = ''uqor'' \<and> (\<exists>a. js_BigInt (wv_amount w) = Inr a \<and> 0 < a) \<and>
     length (case wv_proof w of None \<Rightarrow> [] | Some p \<Rightarrow> p) \<le> 64 \<and>
     list_all (\<lambda>s. byteLength s = 32) (case wv_proof w of None \<Rightarrow> [] | Some p \<Rightarrow> p)"
  by (cases "js_BigInt (wv_amount w)")
    (auto simp: withdrawalErrors_def Let_def level_errors_Nil isBech32_def ROLLUP_ESCROW_DENOM_def
      MAX_WITHDRAWAL_PROOF_DEPTH_def not_less simp del: concat_eq_Nil_conv)

text \<open>The message as the transaction client hands it to the check.\<close>

definition withdrawal_to_check :: "ExecuteWithdrawalInput \<Rightarrow> WithdrawalForValidation" where
  "withdrawal_to_check m = \<lparr>wv_submitter = ew_submitter m, wv_rollupId = ew_rollupId m,
     wv_recipient = ew_recipient m, wv_denom = ew_denom m, wv_amount = ew_amount m,
     wv_proof = ew_proof m\<rparr>"

subsection \<open>Properties\<close>

text \<open>
  \<open>rollupIdError\<close> accepts exactly the ids of the chain's grammar
  \<open>^[a-z0-9][a-z0-9._-]{2,63}$\<close>, although it measures UTF-8 bytes and not characters; and two accepted
  ids never run together in a store key: \<open>a/x\<close> and \<open>b/y\<close> are equal only when both parts are.
\<close>

theorem rollup_id_grammar:
  "(isValidRollupId s \<longleftrightarrow> id_grammar s) \<and>
   (isValidRollupId s \<and> isValidRollupId t \<longrightarrow> s @ ''/'' @ x = t @ ''/'' @ y \<longrightarrow> s = t \<and> x = y)"
  using split_at_first [of "CHR ''/''" s t x y] slash_free
  by (auto simp: id_grammar_iff isValidRollupId_def)

lemma rollup_id_grammar_witness:
  "isValidRollupId ''my-rollup.1'' \<and> ''my-rollup.1'' @ ''/'' @ ''a'' \<noteq> ''my-rollup.2'' @ ''/'' @ ''a''"
proof -
  have "id_grammar ''my-rollup.1''" "id_grammar ''my-rollup.2''"
    by (simp_all add: id_grammar_def lowerOrDigit_def code_def)
  then show ?thesis
    using rollup_id_grammar [of "''my-rollup.1''" "''my-rollup.2''" "''a''" "''a''"]
      rollup_id_grammar [of "''my-rollup.2''"] by auto
qed

text \<open>
  \<open>withdrawalErrors\<close> returns the empty list exactly when both addresses decode, the rollup id is
  not empty, the denomination is \<open>uqor\<close>, the amount reads as a positive integer, and the proof has at
  most 64 levels of 32 bytes each.
\<close>

theorem withdrawal_errors_exact:
  "withdrawalErrors bech32 w = [] \<longleftrightarrow>
     isBech32 bech32 (wv_submitter w) \<and> isBech32 bech32 (wv_recipient w) \<and> wv_rollupId w \<noteq> '''' \<and>
     wv_denom w = ROLLUP_ESCROW_DENOM \<and> (\<exists>a. js_BigInt (wv_amount w) = Inr a \<and> 0 < a) \<and>
     (case wv_proof w of None \<Rightarrow> True
      | Some p \<Rightarrow> length p \<le> MAX_WITHDRAWAL_PROOF_DEPTH \<and> list_all (\<lambda>s. byteLength s = 32) p)"
  by (auto simp: withdrawalErrors_Nil isBech32_def ROLLUP_ESCROW_DENOM_def MAX_WITHDRAWAL_PROOF_DEPTH_def
      split: option.splits)

text \<open>
  The withdrawal path end to end. For a batch of at most \<open>2 ^ 64\<close> withdrawals, the message that
  \<open>buildExecuteWithdrawalInput\<close> assembles from the tree's proof for withdrawal \<open>i\<close> passes every check
  of \<open>withdrawalErrors\<close>, provided the addresses decode, the rollup id is not empty and the withdrawal
  is a positive amount of \<open>uqor\<close>; and its proof verifies against the tree's root at its index.
\<close>

theorem built_withdrawal_passes_the_rules:
  assumes "\<And>d. length (shake d) = 32" "withdrawalsTree shake ws opts = Inr t"
    and "i < length ws" "length ws \<le> 2 ^ 64"
    and "isBech32 bech32 submitter" "isBech32 bech32 (wd_recipient (ws ! i))"
    and "wo_rollupId opts \<noteq> ''''" "wd_denom (ws ! i) = ''uqor''"
    and "js_BigInt (wd_amount (ws ! i)) = Inr a" "0 < a"
  shows "\<exists>p leaf. wt_proof t (int i) = Inr p \<and> tree_leaf shake opts (int i, ws ! i) = Inr leaf \<and>
    (let m = buildExecuteWithdrawalInput submitter (wo_rollupId opts) batchIndex
               (wd_recipient (ws ! i)) (wd_denom (ws ! i)) (wd_amount (ws ! i)) p
     in withdrawalErrors bech32 (withdrawal_to_check m) = [] \<and>
        verifyBinaryMerkleProof shake leaf (wp_withdrawalIndex p) (wp_proof p) (wt_root t) CHAIN_TREE)"
proof -
  obtain p where p: "wt_proof t (int i) = Inr p" "wp_withdrawalIndex p = int i"
    "verifyBinaryMerkleProof shake (wt_leaves t ! i) (int i) (wp_proof p) (wt_root t) CHAIN_TREE"
    using wt_proof_opens [OF assms(2), of "int i"] assms(3) by auto
  have "list_all (\<lambda>s. byteLength s = 32) (map Raw (wp_proof p))"
    using wt_proof_sizes(1) [OF assms(1,2) p(1)] by (simp add: list_all_iff)
  moreover have "length (wp_proof p) \<le> 64"
    using wt_proof_sizes(2) [OF assms(1,2) p(1) assms(4)] .
  ultimately show ?thesis
    using p assms(5-) withdrawalsTree_eq_Inr(3) [OF assms(2,3)]
    by (auto simp: buildExecuteWithdrawalInput_def withdrawal_to_check_def withdrawalErrors_Nil
        isBech32_def Let_def)
qed

definition uqor_withdrawals :: "Withdrawal list" where
  "uqor_withdrawals = [\<lparr>wd_recipient = ''bob'', wd_denom = ''uqor'', wd_amount = NBig 5\<rparr>]"

lemma built_withdrawal_passes_the_rules_witness:
  "\<exists>t p leaf. withdrawalsTree toy_hash uqor_withdrawals sample_opts = Inr t \<and> wt_proof t 0 = Inr p \<and>
     tree_leaf toy_hash sample_opts (0, uqor_withdrawals ! 0) = Inr leaf \<and>
     withdrawalErrors (\<lambda>s. Some (s, [])) (withdrawal_to_check
       (buildExecuteWithdrawalInput ''amy'' ''r1'' (NNum 4) ''bob'' ''uqor'' (NBig 5) p)) = []"
proof -
  have "\<exists>t. withdrawalsTree toy_hash uqor_withdrawals sample_opts = Inr t"
    by (simp add: withdrawalsTree_def uqor_withdrawals_def sample_opts_def tree_leaf_def
        withdrawalLeafV2_def leafV2_parts_def u64be_num_def)
  then obtain t where t: "withdrawalsTree toy_hash uqor_withdrawals sample_opts = Inr t" by blast
  from built_withdrawal_passes_the_rules [OF length_toy_hash t, of 0 "\<lambda>s. Some (s, [])" "''amy''" 5 "NNum 4"] t
  show ?thesis
    by (auto simp: uqor_withdrawals_def sample_opts_def isBech32_def Let_def)
qed

text \<open>
  The remaining rules. Stopping is refused exactly while the latest batch is not final in the
  lifecycle's sense; on native data availability a data hash is refused exactly when it is non-empty;
  and a withdrawals root that reads as bytes is accepted exactly when the version 2 transition root
  accepts its length.
\<close>

theorem submission_rules:
  "(stopRollupError (Some (batchStatusName s)) = None \<longleftrightarrow> isBatchFinal s) \<and> stopRollupError None = None \<and>
   (dataHashError ''native'' (Some (Raw b)) = None \<longleftrightarrow> b = []) \<and>
   dataHashError ''celestia'' d = None \<and>
   (toBytes r = Inr wr \<longrightarrow> (withdrawalsRootError (Some r) = None \<longleftrightarrow> length wr = 0 \<or> length wr = 32))"
proof -
  have "stopRollupError (Some (batchStatusName s)) = None \<longleftrightarrow> isBatchFinal s"
    by (cases s) (simp_all add: stopRollupError_def isBatchFinal_def)
  moreover have "withdrawalsRootError (Some r) = None \<longleftrightarrow> length wr = 0 \<or> length wr = 32"
    if "toBytes r = Inr wr"
  proof (cases r)
    case (Hex h)
    with that have "length (strip0x h) = 2 * length wr"
      by (auto simp: hexToBytes_eq_Inr length_hex_pairs)
    with Hex show ?thesis by (auto simp: withdrawalsRootError_def Let_def)
  next
    case (Raw b)
    with that show ?thesis by (auto simp: withdrawalsRootError_def Let_def)
  qed
  ultimately show ?thesis
    by (auto simp: stopRollupError_def dataHashError_def Let_def)
qed

lemma submission_rules_witness:
  "withdrawalsRootError (Some (Raw (replicate 32 7))) = None"
  using submission_rules [of submitted "[]" None "Raw (replicate 32 7)" "replicate 32 7"] by simp

end
