(* ===== verification/Denom.thy ===== *)
theory Denom
  imports Bytes
begin

text \<open>
  Amounts: \<open>packages/ts/src/utils/denom.ts\<close> and \<open>utils/economics.ts\<close>, with the constants of
  \<open>constants.ts\<close> they default to. The code works on decimal texts and \<open>bigint\<close>; so does the model.
  \<open>bigint\<close> division truncates toward zero and is written out as such.

  Shown: \<open>qorToUqor\<close> computes the exact scaled value in canonical decimal form, \<open>uqorToQor\<close> prints a
  text that it reads back, and the creation cost splits the stake into burn and remainder exactly,
  with the burn the floor of stake times rate.
\<close>

subsection \<open>Constants\<close>

definition DENOM_EXPONENT :: nat where
  "DENOM_EXPONENT = 6"

definition rollupCreationBurnRate :: string where
  "rollupCreationBurnRate = ''0.01''"

subsection \<open>Decimal texts\<close>

text \<open>
  \<open>/^\d+(\.\d+)?$/\<close> followed by \<open>s.split(".")\<close>: the digits before and after the point, or \<open>None\<close> where
  the pattern does not match.
\<close>

definition decimal_parts :: "string \<Rightarrow> (string \<times> string) option" where
  "decimal_parts s =
     (let whole = takeWhile (\<lambda>c. c \<noteq> CHR ''.'') s; rest = dropWhile (\<lambda>c. c \<noteq> CHR ''.'') s in
      if whole = [] \<or> \<not> list_all is_digit whole then None
      else if rest = [] then Some (whole, [])
      else if tl rest = [] \<or> \<not> list_all is_digit (tl rest) then None
      else Some (whole, tl rest))"

text \<open>\<open>replace(/^0+(?=\d)/, "")\<close> and \<open>replace(/0+$/, "")\<close>.\<close>

fun strip_zeros :: "string \<Rightarrow> string" where
  "strip_zeros (c # d # r) = (if c = CHR ''0'' \<and> is_digit d then strip_zeros (d # r) else c # d # r)"
| "strip_zeros s = s"

definition strip_trailing_zeros :: "string \<Rightarrow> string" where
  "strip_trailing_zeros s = rev (dropWhile (\<lambda>c. c = CHR ''0'') (rev s))"

datatype qor_amount = QStr string | QNum int

datatype uqor_amount = UStr string | UBig int

definition qorToUqor :: "qor_amount \<Rightarrow> nat \<Rightarrow> error + string" where
  "qorToUqor amount exponent =
     (let s = (case amount of QNum n \<Rightarrow> show_int n | QStr t \<Rightarrow> trim t);
          shown = (case amount of QNum n \<Rightarrow> show_int n | QStr t \<Rightarrow> t) in
      case decimal_parts s of
        None \<Rightarrow> Inl (InvalidQorAmount shown)
      | Some (whole, frac) \<Rightarrow>
          if exponent < length frac then Inl (TooManyDigits shown exponent)
          else let combined = strip_zeros (whole @ padEnd exponent CHR ''0'' frac)
               in Inr (if combined = '''' then ''0'' else combined))"

definition bigint_div :: "int \<Rightarrow> int \<Rightarrow> int" where
  "bigint_div a b = sgn a * sgn b * (\<bar>a\<bar> div \<bar>b\<bar>)"

definition bigint_mod :: "int \<Rightarrow> int \<Rightarrow> int" where
  "bigint_mod a b = a - b * bigint_div a b"

definition uqorToQor :: "uqor_amount \<Rightarrow> nat \<Rightarrow> error + string" where
  "uqorToQor amount exponent =
     res_bind (case amount of UBig v \<Rightarrow> Inr v
               | UStr a \<Rightarrow> let t = trim a in
                   if t = [] \<or> \<not> list_all is_digit t then Inl (InvalidUqorAmount a)
                   else js_BigInt (NStr t)) (\<lambda>value.
     if value < 0 then Inl NegativeAmount
     else
       let base = 10 ^ exponent;
           whole = bigint_div value base;
           frac = bigint_mod value base
       in if frac = 0 then Inr (show_int whole)
          else Inr (show_int whole @ ''.'' @
                 strip_trailing_zeros (padStart exponent CHR ''0'' (show_int frac))))"

subsection \<open>Creation cost\<close>

definition toBigInt :: "uqor_amount \<Rightarrow> string \<Rightarrow> error + int" where
  "toBigInt value label =
     (case value of UBig v \<Rightarrow> Inr v
      | UStr a \<Rightarrow> let t = trim a in
          if t = [] \<or> \<not> list_all is_digit t then Inl (NotNonNegative label a) else js_BigInt (NStr t))"

definition mulDecimalFloor :: "int \<Rightarrow> string \<Rightarrow> error + int" where
  "mulDecimalFloor amount decimal =
     (case decimal_parts (trim decimal) of
        None \<Rightarrow> Inl (InvalidDecimal decimal)
      | Some (whole, frac) \<Rightarrow>
          let scale = 10 ^ length frac in
          res_bind (js_BigInt (NStr (if whole @ frac = '''' then ''0'' else whole @ frac)))
            (\<lambda>numerator. Inr (bigint_div (amount * numerator) scale)))"

record CreationCost =
  cc_stakeUqor :: string
  cc_burnUqor :: string
  cc_netStakeUqor :: string
  cc_totalRequiredUqor :: string
  cc_burnRate :: string

definition estimateCreationCost :: "uqor_amount \<Rightarrow> string option \<Rightarrow> error + CreationCost" where
  "estimateCreationCost stakeUqor burnRate0 =
     res_bind (toBigInt stakeUqor ''stakeUqor'') (\<lambda>stake.
     let burnRate = (case burnRate0 of None \<Rightarrow> rollupCreationBurnRate | Some r \<Rightarrow> r) in
     res_bind (mulDecimalFloor stake burnRate) (\<lambda>burn. Inr
       \<lparr>cc_stakeUqor = show_int stake, cc_burnUqor = show_int burn,
        cc_netStakeUqor = show_int (stake - burn), cc_totalRequiredUqor = show_int stake,
        cc_burnRate = burnRate\<rparr>))"

subsection \<open>Lemmas on digit strings\<close>

lemma digit_eq_zero: "is_digit c \<Longrightarrow> digit_val c = 0 \<longleftrightarrow> c = CHR ''0''"
proof -
  assume "is_digit c"
  moreover have "code c = 48 \<longleftrightarrow> c = CHR ''0''"
    using code_char_inject [of c "CHR ''0''"] by (simp add: code_def)
  ultimately show ?thesis by (auto simp: is_digit_def digit_val_def)
qed

lemma digit_char_digit_val: "is_digit c \<Longrightarrow> digit_char (digit_val c) = c"
proof -
  assume c: "is_digit c"
  then have "code (digit_char (digit_val c)) = code c"
    using code_digit_char [of "digit_val c"] by (auto simp: is_digit_def digit_val_def)
  then show ?thesis by (simp add: code_char_inject)
qed

lemma nat_of_digits_0:
  "list_all is_digit s \<Longrightarrow> nat_of_digits s = 0 \<longleftrightarrow> list_all (\<lambda>c. c = CHR ''0'') s"
  by (induction s rule: rev_induct) (auto simp: nat_of_digits_snoc digit_eq_zero)

lemma strip_zeros_snoc:
  assumes "list_all is_digit s" "s \<noteq> []" "is_digit c"
  shows "strip_zeros (s @ [c]) = (if list_all (\<lambda>d. d = CHR ''0'') s then [c] else strip_zeros s @ [c])"
  using assms by (induction s rule: strip_zeros.induct) auto

lemma show_nat_step:
  "n \<noteq> 0 \<Longrightarrow> d < 10 \<Longrightarrow> show_nat (10 * n + d) = show_nat n @ [digit_char d]"
  by (subst show_nat.simps) simp

lemma strip_zeros_show:
  assumes "list_all is_digit s" "s \<noteq> []"
  shows "strip_zeros s = show_nat (nat_of_digits s)"
  using assms
proof (induction s rule: rev_induct)
  case (snoc c s)
  then have c: "is_digit c" "digit_val c < 10" using radix_digit_digit [of c] by simp_all
  show ?case
  proof (cases "nat_of_digits s = 0")
    case True
    with snoc c have "strip_zeros (s @ [c]) = [c]"
      by (cases "s = []") (simp_all add: strip_zeros_snoc nat_of_digits_0)
    moreover have "show_nat (digit_val c) = [digit_char (digit_val c)]"
      using c by (subst show_nat.simps) simp
    ultimately show ?thesis using True c by (simp add: nat_of_digits_snoc digit_char_digit_val)
  next
    case False
    with snoc c have "strip_zeros (s @ [c]) = show_nat (nat_of_digits s) @ [c]"
      by (cases "s = []") (simp_all add: strip_zeros_snoc nat_of_digits_0)
    then show ?thesis using False c by (simp add: nat_of_digits_snoc show_nat_step digit_char_digit_val)
  qed
qed simp

lemma nat_of_digits_zeros: "nat_of_digits (replicate k CHR ''0'') = 0"
proof -
  have "list_all is_digit (replicate k CHR ''0'')" by (simp add: list_all_iff is_digit_def code_def)
  then show ?thesis by (simp add: nat_of_digits_0 list_all_iff)
qed

lemma nat_of_digits_padEnd:
  "length f \<le> e \<Longrightarrow> nat_of_digits (padEnd e CHR ''0'' f) = nat_of_digits f * 10 ^ (e - length f)"
  by (simp add: padEnd_def nat_of_digits_append nat_of_digits_zeros)

lemma is_digit_0: "is_digit CHR ''0''"
  by (simp add: is_digit_def code_def)

lemma decimal_partsD:
  assumes "decimal_parts s = Some (w, f)"
  shows "list_all is_digit w" "w \<noteq> []" "list_all is_digit f"
  using assms by (auto simp: decimal_parts_def Let_def split: if_splits)

text \<open>The value a decimal text denotes, scaled by \<open>10 ^ e\<close>.\<close>

definition scaled :: "string \<Rightarrow> string \<Rightarrow> nat \<Rightarrow> nat" where
  "scaled w f e = nat_of_digits w * 10 ^ e + nat_of_digits f * 10 ^ (e - length f)"

lemma qorToUqor_parts:
  assumes "decimal_parts (trim s) = Some (w, f)"
  shows "qorToUqor (QStr s) e =
    (if e < length f then Inl (TooManyDigits s e) else Inr (show_nat (scaled w f e)))"
proof (cases "e < length f")
  case False
  note d = decimal_partsD [OF assms]
  have "list_all is_digit (w @ padEnd e CHR ''0'' f)"
    using d by (auto simp: padEnd_def list_all_iff is_digit_0)
  moreover have "length (padEnd e CHR ''0'' f) = e"
    using False by (simp add: padEnd_def)
  ultimately have "strip_zeros (w @ padEnd e CHR ''0'' f) = show_nat (scaled w f e)"
    using d False by (simp add: strip_zeros_show nat_of_digits_append nat_of_digits_padEnd scaled_def)
  with False assms show ?thesis by (simp add: qorToUqor_def Let_def)
qed (simp add: qorToUqor_def assms Let_def)

subsection \<open>Printing and reading back\<close>

lemma bigint_div_nonneg: "0 \<le> a \<Longrightarrow> 0 < b \<Longrightarrow> bigint_div a b = a div b"
  by (cases "a = 0") (simp_all add: bigint_div_def)

lemma bigint_mod_nonneg: "0 \<le> a \<Longrightarrow> 0 < b \<Longrightarrow> bigint_mod a b = a mod b"
  by (simp add: bigint_mod_def bigint_div_nonneg minus_mult_div_eq_mod)

lemma length_show_nat: "n < 10 ^ e \<Longrightarrow> 0 < e \<Longrightarrow> length (show_nat n) \<le> e"
proof (induction n arbitrary: e rule: show_nat.induct)
  case (1 n)
  show ?case
  proof (cases "n < 10")
    case True
    with 1 show ?thesis by (subst show_nat.simps) simp
  next
    case False
    from 1 obtain k where k: "e = Suc k" by (cases e) simp_all
    with 1 False have pos: "k \<noteq> 0" by (intro notI) simp
    from k "1.prems" have "n div 10 < 10 ^ k" by (simp add: less_mult_imp_div_less mult.commute)
    with pos False have "length (show_nat (n div 10)) \<le> k" by (intro "1.IH") simp_all
    with False k show ?thesis by (subst show_nat.simps) simp
  qed
qed

lemma strip_trailing_split:
  "\<exists>k. s = strip_trailing_zeros s @ replicate k CHR ''0''"
proof -
  let ?z = "\<lambda>c. c = CHR ''0''"
  have "s = rev (dropWhile ?z (rev s)) @ rev (takeWhile ?z (rev s))"
    by (metis rev_append rev_rev_ident takeWhile_dropWhile_id)
  moreover have "takeWhile ?z (rev s) = replicate (length (takeWhile ?z (rev s))) CHR ''0''"
    by (rule replicate_eqI) (auto dest: set_takeWhileD)
  ultimately show ?thesis unfolding strip_trailing_zeros_def by (metis rev_replicate)
qed

lemma decimal_parts_point:
  assumes "list_all is_digit w" "w \<noteq> []" "list_all is_digit f" "f \<noteq> []"
  shows "decimal_parts (w @ ''.'' @ f) = Some (w, f)"
proof -
  have nd: "x \<in> set w \<Longrightarrow> x \<noteq> CHR ''.''" for x
    using assms(1) digit_not_special(4) by (auto simp: list_all_iff)
  then have "takeWhile (\<lambda>c. c \<noteq> CHR ''.'') (w @ ''.'' @ f) = w"
    "dropWhile (\<lambda>c. c \<noteq> CHR ''.'') (w @ ''.'' @ f) = CHR ''.'' # f"
    by simp_all
  with assms show ?thesis by (simp add: decimal_parts_def)
qed

lemma decimal_parts_digits:
  assumes "list_all is_digit w" "w \<noteq> []"
  shows "decimal_parts w = Some (w, [])"
proof -
  have nd: "x \<in> set w \<Longrightarrow> x \<noteq> CHR ''.''" for x
    using assms(1) digit_not_special(4) by (auto simp: list_all_iff)
  then have "takeWhile (\<lambda>c. c \<noteq> CHR ''.'') w = w" "dropWhile (\<lambda>c. c \<noteq> CHR ''.'') w = []"
    by (simp_all add: takeWhile_eq_all_conv dropWhile_eq_Nil_conv)
  with assms show ?thesis by (simp only: decimal_parts_def Let_def) simp
qed

text \<open>The fraction that is printed: its digits are those of \<open>r\<close>, left-padded and cut at the right.\<close>

lemma fraction_text:
  assumes "0 < r" "r < 10 ^ e"
  defines "t \<equiv> strip_trailing_zeros (padStart e CHR ''0'' (show_nat r))"
  shows "list_all is_digit t" "t \<noteq> []" "length t \<le> e" "nat_of_digits t * 10 ^ (e - length t) = r"
proof -
  let ?p = "padStart e CHR ''0'' (show_nat r)"
  have "0 < e" using assms(1,2) by (cases e) simp_all
  then have len: "length ?p = e"
    using length_show_nat [OF assms(2)] by (simp add: padStart_def)
  have val: "nat_of_digits ?p = r"
    by (simp add: padStart_def nat_of_digits_append nat_of_digits_zeros)
  have dig: "list_all is_digit ?p"
    using show_nat_digits [of r] by (auto simp add: padStart_def list_all_iff is_digit_0)
  obtain k where k: "?p = t @ replicate k CHR ''0''"
    using strip_trailing_split [of ?p] unfolding t_def by blast
  show "list_all is_digit t" using dig k by simp
  from k len have e: "e = length t + k" by (metis length_append length_replicate)
  then show "length t \<le> e" by simp
  have "r = nat_of_digits t * 10 ^ k"
    using val k by (simp add: nat_of_digits_append nat_of_digits_zeros)
  with e show "nat_of_digits t * 10 ^ (e - length t) = r" by simp
  show "t \<noteq> []" using \<open>r = nat_of_digits t * 10 ^ k\<close> assms(1) by auto
qed

lemma point_no_space: "\<not> js_space CHR ''.''"
  by (simp add: js_space_def code_def)

lemma trim_decimal:
  assumes "list_all is_digit w" "list_all is_digit f"
  shows "trim (w @ ''.'' @ f) = w @ ''.'' @ f"
  using assms digit_not_special(7) by (intro trim_no_space) (auto simp: list_all_iff point_no_space)

lemma uqorToQor_nat:
  "uqorToQor (UBig (int n)) e =
     Inr (if n mod 10 ^ e = 0 then show_nat (n div 10 ^ e)
          else show_nat (n div 10 ^ e) @ ''.'' @
               strip_trailing_zeros (padStart e CHR ''0'' (show_nat (n mod 10 ^ e))))"
proof -
  have "bigint_div (int n) (10 ^ e) = int (n div 10 ^ e)" "bigint_mod (int n) (10 ^ e) = int (n mod 10 ^ e)"
    by (simp_all add: bigint_div_nonneg bigint_mod_nonneg zdiv_int zmod_int)
  then show ?thesis by (simp add: uqorToQor_def Let_def show_int_def)
qed

lemma qorToUqor_uqorToQor:
  assumes "uqorToQor (UBig (int n)) e = Inr s"
  shows "qorToUqor (QStr s) e = Inr (show_nat n)"
proof (cases "n mod 10 ^ e = 0")
  case True
  with assms have s: "s = show_nat (n div 10 ^ e)" by (simp add: uqorToQor_nat)
  then have "decimal_parts (trim s) = Some (s, [])"
    by (simp add: trim_digits show_nat_digits decimal_parts_digits)
  moreover from True have "n div 10 ^ e * 10 ^ e = n" by (metis div_mult_mod_eq add_0_right)
  ultimately show ?thesis using s by (simp add: qorToUqor_parts scaled_def)
next
  case False
  let ?t = "strip_trailing_zeros (padStart e CHR ''0'' (show_nat (n mod 10 ^ e)))"
  note t = fraction_text [of "n mod 10 ^ e" e]
  from False have pos: "0 < n mod 10 ^ e" "n mod 10 ^ e < 10 ^ e" by simp_all
  from False assms have s: "s = show_nat (n div 10 ^ e) @ ''.'' @ ?t" by (simp add: uqorToQor_nat)
  then have "decimal_parts (trim s) = Some (show_nat (n div 10 ^ e), ?t)"
    by (simp only: trim_decimal decimal_parts_point show_nat_digits show_nat_nonempty t(1,2) [OF pos]
        not_False_eq_True)
  moreover have "scaled (show_nat (n div 10 ^ e)) ?t e = n"
    using t(4) [OF pos] div_mult_mod_eq [of n "10 ^ e"] by (simp only: scaled_def nat_of_digits_show_nat)
  ultimately show ?thesis using t(3) [OF pos] by (simp add: qorToUqor_parts not_less)
qed

subsection \<open>Multiplication by a rate\<close>

lemma mulDecimalFloor_parts:
  assumes "decimal_parts (trim d) = Some (w, f)"
  shows "mulDecimalFloor a d = Inr (bigint_div (a * int (nat_of_digits (w @ f))) (10 ^ length f))"
  using decimal_partsD [OF assms]
  by (simp add: mulDecimalFloor_def assms string_to_bigint_digits)

lemma floor_bounds:
  fixes a s :: int
  assumes "0 < s"
  shows "a div s * s \<le> a" "a < (a div s + 1) * s"
proof -
  have "a div s * s + a mod s = a" by (rule div_mult_mod_eq)
  moreover have "0 \<le> a mod s" "a mod s < s" using assms by simp_all
  ultimately have "a div s * s \<le> a" "a < a div s * s + s" by linarith+
  then show "a div s * s \<le> a" "a < (a div s + 1) * s" by (simp_all add: distrib_right)
qed

subsection \<open>Properties\<close>

text \<open>
  C39: Amounts survive the trip through the display form: for every non-negative base amount and every
  exponent, \<open>uqorToQor\<close> returns a text, and \<open>qorToUqor\<close> at the same exponent reads it back as exactly
  the decimal text of the amount.
\<close>

theorem denom_round_trip:
  assumes "0 \<le> v"
  shows "\<exists>s. uqorToQor (UBig v) e = Inr s \<and> qorToUqor (QStr s) e = Inr (show_int v)"
proof -
  from assms obtain n where n: "v = int n" by (metis nonneg_int_cases)
  then obtain s where "uqorToQor (UBig v) e = Inr s" by (simp add: uqorToQor_nat)
  with qorToUqor_uqorToQor [of n e s] n show ?thesis by (simp add: show_int_def)
qed

lemma denom_round_trip_witness:
  "\<exists>s. uqorToQor (UBig 1500000) 6 = Inr s \<and> qorToUqor (QStr s) 6 = Inr (show_int 1500000)"
  using denom_round_trip [of 1500000 6] by simp

text \<open>
  \<open>qorToUqor\<close> is exact: a decimal text with whole part \<open>w\<close> and fraction \<open>f\<close> becomes the canonical
  decimal text, without leading zeros, of \<open>w * 10 ^ e + f * 10 ^ (e - |f|)\<close>; a longer fraction and a
  text that is no decimal are refused with their own errors.
\<close>

theorem qor_to_uqor_exact:
  "qorToUqor (QStr s) e =
     (case decimal_parts (trim s) of
        None \<Rightarrow> Inl (InvalidQorAmount s)
      | Some (w, f) \<Rightarrow>
          if e < length f then Inl (TooManyDigits s e)
          else Inr (show_nat (nat_of_digits w * 10 ^ e + nat_of_digits f * 10 ^ (e - length f))))"
proof (cases "decimal_parts (trim s)")
  case None
  then show ?thesis by (simp add: qorToUqor_def Let_def)
next
  case (Some wf)
  then show ?thesis using qorToUqor_parts [of s] by (cases wf) (simp add: scaled_def)
qed

text \<open>
  The cost of creating a rollup. For a non-negative stake and a rate \<open>w.f\<close> of at most one, the
  estimate exists; its burn is the floor of stake times rate, lies between 0 and the stake, and burn
  and net stake add up to the stake, which is also the total required.
\<close>

theorem creation_cost_conserves_stake:
  assumes "0 \<le> stake" "decimal_parts (trim rate) = Some (w, f)"
    and "nat_of_digits (w @ f) \<le> 10 ^ length f"
  shows "\<exists>c burn. estimateCreationCost (UBig stake) (Some rate) = Inr c \<and>
    cc_stakeUqor c = show_int stake \<and> cc_totalRequiredUqor c = show_int stake \<and>
    cc_burnUqor c = show_int burn \<and> cc_netStakeUqor c = show_int (stake - burn) \<and>
    0 \<le> burn \<and> burn \<le> stake \<and>
    burn * 10 ^ length f \<le> stake * int (nat_of_digits (w @ f)) \<and>
    stake * int (nat_of_digits (w @ f)) < (burn + 1) * 10 ^ length f"
proof -
  let ?k = "int (nat_of_digits (w @ f))" and ?s = "10 ^ length f :: int"
  define burn where "burn = (stake * ?k) div ?s"
  have "mulDecimalFloor stake rate = Inr burn"
    using assms(1) by (simp add: mulDecimalFloor_parts [OF assms(2)] burn_def bigint_div_nonneg)
  moreover have "?k \<le> ?s" using assms(3) by (metis of_nat_le_iff of_nat_numeral of_nat_power)
  then have "stake * ?k \<le> stake * ?s" using assms(1) by (rule mult_left_mono)
  then have "burn \<le> stake" unfolding burn_def
    by (metis zdiv_mono1 nonzero_mult_div_cancel_right power_not_zero zero_less_power zero_neq_numeral
        zero_less_numeral)
  moreover have "0 \<le> burn" using assms(1) by (simp add: burn_def pos_imp_zdiv_nonneg_iff)
  ultimately show ?thesis
    using floor_bounds [of ?s "stake * ?k"]
    by (simp add: estimateCreationCost_def toBigInt_def burn_def)
qed

lemma creation_cost_conserves_stake_witness:
  "\<exists>c burn. estimateCreationCost (UBig 10000000000) (Some ''0.01'') = Inr c \<and>
     cc_burnUqor c = show_int burn \<and> cc_netStakeUqor c = show_int (10000000000 - burn) \<and>
     burn * 10 ^ 2 \<le> 10000000000"
proof -
  have "decimal_parts (trim ''0.01'') = Some (''0'', ''01'')" by code_simp
  moreover have "nat_of_digits (''0'' @ ''01'') = 1"
    by (simp add: nat_of_digits_def digit_val_def code_def)
  ultimately show ?thesis
    using creation_cost_conserves_stake [of 10000000000 "''0.01''" "''0''" "''01''"] by auto
qed

text \<open>
  On a negative amount \<open>mulDecimalFloor\<close> does not floor: \<open>bigint\<close> division truncates toward zero, so
  half of -1 is 0 and not -1.
\<close>

theorem mul_decimal_negative_truncates:
  "mulDecimalFloor (- 1) ''0.5'' = Inr 0 \<and> (- 1 * 5) div 10 = (- 1 :: int)"
proof -
  have "decimal_parts (trim ''0.5'') = Some (''0'', ''5'')" by code_simp
  then show ?thesis
    by (simp add: mulDecimalFloor_parts nat_of_digits_def digit_val_def code_def bigint_div_def)
qed

end
