(* ===== verification/Config.thy ===== *)
theory Config
  imports Rules Denom
begin

text \<open>
  Rollup configuration: \<open>packages/ts/src/config\<close> (\<open>enums.ts\<close>, \<open>matrix.ts\<close>, \<open>types.ts\<close>, \<open>validate.ts\<close>,
  \<open>errors.ts\<close>, \<open>builder.ts\<close>, \<open>networks.ts\<close>), \<open>constants.ts\<close>, \<open>presets/index.ts\<close>, \<open>manifest/index.ts\<close>
  and \<open>da/native.ts\<close>. The values of the closed sets are the wire strings, since the validator has to
  deal with any string; a JavaScript number that \<open>Number.isInteger\<close> is asked about is a \<open>js_num\<close>.

  Shown: \<open>validateRollupConfig\<close> reports no error exactly for the configurations of the specification
  \<open>config_ok\<close>, every preset under a valid id is such a configuration, a built message comes only from
  one, and a builder keeps the fields that \<open>set\<close> does not name.
\<close>

subsection \<open>Constants and networks\<close>

definition DISPLAY_DENOM :: string where "DISPLAY_DENOM = ''QOR''"

definition BASE_DENOM :: string where "BASE_DENOM = ''uqor''"

definition ACCOUNT_PREFIX :: string where "ACCOUNT_PREFIX = ''qor''"

definition VALIDATOR_PREFIX :: string where "VALIDATOR_PREFIX = ''qorvaloper''"

datatype NetworkName = testnet | mainnet

fun CHAIN_IDS :: "NetworkName \<Rightarrow> string" where
  "CHAIN_IDS testnet = ''qorechain-diana''"
| "CHAIN_IDS mainnet = ''qorechain-vladi''"

record rdk_params =
  dp_maxRollups :: int
  dp_minStakeForRollup :: string
  dp_rollupCreationBurnRate :: string
  dp_defaultChallengeWindow :: int
  dp_maxDaBlobSize :: int
  dp_blobRetentionBlocks :: int
  dp_maxBatchesPerBlock :: int

definition DEFAULT_RDK_PARAMS :: rdk_params where
  "DEFAULT_RDK_PARAMS =
     \<lparr>dp_maxRollups = 100, dp_minStakeForRollup = ''10000000000'', dp_rollupCreationBurnRate = rollupCreationBurnRate,
      dp_defaultChallengeWindow = 604800, dp_maxDaBlobSize = 2097152, dp_blobRetentionBlocks = 432000,
      dp_maxBatchesPerBlock = 10\<rparr>"

definition DEFAULT_CHALLENGE_BOND_UQOR :: string where
  "DEFAULT_CHALLENGE_BOND_UQOR = ''1000000000''"

record Endpoints =
  ep_rest :: string
  ep_rpc :: string
  ep_grpc :: string
  ep_evmRpc :: string

record NetworkConfig =
  nc_name :: NetworkName
  nc_chainId :: string
  nc_endpoints :: Endpoints
  nc_anchorSignV2Height :: int

definition LOCALHOST_ENDPOINTS :: Endpoints where
  "LOCALHOST_ENDPOINTS = \<lparr>ep_rest = ''http://localhost:1317'', ep_rpc = ''http://localhost:26657'',
     ep_grpc = ''localhost:9090'', ep_evmRpc = ''http://localhost:8545''\<rparr>"

definition MAINNET_ENDPOINTS :: Endpoints where
  "MAINNET_ENDPOINTS = \<lparr>ep_rest = ''https://api.qore.host'', ep_rpc = ''https://rpc.qore.host'',
     ep_grpc = ''grpc.qore.host:443'', ep_evmRpc = ''https://evm.qore.host''\<rparr>"

definition TESTNET_ENDPOINTS :: Endpoints where
  "TESTNET_ENDPOINTS = \<lparr>ep_rest = ''https://api-testnet.qore.host'', ep_rpc = ''https://rpc-testnet.qore.host'',
     ep_grpc = ''grpc-testnet.qore.host:443'', ep_evmRpc = ''https://evm-testnet.qore.host''\<rparr>"

fun NETWORKS :: "NetworkName \<Rightarrow> NetworkConfig" where
  "NETWORKS testnet = \<lparr>nc_name = testnet, nc_chainId = CHAIN_IDS testnet,
     nc_endpoints = TESTNET_ENDPOINTS, nc_anchorSignV2Height = 6905034\<rparr>"
| "NETWORKS mainnet = \<lparr>nc_name = mainnet, nc_chainId = CHAIN_IDS mainnet,
     nc_endpoints = MAINNET_ENDPOINTS, nc_anchorSignV2Height = 3556788\<rparr>"

definition ANCHOR_SIGN_V2_HEIGHTS :: "NetworkName \<Rightarrow> int" where
  "ANCHOR_SIGN_V2_HEIGHTS name = nc_anchorSignV2Height (NETWORKS name)"

definition getNetwork :: "NetworkName option \<Rightarrow> NetworkConfig" where
  "getNetwork name = NETWORKS (case name of None \<Rightarrow> testnet | Some n \<Rightarrow> n)"

definition listNetworks :: "NetworkName list" where
  "listNetworks = [testnet, mainnet]"

subsection \<open>Closed value sets and the compatibility matrix\<close>

definition SETTLEMENT_PARADIGMS :: "string list" where
  "SETTLEMENT_PARADIGMS = [''optimistic'', ''zk'', ''based'', ''sovereign'']"

definition SEQUENCER_MODES :: "string list" where
  "SEQUENCER_MODES = [''dedicated'', ''shared'', ''based'']"

definition PROOF_SYSTEMS :: "string list" where
  "PROOF_SYSTEMS = [''fraud'', ''snark'', ''stark'', ''none'']"

definition DA_BACKENDS :: "string list" where
  "DA_BACKENDS = [''native'', ''celestia'', ''both'']"

definition GAS_MODELS :: "string list" where
  "GAS_MODELS = [''standard'', ''eip1559'', ''flat'', ''subsidized'']"

definition VM_TYPES :: "string list" where
  "VM_TYPES = [''evm'', ''native'', ''svm'', ''custom'']"

definition ACCEPTED_VM_TYPES :: "string list" where
  "ACCEPTED_VM_TYPES = VM_TYPES @ [''cosmwasm'']"

definition isVmType :: "string \<Rightarrow> bool" where
  "isVmType v \<longleftrightarrow> v \<in> set ACCEPTED_VM_TYPES"

definition vmTypeWireValue :: "string \<Rightarrow> string" where
  "vmTypeWireValue vmType = (if vmType = ''native'' then ''cosmwasm'' else vmType)"

definition vmTypeLabel :: "string \<Rightarrow> string" where
  "vmTypeLabel vmType =
     (if vmType = ''native'' \<or> vmType = ''cosmwasm'' then ''QoreChain Native''
      else if vmType = ''evm'' then ''EVM''
      else if vmType = ''svm'' then ''SVM''
      else if vmType = ''custom'' then ''Custom''
      else vmType)"

definition ROLLUP_STATUSES :: "RollupStatus list" where
  "ROLLUP_STATUSES = [pending, active, paused, stopped]"

definition BATCH_STATUSES :: "BatchStatus list" where
  "BATCH_STATUSES = [submitted, challenged, finalized, rejected]"

datatype ProfileName = defi | gaming | nft | enterprise | custom

fun profileWire :: "ProfileName \<Rightarrow> string" where
  "profileWire defi = ''defi''"
| "profileWire gaming = ''gaming''"
| "profileWire nft = ''nft''"
| "profileWire enterprise = ''enterprise''"
| "profileWire custom = ''custom''"

definition PROFILE_NAMES :: "ProfileName list" where
  "PROFILE_NAMES = [defi, gaming, nft, enterprise, custom]"

text \<open>
  The matrix is an object literal: a key outside it reads \<open>undefined\<close>. The code only looks up keys it
  has tested to be paradigms.
\<close>

definition SETTLEMENT_PROOF_MATRIX :: "string \<Rightarrow> string list option" where
  "SETTLEMENT_PROOF_MATRIX s = map_of
     [(''optimistic'', [''fraud'']), (''zk'', [''snark'', ''stark'']), (''based'', [''none'']),
      (''sovereign'', [''none''])] s"

definition validProofSystems :: "string \<Rightarrow> string list" where
  "validProofSystems settlement = the (SETTLEMENT_PROOF_MATRIX settlement)"

definition isProofCompatible :: "string \<Rightarrow> string \<Rightarrow> bool" where
  "isProofCompatible settlement proof \<longleftrightarrow> proof \<in> set (the (SETTLEMENT_PROOF_MATRIX settlement))"

definition requiresBasedSequencer :: "string \<Rightarrow> bool" where
  "requiresBasedSequencer settlement \<longleftrightarrow> settlement = ''based''"

subsection \<open>Configurations and their validation\<close>

datatype js_num = Whole int | Fraction

fun positive_integer :: "js_num \<Rightarrow> bool" where
  "positive_integer (Whole n) \<longleftrightarrow> 0 < n"
| "positive_integer Fraction \<longleftrightarrow> False"

record SequencerParams =
  sp_sequencerAddress :: "string option"
  sp_sharedSetMinSize :: "int option"
  sp_inclusionDelay :: "int option"
  sp_priorityFeeShare :: "string option"

record RollupConfig =
  rc_rollupId :: string
  rc_profile :: ProfileName
  rc_settlement :: string
  rc_sequencer :: string
  rc_sequencerParams :: "SequencerParams option"
  rc_da :: string
  rc_proofSystem :: string
  rc_gasModel :: string
  rc_vmType :: string
  rc_blockTimeMs :: js_num
  rc_maxTxPerBlock :: js_num
  rc_challengeWindowSecs :: "js_num option"
  rc_challengeBondUqor :: "string option"
  rc_maxDaBlobSize :: "js_num option"
  rc_stakeAmountUqor :: "string option"

record CreateRollupMsgInput =
  cm_creator :: string
  cm_rollupId :: string
  cm_profile :: ProfileName
  cm_vmType :: string
  cm_stakeAmount :: string

record ValidationResult =
  vr_valid :: bool
  vr_errors :: "string list"
  vr_warnings :: "string list"

definition isPositiveIntegerString :: "string \<Rightarrow> bool" where
  "isPositiveIntegerString v \<longleftrightarrow> v \<noteq> [] \<and> list_all is_digit v \<and> hd v \<noteq> CHR ''0''"

definition push_if :: "bool \<Rightarrow> string \<Rightarrow> string list" where
  "push_if b e = (if b then [e] else [])"

fun join :: "string \<Rightarrow> string list \<Rightarrow> string" where
  "join sep [] = ''''"
| "join sep [x] = x"
| "join sep (x # y # r) = x @ sep @ join sep (y # r)"

definition id_errors :: "string \<Rightarrow> string list" where
  "id_errors i =
     (if i = '''' \<or> trim i = '''' then [''rollupId must be a non-empty string'']
      else case rollupIdError i of None \<Rightarrow> [] | Some e \<Rightarrow> [''rollupId '' @ quote i @ '' '' @ e])"

definition validateRollupConfig :: "RollupConfig \<Rightarrow> ValidationResult" where
  "validateRollupConfig config =
     (let errors =
        id_errors (rc_rollupId config) @
        push_if (rc_settlement config \<notin> set SETTLEMENT_PARADIGMS)
          (''settlement '' @ quote (rc_settlement config) @ '' is not a valid settlement paradigm'') @
        push_if (rc_sequencer config \<notin> set SEQUENCER_MODES)
          (''sequencer '' @ quote (rc_sequencer config) @ '' is not a valid sequencer mode'') @
        push_if (rc_proofSystem config \<notin> set PROOF_SYSTEMS)
          (''proofSystem '' @ quote (rc_proofSystem config) @ '' is not a valid proof system'') @
        push_if (rc_da config \<notin> set DA_BACKENDS)
          (''da '' @ quote (rc_da config) @ '' is not a valid data-availability backend'') @
        push_if (rc_gasModel config \<notin> set GAS_MODELS)
          (''gasModel '' @ quote (rc_gasModel config) @ '' is not a valid gas model'') @
        push_if (\<not> isVmType (rc_vmType config))
          (''vmType '' @ quote (rc_vmType config) @ '' is not a valid VM type'') @
        push_if (rc_settlement config \<in> set SETTLEMENT_PARADIGMS \<and>
                 rc_proofSystem config \<in> set PROOF_SYSTEMS \<and>
                 \<not> isProofCompatible (rc_settlement config) (rc_proofSystem config))
          (''proof system '' @ quote (rc_proofSystem config) @ '' is not compatible with '' @
           quote (rc_settlement config) @ '' settlement (expected one of: '' @
           join '', '' (validProofSystems (rc_settlement config)) @ '')'') @
        push_if (requiresBasedSequencer (rc_settlement config) \<and> rc_sequencer config \<noteq> ''based'')
          (''based settlement requires the '' @ quote ''based'' @ '' sequencer mode'') @
        push_if (\<not> positive_integer (rc_blockTimeMs config)) ''blockTimeMs must be a positive integer'' @
        push_if (\<not> positive_integer (rc_maxTxPerBlock config)) ''maxTxPerBlock must be a positive integer'' @
        push_if (case rc_stakeAmountUqor config of None \<Rightarrow> False | Some s \<Rightarrow> \<not> isPositiveIntegerString s)
          ''stakeAmountUqor must be a positive integer string (base uqor)'' @
        push_if (case rc_challengeWindowSecs config of None \<Rightarrow> False | Some n \<Rightarrow> \<not> positive_integer n)
          ''challengeWindowSecs must be a positive integer'' @
        push_if (case rc_maxDaBlobSize config of None \<Rightarrow> False | Some n \<Rightarrow> \<not> positive_integer n)
          ''maxDaBlobSize must be a positive integer (bytes)'';
        warnings =
          push_if (rc_da config = ''celestia'' \<or> rc_da config = ''both'')
            (''Celestia data availability is selectable but not yet active on the network; '' @
             ''batches targeting it will not be served until it is enabled.'')
      in \<lparr>vr_valid = (length errors = 0), vr_errors = errors, vr_warnings = warnings\<rparr>)"

definition assertValidRollupConfig :: "RollupConfig \<Rightarrow> error + unit" where
  "assertValidRollupConfig config =
     (let result = validateRollupConfig config in
      if \<not> vr_valid result then Inl (RollupConfigError (vr_errors result)) else Inr ())"

subsection \<open>The builder\<close>

text \<open>
  \<open>Partial<RollupConfig>\<close>: an outer \<open>None\<close> is a key that is absent, which the spread leaves alone. An
  optional field may also be given as \<open>undefined\<close>, the inner \<open>None\<close>. In the nested
  \<open>sequencerParams\<close> a \<open>None\<close> is an absent key.
\<close>

record Overrides =
  ov_rollupId :: "string option"
  ov_profile :: "ProfileName option"
  ov_settlement :: "string option"
  ov_sequencer :: "string option"
  ov_sequencerParams :: "SequencerParams option"
  ov_da :: "string option"
  ov_proofSystem :: "string option"
  ov_gasModel :: "string option"
  ov_vmType :: "string option"
  ov_blockTimeMs :: "js_num option"
  ov_maxTxPerBlock :: "js_num option"
  ov_challengeWindowSecs :: "js_num option option"
  ov_challengeBondUqor :: "string option option"
  ov_maxDaBlobSize :: "js_num option option"
  ov_stakeAmountUqor :: "string option option"

definition no_overrides :: Overrides where
  "no_overrides = \<lparr>ov_rollupId = None, ov_profile = None, ov_settlement = None, ov_sequencer = None,
     ov_sequencerParams = None, ov_da = None, ov_proofSystem = None, ov_gasModel = None, ov_vmType = None,
     ov_blockTimeMs = None, ov_maxTxPerBlock = None, ov_challengeWindowSecs = None,
     ov_challengeBondUqor = None, ov_maxDaBlobSize = None, ov_stakeAmountUqor = None\<rparr>"

definition over :: "'a \<Rightarrow> 'a option \<Rightarrow> 'a" where
  "over old new = (case new of None \<Rightarrow> old | Some v \<Rightarrow> v)"

definition orElse :: "'a option \<Rightarrow> 'a option \<Rightarrow> 'a option" where
  "orElse a b = (case a of None \<Rightarrow> b | Some _ \<Rightarrow> a)"

definition merge_params :: "SequencerParams option \<Rightarrow> SequencerParams \<Rightarrow> SequencerParams" where
  "merge_params old new = (case old of None \<Rightarrow> new | Some o1 \<Rightarrow>
     \<lparr>sp_sequencerAddress = orElse (sp_sequencerAddress new) (sp_sequencerAddress o1),
      sp_sharedSetMinSize = orElse (sp_sharedSetMinSize new) (sp_sharedSetMinSize o1),
      sp_inclusionDelay = orElse (sp_inclusionDelay new) (sp_inclusionDelay o1),
      sp_priorityFeeShare = orElse (sp_priorityFeeShare new) (sp_priorityFeeShare o1)\<rparr>)"

definition builder_set :: "RollupConfig \<Rightarrow> Overrides \<Rightarrow> RollupConfig" where
  "builder_set config ov =
     (let sequencerParams =
        (case ov_sequencerParams ov of None \<Rightarrow> rc_sequencerParams config
         | Some p \<Rightarrow> Some (merge_params (rc_sequencerParams config) p))
      in \<lparr>rc_rollupId = over (rc_rollupId config) (ov_rollupId ov),
          rc_profile = over (rc_profile config) (ov_profile ov),
          rc_settlement = over (rc_settlement config) (ov_settlement ov),
          rc_sequencer = over (rc_sequencer config) (ov_sequencer ov),
          rc_sequencerParams = sequencerParams,
          rc_da = over (rc_da config) (ov_da ov),
          rc_proofSystem = over (rc_proofSystem config) (ov_proofSystem ov),
          rc_gasModel = over (rc_gasModel config) (ov_gasModel ov),
          rc_vmType = over (rc_vmType config) (ov_vmType ov),
          rc_blockTimeMs = over (rc_blockTimeMs config) (ov_blockTimeMs ov),
          rc_maxTxPerBlock = over (rc_maxTxPerBlock config) (ov_maxTxPerBlock ov),
          rc_challengeWindowSecs = over (rc_challengeWindowSecs config) (ov_challengeWindowSecs ov),
          rc_challengeBondUqor = over (rc_challengeBondUqor config) (ov_challengeBondUqor ov),
          rc_maxDaBlobSize = over (rc_maxDaBlobSize config) (ov_maxDaBlobSize ov),
          rc_stakeAmountUqor = over (rc_stakeAmountUqor config) (ov_stakeAmountUqor ov)\<rparr>)"

definition builder_validationResult :: "RollupConfig \<Rightarrow> ValidationResult" where
  "builder_validationResult config = validateRollupConfig config"

definition builder_validate :: "RollupConfig \<Rightarrow> error + RollupConfig" where
  "builder_validate config = res_bind (assertValidRollupConfig config) (\<lambda>_. Inr config)"

definition builder_build :: "RollupConfig \<Rightarrow> error + RollupConfig" where
  "builder_build config = res_bind (assertValidRollupConfig config) (\<lambda>_. Inr config)"

definition builder_toCreateMsg ::
  "RollupConfig \<Rightarrow> string \<Rightarrow> string option \<Rightarrow> error + CreateRollupMsgInput" where
  "builder_toCreateMsg config creator optStake =
     res_bind (assertValidRollupConfig config) (\<lambda>_.
     let stakeAmount = orElse optStake (rc_stakeAmountUqor config) in
     if falsy stakeAmount
     then Inl (RollupConfigError
       [''a stake amount is required to build a create message; set stakeAmountUqor or pass '' @
        ''opts.stakeAmount (read the minimum from rdk.params())''])
     else Inr \<lparr>cm_creator = creator, cm_rollupId = rc_rollupId config, cm_profile = rc_profile config,
               cm_vmType = rc_vmType config, cm_stakeAmount = the stakeAmount\<rparr>)"

subsection \<open>Presets\<close>

definition preset_base ::
  "ProfileName \<Rightarrow> string \<Rightarrow> string \<Rightarrow> string \<Rightarrow> string \<Rightarrow> string \<Rightarrow> string \<Rightarrow> int \<Rightarrow> int \<Rightarrow> bool \<Rightarrow> RollupConfig"
where
  "preset_base name settlement sequencer da proofSystem gasModel vmType blockTimeMs maxTxPerBlock window =
     \<lparr>rc_rollupId = '''', rc_profile = name, rc_settlement = settlement, rc_sequencer = sequencer,
      rc_sequencerParams = None, rc_da = da, rc_proofSystem = proofSystem, rc_gasModel = gasModel,
      rc_vmType = vmType, rc_blockTimeMs = Whole blockTimeMs, rc_maxTxPerBlock = Whole maxTxPerBlock,
      rc_challengeWindowSecs = (if window then Some (Whole (dp_defaultChallengeWindow DEFAULT_RDK_PARAMS)) else None),
      rc_challengeBondUqor = (if window then Some DEFAULT_CHALLENGE_BOND_UQOR else None),
      rc_maxDaBlobSize = None, rc_stakeAmountUqor = None\<rparr>"

fun PRESET_DEFAULTS :: "ProfileName \<Rightarrow> RollupConfig" where
  "PRESET_DEFAULTS defi =
     preset_base defi ''zk'' ''dedicated'' ''native'' ''snark'' ''eip1559'' ''evm'' 500 10000 False"
| "PRESET_DEFAULTS gaming =
     preset_base gaming ''based'' ''based'' ''native'' ''none'' ''flat'' ''custom'' 200 50000 False"
| "PRESET_DEFAULTS nft =
     preset_base nft ''optimistic'' ''dedicated'' ''celestia'' ''fraud'' ''standard'' ''native'' 2000 5000 True"
| "PRESET_DEFAULTS enterprise =
     preset_base enterprise ''based'' ''based'' ''native'' ''none'' ''subsidized'' ''evm'' 1000 20000 False"
| "PRESET_DEFAULTS custom =
     preset_base custom ''optimistic'' ''dedicated'' ''native'' ''fraud'' ''standard'' ''evm'' 1000 10000 True"

definition makePreset :: "ProfileName \<Rightarrow> Overrides \<Rightarrow> RollupConfig" where
  "makePreset name overrides =
     (builder_set (PRESET_DEFAULTS name) overrides)\<lparr>rc_profile := name\<rparr>"

subsection \<open>Manifests and data availability\<close>

definition MANIFEST_SCHEMA :: string where
  "MANIFEST_SCHEMA = ''qorechain-rdk/rollup-manifest''"

record RollupManifest =
  mf_schema :: string
  mf_version :: int
  mf_network :: NetworkName
  mf_chainId :: "string option"
  mf_endpoints :: "(string \<times> string) list option"
  mf_config :: RollupConfig
  mf_addresses :: "(string \<times> string) list option"
  mf_createdAt :: "string option"
  mf_notes :: "string list option"

record ToManifestOptions =
  mo_network :: NetworkName
  mo_chainId :: "string option"
  mo_endpoints :: "(string \<times> string) list option"
  mo_addresses :: "(string \<times> string) list option"
  mo_createdAt :: "string option"
  mo_notes :: "string list option"

definition toManifest :: "RollupConfig \<Rightarrow> ToManifestOptions \<Rightarrow> RollupManifest" where
  "toManifest config o1 =
     \<lparr>mf_schema = MANIFEST_SCHEMA, mf_version = 1, mf_network = mo_network o1,
      mf_chainId = mo_chainId o1, mf_endpoints = mo_endpoints o1, mf_config = config,
      mf_addresses = mo_addresses o1, mf_createdAt = mo_createdAt o1, mf_notes = mo_notes o1\<rparr>"

definition fromManifest :: "RollupManifest option \<Rightarrow> error + RollupConfig" where
  "fromManifest manifest =
     (case manifest of
        None \<Rightarrow> Inl (JsError ''not a qorechain-rdk rollup manifest'')
      | Some m \<Rightarrow> if mf_schema m \<noteq> MANIFEST_SCHEMA then Inl (JsError ''not a qorechain-rdk rollup manifest'')
                 else Inr (mf_config m))"

definition DA_CELESTIA_UNAVAILABLE_MESSAGE :: string where
  "DA_CELESTIA_UNAVAILABLE_MESSAGE =
     ''Celestia data availability is selectable but not yet active on the QoreChain '' @
     ''network. Use the '' @ apos ''native'' @ '' backend, or wait until Celestia is enabled.''"

record DaBlob =
  db_data :: bytes
  db_dataHash :: string
  db_size :: nat

definition buildDaBlob :: "(bytes \<Rightarrow> bytes) \<Rightarrow> bytes_like \<Rightarrow> int option \<Rightarrow> error + DaBlob" where
  "buildDaBlob shake input maxBlobSize0 =
     res_bind (toBytes input) (\<lambda>data.
     let maxBlobSize = (case maxBlobSize0 of None \<Rightarrow> dp_maxDaBlobSize DEFAULT_RDK_PARAMS | Some m \<Rightarrow> m) in
     if maxBlobSize < int (length data) then Inl (BlobTooLarge (length data) maxBlobSize)
     else Inr \<lparr>db_data = data, db_dataHash = ''0x'' @ bytesToHex (qorehash shake [data]),
               db_size = length data\<rparr>)"

definition isDaBackendAvailable :: "string \<Rightarrow> bool" where
  "isDaBackendAvailable da \<longleftrightarrow> da = ''native''"

definition assertDaBackendAvailable :: "string \<Rightarrow> error + unit" where
  "assertDaBackendAvailable da =
     (if \<not> isDaBackendAvailable da then Inl (JsError DA_CELESTIA_UNAVAILABLE_MESSAGE) else Inr ())"

subsection \<open>Lemmas\<close>

text \<open>The specification of a valid configuration: one conjunct per rule, no texts.\<close>

definition config_ok :: "RollupConfig \<Rightarrow> bool" where
  "config_ok c \<longleftrightarrow>
     isValidRollupId (rc_rollupId c) \<and>
     (rc_settlement c, rc_proofSystem c) \<in>
       {(''optimistic'', ''fraud''), (''zk'', ''snark''), (''zk'', ''stark''), (''based'', ''none''),
        (''sovereign'', ''none'')} \<and>
     rc_sequencer c \<in> {''dedicated'', ''shared'', ''based''} \<and>
     (rc_settlement c = ''based'' \<longrightarrow> rc_sequencer c = ''based'') \<and>
     rc_da c \<in> {''native'', ''celestia'', ''both''} \<and>
     rc_gasModel c \<in> {''standard'', ''eip1559'', ''flat'', ''subsidized''} \<and>
     rc_vmType c \<in> {''evm'', ''native'', ''svm'', ''custom'', ''cosmwasm''} \<and>
     positive_integer (rc_blockTimeMs c) \<and> positive_integer (rc_maxTxPerBlock c) \<and>
     (\<forall>s. rc_stakeAmountUqor c = Some s \<longrightarrow> isPositiveIntegerString s) \<and>
     (\<forall>n. rc_challengeWindowSecs c = Some n \<longrightarrow> positive_integer n) \<and>
     (\<forall>n. rc_maxDaBlobSize c = Some n \<longrightarrow> positive_integer n)"

lemma push_if_Nil [simp]: "push_if b e = [] \<longleftrightarrow> \<not> b"
  by (simp add: push_if_def)

lemma id_char_not_space: "id_char c \<Longrightarrow> \<not> js_space c"
  by (auto simp: id_char_def lowerOrDigit_def js_space_def code_def)

lemma id_errors_Nil: "id_errors i = [] \<longleftrightarrow> isValidRollupId i"
proof -
  have "trim i \<noteq> []" if "rollupIdError i = None"
  proof -
    from that have i: "list_all id_char i" "i \<noteq> []" by (simp_all add: rollupIdError_None)
    then have "list_all (\<lambda>c. \<not> js_space c) i" using id_char_not_space by (auto simp: list_all_iff)
    with i show ?thesis by (simp add: trim_no_space)
  qed
  moreover have "rollupIdError [] \<noteq> None" by (simp add: rollupIdError_None)
  ultimately show ?thesis
    by (cases "rollupIdError i") (auto simp: id_errors_def isValidRollupId_def)
qed

lemma matrix_pairs:
  "s \<in> set SETTLEMENT_PARADIGMS \<and> p \<in> set PROOF_SYSTEMS \<and> isProofCompatible s p \<longleftrightarrow>
   (s, p) \<in> {(''optimistic'', ''fraud''), (''zk'', ''snark''), (''zk'', ''stark''), (''based'', ''none''),
     (''sovereign'', ''none'')}"
  by (auto simp: SETTLEMENT_PARADIGMS_def PROOF_SYSTEMS_def isProofCompatible_def SETTLEMENT_PROOF_MATRIX_def)

lemma validate_valid: "vr_valid (validateRollupConfig c) \<longleftrightarrow> config_ok c"
proof -
  have "vr_valid (validateRollupConfig c) \<longleftrightarrow>
      isValidRollupId (rc_rollupId c) \<and>
      (rc_settlement c \<in> set SETTLEMENT_PARADIGMS \<and> rc_proofSystem c \<in> set PROOF_SYSTEMS \<and>
       isProofCompatible (rc_settlement c) (rc_proofSystem c)) \<and>
      rc_sequencer c \<in> set SEQUENCER_MODES \<and>
      (rc_settlement c = ''based'' \<longrightarrow> rc_sequencer c = ''based'') \<and>
      rc_da c \<in> set DA_BACKENDS \<and> rc_gasModel c \<in> set GAS_MODELS \<and> isVmType (rc_vmType c) \<and>
      positive_integer (rc_blockTimeMs c) \<and> positive_integer (rc_maxTxPerBlock c) \<and>
      (\<forall>s. rc_stakeAmountUqor c = Some s \<longrightarrow> isPositiveIntegerString s) \<and>
      (\<forall>n. rc_challengeWindowSecs c = Some n \<longrightarrow> positive_integer n) \<and>
      (\<forall>n. rc_maxDaBlobSize c = Some n \<longrightarrow> positive_integer n)"
    by (simp add: validateRollupConfig_def Let_def id_errors_Nil requiresBasedSequencer_def
        split: option.splits) blast
  then show ?thesis
    unfolding matrix_pairs config_ok_def
    by (simp add: SEQUENCER_MODES_def DA_BACKENDS_def GAS_MODELS_def isVmType_def
        ACCEPTED_VM_TYPES_def VM_TYPES_def)
qed

lemma assertValid_eq_Inr: "assertValidRollupConfig c = Inr u \<longleftrightarrow> config_ok c"
  by (simp add: assertValidRollupConfig_def Let_def validate_valid)

lemma preset_ok:
  assumes "isValidRollupId i"
  shows "config_ok (makePreset name (no_overrides\<lparr>ov_rollupId := Some i\<rparr>))"
  using assms
  by (cases name) (simp_all add: config_ok_def makePreset_def builder_set_def over_def no_overrides_def
      preset_base_def DEFAULT_RDK_PARAMS_def)

subsection \<open>Properties\<close>

text \<open>
  C36: \<open>validateRollupConfig\<close> reports no error exactly for the configurations of \<open>config_ok\<close>: an id of
  the grammar, a settlement and proof system that go together, based settlement only with the based
  sequencer, values from the closed sets, and positive integers where numbers are given.
  \<open>assertValidRollupConfig\<close> and \<open>build\<close> accept the same configurations and throw the reported errors.
\<close>

theorem validation_is_exact:
  "(vr_valid (validateRollupConfig c) \<longleftrightarrow> config_ok c) \<and>
   (vr_errors (validateRollupConfig c) = [] \<longleftrightarrow> config_ok c) \<and>
   assertValidRollupConfig c =
     (if config_ok c then Inr () else Inl (RollupConfigError (vr_errors (validateRollupConfig c)))) \<and>
   builder_build c =
     (if config_ok c then Inr c else Inl (RollupConfigError (vr_errors (validateRollupConfig c))))"
proof -
  have "vr_valid (validateRollupConfig c) \<longleftrightarrow> vr_errors (validateRollupConfig c) = []"
    by (simp add: validateRollupConfig_def Let_def del: append_eq_append_conv)
  then show ?thesis
    using validate_valid [of c] by (auto simp: assertValidRollupConfig_def builder_build_def Let_def)
qed

text \<open>
  Every preset, given nothing but an id of the grammar, builds without an error, keeps its own
  profile name whatever the overrides say, and warns exactly when its data availability is not served
  by the network (only \<open>nft\<close> does).
\<close>

theorem presets_are_valid:
  assumes "isValidRollupId i"
  shows "\<exists>c. builder_build (makePreset name (no_overrides\<lparr>ov_rollupId := Some i\<rparr>)) = Inr c \<and>
    rc_rollupId c = i \<and> rc_profile c = name \<and> rc_profile (makePreset name ov) = name \<and>
    (vr_warnings (validateRollupConfig c) = [] \<longleftrightarrow> isDaBackendAvailable (rc_da c)) \<and>
    (isDaBackendAvailable (rc_da c) \<longleftrightarrow> name \<noteq> nft)"
proof -
  let ?c = "makePreset name (no_overrides\<lparr>ov_rollupId := Some i\<rparr>)"
  have "builder_build ?c = Inr ?c"
    using preset_ok [OF assms] by (simp add: builder_build_def assertValidRollupConfig_def validate_valid)
  moreover have "rc_rollupId ?c = i" "rc_profile ?c = name" "rc_profile (makePreset name ov) = name"
    by (simp_all add: makePreset_def builder_set_def over_def)
  moreover have "rc_da ?c = (if name = nft then ''celestia'' else ''native'')"
    by (cases name) (simp_all add: makePreset_def builder_set_def over_def no_overrides_def preset_base_def)
  ultimately show ?thesis
    by (simp add: validateRollupConfig_def Let_def isDaBackendAvailable_def)
qed

lemma presets_are_valid_witness:
  "\<exists>c. builder_build (makePreset defi (no_overrides\<lparr>ov_rollupId := Some ''abc''\<rparr>)) = Inr c \<and> rc_rollupId c = ''abc''"
proof -
  have "isValidRollupId ''abc''"
    by (simp add: isValidRollupId_def rollupIdError_None id_char_def lowerOrDigit_def code_def)
  from presets_are_valid [OF this, of defi no_overrides] show ?thesis by blast
qed

text \<open>
  A create message comes only from a valid configuration and copies its id, profile and VM type;
  the stake is the caller's if one is given, else the configuration's, and it is never empty. When
  the stake comes from the configuration it is a positive integer text without leading zeros.
\<close>

theorem create_msg_from_valid_config:
  assumes "builder_toCreateMsg c creator optStake = Inr m"
  shows "config_ok c \<and> cm_creator m = creator \<and> cm_rollupId m = rc_rollupId c \<and>
    cm_profile m = rc_profile c \<and> cm_vmType m = rc_vmType c \<and> cm_stakeAmount m \<noteq> '''' \<and>
    (optStake = None \<longrightarrow> rc_stakeAmountUqor c = Some (cm_stakeAmount m) \<and>
       isPositiveIntegerString (cm_stakeAmount m)) \<and>
    (\<forall>s. optStake = Some s \<longrightarrow> cm_stakeAmount m = s)"
proof -
  from assms have ok: "config_ok c"
    by (simp add: builder_toCreateMsg_def res_simps assertValid_eq_Inr)
  with assms have m: "\<not> falsy (orElse optStake (rc_stakeAmountUqor c))"
    "m = \<lparr>cm_creator = creator, cm_rollupId = rc_rollupId c, cm_profile = rc_profile c,
      cm_vmType = rc_vmType c, cm_stakeAmount = the (orElse optStake (rc_stakeAmountUqor c))\<rparr>"
    by (auto simp: builder_toCreateMsg_def res_simps Let_def split: if_splits)
  from ok have "\<forall>s. rc_stakeAmountUqor c = Some s \<longrightarrow> isPositiveIntegerString s"
    by (simp add: config_ok_def)
  with ok m show ?thesis
    by (cases optStake) (auto simp: falsy_def orElse_def)
qed

lemma create_msg_from_valid_config_witness:
  "\<exists>m. builder_toCreateMsg (makePreset defi (no_overrides\<lparr>ov_rollupId := Some ''abc''\<rparr>)) ''amy'' (Some ''5'') = Inr m \<and>
     cm_stakeAmount m = ''5'' \<and> cm_rollupId m = ''abc''"
proof -
  let ?c = "makePreset defi (no_overrides\<lparr>ov_rollupId := Some ''abc''\<rparr>)"
  have "isValidRollupId ''abc''"
    by (simp add: isValidRollupId_def rollupIdError_None id_char_def lowerOrDigit_def code_def)
  then have "config_ok ?c" by (rule preset_ok)
  then obtain m where m: "builder_toCreateMsg ?c ''amy'' (Some ''5'') = Inr m"
    by (simp add: builder_toCreateMsg_def assertValidRollupConfig_def validate_valid falsy_def orElse_def)
  from create_msg_from_valid_config [OF m] m show ?thesis
    by (auto simp: makePreset_def builder_set_def over_def no_overrides_def)
qed

text \<open>
  The stake a caller passes to \<open>toCreateMsg\<close> is not checked: every valid configuration yields a
  message whose stake is the text \<open>abc\<close>, which \<open>stakeAmountUqor\<close> itself would have refused.
\<close>

theorem create_msg_stake_unchecked:
  assumes "config_ok c"
  shows "(\<exists>m. builder_toCreateMsg c creator (Some ''abc'') = Inr m \<and> cm_stakeAmount m = ''abc'') \<and>
    \<not> config_ok (c\<lparr>rc_stakeAmountUqor := Some ''abc''\<rparr>)"
proof -
  have "\<not> isPositiveIntegerString ''abc''"
    by (simp add: isPositiveIntegerString_def is_digit_def code_def)
  then show ?thesis
    using assms
    by (auto simp: builder_toCreateMsg_def assertValidRollupConfig_def validate_valid falsy_def orElse_def
        config_ok_def)
qed

lemma create_msg_stake_unchecked_witness:
  "\<exists>m. builder_toCreateMsg (makePreset defi (no_overrides\<lparr>ov_rollupId := Some ''abc''\<rparr>)) ''amy'' (Some ''abc'') = Inr m \<and>
     cm_stakeAmount m = ''abc''"
proof -
  have "isValidRollupId ''abc''"
    by (simp add: isValidRollupId_def rollupIdError_None id_char_def lowerOrDigit_def code_def)
  from create_msg_stake_unchecked [OF preset_ok [OF this]] show ?thesis by blast
qed

text \<open>
  A configuration survives a manifest: \<open>fromManifest\<close> of what \<open>toManifest\<close> wrote gives back the same
  configuration for any options, and an object with another schema is refused.
\<close>

theorem manifest_round_trip:
  "fromManifest (Some (toManifest c o1)) = Inr c \<and>
   (\<forall>m. mf_schema m \<noteq> MANIFEST_SCHEMA \<longrightarrow> (\<exists>e. fromManifest (Some m) = Inl e))"
  by (simp add: fromManifest_def toManifest_def)

lemma manifest_round_trip_witness:
  "\<exists>e. fromManifest (Some ((toManifest (PRESET_DEFAULTS defi)
     \<lparr>mo_network = testnet, mo_chainId = None, mo_endpoints = None, mo_addresses = None,
      mo_createdAt = None, mo_notes = None\<rparr>)\<lparr>mf_schema := ''other''\<rparr>)) = Inl e"
  by (rule manifest_round_trip [THEN conjunct2, rule_format]) (simp add: MANIFEST_SCHEMA_def)

text \<open>
  \<open>buildDaBlob\<close> keeps the bytes and their count, refuses exactly the blobs above the limit, and its
  data hash reads back as the 32-byte commitment of the data.
\<close>

theorem da_blob_commits:
  assumes "toBytes input = Inr d"
  shows "(if limit < int (length d) then buildDaBlob shake input (Some limit) = Inl (BlobTooLarge (length d) limit)
    else \<exists>b. buildDaBlob shake input (Some limit) = Inr b \<and> db_data b = d \<and> int (db_size b) \<le> limit \<and>
      hexToBytes (db_dataHash b) = Inr (shake d))"
  using assms by (simp add: buildDaBlob_def qorehash_def Let_def)

lemma da_blob_commits_witness:
  "\<exists>b. buildDaBlob toy_hash (Raw [1, 2]) (Some 2) = Inr b \<and> hexToBytes (db_dataHash b) = Inr (toy_hash [1, 2])"
  using da_blob_commits [of "Raw [1, 2]" "[1, 2]" 2 toy_hash] by auto

end
