(* ===== verification/Views.thy ===== *)
theory Views
  imports Config
begin

text \<open>
  The typed views of the chain's query responses, \<open>packages/ts/src/client/views.ts\<close>: JSON values, the
  readers \<open>pick\<close>, \<open>str\<close>, \<open>num\<close> and \<open>hexBytes\<close>, and one mapper per view. JSON numbers are the
  integers the chain serves; a text that is no integer literal reads as \<open>NaN\<close>. Reading a key of
  \<open>null\<close> throws, as it does in JavaScript.

  Shown: a batch, a rollup and an anchor served under either spelling of the keys, with 64-bit
  integers as texts or as numbers and bytes as hex or base64, are read back exactly.
\<close>

subsection \<open>JSON values\<close>

datatype json =
    JNull
  | JBool bool
  | JNum int
  | JStr string
  | JArr "json list"
  | JObj "(string \<times> json) list"

fun js_String :: "json \<Rightarrow> string" where
  "js_String JNull = ''null''"
| "js_String (JBool b) = (if b then ''true'' else ''false'')"
| "js_String (JNum n) = show_int n"
| "js_String (JStr s) = s"
| "js_String (JArr xs) = join '','' (map (\<lambda>x. case x of JNull \<Rightarrow> '''' | _ \<Rightarrow> js_String x) xs)"
| "js_String (JObj _) = ''[object Object]''"

fun js_Number :: "json \<Rightarrow> int option" where
  "js_Number JNull = Some 0"
| "js_Number (JBool b) = Some (if b then 1 else 0)"
| "js_Number (JNum n) = Some n"
| "js_Number (JStr s) = string_to_bigint s"
| "js_Number (JArr xs) = string_to_bigint (js_String (JArr xs))"
| "js_Number (JObj _) = None"

text \<open>\<open>obj[key]\<close>: \<open>None\<close> is \<open>undefined\<close>.\<close>

fun field_of :: "json \<Rightarrow> string \<Rightarrow> json option" where
  "field_of (JObj fs) key = map_of fs key"
| "field_of _ key = None"

subsection \<open>Readers\<close>

fun pick :: "json \<Rightarrow> string list \<Rightarrow> json option" where
  "pick obj [] = None"
| "pick obj (key # keys) = (case field_of obj key of None \<Rightarrow> pick obj keys | Some v \<Rightarrow> Some v)"

definition str_or :: "string \<Rightarrow> json option \<Rightarrow> string" where
  "str_or fallback value =
     (case value of None \<Rightarrow> fallback | Some JNull \<Rightarrow> fallback | Some v \<Rightarrow> js_String v)"

definition num_or :: "int \<Rightarrow> json option \<Rightarrow> int" where
  "num_or fallback value =
     (if value = None \<or> value = Some JNull \<or> value = Some (JStr '''') then fallback
      else case js_Number (the value) of None \<Rightarrow> fallback | Some n \<Rightarrow> n)"

abbreviation str :: "json option \<Rightarrow> string" where
  "str \<equiv> str_or ''''"

abbreviation num :: "json option \<Rightarrow> int" where
  "num \<equiv> num_or 0"

definition hexBytes :: "json option \<Rightarrow> error + string" where
  "hexBytes value =
     (let s = str value in
      if s = '''' then Inr '''' else res_bind (decodeWireBytes s) (\<lambda>b. Inr (bytesToHex b)))"

definition given :: "json option \<Rightarrow> bool" where
  "given v \<longleftrightarrow> v \<noteq> None \<and> v \<noteq> Some JNull \<and> v \<noteq> Some (JStr '''')"

definition opt_num :: "json option \<Rightarrow> int option" where
  "opt_num v = (if \<not> given v then None else Some (num v))"

definition opt_str :: "json option \<Rightarrow> string option" where
  "opt_str v = (if \<not> given v then None else Some (js_String (the v)))"

definition opt_true :: "json option \<Rightarrow> bool option" where
  "opt_true v = (if v = Some (JBool True) then Some True else None)"

text \<open>\<open>raw[key]\<close> on \<open>null\<close> is a \<open>TypeError\<close>; every mapper reads a key first.\<close>

definition of_record :: "json \<Rightarrow> (error + 'a) \<Rightarrow> error + 'a" where
  "of_record raw r = (if raw = JNull then Inl (JsError ''Cannot read properties of null'') else r)"

subsection \<open>Views\<close>

record ParamsView =
  pv_maxRollups :: int
  pv_minStakeForRollup :: string
  pv_rollupCreationBurnRate :: string
  pv_defaultChallengeWindow :: int
  pv_maxDaBlobSize :: int
  pv_blobRetentionBlocks :: int
  pv_maxBatchesPerBlock :: int

record RollupView =
  rv_rollupId :: string
  rv_creator :: string
  rv_profile :: string
  rv_settlementMode :: string
  rv_daBackend :: string
  rv_blockTimeMs :: int
  rv_maxTxPerBlock :: int
  rv_vmType :: string
  rv_status :: string
  rv_stakeAmount :: string
  rv_layerId :: string
  rv_createdHeight :: int
  rv_escrowBalance :: string
  rv_challengeWindowSec :: "int option"
  rv_challengeBond :: "string option"
  rv_proofSystem :: "string option"
  rv_hasVerificationKey :: "bool option"

record BatchView =
  bv_rollupId :: string
  bv_batchIndex :: int
  bv_stateRoot :: string
  bv_prevStateRoot :: string
  bv_txCount :: int
  bv_dataHash :: string
  bv_proofType :: string
  bv_status :: string
  bv_submittedAt :: int
  bv_finalizedAt :: int
  bv_withdrawalsRoot :: string
  bv_withdrawalsBound :: "bool option"
  bv_submittedTime :: int

record AnchorView =
  av_layerId :: string
  av_layerHeight :: int
  av_stateRoot :: string
  av_validatorSetHash :: string
  av_mainChainHeight :: int
  av_anchoredAt :: int
  av_pqcSignature :: string
  av_transactionCount :: int
  av_compressedStateProof :: string

record PqcAccountView =
  qv_address :: string
  qv_publicKey :: string
  qv_algorithmId :: int
  qv_algorithmName :: string
  qv_ecdsaPubkey :: string

definition mapAnchorView :: "json \<Rightarrow> error + AnchorView" where
  "mapAnchorView raw = of_record raw
     (res_bind (hexBytes (pick raw [''state_root'', ''stateRoot''])) (\<lambda>stateRoot.
      res_bind (hexBytes (pick raw [''validator_set_hash'', ''validatorSetHash''])) (\<lambda>validatorSetHash.
      res_bind (hexBytes (pick raw [''pqc_aggregate_signature'', ''pqcAggregateSignature''])) (\<lambda>pqcSignature.
      res_bind (hexBytes (pick raw [''compressed_state_proof'', ''compressedStateProof''])) (\<lambda>compressedStateProof.
      Inr \<lparr>av_layerId = str (pick raw [''layer_id'', ''layerId'']),
           av_layerHeight = num (pick raw [''layer_height'', ''layerHeight'']),
           av_stateRoot = stateRoot, av_validatorSetHash = validatorSetHash,
           av_mainChainHeight = num (pick raw [''main_chain_height'', ''mainChainHeight'']),
           av_anchoredAt = num (pick raw [''anchored_at'', ''anchoredAt'']),
           av_pqcSignature = pqcSignature,
           av_transactionCount = num (pick raw [''transaction_count'', ''transactionCount'']),
           av_compressedStateProof = compressedStateProof\<rparr>)))))"

definition mapPqcAccountView :: "json \<Rightarrow> error + PqcAccountView" where
  "mapPqcAccountView raw = of_record raw
     (res_bind (hexBytes (pick raw [''public_key'', ''publicKey''])) (\<lambda>publicKey.
      res_bind (hexBytes (pick raw [''ecdsa_pubkey'', ''ecdsaPubkey''])) (\<lambda>ecdsaPubkey.
      Inr \<lparr>qv_address = str (pick raw [''address'']), qv_publicKey = publicKey,
           qv_algorithmId = num (pick raw [''algorithm_id'', ''algorithmId'']),
           qv_algorithmName = str (pick raw [''algorithm_name'', ''algorithmName'']),
           qv_ecdsaPubkey = ecdsaPubkey\<rparr>)))"

definition mapParamsView :: "json \<Rightarrow> error + ParamsView" where
  "mapParamsView raw = of_record raw (Inr
     \<lparr>pv_maxRollups = num (pick raw [''max_rollups'', ''maxRollups'']),
      pv_minStakeForRollup = str_or ''0'' (pick raw [''min_stake_for_rollup'', ''minStakeForRollup'']),
      pv_rollupCreationBurnRate = str_or ''0'' (pick raw [''rollup_creation_burn_rate'', ''rollupCreationBurnRate'']),
      pv_defaultChallengeWindow = num (pick raw [''default_challenge_window'', ''defaultChallengeWindow'']),
      pv_maxDaBlobSize = num (pick raw [''max_da_blob_size'', ''maxDaBlobSize'']),
      pv_blobRetentionBlocks = num (pick raw [''blob_retention_blocks'', ''blobRetentionBlocks'']),
      pv_maxBatchesPerBlock = num (pick raw [''max_batches_per_block'', ''maxBatchesPerBlock''])\<rparr>)"

definition mapRollupView :: "json \<Rightarrow> error + RollupView" where
  "mapRollupView raw = of_record raw (Inr
     \<lparr>rv_rollupId = str (pick raw [''rollup_id'', ''rollupId'']),
      rv_creator = str (pick raw [''creator'']),
      rv_profile = str (pick raw [''profile'']),
      rv_settlementMode = str (pick raw [''settlement_mode'', ''settlementMode'']),
      rv_daBackend = str (pick raw [''da_backend'', ''daBackend'']),
      rv_blockTimeMs = num (pick raw [''block_time_ms'', ''blockTimeMs'']),
      rv_maxTxPerBlock = num (pick raw [''max_tx_per_block'', ''maxTxPerBlock'']),
      rv_vmType = str (pick raw [''vm_type'', ''vmType'']),
      rv_status = str (pick raw [''status'']),
      rv_stakeAmount = str_or ''0'' (pick raw [''stake_amount'', ''stakeAmount'']),
      rv_layerId = str (pick raw [''layer_id'', ''layerId'']),
      rv_createdHeight = num (pick raw [''created_height'', ''createdHeight'']),
      rv_escrowBalance = str_or ''0'' (pick raw [''escrow_balance'', ''escrowBalance'']),
      rv_challengeWindowSec = opt_num (pick raw [''challenge_window_sec'', ''challengeWindowSec'']),
      rv_challengeBond = opt_str (pick raw [''challenge_bond'', ''challengeBond'']),
      rv_proofSystem = opt_str (pick raw [''proof_system'', ''proofSystem'']),
      rv_hasVerificationKey = opt_true (pick raw [''has_verification_key'', ''hasVerificationKey''])\<rparr>)"

definition mapBatchView :: "json \<Rightarrow> error + BatchView" where
  "mapBatchView raw = of_record raw (Inr
     \<lparr>bv_rollupId = str (pick raw [''rollup_id'', ''rollupId'']),
      bv_batchIndex = num (pick raw [''batch_index'', ''batchIndex'']),
      bv_stateRoot = str (pick raw [''state_root'', ''stateRoot'']),
      bv_prevStateRoot = str (pick raw [''prev_state_root'', ''prevStateRoot'']),
      bv_txCount = num (pick raw [''tx_count'', ''txCount'']),
      bv_dataHash = str (pick raw [''data_hash'', ''dataHash'']),
      bv_proofType = str (pick raw [''proof_type'', ''proofType'']),
      bv_status = str (pick raw [''status'']),
      bv_submittedAt = num (pick raw [''submitted_at'', ''submittedAt'']),
      bv_finalizedAt = num (pick raw [''finalized_at'', ''finalizedAt'']),
      bv_withdrawalsRoot = str (pick raw [''withdrawals_root'', ''withdrawalsRoot'']),
      bv_withdrawalsBound = opt_true (pick raw [''withdrawals_bound'', ''withdrawalsBound'']),
      bv_submittedTime = num (pick raw [''submitted_time'', ''submittedTime''])\<rparr>)"

subsection \<open>How the chain serves a view\<close>

text \<open>
  The gateway's encodings, for the read-back theorems: \<open>snake\<close> or camel keys, 64-bit integers as
  decimal texts or as numbers, bytes as hex or base64, and a false or absent flag left out.
\<close>

definition key :: "bool \<Rightarrow> string \<Rightarrow> string \<Rightarrow> string" where
  "key snake s c = (if snake then s else c)"

definition served_int :: "bool \<Rightarrow> int \<Rightarrow> json" where
  "served_int txt n = (if txt then JStr (show_int n) else JNum n)"

definition served_bytes :: "bool \<Rightarrow> bytes \<Rightarrow> json" where
  "served_bytes hex b = JStr (if hex then bytesToHex b else bytesToBase64 b)"

definition padded :: "bytes \<Rightarrow> bool" where
  "padded b \<longleftrightarrow> b = [] \<or> length b mod 3 \<noteq> 0"

definition served_flag :: "string \<Rightarrow> bool option \<Rightarrow> (string \<times> json) list" where
  "served_flag k f = (case f of Some True \<Rightarrow> [(k, JBool True)] | _ \<Rightarrow> [])"

definition serve_batch :: "bool \<Rightarrow> bool \<Rightarrow> BatchView \<Rightarrow> json" where
  "serve_batch snake txt b = JObj (
     [(key snake ''rollup_id'' ''rollupId'', JStr (bv_rollupId b)),
      (key snake ''batch_index'' ''batchIndex'', served_int txt (bv_batchIndex b)),
      (key snake ''state_root'' ''stateRoot'', JStr (bv_stateRoot b)),
      (key snake ''prev_state_root'' ''prevStateRoot'', JStr (bv_prevStateRoot b)),
      (key snake ''tx_count'' ''txCount'', served_int txt (bv_txCount b)),
      (key snake ''data_hash'' ''dataHash'', JStr (bv_dataHash b)),
      (key snake ''proof_type'' ''proofType'', JStr (bv_proofType b)),
      (''status'', JStr (bv_status b)),
      (key snake ''submitted_at'' ''submittedAt'', served_int txt (bv_submittedAt b)),
      (key snake ''finalized_at'' ''finalizedAt'', served_int txt (bv_finalizedAt b)),
      (key snake ''withdrawals_root'' ''withdrawalsRoot'', JStr (bv_withdrawalsRoot b)),
      (key snake ''submitted_time'' ''submittedTime'', served_int txt (bv_submittedTime b))] @
     served_flag (key snake ''withdrawals_bound'' ''withdrawalsBound'') (bv_withdrawalsBound b))"

record anchor_data =
  ad_layerId :: string
  ad_layerHeight :: int
  ad_stateRoot :: bytes
  ad_validatorSetHash :: bytes
  ad_mainChainHeight :: int
  ad_anchoredAt :: int
  ad_pqcSignature :: bytes
  ad_transactionCount :: int
  ad_compressedStateProof :: bytes

definition serve_anchor :: "bool \<Rightarrow> bool \<Rightarrow> bool \<Rightarrow> anchor_data \<Rightarrow> json" where
  "serve_anchor snake txt hex a = JObj
     [(key snake ''layer_id'' ''layerId'', JStr (ad_layerId a)),
      (key snake ''layer_height'' ''layerHeight'', served_int txt (ad_layerHeight a)),
      (key snake ''state_root'' ''stateRoot'', served_bytes hex (ad_stateRoot a)),
      (key snake ''validator_set_hash'' ''validatorSetHash'', served_bytes hex (ad_validatorSetHash a)),
      (key snake ''main_chain_height'' ''mainChainHeight'', served_int txt (ad_mainChainHeight a)),
      (key snake ''anchored_at'' ''anchoredAt'', served_int txt (ad_anchoredAt a)),
      (key snake ''pqc_aggregate_signature'' ''pqcAggregateSignature'', served_bytes hex (ad_pqcSignature a)),
      (key snake ''transaction_count'' ''transactionCount'', served_int txt (ad_transactionCount a)),
      (key snake ''compressed_state_proof'' ''compressedStateProof'', served_bytes hex (ad_compressedStateProof a))]"

definition anchor_view :: "anchor_data \<Rightarrow> AnchorView" where
  "anchor_view a = \<lparr>av_layerId = ad_layerId a, av_layerHeight = ad_layerHeight a,
     av_stateRoot = bytesToHex (ad_stateRoot a), av_validatorSetHash = bytesToHex (ad_validatorSetHash a),
     av_mainChainHeight = ad_mainChainHeight a, av_anchoredAt = ad_anchoredAt a,
     av_pqcSignature = bytesToHex (ad_pqcSignature a), av_transactionCount = ad_transactionCount a,
     av_compressedStateProof = bytesToHex (ad_compressedStateProof a)\<rparr>"

subsection \<open>Reading back\<close>

lemma string_to_bigint_show_int [simp]: "string_to_bigint (show_int n) = Some n"
proof (cases "n < 0")
  case False
  then show ?thesis
    using string_to_bigint_digits [OF show_nat_nonempty show_nat_digits, of "nat n"]
    by (simp add: show_int_def)
next
  case True
  let ?d = "show_nat (nat (- n))"
  have "list_all (\<lambda>c. \<not> js_space c) (CHR ''-'' # ?d)"
    using show_nat_digits [of "nat (- n)"] digit_not_special(7)
    by (auto simp: list_all_iff js_space_def code_def)
  then have t: "trim (CHR ''-'' # ?d) = CHR ''-'' # ?d" by (rule trim_no_space)
  have "radix_literal 10 ?d = Some (- n)"
    using radix_literal_10 [OF show_nat_nonempty show_nat_digits, of "nat (- n)"] True by simp
  then show ?thesis
    using True by (simp add: show_int_def string_to_bigint_def t)
qed

lemma show_int_nonempty [simp]: "show_int n \<noteq> []"
  by (simp add: show_int_def)

lemma num_served_int [simp]: "num_or d (Some (served_int txt n)) = n"
  by (simp add: num_or_def served_int_def)

lemma str_JStr [simp]: "str_or d (Some (JStr s)) = s"
  by (simp add: str_or_def)

lemma hexBytes_served:
  assumes "hex \<or> padded b"
  shows "hexBytes (Some (served_bytes hex b)) = Inr (bytesToHex b)"
proof (cases hex)
  case True
  then show ?thesis by (simp add: hexBytes_def served_bytes_def)
next
  case False
  with assms have "decodeWireBytes (bytesToBase64 b) = Inr b"
    using decodeWireBytes_base64 [of b] by (auto simp: padded_def decodeWireBytes_def)
  with False show ?thesis by (simp add: hexBytes_def served_bytes_def)
qed

subsection \<open>Properties\<close>

text \<open>
  A settlement batch the chain serves, with snake-case or camel-case keys and its integers as
  decimal texts or as numbers, is read back by \<open>mapBatchView\<close> field for field; the only flag that can
  be set is \<open>withdrawalsBound: true\<close>.
\<close>

theorem batch_view_reads_back:
  assumes "bv_withdrawalsBound b \<noteq> Some False"
  shows "mapBatchView (serve_batch snake txt b) = Inr b"
proof (cases snake)
  case True
  with assms show ?thesis
    by (cases "bv_withdrawalsBound b")
      (auto simp: mapBatchView_def serve_batch_def of_record_def key_def served_flag_def opt_true_def)
next
  case False
  with assms show ?thesis
    by (cases "bv_withdrawalsBound b")
      (auto simp: mapBatchView_def serve_batch_def of_record_def key_def served_flag_def opt_true_def)
qed

definition sample_batch :: "int \<Rightarrow> BatchView" where
  "sample_batch i = \<lparr>bv_rollupId = ''r'', bv_batchIndex = i, bv_stateRoot = ''aa'', bv_prevStateRoot = ''bb'',
     bv_txCount = 3, bv_dataHash = '''', bv_proofType = ''fraud'', bv_status = ''submitted'',
     bv_submittedAt = 10, bv_finalizedAt = 0, bv_withdrawalsRoot = '''', bv_withdrawalsBound = None,
     bv_submittedTime = 0\<rparr>"

lemma batch_view_reads_back_witness:
  "mapBatchView (serve_batch True True (sample_batch 7)) = Inr (sample_batch 7)"
  using batch_view_reads_back [of "sample_batch 7" True True] by (simp add: sample_batch_def)

text \<open>
  A state anchor served in hex is read back with every byte field as lower-case hex, and so is one
  served in base64 as long as each byte field is empty or has a length that is no multiple of three,
  which holds for the 32-byte roots.
\<close>

theorem anchor_view_reads_back:
  assumes "hex \<or> (padded (ad_stateRoot a) \<and> padded (ad_validatorSetHash a) \<and>
    padded (ad_pqcSignature a) \<and> padded (ad_compressedStateProof a))"
  shows "mapAnchorView (serve_anchor snake txt hex a) = Inr (anchor_view a)"
proof -
  have b: "hexBytes (Some (served_bytes hex (ad_stateRoot a))) = Inr (bytesToHex (ad_stateRoot a))"
    "hexBytes (Some (served_bytes hex (ad_validatorSetHash a))) = Inr (bytesToHex (ad_validatorSetHash a))"
    "hexBytes (Some (served_bytes hex (ad_pqcSignature a))) = Inr (bytesToHex (ad_pqcSignature a))"
    "hexBytes (Some (served_bytes hex (ad_compressedStateProof a))) = Inr (bytesToHex (ad_compressedStateProof a))"
    using assms by (auto intro: hexBytes_served)
  show ?thesis
    by (cases snake) (simp_all add: mapAnchorView_def serve_anchor_def anchor_view_def of_record_def key_def b)
qed

lemma anchor_view_reads_back_witness:
  "mapAnchorView (serve_anchor True True False \<lparr>ad_layerId = ''l'', ad_layerHeight = 2, ad_stateRoot = replicate 32 1,
     ad_validatorSetHash = replicate 32 2, ad_mainChainHeight = 9, ad_anchoredAt = 5, ad_pqcSignature = [1, 2],
     ad_transactionCount = 0, ad_compressedStateProof = [7]\<rparr>) =
   Inr (anchor_view \<lparr>ad_layerId = ''l'', ad_layerHeight = 2, ad_stateRoot = replicate 32 1,
     ad_validatorSetHash = replicate 32 2, ad_mainChainHeight = 9, ad_anchoredAt = 5, ad_pqcSignature = [1, 2],
     ad_transactionCount = 0, ad_compressedStateProof = [7]\<rparr>)"
  by (rule anchor_view_reads_back) (simp add: padded_def)

end
