(* ===== verification/Rest.thy ===== *)
theory Rest
  imports Views
begin

text \<open>
  The read clients: \<open>packages/ts/src/client/http.ts\<close>, \<open>rest.ts\<close>, \<open>jsonrpc.ts\<close>, and the profile suggestion
  \<open>profiles/suggest.ts\<close> that goes through them. The network is the argument \<open>fetch\<close>, a function from a
  request to a response or a thrown error; an operation that sends several requests sees one snapshot
  of the node. Bodies stay structured JSON, so \<open>JSON.stringify\<close> and the response's \<open>json()\<close> are the
  node's side of that function.

  Shown: a route names its parameters unambiguously, \<open>listBatches\<close> returns every batch of a node that
  pages as documented, the feature and upgrade queries degrade as documented, and a profile suggestion
  never throws and always names a known profile.
\<close>

subsection \<open>HTTP\<close>

record HttpResponse =
  hr_ok :: bool
  hr_status :: nat
  hr_statusText :: string
  hr_json :: "error + json"

datatype request = GET string | POST string json

type_synonym fetch_like = "request \<Rightarrow> error + HttpResponse"

text \<open>\<open>encodeURIComponent\<close>: everything but the unreserved marks is percent-encoded, byte by byte.\<close>

definition unreserved :: "char \<Rightarrow> bool" where
  "unreserved c \<longleftrightarrow> is_digit c \<or> (97 \<le> code c \<and> code c \<le> 122) \<or> (65 \<le> code c \<and> code c \<le> 90) \<or>
     c \<in> set ''-_.!~*()'' \<or> code c = 39"

definition upper_hex_char :: "nat \<Rightarrow> char" where
  "upper_hex_char n = (if n < 10 then char_of (48 + n) else char_of (55 + n))"

definition percent :: "byte \<Rightarrow> string" where
  "percent b = [CHR ''%'', upper_hex_char (unat b div 16), upper_hex_char (unat b mod 16)]"

definition uri_char :: "char \<Rightarrow> string" where
  "uri_char c = (if unreserved c then [c] else concat (map percent (utf8_char c)))"

definition encodeURIComponent :: "string \<Rightarrow> string" where
  "encodeURIComponent s = concat (map uri_char s)"

text \<open>\<open>baseUrl.replace(/\/+$/, "")\<close>.\<close>

definition strip_slashes :: "string \<Rightarrow> string" where
  "strip_slashes u = rev (dropWhile (\<lambda>c. c = CHR ''/'') (rev u))"

subsection \<open>The REST client\<close>

record RestClient =
  rest_base :: string
  rest_fetch :: fetch_like

definition newRestClient :: "string \<Rightarrow> fetch_like \<Rightarrow> RestClient" where
  "newRestClient baseUrl fetch = \<lparr>rest_base = strip_slashes baseUrl, rest_fetch = fetch\<rparr>"

definition asRecord :: "json \<Rightarrow> json" where
  "asRecord v = (case v of JArr _ \<Rightarrow> v | JObj _ \<Rightarrow> v | _ \<Rightarrow> JObj [])"

definition asArray :: "json option \<Rightarrow> json list" where
  "asArray v = (case v of Some (JArr xs) \<Rightarrow> xs | _ \<Rightarrow> [])"

definition rest_get :: "RestClient \<Rightarrow> string \<Rightarrow> error + json" where
  "rest_get c path =
     res_bind (rest_fetch c (GET (rest_base c @ path))) (\<lambda>res.
     if \<not> hr_ok res then Inl (HttpFailed path (hr_status res) (hr_statusText res))
     else res_bind (hr_json res) (\<lambda>body. Inr (asRecord body)))"

text \<open>\<open>a ?? b\<close> on a read key: \<open>undefined\<close> and \<open>null\<close> fall through.\<close>

definition nullish :: "json option \<Rightarrow> json \<Rightarrow> json" where
  "nullish v d = (case v of None \<Rightarrow> d | Some JNull \<Rightarrow> d | Some x \<Rightarrow> x)"

definition getParams :: "RestClient \<Rightarrow> error + ParamsView" where
  "getParams c = res_bind (rest_get c ''/qorechain/rdk/v1/params'') (\<lambda>body.
     mapParamsView (asRecord (nullish (field_of body ''params'') body)))"

definition getRollup :: "RestClient \<Rightarrow> string \<Rightarrow> error + RollupView" where
  "getRollup c rollupId =
     res_bind (rest_get c (''/qorechain/rdk/v1/rollup/'' @ encodeURIComponent rollupId)) (\<lambda>body.
       mapRollupView (asRecord (nullish (field_of body ''rollup'') body)))"

definition rest_listRollups :: "RestClient \<Rightarrow> error + RollupView list" where
  "rest_listRollups c = res_bind (rest_get c ''/qorechain/rdk/v1/rollups'') (\<lambda>body.
     res_mapM mapRollupView (asArray (field_of body ''rollups'')))"

definition batch_path :: "string \<Rightarrow> int \<Rightarrow> string" where
  "batch_path rollupId batchIndex =
     ''/qorechain/rdk/v1/batch/'' @ encodeURIComponent rollupId @ ''/'' @ show_int batchIndex"

definition getBatch :: "RestClient \<Rightarrow> string \<Rightarrow> int \<Rightarrow> error + BatchView" where
  "getBatch c rollupId batchIndex = res_bind (rest_get c (batch_path rollupId batchIndex)) (\<lambda>body.
     mapBatchView (asRecord (nullish (field_of body ''batch'') body)))"

text \<open>The query string of \<open>URLSearchParams\<close>, whose values here are decimal integers.\<close>

definition batches_query :: "int option \<Rightarrow> int option \<Rightarrow> string" where
  "batches_query startIndex limit =
     join ''&''
       ((case startIndex of None \<Rightarrow> [] | Some i \<Rightarrow> [''start_index='' @ show_int i]) @
        (case limit of None \<Rightarrow> [] | Some l \<Rightarrow> [''limit='' @ show_int l]))"

definition to_number :: "json \<Rightarrow> int" where
  "to_number v = (case js_Number v of None \<Rightarrow> 0 | Some n \<Rightarrow> n)"

text \<open>
  \<open>nextIndex\<close> is \<open>Number(...)\<close> of what the node sent; the model is of nodes that send an integer there,
  so that \<open>NaN\<close> does not occur.
\<close>

definition listBatchesPage ::
  "RestClient \<Rightarrow> string \<Rightarrow> int option \<Rightarrow> int option \<Rightarrow> error + (BatchView list \<times> int)" where
  "listBatchesPage c rollupId startIndex limit =
     (let qs = batches_query startIndex limit in
      res_bind (rest_get c (''/qorechain/rdk/v1/batches/'' @ encodeURIComponent rollupId @
        (if qs \<noteq> '''' then ''?'' @ qs else ''''))) (\<lambda>body.
      res_bind (res_mapM mapBatchView (asArray (field_of body ''batches''))) (\<lambda>batches.
        Inr (batches, to_number (nullish (field_of body ''next_index'')
                                 (nullish (field_of body ''nextIndex'') (JNum 0)))))))"

text \<open>The loop of \<open>listBatches\<close>; its first argument is the number of turns left.\<close>

fun list_batches_loop ::
  "nat \<Rightarrow> (int option \<Rightarrow> error + (BatchView list \<times> int)) \<Rightarrow> int option \<Rightarrow> BatchView list \<Rightarrow>
   error + BatchView list" where
  "list_batches_loop 0 page start out = Inr out"
| "list_batches_loop (Suc pages) page start out =
     res_bind (page start) (\<lambda>(batches, nextIndex).
       if nextIndex = 0 \<or> batches = [] then Inr (out @ batches)
       else list_batches_loop pages page (Some nextIndex) (out @ batches))"

definition MAX_PAGES :: nat where
  "MAX_PAGES = 100000"

definition listBatches :: "RestClient \<Rightarrow> string \<Rightarrow> int option \<Rightarrow> error + BatchView list" where
  "listBatches c rollupId startIndex =
     list_batches_loop MAX_PAGES (\<lambda>start. listBatchesPage c rollupId start (Some 100)) startIndex []"

definition getLatestBatch :: "RestClient \<Rightarrow> string \<Rightarrow> error + BatchView" where
  "getLatestBatch c rollupId =
     res_bind (rest_get c (''/qorechain/rdk/v1/latest_batch/'' @ encodeURIComponent rollupId)) (\<lambda>body.
       mapBatchView (asRecord (nullish (field_of body ''batch'') body)))"

record ProtocolFeature =
  pf_name :: string
  pf_enabled :: bool

definition getProtocolFeatures :: "RestClient \<Rightarrow> error + ProtocolFeature list" where
  "getProtocolFeatures c = res_bind (rest_get c ''/qorechain/pqc/v1/protocol_features'') (\<lambda>body.
     Inr (map (\<lambda>f. let r = asRecord f in
        \<lparr>pf_name = js_String (nullish (field_of r ''name'') (JStr '''')),
         pf_enabled = (field_of r ''enabled'' = Some (JBool True))\<rparr>)
       (asArray (field_of body ''features''))))"

text \<open>\<open>err.message\<close>: the text of each error, as the place that throws it writes it.\<close>

definition allowed_from :: "string \<Rightarrow> string" where
  "allowed_from action =
     (case find (\<lambda>a. rollupActionName a = action) [pause, resume, stop] of
        None \<Rightarrow> ''none''
      | Some a \<Rightarrow> join '', '' (map rollupStatusName (ROLLUP_ACTION_FROM a)))"

fun message :: "error \<Rightarrow> string" where
  "message (HttpFailed path status statusText) =
     ''REST GET '' @ path @ '' failed: '' @ show_nat status @ '' '' @ statusText"
| "message (Network m) = m"
| "message (JsError m) = m"
| "message (InvalidHex h) = ''invalid hex string: '' @ quote h"
| "message (NotAnInteger s) = ''Cannot convert '' @ s @ '' to a BigInt''"
| "message (InvalidQorAmount a) = ''invalid QOR amount: '' @ quote a"
| "message (InvalidUqorAmount a) = ''invalid uqor amount: '' @ quote a"
| "message (TooManyDigits a n) = ''QOR amount '' @ quote a @ '' has more than '' @ show_nat n @ '' fractional digits''"
| "message NegativeAmount = ''uqor amount must be non-negative''"
| "message (InvalidDecimal d) = ''invalid decimal: '' @ quote d"
| "message (LeafIndexOutOfRange i n) =
     ''leaf index '' @ show_int i @ '' out of range (0..'' @ show_int (int n - 1) @ '')''"
| "message NoWithdrawals = ''a withdrawals tree needs at least one withdrawal''"
| "message ChainIdMissing = ''a v2 withdrawal leaf names the chain id; pass it''"
| "message TransitionIdsMissing = ''the v2 transition root covers the chain id and the rollup id; pass both''"
| "message (WithdrawalsRootLength n) = ''withdrawalsRoot must be empty or 32 bytes, got '' @ show_nat n"
| "message FraudProofLength = ''a fraud proof needs a 32-byte previous root and a 32-byte correct root''"
| "message (RollupActionRefused action status) =
     ''cannot '' @ action @ '' a rollup in status '' @ quote status @ '' (allowed from: '' @ allowed_from action @ '')''"
| "message (NotNonNegative label v) = label @ '' must be a non-negative integer string, got '' @ quote v"
| "message (BlobTooLarge n limit) =
     ''DA blob is '' @ show_nat n @ '' bytes, exceeding the maximum of '' @ show_int limit @ '' bytes''"
| "message (RollupConfigError errors) = ''Invalid rollup configuration:'' @ [CHR 0x0a] @ ''- '' @ join ([CHR 0x0a] @ ''- '') errors"

text \<open>\<open>/\b(404|501)\b/\<close> on the message of the error that reading the features threw.\<close>

definition word_char :: "char \<Rightarrow> bool" where
  "word_char c \<longleftrightarrow> is_digit c \<or> (97 \<le> code c \<and> code c \<le> 122) \<or> (65 \<le> code c \<and> code c \<le> 90) \<or> code c = 95"

fun has_code_word :: "bool \<Rightarrow> string \<Rightarrow> bool" where
  "has_code_word prevWord [] = False"
| "has_code_word prevWord (c # cs) =
     ((\<not> prevWord \<and> take 3 (c # cs) \<in> {''404'', ''501''} \<and>
        (drop 3 (c # cs) = [] \<or> \<not> word_char (hd (drop 3 (c # cs))))) \<or>
      has_code_word (word_char c) cs)"

definition isProtocolFeatureEnabled :: "RestClient \<Rightarrow> string \<Rightarrow> error + bool" where
  "isProtocolFeatureEnabled c name =
     (case getProtocolFeatures c of
        Inr fs \<Rightarrow> Inr (list_ex (\<lambda>f. pf_name f = name \<and> pf_enabled f) fs)
      | Inl err \<Rightarrow> if has_code_word False (message err) then Inr False else Inl err)"

definition getAppliedPlanHeight :: "RestClient \<Rightarrow> string \<Rightarrow> error + int" where
  "getAppliedPlanHeight c name =
     res_bind (rest_get c (''/cosmos/upgrade/v1beta1/applied_plan/'' @ encodeURIComponent name)) (\<lambda>body.
       Inr (case js_Number (nullish (field_of body ''height'') (JNum 0)) of
              None \<Rightarrow> 0 | Some h \<Rightarrow> if 0 < h then h else 0))"

definition getBlob :: "RestClient \<Rightarrow> string \<Rightarrow> int \<Rightarrow> error + json" where
  "getBlob c rollupId blobIndex =
     rest_get c (''/qorechain/rdk/v1/blob/'' @ encodeURIComponent rollupId @ ''/'' @ show_int blobIndex)"

definition getAnchor :: "RestClient \<Rightarrow> string \<Rightarrow> error + AnchorView" where
  "getAnchor c layerId =
     res_bind (rest_get c (''/qorechain/multilayer/v1/anchor/'' @ encodeURIComponent layerId)) (\<lambda>body.
       mapAnchorView (asRecord (nullish (field_of body ''anchor'') body)))"

definition getLatestAnchor :: "RestClient \<Rightarrow> string \<Rightarrow> error + AnchorView" where
  "getLatestAnchor c layerId = getAnchor c layerId"

definition getAnchors :: "RestClient \<Rightarrow> string \<Rightarrow> error + AnchorView list" where
  "getAnchors c layerId =
     res_bind (rest_get c (''/qorechain/multilayer/v1/anchors/'' @ encodeURIComponent layerId)) (\<lambda>body.
       res_mapM mapAnchorView (asArray (field_of body ''anchors'')))"

definition getPqcAccount :: "RestClient \<Rightarrow> string \<Rightarrow> error + PqcAccountView" where
  "getPqcAccount c address =
     res_bind (rest_get c (''/qorechain/pqc/v1/account/'' @ encodeURIComponent address)) (\<lambda>body.
       mapPqcAccountView (asRecord (nullish (field_of body ''account'') body)))"

definition getFeeEstimate :: "RestClient \<Rightarrow> string option \<Rightarrow> error + json" where
  "getFeeEstimate c urgency =
     rest_get c (''/qorechain/ai/v1/fee-estimate'' @
       (if falsy urgency then '''' else ''?urgency='' @ encodeURIComponent (the urgency)))"

definition getNetworkRecommendations :: "RestClient \<Rightarrow> error + json" where
  "getNetworkRecommendations c = rest_get c ''/qorechain/ai/v1/network/recommendations''"

definition getFraudInvestigations :: "RestClient \<Rightarrow> error + json list" where
  "getFraudInvestigations c = res_bind (rest_get c ''/qorechain/ai/v1/fraud/investigations'') (\<lambda>body.
     Inr (asArray (Some (nullish (field_of body ''investigations'') (nullish (field_of body ''data'') body)))))"

definition getFraudInvestigation :: "RestClient \<Rightarrow> string \<Rightarrow> error + json" where
  "getFraudInvestigation c i = rest_get c (''/qorechain/ai/v1/fraud/investigations/'' @ encodeURIComponent i)"

definition getCircuitBreakers :: "RestClient \<Rightarrow> error + json" where
  "getCircuitBreakers c = rest_get c ''/qorechain/ai/v1/circuit-breakers''"

definition amount_text :: "json option \<Rightarrow> string" where
  "amount_text v = (case v of Some (JStr s) \<Rightarrow> s | _ \<Rightarrow> js_String (nullish v (JStr ''0'')))"

definition getBalance :: "RestClient \<Rightarrow> string \<Rightarrow> string \<Rightarrow> error + string" where
  "getBalance c address denom =
     res_bind (rest_get c (''/cosmos/bank/v1beta1/balances/'' @ encodeURIComponent address @
       ''/by_denom?denom='' @ encodeURIComponent denom)) (\<lambda>body.
     let balance = asRecord (nullish (field_of body ''balance'') (JObj [])) in
     Inr (amount_text (field_of balance ''amount'')))"

definition getAllBalances :: "RestClient \<Rightarrow> string \<Rightarrow> error + (string \<times> string) list" where
  "getAllBalances c address =
     res_bind (rest_get c (''/cosmos/bank/v1beta1/balances/'' @ encodeURIComponent address)) (\<lambda>body.
     res_mapM (\<lambda>x. of_record x (Inr
         (js_String (nullish (field_of x ''denom'') (JStr '''')),
          js_String (nullish (field_of x ''amount'') (JStr ''0'')))))
       (asArray (field_of body ''balances'')))"

definition getTx :: "RestClient \<Rightarrow> string \<Rightarrow> error + json" where
  "getTx c h = rest_get c (''/cosmos/tx/v1beta1/txs/'' @ encodeURIComponent h)"

subsection \<open>The JSON-RPC client and profile suggestions\<close>

record QorClient =
  qor_url :: string
  qor_fetch :: fetch_like
  qor_id :: int

definition rpc_body :: "int \<Rightarrow> string \<Rightarrow> json list \<Rightarrow> json" where
  "rpc_body i method params = JObj [(''jsonrpc'', JStr ''2.0''), (''id'', JNum i), (''method'', JStr method),
     (''params'', JArr params)]"

definition truthy :: "json option \<Rightarrow> bool" where
  "truthy v = (case v of None \<Rightarrow> False | Some JNull \<Rightarrow> False | Some (JBool b) \<Rightarrow> b | Some (JNum n) \<Rightarrow> n \<noteq> 0
     | Some (JStr s) \<Rightarrow> s \<noteq> '''' | _ \<Rightarrow> True)"

definition text_of :: "json option \<Rightarrow> string" where
  "text_of v = (case v of None \<Rightarrow> ''undefined'' | Some x \<Rightarrow> js_String x)"

text \<open>\<open>call\<close> increments the request id first, whatever the outcome. A missing \<open>result\<close> is \<open>undefined\<close>.\<close>

definition qor_call :: "QorClient \<Rightarrow> string \<Rightarrow> json list \<Rightarrow> QorClient \<times> (error + json option)" where
  "qor_call q method params =
     (let q' = q\<lparr>qor_id := qor_id q + 1\<rparr> in
      (q', res_bind (qor_fetch q (POST (qor_url q) (rpc_body (qor_id q') method params))) (\<lambda>res.
        if \<not> hr_ok res
        then Inl (JsError (''JSON-RPC '' @ method @ '' failed: '' @ show_nat (hr_status res) @ '' '' @ hr_statusText res))
        else res_bind (hr_json res) (\<lambda>body. of_record body (
          if truthy (field_of body ''error'')
          then let e = the (field_of body ''error'') in
            Inl (JsError (''JSON-RPC '' @ method @ '' error '' @ text_of (field_of e ''code'') @ '': '' @
              text_of (field_of e ''message'')))
          else Inr (field_of body ''result''))))))"

definition getRollupStatus :: "QorClient \<Rightarrow> string \<Rightarrow> QorClient \<times> (error + json option)" where
  "getRollupStatus q rollupId = qor_call q ''qor_getRollupStatus'' [JStr rollupId]"

definition qor_listRollups :: "QorClient \<Rightarrow> QorClient \<times> (error + json option)" where
  "qor_listRollups q = qor_call q ''qor_listRollups'' []"

definition getSettlementBatch :: "QorClient \<Rightarrow> string \<Rightarrow> int \<Rightarrow> QorClient \<times> (error + json option)" where
  "getSettlementBatch q rollupId batchIndex = qor_call q ''qor_getSettlementBatch'' [JStr rollupId, JNum batchIndex]"

definition suggestRollupProfile :: "QorClient \<Rightarrow> string \<Rightarrow> QorClient \<times> (error + json option)" where
  "suggestRollupProfile q useCase = qor_call q ''qor_suggestRollupProfile'' [JStr useCase]"

definition getDABlobStatus :: "QorClient \<Rightarrow> string \<Rightarrow> int \<Rightarrow> QorClient \<times> (error + json option)" where
  "getDABlobStatus q rollupId blobIndex = qor_call q ''qor_getDABlobStatus'' [JStr rollupId, JNum blobIndex]"

definition getRLAgentStatus :: "QorClient \<Rightarrow> QorClient \<times> (error + json option)" where
  "getRLAgentStatus q = qor_call q ''qor_getRLAgentStatus'' []"

definition getRLObservation :: "QorClient \<Rightarrow> QorClient \<times> (error + json option)" where
  "getRLObservation q = qor_call q ''qor_getRLObservation'' []"

definition getRLReward :: "QorClient \<Rightarrow> QorClient \<times> (error + json option)" where
  "getRLReward q = qor_call q ''qor_getRLReward'' []"

datatype suggestion_source = advisory | fallback

record ProfileSuggestion =
  ps_profile :: string
  ps_source :: suggestion_source
  ps_raw :: "json option"

definition isProfileName :: "json option \<Rightarrow> bool" where
  "isProfileName v = (case v of Some (JStr s) \<Rightarrow> s \<in> set (map profileWire PROFILE_NAMES) | _ \<Rightarrow> False)"

definition extractProfile :: "json option \<Rightarrow> string option" where
  "extractProfile result =
     (if isProfileName result then Some (js_String (the result))
      else case result of
        Some (JObj fs) \<Rightarrow>
          let r = JObj fs;
              some = (\<lambda>k rest. case field_of r k of None \<Rightarrow> rest | Some JNull \<Rightarrow> rest | Some v \<Rightarrow> Some v);
              candidate = some ''profile'' (some ''suggestedProfile'' (some ''suggested_profile''
                            (field_of r ''recommendation'')))
          in if isProfileName candidate then Some (js_String (the candidate)) else None
      | _ \<Rightarrow> None)"

definition suggestProfile :: "string \<Rightarrow> QorClient \<Rightarrow> ProfileName option \<Rightarrow> QorClient \<times> ProfileSuggestion" where
  "suggestProfile useCase qor fallback0 =
     (let fb = (case fallback0 of None \<Rightarrow> ''defi'' | Some p \<Rightarrow> profileWire p);
          (qor', r) = suggestRollupProfile qor useCase
      in (qor', case r of
            Inr result \<Rightarrow> (case extractProfile result of
                Some profile \<Rightarrow> \<lparr>ps_profile = profile, ps_source = advisory, ps_raw = result\<rparr>
              | None \<Rightarrow> \<lparr>ps_profile = fb, ps_source = fallback, ps_raw = result\<rparr>)
          | Inl err \<Rightarrow> \<lparr>ps_profile = fb, ps_source = fallback, ps_raw = Some (JStr (message err))\<rparr>))"

subsection \<open>Routes\<close>

lemma upper_hex_props:
  assumes "n < 16"
  shows "is_hex_char (upper_hex_char n)" "hex_val (upper_hex_char n) = n"
  using assms by (auto simp: upper_hex_char_def is_hex_char_def hex_val_def is_digit_def)

lemma percent_inject: "percent a = percent b \<Longrightarrow> a = b"
proof -
  assume "percent a = percent b"
  then have "unat a div 16 = unat b div 16" "unat a mod 16 = unat b mod 16"
    using upper_hex_props(2) by (auto simp: percent_def) (metis nibble_less upper_hex_props(2))+
  then have "unat a = unat b" by (metis div_mult_mod_eq)
  then show ?thesis by (rule unsigned_word_eqI)
qed

lemma unreserved_not_special: "unreserved c \<Longrightarrow> c \<noteq> CHR ''%'' \<and> c \<noteq> CHR ''/'' \<and> c \<noteq> CHR ''?''"
  by (auto simp: unreserved_def is_digit_def code_def)

lemma percent_append: "percent a @ xs = percent b @ ys \<longleftrightarrow> a = b \<and> xs = ys"
  using percent_inject [of a b] by (auto simp: percent_def)

lemma percents_append:
  "length as = length bs \<Longrightarrow> concat (map percent as) @ xs = concat (map percent bs) @ ys \<Longrightarrow> as = bs \<and> xs = ys"
  by (induction as bs rule: list_induct2) (auto simp: percent_append)

lemma uri_char_split:
  assumes "uri_char c @ xs = uri_char d @ ys"
  shows "c = d \<and> xs = ys"
proof -
  have hd_percent: "\<exists>r. concat (map percent (utf8_char e)) = CHR ''%'' # r" for e
    by (cases "utf8_char e") (simp_all add: percent_def)
  consider (plain) "unreserved c" "unreserved d" | (l) "unreserved c" "\<not> unreserved d"
    | (r) "\<not> unreserved c" "unreserved d" | (both) "\<not> unreserved c" "\<not> unreserved d" by blast
  then show ?thesis
  proof cases
    case l
    then show ?thesis using assms hd_percent [of d] unreserved_not_special [of c] by (auto simp: uri_char_def)
  next
    case r
    then show ?thesis using assms hd_percent [of c] unreserved_not_special [of d] by (auto simp: uri_char_def)
  next
    case both
    with assms have eq: "concat (map percent (utf8_char c)) @ xs = concat (map percent (utf8_char d)) @ ys"
      by (simp add: uri_char_def)
    show ?thesis
    proof (cases "length (utf8_char c) = length (utf8_char d)")
      case True
      from percents_append [OF True eq] have "utf8_char c @ [] = utf8_char d @ []" "xs = ys" by simp_all
      then show ?thesis using utf8_char_prefix_code by blast
    next
      case False
      then have "(code c < 128 \<and> \<not> code d < 128) \<or> (\<not> code c < 128 \<and> code d < 128)"
        by (auto simp: utf8_char_def Let_def split: if_splits)
      moreover have "192 + code e div 64 < 256" for e using code_less [of e] by auto
      moreover have "hd (utf8_char c) = hd (utf8_char d)"
        using eq by (cases "utf8_char c"; cases "utf8_char d") (simp_all add: percent_append)
      ultimately show ?thesis
        using of_nat_byte_inject [of "code c" "192 + code d div 64"] of_nat_byte_inject [of "192 + code c div 64" "code d"]
        by (auto simp: utf8_char_def Let_def split: if_splits)
    qed
  qed (use assms in \<open>simp add: uri_char_def\<close>)
qed

lemma uri_char_nonempty [simp]: "uri_char c \<noteq> []"
  by (cases "utf8_char c") (simp_all add: uri_char_def percent_def)

lemma uri_char_no_slash: "CHR ''/'' \<notin> set (uri_char c) \<and> CHR ''?'' \<notin> set (uri_char c)"
proof -
  have "\<not> is_hex_char CHR ''/''" "\<not> is_hex_char CHR ''?''"
    by (simp_all add: is_hex_char_def is_digit_def code_def)
  then have "CHR ''/'' \<notin> set (percent b)" "CHR ''?'' \<notin> set (percent b)" for b
    using upper_hex_props(1) [OF nibble_less(1) [of b]] upper_hex_props(1) [OF nibble_less(2) [of b]]
    by (auto simp: percent_def)
  then show ?thesis using unreserved_not_special [of c] by (auto simp: uri_char_def)
qed

lemma encodeURIComponent_inject: "encodeURIComponent s = encodeURIComponent t \<Longrightarrow> s = t"
proof (induction s arbitrary: t)
  case Nil
  then show ?case by (cases t) (simp_all add: encodeURIComponent_def)
next
  case (Cons c s)
  then obtain d t' where t: "t = d # t'" by (cases t) (auto simp: encodeURIComponent_def)
  with Cons.prems have "uri_char c @ encodeURIComponent s = uri_char d @ encodeURIComponent t'"
    by (simp add: encodeURIComponent_def)
  from uri_char_split [OF this] Cons.IH t show ?case by blast
qed

lemma encodeURIComponent_no_slash: "CHR ''/'' \<notin> set (encodeURIComponent s)" "CHR ''?'' \<notin> set (encodeURIComponent s)"
  using uri_char_no_slash by (auto simp: encodeURIComponent_def)

subsection \<open>Paging\<close>

text \<open>
  A node that pages as documented: it holds batches in index order and answers a request from
  \<open>start\<close> with the first \<open>limit\<close> batches from there and the index of the one after them, or 0.
\<close>

definition from_index :: "BatchView list \<Rightarrow> int option \<Rightarrow> BatchView list" where
  "from_index bs start = (case start of None \<Rightarrow> bs | Some i \<Rightarrow> filter (\<lambda>b. i \<le> bv_batchIndex b) bs)"

definition node_page :: "BatchView list \<Rightarrow> nat \<Rightarrow> int option \<Rightarrow> BatchView list \<times> int" where
  "node_page bs limit start =
     (let r = from_index bs start in
      (take limit r, if limit < length r then bv_batchIndex (r ! limit) else 0))"

definition index_ordered :: "BatchView list \<Rightarrow> bool" where
  "index_ordered bs \<longleftrightarrow> sorted_wrt (<) (map bv_batchIndex bs) \<and> list_all (\<lambda>b. 0 \<le> bv_batchIndex b) bs"

lemma filter_from_nth:
  assumes "sorted_wrt (<) (map bv_batchIndex r)" "n < length r"
  shows "filter (\<lambda>b. bv_batchIndex (r ! n) \<le> bv_batchIndex b) r = drop n r"
  using assms
proof (induction r arbitrary: n)
  case (Cons b r)
  show ?case
  proof (cases n)
    case 0
    have "filter (\<lambda>x. bv_batchIndex b \<le> bv_batchIndex x) r = r"
      using Cons.prems(1) by (intro filter_True) auto
    with 0 show ?thesis by simp
  next
    case (Suc m)
    with Cons.prems have m: "m < length r" and "\<forall>x \<in> set r. bv_batchIndex b < bv_batchIndex x"
      by simp_all
    then have "bv_batchIndex b < bv_batchIndex (r ! m)" using nth_mem [OF m] by blast
    then have "\<not> bv_batchIndex (r ! m) \<le> bv_batchIndex b" by simp
    then show ?thesis using Suc Cons.prems Cons.IH [of m] by simp
  qed
qed simp

lemma from_index_next:
  assumes "index_ordered bs" "n < length (from_index bs start)"
  shows "from_index bs (Some (bv_batchIndex (from_index bs start ! n))) = drop n (from_index bs start)"
proof -
  let ?r = "from_index bs start"
  have s: "sorted_wrt (<) (map bv_batchIndex ?r)"
    using assms(1) by (auto simp: index_ordered_def from_index_def sorted_wrt_map sorted_wrt_filter split: option.splits)
  have "filter (\<lambda>b. bv_batchIndex (?r ! n) \<le> bv_batchIndex b) bs =
      filter (\<lambda>b. bv_batchIndex (?r ! n) \<le> bv_batchIndex b) ?r"
  proof (cases start)
    case (Some i)
    have "?r ! n \<in> set ?r" using assms(2) by simp
    with Some have "i \<le> bv_batchIndex (?r ! n)" by (auto simp: from_index_def)
    then have "filter (\<lambda>b. bv_batchIndex (?r ! n) \<le> bv_batchIndex b) bs =
        filter (\<lambda>b. bv_batchIndex (?r ! n) \<le> bv_batchIndex b) (filter (\<lambda>b. i \<le> bv_batchIndex b) bs)"
      by (auto intro!: filter_cong)
    with Some show ?thesis by (simp add: from_index_def)
  qed (simp add: from_index_def)
  with filter_from_nth [OF s assms(2)] show ?thesis by (simp add: from_index_def)
qed

lemma later_index_positive:
  assumes "index_ordered bs" "0 < n" "n < length (from_index bs start)"
  shows "0 < bv_batchIndex (from_index bs start ! n)"
proof -
  let ?r = "from_index bs start"
  have "sorted_wrt (<) (map bv_batchIndex ?r)" "\<forall>b \<in> set ?r. 0 \<le> bv_batchIndex b"
    using assms(1) by (auto simp: index_ordered_def from_index_def sorted_wrt_map sorted_wrt_filter list_all_iff
        split: option.splits)
  moreover have "0 < length ?r" using assms(3) by linarith
  ultimately have "0 \<le> bv_batchIndex (?r ! 0)" "bv_batchIndex (?r ! 0) < bv_batchIndex (?r ! n)"
    using nth_mem [of 0 ?r] assms(2,3) sorted_wrt_nth_less [of "(<)" "map bv_batchIndex ?r" 0 n]
    by (blast, simp)
  then show ?thesis by linarith
qed

lemma list_batches_loop_complete:
  assumes "index_ordered bs" "0 < limit"
    and "\<And>s. s = start \<or> (\<exists>b \<in> set bs. s = Some (bv_batchIndex b)) \<Longrightarrow> page s = Inr (node_page bs limit s)"
    and "length (from_index bs start) \<le> limit * pages" "0 < pages"
  shows "list_batches_loop pages page start out = Inr (out @ from_index bs start)"
  using assms(3-)
proof (induction pages arbitrary: start out)
  case (Suc pages)
  let ?r = "from_index bs start"
  have page: "page start = Inr (node_page bs limit start)" by (rule Suc.prems(1)) simp
  show ?case
  proof (cases "limit < length ?r")
    case False
    with page show ?thesis by (simp add: node_page_def Let_def)
  next
    case True
    let ?next = "bv_batchIndex (?r ! limit)"
    have pos: "0 < ?next" using later_index_positive [OF assms(1,2) True] .
    have mem: "?r ! limit \<in> set bs"
      using nth_mem [OF True] by (cases start) (auto simp: from_index_def dest: filter_is_subset [THEN subsetD])
    have r: "from_index bs (Some ?next) = drop limit ?r" by (rule from_index_next [OF assms(1) True])
    have "list_batches_loop pages page (Some ?next) (out @ take limit ?r) =
        Inr ((out @ take limit ?r) @ from_index bs (Some ?next))"
    proof (rule Suc.IH)
      show "page s = Inr (node_page bs limit s)"
        if "s = Some ?next \<or> (\<exists>b \<in> set bs. s = Some (bv_batchIndex b))" for s
        using that mem by (intro Suc.prems(1)) auto
      show "length (from_index bs (Some ?next)) \<le> limit * pages" using Suc.prems(2) r by simp
      show "0 < pages" using True Suc.prems(2) by (cases pages) simp_all
    qed
    moreover have "take limit ?r \<noteq> []" using True assms(2) by auto
    ultimately show ?thesis using page True pos r by (simp add: node_page_def Let_def)
  qed
qed simp

subsection \<open>Properties\<close>

text \<open>
  C18: \<open>listBatches\<close> follows every page. Against a node that serves batches in index order by pages of
  at most 100 with the index of the next page, it returns exactly the batches from the start index
  on, in order, as long as they fit in the 100000 pages the loop is bounded by.
\<close>

theorem list_batches_complete:
  assumes "index_ordered bs" "length (from_index bs start) \<le> 10000000"
    and "\<And>s. s = start \<or> (\<exists>b \<in> set bs. s = Some (bv_batchIndex b)) \<Longrightarrow>
      listBatchesPage c rollupId s (Some 100) = Inr (node_page bs 100 s)"
  shows "listBatches c rollupId start = Inr (from_index bs start)"
proof -
  have "list_batches_loop MAX_PAGES (\<lambda>s. listBatchesPage c rollupId s (Some 100)) start [] =
      Inr ([] @ from_index bs start)"
    using assms by (intro list_batches_loop_complete [of bs 100]) (simp_all add: MAX_PAGES_def)
  then show ?thesis by (simp add: listBatches_def)
qed

definition one_batch_node :: fetch_like where
  "one_batch_node r = Inr \<lparr>hr_ok = True, hr_status = 200, hr_statusText = ''OK'',
     hr_json = Inr (JObj [(''batches'', JArr [serve_batch True True (sample_batch 0)]), (''next_index'', JStr ''0'')])\<rparr>"

lemma list_batches_complete_witness:
  "listBatches (newRestClient ''http://n/'' one_batch_node) ''r'' None = Inr [sample_batch 0]"
proof -
  let ?c = "newRestClient ''http://n/'' one_batch_node"
  have z: "string_to_bigint ''0'' = Some 0" by code_simp
  have b: "mapBatchView (serve_batch True True (sample_batch 0)) = Inr (sample_batch 0)"
    by (simp add: mapBatchView_def serve_batch_def of_record_def key_def served_flag_def opt_true_def sample_batch_def)
  have "listBatchesPage ?c ''r'' s (Some 100) = Inr ([sample_batch 0], 0)" for s
    by (simp add: listBatchesPage_def rest_get_def newRestClient_def one_batch_node_def asRecord_def asArray_def
        Let_def b nullish_def to_number_def z)
  moreover have "node_page [sample_batch 0] 100 s = ([sample_batch 0], 0)" if "s = None \<or> s = Some 0" for s
    using that by (auto simp: node_page_def from_index_def sample_batch_def)
  moreover have "index_ordered [sample_batch 0]" by (simp add: index_ordered_def sample_batch_def)
  ultimately show ?thesis
    using list_batches_complete [of "[sample_batch 0]" None ?c "''r''"]
    by (auto simp: from_index_def sample_batch_def)
qed

text \<open>
  A batch route names its rollup and its index: two requests go to the same path only when both
  agree, whatever characters the rollup id holds, because the encoded id contains neither \<open>/\<close> nor \<open>?\<close>.
\<close>

theorem batch_route_unambiguous:
  "batch_path r i = batch_path s j \<longleftrightarrow> r = s \<and> i = j"
proof
  assume "batch_path r i = batch_path s j"
  then have "encodeURIComponent r @ CHR ''/'' # show_int i = encodeURIComponent s @ CHR ''/'' # show_int j"
    by (simp add: batch_path_def)
  from split_at_first [OF encodeURIComponent_no_slash(1) encodeURIComponent_no_slash(1) this]
  show "r = s \<and> i = j" using encodeURIComponent_inject by simp
qed simp

text \<open>
  A feature query degrades as documented. When the node answers the feature route with status 404
  or 501 every feature reads as not enabled, so batches are bound by version 1; a network error whose
  text names neither code is raised unchanged.
\<close>

theorem missing_feature_route_reads_as_off:
  assumes "rest_fetch c (GET (rest_base c @ ''/qorechain/pqc/v1/protocol_features'')) = Inr res"
    and "\<not> hr_ok res" "hr_status res \<in> {404, 501}"
  shows "isProtocolFeatureEnabled c name = Inr False \<and>
    transitionRootVersionFor (isProtocolFeatureEnabled c) = Inr V1"
proof -
  let ?p = "''/qorechain/pqc/v1/protocol_features''"
  have nums: "show_nat 404 = ''404''" "show_nat 501 = ''501''" by code_simp+
  have "getProtocolFeatures c = Inl (HttpFailed ?p (hr_status res) (hr_statusText res))"
    using assms(1,2) by (simp add: getProtocolFeatures_def rest_get_def)
  moreover have "has_code_word False (message (HttpFailed ?p (hr_status res) (hr_statusText res)))"
    using assms(3) by (auto simp: nums word_char_def is_digit_def code_def)
  ultimately have "isProtocolFeatureEnabled c n = Inr False" for n
    by (simp add: isProtocolFeatureEnabled_def)
  then show ?thesis by (simp add: transitionRootVersionFor_def)
qed

lemma missing_feature_route_reads_as_off_witness:
  "isProtocolFeatureEnabled (newRestClient ''http://n'' (\<lambda>_. Inr \<lparr>hr_ok = False, hr_status = 501,
     hr_statusText = ''Not Implemented'', hr_json = Inr JNull\<rparr>)) ''x'' = Inr False"
  using missing_feature_route_reads_as_off
    [of "newRestClient ''http://n'' (\<lambda>_. Inr \<lparr>hr_ok = False, hr_status = 501,
     hr_statusText = ''Not Implemented'', hr_json = Inr JNull\<rparr>)"]
  by (simp add: newRestClient_def)

text \<open>
  A profile suggestion never fails: whatever the advisory service does, the result is one of the
  five profile names, it is marked as a fallback exactly when the advice named none, and then it is the
  caller's fallback or \<open>defi\<close>.
\<close>

theorem suggestion_is_a_profile:
  "\<exists>p \<in> set PROFILE_NAMES. ps_profile (snd (suggestProfile useCase q fb)) = profileWire p \<and>
     (ps_source (snd (suggestProfile useCase q fb)) = fallback \<longrightarrow> p = (case fb of None \<Rightarrow> defi | Some f \<Rightarrow> f)) \<and>
     (ps_source (snd (suggestProfile useCase q fb)) = advisory \<longleftrightarrow>
        (\<exists>result. snd (suggestRollupProfile q useCase) = Inr result \<and> extractProfile result \<noteq> None))"
proof -
  have all: "p \<in> set PROFILE_NAMES" for p by (cases p) (simp_all add: PROFILE_NAMES_def)
  have ext: "\<exists>p. s = profileWire p" if "extractProfile r = Some s" for r s
    using that
    by (auto simp: extractProfile_def isProfileName_def Let_def PROFILE_NAMES_def
        split: if_splits option.splits json.splits intro: profileWire.simps [symmetric])
  have fb: "(case fb of None \<Rightarrow> ''defi'' | Some p \<Rightarrow> profileWire p) = profileWire (case fb of None \<Rightarrow> defi | Some f \<Rightarrow> f)"
    by (simp split: option.splits)
  show ?thesis
  proof (cases "snd (suggestRollupProfile q useCase)")
    case (Inl e)
    then show ?thesis using all fb by (auto simp: suggestProfile_def split_beta)
  next
    case (Inr r)
    then show ?thesis
    proof (cases "extractProfile r")
      case None
      with Inr show ?thesis using all fb by (auto simp: suggestProfile_def split_beta)
    next
      case (Some s)
      with ext obtain p where "s = profileWire p" by blast
      with Some Inr show ?thesis using all by (auto simp: suggestProfile_def split_beta)
    qed
  qed
qed

lemma suggestion_is_a_profile_witness:
  "ps_profile (snd (suggestProfile ''dex'' \<lparr>qor_url = ''u'', qor_fetch = (\<lambda>_. Inl (Network ''down'')), qor_id = 0\<rparr> None)) = ''defi''"
  using suggestion_is_a_profile [of "''dex''" "\<lparr>qor_url = ''u'', qor_fetch = (\<lambda>_. Inl (Network ''down'')), qor_id = 0\<rparr>" None]
  by (auto simp: suggestProfile_def suggestRollupProfile_def qor_call_def Let_def)

end
