(* ===== verification/Receipts.thy ===== *)
theory Receipts
  imports Rest
begin

text \<open>
  Quantum-safe settlement receipts, \<open>packages/ts/src/receipts/index.ts\<close>, over the client of
  \<open>client/rdk-client.ts\<close>. The post-quantum verifier is third-party code, the parameter \<open>pqcVerify\<close>,
  which returns a verdict or throws. A refusal's text is a value of \<open>receipt_reason\<close> that carries what
  the text quotes.

  Shown: a receipt is reported valid only when every field of it was found on the chain that was
  queried and the chain's own key accepts the chain's own anchor, no receipt is valid without a client,
  a receipt that was just built verifies whenever the anchor's signature does, the version 2 message
  binds every field, and the version 1 message does not. Neither the builder nor the verifier compares
  the anchor's layer height with the batch index.
\<close>

subsection \<open>The client\<close>

record RdkClient =
  rk_network :: NetworkConfig
  rk_rest :: RestClient
  rk_qor :: QorClient

record EndpointOverrides =
  eo_rest :: "string option"
  eo_rpc :: "string option"
  eo_grpc :: "string option"
  eo_evmRpc :: "string option"

definition merge_endpoints :: "Endpoints \<Rightarrow> EndpointOverrides \<Rightarrow> Endpoints" where
  "merge_endpoints e o1 = \<lparr>ep_rest = over (ep_rest e) (eo_rest o1), ep_rpc = over (ep_rpc e) (eo_rpc o1),
     ep_grpc = over (ep_grpc e) (eo_grpc o1), ep_evmRpc = over (ep_evmRpc e) (eo_evmRpc o1)\<rparr>"

definition createRdkClient :: "NetworkName option \<Rightarrow> EndpointOverrides \<Rightarrow> fetch_like \<Rightarrow> RdkClient" where
  "createRdkClient network endpoints fetch =
     (let net0 = getNetwork (Some (case network of None \<Rightarrow> testnet | Some n \<Rightarrow> n));
          net = net0\<lparr>nc_endpoints := merge_endpoints (nc_endpoints net0) endpoints\<rparr>
      in \<lparr>rk_network = net, rk_rest = newRestClient (ep_rest (nc_endpoints net)) fetch,
          rk_qor = \<lparr>qor_url = ep_evmRpc (nc_endpoints net), qor_fetch = fetch, qor_id = 0\<rparr>\<rparr>)"

definition client_params :: "RdkClient \<Rightarrow> error + ParamsView" where
  "client_params c = getParams (rk_rest c)"

subsection \<open>Anchor messages\<close>

definition RECEIPT_ALGORITHM :: string where "RECEIPT_ALGORITHM = ''ML-DSA-87''"

definition RECEIPT_VERSION :: int where "RECEIPT_VERSION = 2"

definition SUPPORTED_RECEIPT_VERSIONS :: "int list" where "SUPPORTED_RECEIPT_VERSIONS = [1, 2]"

definition ANCHOR_SIGN_DOMAIN_V2 :: string where
  "ANCHOR_SIGN_DOMAIN_V2 = ''qorechain-multilayer-anchor-v2''"

record AnchorMessage =
  am_layerId :: string
  am_layerHeight :: int
  am_stateRoot :: string
  am_validatorSetHash :: string
  am_chainId :: "string option"
  am_transactionCount :: "int option"
  am_compressedStateProof :: "string option"

definition anchorSignBytesV1 :: "AnchorMessage \<Rightarrow> error + bytes" where
  "anchorSignBytesV1 input =
     res_bind (hexToBytes (am_stateRoot input)) (\<lambda>stateRoot.
     res_bind (hexToBytes (am_validatorSetHash input)) (\<lambda>vsh.
       Inr (utf8_encode (am_layerId input) @ u64be (am_layerHeight input) @ stateRoot @ vsh)))"

text \<open>
  \<open>anchorSignBytesV2\<close> takes a chain id and a transaction count that are present; they are arguments of
  their own here.
\<close>

definition lengthPrefixed :: "bytes \<Rightarrow> bytes list" where
  "lengthPrefixed b = [u64be (int (length b)), b]"

definition anchorSignBytesV2 :: "string \<Rightarrow> int \<Rightarrow> AnchorMessage \<Rightarrow> error + bytes" where
  "anchorSignBytesV2 chainId transactionCount input =
     res_bind (hexToBytes (am_stateRoot input)) (\<lambda>stateRoot.
     res_bind (hexToBytes (am_validatorSetHash input)) (\<lambda>vsh.
     res_bind (hexToBytes (case am_compressedStateProof input of None \<Rightarrow> '''' | Some p \<Rightarrow> p)) (\<lambda>csp.
       Inr (concat
         ([utf8_encode ANCHOR_SIGN_DOMAIN_V2] @ lengthPrefixed (utf8_encode chainId) @
          lengthPrefixed (utf8_encode (am_layerId input)) @ [u64be (am_layerHeight input)] @
          lengthPrefixed stateRoot @ lengthPrefixed vsh @ [u64be transactionCount] @
          lengthPrefixed csp)))))"

definition anchorSignBytes :: "AnchorMessage \<Rightarrow> TransitionRootVersion \<Rightarrow> error + bytes" where
  "anchorSignBytes input version =
     (if version = V1 then anchorSignBytesV1 input
      else if falsy (am_chainId input)
      then Inl (JsError ''v2 anchor sign bytes need `chainId` - it is bound into the message'')
      else case am_transactionCount input of
        None \<Rightarrow> Inl (JsError ''v2 anchor sign bytes need `transactionCount` - it is covered by the signature'')
      | Some n \<Rightarrow> anchorSignBytesV2 (the (am_chainId input)) n input)"

definition anchorSignBytesVersionFor :: "int \<Rightarrow> int \<Rightarrow> TransitionRootVersion" where
  "anchorSignBytesVersionFor anchorMainChainHeight v2Height =
     (if v2Height \<le> anchorMainChainHeight then V2 else V1)"

subsection \<open>Receipts\<close>

record SettlementReceipt =
  sr_version :: js_num
  sr_chainId :: "string option"
  sr_rollupId :: string
  sr_layerId :: string
  sr_batchIndex :: int
  sr_creator :: string
  sr_algorithm :: string
  sr_stateRoot :: string
  sr_layerHeight :: int
  sr_validatorSetHash :: string
  sr_mainChainHeight :: int
  sr_anchoredAt :: int
  sr_pqcSignature :: string
  sr_batchStateRoot :: string
  sr_transactionCount :: "int option"
  sr_compressedStateProof :: "string option"

definition receiptFromParts ::
  "string \<Rightarrow> string \<Rightarrow> int \<Rightarrow> string \<Rightarrow> AnchorView \<Rightarrow> string \<Rightarrow> string \<Rightarrow> SettlementReceipt" where
  "receiptFromParts rollupId layerId batchIndex creator anchor batchStateRootHex chainId =
     \<lparr>sr_version = Whole RECEIPT_VERSION, sr_chainId = Some chainId, sr_rollupId = rollupId,
      sr_layerId = layerId, sr_batchIndex = batchIndex, sr_creator = creator,
      sr_algorithm = RECEIPT_ALGORITHM, sr_stateRoot = av_stateRoot anchor,
      sr_layerHeight = av_layerHeight anchor, sr_validatorSetHash = av_validatorSetHash anchor,
      sr_mainChainHeight = av_mainChainHeight anchor, sr_anchoredAt = av_anchoredAt anchor,
      sr_pqcSignature = av_pqcSignature anchor, sr_batchStateRoot = batchStateRootHex,
      sr_transactionCount = Some (av_transactionCount anchor),
      sr_compressedStateProof = Some (av_compressedStateProof anchor)\<rparr>"

definition wire_root_hex :: "string \<Rightarrow> error + string" where
  "wire_root_hex r = (if r \<noteq> '''' then res_bind (decodeWireBytes r) (\<lambda>b. Inr (bytesToHex b)) else Inr '''')"

definition buildSettlementReceipt :: "RdkClient \<Rightarrow> string \<Rightarrow> int \<Rightarrow> error + SettlementReceipt" where
  "buildSettlementReceipt client rollupId batchIndex =
     res_bind (getRollup (rk_rest client) rollupId) (\<lambda>rollup.
     if rv_layerId rollup = ''''
     then Inl (JsError (''rollup '' @ quote rollupId @ '' has no layer_id - it is not anchored to a multilayer layer''))
     else
     res_bind (getBatch (rk_rest client) rollupId batchIndex) (\<lambda>batch.
     res_bind (wire_root_hex (bv_stateRoot batch)) (\<lambda>batchStateRootHex.
     res_bind (getAnchors (rk_rest client) (rv_layerId rollup)) (\<lambda>anchors.
     let covering = find (\<lambda>a. av_stateRoot a \<noteq> '''' \<and> av_stateRoot a = batchStateRootHex) anchors in
     res_bind (case covering of Some a \<Rightarrow> Inr a | None \<Rightarrow> getLatestAnchor (rk_rest client) (rv_layerId rollup)) (\<lambda>anchor.
     if av_stateRoot anchor = ''''
     then Inl (JsError (''no state anchor found for layer '' @ quote (rv_layerId rollup)))
     else if covering = None
     then Inl (JsError (''no anchor commits batch '' @ show_int batchIndex @
            '''s state root yet (latest anchored height '' @ show_int (av_layerHeight anchor) @
            ''); the batch may not be anchored to the Main Chain''))
     else Inr (receiptFromParts rollupId (rv_layerId rollup) batchIndex (rv_creator rollup) anchor
                 batchStateRootHex (nc_chainId (rk_network client))))))))"

subsection \<open>Verification\<close>

datatype verification_mode = Chain | SignatureOnly

record ReceiptChecks =
  ck_rollupLayerBinding :: bool
  ck_batchStateRoot :: bool
  ck_anchorOnChain :: bool
  ck_creatorAuthority :: bool
  ck_pqcSignature :: bool
  ck_chainBinding :: bool

definition NO_CHECKS :: ReceiptChecks where
  "NO_CHECKS = \<lparr>ck_rollupLayerBinding = False, ck_batchStateRoot = False, ck_anchorOnChain = False,
     ck_creatorAuthority = False, ck_pqcSignature = False, ck_chainBinding = False\<rparr>"

datatype receipt_reason =
    UnsupportedVersion js_num
  | UnsupportedAlgorithm string
  | MissingField string
  | NoClient
  | SignatureOnlyValid
  | SignatureOnlyInvalid
  | RollupNotFound string error
  | OtherLayer string string
  | BatchNotFound int error
  | OtherStateRoot
  | AnchorsUnreadable string error
  | NoMatchingAnchor
  | FieldMismatch string
  | KeyUnresolved error
  | OtherCreator string string
  | NoKey string
  | OtherChain string string
  | SignatureRefused TransitionRootVersion int

record ReceiptVerification =
  rr_valid :: bool
  rr_mode :: verification_mode
  rr_checks :: ReceiptChecks
  rr_signBytesVersion :: "TransitionRootVersion option"
  rr_anchor :: "AnchorView option"
  rr_verifiedReceipt :: "SettlementReceipt option"
  rr_reason :: "receipt_reason option"

definition receiptSchemaError :: "SettlementReceipt \<Rightarrow> receipt_reason option" where
  "receiptSchemaError r =
     (if (case sr_version r of Fraction \<Rightarrow> True | Whole v \<Rightarrow> v \<notin> set SUPPORTED_RECEIPT_VERSIONS)
      then Some (UnsupportedVersion (sr_version r))
      else if sr_algorithm r \<noteq> RECEIPT_ALGORITHM then Some (UnsupportedAlgorithm (sr_algorithm r))
      else if sr_version r = Whole 2 then
        if falsy (sr_chainId r) then Some (MissingField ''chainId'')
        else if sr_transactionCount r = None then Some (MissingField ''transactionCount'')
        else if sr_compressedStateProof r = None then Some (MissingField ''compressedStateProof'')
        else None
      else None)"

text \<open>The list of fields of \<open>anchorFieldMismatch\<close> and the first that differs.\<close>

definition anchor_fields :: "SettlementReceipt \<Rightarrow> AnchorView \<Rightarrow> (string \<times> bool) list" where
  "anchor_fields r a =
     [(''validatorSetHash'', sr_validatorSetHash r = av_validatorSetHash a),
      (''mainChainHeight'', sr_mainChainHeight r = av_mainChainHeight a),
      (''anchoredAt'', sr_anchoredAt r = av_anchoredAt a)] @
     (case sr_transactionCount r of None \<Rightarrow> []
      | Some n \<Rightarrow> [(''transactionCount'', n = av_transactionCount a)]) @
     (case sr_compressedStateProof r of None \<Rightarrow> []
      | Some p \<Rightarrow> [(''compressedStateProof'', toLowerCase p = toLowerCase (av_compressedStateProof a))])"

definition anchorFieldMismatch :: "SettlementReceipt \<Rightarrow> AnchorView \<Rightarrow> receipt_reason option" where
  "anchorFieldMismatch r a =
     (case find (\<lambda>(name, same). \<not> same) (anchor_fields r a) of
        None \<Rightarrow> None | Some (name, _) \<Rightarrow> Some (FieldMismatch name))"

type_synonym pqc_verifier = "bytes \<Rightarrow> bytes \<Rightarrow> bytes \<Rightarrow> error + bool"

definition anchor_message :: "AnchorView \<Rightarrow> AnchorMessage" where
  "anchor_message a = \<lparr>am_layerId = av_layerId a, am_layerHeight = av_layerHeight a,
     am_stateRoot = av_stateRoot a, am_validatorSetHash = av_validatorSetHash a, am_chainId = None,
     am_transactionCount = Some (av_transactionCount a),
     am_compressedStateProof = Some (av_compressedStateProof a)\<rparr>"

definition signatureOver ::
  "pqc_verifier \<Rightarrow> AnchorView \<Rightarrow> string \<Rightarrow> string \<Rightarrow> TransitionRootVersion \<Rightarrow> bool" where
  "signatureOver pqcVerify anchor publicKeyHex chainId version =
     (if publicKeyHex = '''' \<or> av_pqcSignature anchor = '''' then False
      else res_catch
        (res_bind (case version of
             V2 \<Rightarrow> anchorSignBytesV2 chainId (av_transactionCount anchor) (anchor_message anchor)
           | V1 \<Rightarrow> anchorSignBytesV1 (anchor_message anchor)) (\<lambda>message.
         res_bind (hexToBytes publicKeyHex) (\<lambda>pk.
         res_bind (hexToBytes (av_pqcSignature anchor)) (\<lambda>sig. pqcVerify pk message sig))))
        (\<lambda>_. False))"

definition failed :: "verification_mode \<Rightarrow> ReceiptChecks \<Rightarrow> receipt_reason \<Rightarrow> ReceiptVerification" where
  "failed mode checks reason = \<lparr>rr_valid = False, rr_mode = mode, rr_checks = checks,
     rr_signBytesVersion = None, rr_anchor = None, rr_verifiedReceipt = None, rr_reason = Some reason\<rparr>"

text \<open>Without a client: the receipt's own copies are all there is.\<close>

definition verify_signature_only :: "pqc_verifier \<Rightarrow> SettlementReceipt \<Rightarrow> string \<Rightarrow> ReceiptVerification" where
  "verify_signature_only pqcVerify receipt creatorPublicKey =
     (let asAnchor = \<lparr>av_layerId = sr_layerId receipt, av_layerHeight = sr_layerHeight receipt,
            av_stateRoot = sr_stateRoot receipt, av_validatorSetHash = sr_validatorSetHash receipt,
            av_mainChainHeight = sr_mainChainHeight receipt, av_anchoredAt = sr_anchoredAt receipt,
            av_pqcSignature = sr_pqcSignature receipt,
            av_transactionCount = (case sr_transactionCount receipt of None \<Rightarrow> 0 | Some n \<Rightarrow> n),
            av_compressedStateProof = (case sr_compressedStateProof receipt of None \<Rightarrow> '''' | Some p \<Rightarrow> p)\<rparr>;
          version =
            (if \<not> falsy (sr_chainId receipt) \<and>
                signatureOver pqcVerify asAnchor creatorPublicKey (the (sr_chainId receipt)) V2 then Some V2
             else if signatureOver pqcVerify asAnchor creatorPublicKey '''' V1 then Some V1 else None)
      in \<lparr>rr_valid = False, rr_mode = SignatureOnly,
          rr_checks = NO_CHECKS\<lparr>ck_pqcSignature := version \<noteq> None\<rparr>, rr_signBytesVersion = version,
          rr_anchor = None, rr_verifiedReceipt = None,
          rr_reason = Some (if version \<noteq> None then SignatureOnlyValid else SignatureOnlyInvalid)\<rparr>)"

definition failed_at :: "ReceiptChecks \<Rightarrow> AnchorView \<Rightarrow> receipt_reason \<Rightarrow> ReceiptVerification" where
  "failed_at checks matched reason = (failed Chain checks reason)\<lparr>rr_anchor := Some matched\<rparr>"

text \<open>Steps 4 to 6: the key, the creator, the chain and the signature, for the anchor that matched.\<close>

definition verify_matched ::
  "pqc_verifier \<Rightarrow> RdkClient \<Rightarrow> SettlementReceipt \<Rightarrow> RollupView \<Rightarrow> AnchorView \<Rightarrow> ReceiptVerification" where
  "verify_matched pqcVerify client receipt rollup matched =
     (let checks3 = NO_CHECKS\<lparr>ck_rollupLayerBinding := True, ck_batchStateRoot := True, ck_anchorOnChain := True\<rparr> in
      case getPqcAccount (rk_rest client) (rv_creator rollup) of
        Inl err \<Rightarrow> failed_at checks3 matched (KeyUnresolved err)
      | Inr account \<Rightarrow>
          let publicKeyHex = qv_publicKey account in
          if sr_creator receipt \<noteq> rv_creator rollup
          then failed_at checks3 matched (OtherCreator (sr_creator receipt) (rv_creator rollup))
          else if publicKeyHex = '''' then failed_at checks3 matched (NoKey (rv_creator rollup))
          else
            let checks4 = checks3\<lparr>ck_creatorAuthority := True\<rparr>;
                chainId = nc_chainId (rk_network client) in
            if \<not> falsy (sr_chainId receipt) \<and> the (sr_chainId receipt) \<noteq> chainId
            then failed_at checks4 matched (OtherChain (the (sr_chainId receipt)) chainId)
            else
              let version = anchorSignBytesVersionFor (av_mainChainHeight matched)
                    (nc_anchorSignV2Height (rk_network client));
                  sig = signatureOver pqcVerify matched publicKeyHex chainId version;
                  checks6 = checks4\<lparr>ck_chainBinding := True, ck_pqcSignature := sig\<rparr> in
              if sig then
                \<lparr>rr_valid = True, rr_mode = Chain, rr_checks = checks6, rr_signBytesVersion = Some version,
                 rr_anchor = Some matched,
                 rr_verifiedReceipt = Some (receiptFromParts (sr_rollupId receipt) (rv_layerId rollup)
                   (sr_batchIndex receipt) (rv_creator rollup) matched (sr_batchStateRoot receipt) chainId),
                 rr_reason = None\<rparr>
              else
                \<lparr>rr_valid = False, rr_mode = Chain, rr_checks = checks6, rr_signBytesVersion = Some version,
                 rr_anchor = Some matched, rr_verifiedReceipt = None,
                 rr_reason = Some (SignatureRefused version (av_mainChainHeight matched))\<rparr>)"

definition matches_receipt :: "SettlementReceipt \<Rightarrow> AnchorView \<Rightarrow> bool" where
  "matches_receipt receipt a \<longleftrightarrow> av_stateRoot a = sr_stateRoot receipt \<and>
     av_layerHeight a = sr_layerHeight receipt \<and> av_pqcSignature a = sr_pqcSignature receipt"

text \<open>Steps 1 to 3: the rollup's layer, the batch's root and an anchor that agrees with the receipt.\<close>

definition verify_on_chain :: "pqc_verifier \<Rightarrow> RdkClient \<Rightarrow> SettlementReceipt \<Rightarrow> ReceiptVerification" where
  "verify_on_chain pqcVerify client receipt =
     (let rest = rk_rest client in
      case getRollup rest (sr_rollupId receipt) of
        Inl err \<Rightarrow> failed Chain NO_CHECKS (RollupNotFound (sr_rollupId receipt) err)
      | Inr rollup \<Rightarrow>
          if \<not> (rv_layerId rollup \<noteq> '''' \<and> rv_layerId rollup = sr_layerId receipt)
          then failed Chain NO_CHECKS (OtherLayer (rv_layerId rollup) (sr_layerId receipt))
          else
            let checks1 = NO_CHECKS\<lparr>ck_rollupLayerBinding := True\<rparr> in
            case res_bind (getBatch rest (sr_rollupId receipt) (sr_batchIndex receipt))
                   (\<lambda>batch. wire_root_hex (bv_stateRoot batch)) of
              Inl err \<Rightarrow> failed Chain checks1 (BatchNotFound (sr_batchIndex receipt) err)
            | Inr onChainRoot \<Rightarrow>
                if \<not> (onChainRoot \<noteq> '''' \<and> onChainRoot = sr_stateRoot receipt \<and>
                      onChainRoot = sr_batchStateRoot receipt)
                then failed Chain checks1 OtherStateRoot
                else
                  let checks2 = checks1\<lparr>ck_batchStateRoot := True\<rparr> in
                  case getAnchors rest (sr_layerId receipt) of
                    Inl err \<Rightarrow> failed Chain checks2 (AnchorsUnreadable (sr_layerId receipt) err)
                  | Inr anchors \<Rightarrow>
                      case find (matches_receipt receipt) anchors of
                        None \<Rightarrow> failed Chain checks2 NoMatchingAnchor
                      | Some matched \<Rightarrow>
                          case anchorFieldMismatch receipt matched of
                            Some mismatch \<Rightarrow> failed_at checks2 matched mismatch
                          | None \<Rightarrow> verify_matched pqcVerify client receipt rollup matched)"

definition verifySettlementReceipt ::
  "pqc_verifier \<Rightarrow> SettlementReceipt \<Rightarrow> RdkClient option \<Rightarrow> string option \<Rightarrow> ReceiptVerification" where
  "verifySettlementReceipt pqcVerify receipt client creatorPublicKey =
     (case receiptSchemaError receipt of
        Some e \<Rightarrow> failed (case client of Some _ \<Rightarrow> Chain | None \<Rightarrow> SignatureOnly) NO_CHECKS e
      | None \<Rightarrow>
          case client of
            Some c \<Rightarrow> verify_on_chain pqcVerify c receipt
          | None \<Rightarrow>
              if falsy creatorPublicKey then failed SignatureOnly NO_CHECKS NoClient
              else verify_signature_only pqcVerify receipt (the creatorPublicKey))"

subsection \<open>What the messages bind\<close>

definition lp64 :: "bytes \<Rightarrow> bytes" where
  "lp64 b = lp_with u64be b"

interpretation lp64s: field_code lp64 "\<lambda>b. int (length b) < 2 ^ 64"
  unfolding lp64_def by (rule u64.prefixed.field_code_axioms)

lemma concat_lengthPrefixed: "concat (lengthPrefixed b) = lp64 b"
  by (simp add: lengthPrefixed_def lp64_def lp_with_def)

text \<open>What a message covers: texts as bytes, integers at their 64-bit width.\<close>

definition proof_of :: "AnchorMessage \<Rightarrow> string" where
  "proof_of m = (case am_compressedStateProof m of None \<Rightarrow> '''' | Some p \<Rightarrow> p)"

definition covered :: "string \<Rightarrow> int \<Rightarrow> AnchorMessage \<Rightarrow>
    string \<times> string \<times> int \<times> (error + bytes) \<times> (error + bytes) \<times> int \<times> (error + bytes)" where
  "covered c n m = (c, am_layerId m, am_layerHeight m mod 2 ^ 64,
     hexToBytes (am_stateRoot m), hexToBytes (am_validatorSetHash m), n mod 2 ^ 64,
     hexToBytes (proof_of m))"

definition small_message :: "string \<Rightarrow> AnchorMessage \<Rightarrow> bool" where
  "small_message c m \<longleftrightarrow> list_all (\<lambda>s. int (length (utf8_encode s)) < 2 ^ 64)
     [c, am_layerId m, am_stateRoot m, am_validatorSetHash m, proof_of m]"

lemma anchorSignBytesV2_eq:
  assumes "anchorSignBytesV2 c n m = Inr msg"
  shows "\<exists>r v p. hexToBytes (am_stateRoot m) = Inr r \<and> hexToBytes (am_validatorSetHash m) = Inr v \<and>
    hexToBytes (proof_of m) = Inr p \<and>
    msg = utf8_encode ANCHOR_SIGN_DOMAIN_V2 @ lp64 (utf8_encode c) @ lp64 (utf8_encode (am_layerId m)) @
      u64be (am_layerHeight m) @ lp64 r @ lp64 v @ u64be n @ lp64 p"
  using assms by (auto simp: anchorSignBytesV2_def proof_of_def res_simps concat_lengthPrefixed)

lemma utf8_encode_length: "length s \<le> length (utf8_encode s)"
proof (induction s)
  case (Cons c s)
  have "1 \<le> length (utf8_char c)" by (cases "utf8_char c") simp_all
  with Cons show ?case by (simp add: utf8_encode_Cons)
qed simp

lemma hexToBytes_length: "hexToBytes s = Inr b \<Longrightarrow> length b \<le> length (utf8_encode s)"
proof -
  assume "hexToBytes s = Inr b"
  then have "length b \<le> length (strip0x s)" by (auto simp: hexToBytes_eq_Inr length_hex_pairs)
  also have "length (strip0x s) \<le> length s" by (simp add: strip0x_def)
  finally show ?thesis using utf8_encode_length [of s] by simp
qed

lemma anchorSignBytesV2_inject:
  assumes "anchorSignBytesV2 c n m = Inr msg" "anchorSignBytesV2 c' n' m' = Inr msg"
    and "small_message c m" "small_message c' m'"
  shows "covered c n m = covered c' n' m'"
proof -
  obtain r v p where a: "hexToBytes (am_stateRoot m) = Inr r" "hexToBytes (am_validatorSetHash m) = Inr v"
    "hexToBytes (proof_of m) = Inr p"
    "msg = utf8_encode ANCHOR_SIGN_DOMAIN_V2 @ lp64 (utf8_encode c) @ lp64 (utf8_encode (am_layerId m)) @
      u64be (am_layerHeight m) @ lp64 r @ lp64 v @ u64be n @ lp64 p"
    using anchorSignBytesV2_eq [OF assms(1)] by blast
  obtain r' v' p' where b: "hexToBytes (am_stateRoot m') = Inr r'" "hexToBytes (am_validatorSetHash m') = Inr v'"
    "hexToBytes (proof_of m') = Inr p'"
    "msg = utf8_encode ANCHOR_SIGN_DOMAIN_V2 @ lp64 (utf8_encode c') @ lp64 (utf8_encode (am_layerId m')) @
      u64be (am_layerHeight m') @ lp64 r' @ lp64 v' @ u64be n' @ lp64 p'"
    using anchorSignBytesV2_eq [OF assms(2)] by blast
  have small: "int (length r) < 2 ^ 64" "int (length v) < 2 ^ 64" "int (length p) < 2 ^ 64"
    "int (length r') < 2 ^ 64" "int (length v') < 2 ^ 64" "int (length p') < 2 ^ 64"
    "int (length (utf8_encode c)) < 2 ^ 64" "int (length (utf8_encode (am_layerId m))) < 2 ^ 64"
    "int (length (utf8_encode c')) < 2 ^ 64" "int (length (utf8_encode (am_layerId m'))) < 2 ^ 64"
    using assms(3,4) hexToBytes_length [OF a(1)] hexToBytes_length [OF a(2)] hexToBytes_length [OF a(3)]
      hexToBytes_length [OF b(1)] hexToBytes_length [OF b(2)] hexToBytes_length [OF b(3)]
    by (simp_all add: small_message_def)
  from a(4) b(4) have "lp64 (utf8_encode c) @ lp64 (utf8_encode (am_layerId m)) @
      u64be (am_layerHeight m) @ lp64 r @ lp64 v @ u64be n @ lp64 p =
    lp64 (utf8_encode c') @ lp64 (utf8_encode (am_layerId m')) @
      u64be (am_layerHeight m') @ lp64 r' @ lp64 v' @ u64be n' @ lp64 p'"
    by simp
  with small have "utf8_encode c = utf8_encode c' \<and> utf8_encode (am_layerId m) = utf8_encode (am_layerId m') \<and>
      am_layerHeight m mod 2 ^ 64 = am_layerHeight m' mod 2 ^ 64 \<and> r = r' \<and> v = v' \<and>
      n mod 2 ^ 64 = n' mod 2 ^ 64 \<and> p = p'"
    by (simp only: lp64s.append_iff lp64s.inject u64be_split)
  with a b show ?thesis by (simp add: covered_def)
qed

subsection \<open>What a valid verdict rests on\<close>

lemma find_Some_first: "find P xs = Some x \<Longrightarrow> P x \<and> x \<in> set xs"
  by (induction xs) (auto split: if_splits)

lemma anchorFieldMismatch_None:
  "anchorFieldMismatch r a = None \<longleftrightarrow> list_all snd (anchor_fields r a)"
proof -
  have "anchorFieldMismatch r a = None \<longleftrightarrow> find (\<lambda>(name, same). \<not> same) (anchor_fields r a) = None"
    by (simp add: anchorFieldMismatch_def split: option.splits prod.splits)
  also have "\<dots> \<longleftrightarrow> (\<forall>x \<in> set (anchor_fields r a). snd x)"
    by (force simp: find_None_iff split_beta)
  finally show ?thesis by (simp add: list_all_iff)
qed

text \<open>Agreement of a receipt with an anchor on everything the receipt states of it.\<close>

definition agrees :: "SettlementReceipt \<Rightarrow> AnchorView \<Rightarrow> bool" where
  "agrees r a \<longleftrightarrow> av_stateRoot a = sr_stateRoot r \<and> av_layerHeight a = sr_layerHeight r \<and>
     av_pqcSignature a = sr_pqcSignature r \<and> av_validatorSetHash a = sr_validatorSetHash r \<and>
     av_mainChainHeight a = sr_mainChainHeight r \<and> av_anchoredAt a = sr_anchoredAt r \<and>
     (\<forall>n. sr_transactionCount r = Some n \<longrightarrow> av_transactionCount a = n) \<and>
     (\<forall>p. sr_compressedStateProof r = Some p \<longrightarrow> toLowerCase p = toLowerCase (av_compressedStateProof a))"

lemma agrees_iff: "agrees r a \<longleftrightarrow> matches_receipt r a \<and> anchorFieldMismatch r a = None"
  by (auto simp: agrees_def matches_receipt_def anchorFieldMismatch_None anchor_fields_def split: option.splits)

lemma verify_matched_valid:
  "rr_valid (verify_matched pqcVerify client receipt rollup a) \<longleftrightarrow>
     (\<exists>account. getPqcAccount (rk_rest client) (rv_creator rollup) = Inr account \<and>
        sr_creator receipt = rv_creator rollup \<and> qv_publicKey account \<noteq> '''' \<and>
        (falsy (sr_chainId receipt) \<or> sr_chainId receipt = Some (nc_chainId (rk_network client))) \<and>
        signatureOver pqcVerify a (qv_publicKey account) (nc_chainId (rk_network client))
          (anchorSignBytesVersionFor (av_mainChainHeight a) (nc_anchorSignV2Height (rk_network client))))"
  by (auto simp: verify_matched_def failed_at_def failed_def Let_def falsy_def split: sum.splits)

lemma verify_on_chain_valid:
  "rr_valid (verify_on_chain pqcVerify client receipt) \<longleftrightarrow>
     (\<exists>rollup batch anchors a.
        getRollup (rk_rest client) (sr_rollupId receipt) = Inr rollup \<and>
        rv_layerId rollup \<noteq> '''' \<and> rv_layerId rollup = sr_layerId receipt \<and>
        getBatch (rk_rest client) (sr_rollupId receipt) (sr_batchIndex receipt) = Inr batch \<and>
        wire_root_hex (bv_stateRoot batch) = Inr (sr_stateRoot receipt) \<and> sr_stateRoot receipt \<noteq> '''' \<and>
        sr_batchStateRoot receipt = sr_stateRoot receipt \<and>
        getAnchors (rk_rest client) (sr_layerId receipt) = Inr anchors \<and>
        find (matches_receipt receipt) anchors = Some a \<and> agrees receipt a \<and>
        rr_valid (verify_matched pqcVerify client receipt rollup a))"
proof -
  have m: "find (matches_receipt receipt) anchors = Some a \<Longrightarrow>
      agrees receipt a \<longleftrightarrow> anchorFieldMismatch receipt a = None" for anchors a
    using find_Some_first [of "matches_receipt receipt" anchors a] by (auto simp: agrees_iff)
  show ?thesis
    by (auto simp: verify_on_chain_def failed_def failed_at_def Let_def res_simps m
        split: sum.splits option.splits if_splits)
qed

lemma verify_matched_receipt:
  assumes "rr_valid (verify_matched pqcVerify client receipt rollup a)"
  shows "rr_verifiedReceipt (verify_matched pqcVerify client receipt rollup a) =
    Some (receiptFromParts (sr_rollupId receipt) (rv_layerId rollup) (sr_batchIndex receipt)
      (rv_creator rollup) a (sr_batchStateRoot receipt) (nc_chainId (rk_network client)))"
  using assms
  by (auto simp: verify_matched_def failed_at_def failed_def Let_def split: sum.splits if_splits)

lemma verify_valid_cases:
  assumes "rr_valid (verifySettlementReceipt pqcVerify receipt client pk)"
  obtains c where "client = Some c" "receiptSchemaError receipt = None"
    "rr_valid (verify_on_chain pqcVerify c receipt)"
  using assms
  by (auto simp: verifySettlementReceipt_def failed_def verify_signature_only_def Let_def
      split: option.splits if_splits)

lemma schema_ok_build:
  "chainId \<noteq> '''' \<Longrightarrow>
   receiptSchemaError (receiptFromParts rollupId layerId i creator a root chainId) = None"
  by (simp add: receiptSchemaError_def receiptFromParts_def RECEIPT_VERSION_def
      SUPPORTED_RECEIPT_VERSIONS_def falsy_def)

text \<open>The first anchor that satisfies a condition is also the first under any stronger one it satisfies.\<close>

lemma find_stronger:
  assumes "find P xs = Some x" "Q x" "\<And>y. Q y \<Longrightarrow> P y"
  shows "find Q xs = Some x"
  using assms(1,2) by (induction xs) (auto split: if_splits dest: assms(3))

lemma buildSettlementReceipt_eq_Inr:
  assumes "buildSettlementReceipt client rollupId i = Inr r"
  shows "\<exists>rollup batch root anchors a.
    getRollup (rk_rest client) rollupId = Inr rollup \<and> rv_layerId rollup \<noteq> '''' \<and>
    getBatch (rk_rest client) rollupId i = Inr batch \<and> wire_root_hex (bv_stateRoot batch) = Inr root \<and>
    getAnchors (rk_rest client) (rv_layerId rollup) = Inr anchors \<and>
    find (\<lambda>a. av_stateRoot a \<noteq> '''' \<and> av_stateRoot a = root) anchors = Some a \<and>
    r = receiptFromParts rollupId (rv_layerId rollup) i (rv_creator rollup) a root (nc_chainId (rk_network client))"
proof -
  from assms obtain rollup batch root anchors where
    g: "getRollup (rk_rest client) rollupId = Inr rollup" "rv_layerId rollup \<noteq> ''''"
    "getBatch (rk_rest client) rollupId i = Inr batch" "wire_root_hex (bv_stateRoot batch) = Inr root"
    "getAnchors (rk_rest client) (rv_layerId rollup) = Inr anchors"
    by (auto simp: buildSettlementReceipt_def res_simps split: if_splits)
  let ?f = "find (\<lambda>a. av_stateRoot a \<noteq> '''' \<and> av_stateRoot a = root) anchors"
  from assms g obtain a where "?f = Some a"
    by (cases ?f) (auto simp: buildSettlementReceipt_def res_simps Let_def split: if_splits)
  with assms g show ?thesis
    by (auto simp: buildSettlementReceipt_def res_simps Let_def split: if_splits)
qed

text \<open>A receipt that was built verifies; the anchor it was built from is the one that is matched.\<close>

lemma built_receipt_valid:
  assumes "buildSettlementReceipt client rollupId i = Inr r" "nc_chainId (rk_network client) \<noteq> ''''"
    and "getPqcAccount (rk_rest client) (sr_creator r) = Inr account" "qv_publicKey account \<noteq> ''''"
    and "\<And>anchors a. getAnchors (rk_rest client) (sr_layerId r) = Inr anchors \<Longrightarrow> a \<in> set anchors \<Longrightarrow>
      av_stateRoot a = sr_stateRoot r \<Longrightarrow>
      signatureOver pqcVerify a (qv_publicKey account) (nc_chainId (rk_network client))
        (anchorSignBytesVersionFor (av_mainChainHeight a) (nc_anchorSignV2Height (rk_network client)))"
  shows "rr_valid (verifySettlementReceipt pqcVerify r (Some client) pk) \<and>
    rr_verifiedReceipt (verifySettlementReceipt pqcVerify r (Some client) pk) = Some r"
proof -
  obtain rollup batch root anchors a where b:
    "getRollup (rk_rest client) rollupId = Inr rollup" "rv_layerId rollup \<noteq> ''''"
    "getBatch (rk_rest client) rollupId i = Inr batch" "wire_root_hex (bv_stateRoot batch) = Inr root"
    "getAnchors (rk_rest client) (rv_layerId rollup) = Inr anchors"
    "find (\<lambda>a. av_stateRoot a \<noteq> '''' \<and> av_stateRoot a = root) anchors = Some a"
    "r = receiptFromParts rollupId (rv_layerId rollup) i (rv_creator rollup) a root (nc_chainId (rk_network client))"
    using buildSettlementReceipt_eq_Inr [OF assms(1)] by blast
  have a: "av_stateRoot a \<noteq> ''''" "av_stateRoot a = root" "a \<in> set anchors"
    using find_Some_first [OF b(6)] by auto
  have f: "sr_rollupId r = rollupId" "sr_layerId r = rv_layerId rollup" "sr_batchIndex r = i"
    "sr_creator r = rv_creator rollup" "sr_stateRoot r = root" "sr_batchStateRoot r = root"
    "sr_chainId r = Some (nc_chainId (rk_network client))"
    using b(7) a by (simp_all add: receiptFromParts_def)
  have "agrees r a" using b(7) by (simp add: agrees_def receiptFromParts_def)
  moreover from this have "find (matches_receipt r) anchors = Some a"
    by (intro find_stronger [OF b(6)]) (use f a in \<open>auto simp: agrees_iff matches_receipt_def\<close>)
  moreover have vm: "rr_valid (verify_matched pqcVerify client r rollup a)"
    unfolding verify_matched_valid using assms(3,4) assms(5) [of anchors a] b(5) f a by auto
  ultimately have "rr_valid (verify_on_chain pqcVerify client r)"
    unfolding verify_on_chain_valid using b f a by auto
  moreover have "verify_on_chain pqcVerify client r = verify_matched pqcVerify client r rollup a"
    using \<open>agrees r a\<close> \<open>find (matches_receipt r) anchors = Some a\<close> b f a
    by (simp add: verify_on_chain_def Let_def agrees_iff)
  ultimately show ?thesis
    using schema_ok_build [OF assms(2)] verify_matched_receipt [OF vm] b(7) f
    by (simp add: verifySettlementReceipt_def)
qed

subsection \<open>A node for the witnesses\<close>

text \<open>It answers every request with one body that holds a rollup, its batch, an anchor and a key.\<close>

definition demo_body :: json where
  "demo_body = JObj
     [(''rollup'', JObj [(''rollup_id'', JStr ''r''), (''creator'', JStr ''amy''), (''layer_id'', JStr ''l'')]),
      (''batch'', JObj [(''rollup_id'', JStr ''r''), (''state_root'', JStr ''aa'')]),
      (''anchors'', JArr [JObj [(''layer_id'', JStr ''l''), (''layer_height'', JStr ''0''),
         (''state_root'', JStr ''aa''), (''validator_set_hash'', JStr ''bb''), (''main_chain_height'', JNum 7000000),
         (''anchored_at'', JNum 5), (''pqc_aggregate_signature'', JStr ''cc''), (''transaction_count'', JNum 3)]]),
      (''account'', JObj [(''address'', JStr ''amy''), (''public_key'', JStr ''dd'')])]"

definition demo_client :: RdkClient where
  "demo_client = createRdkClient None \<lparr>eo_rest = None, eo_rpc = None, eo_grpc = None, eo_evmRpc = None\<rparr>
     (\<lambda>_. Inr \<lparr>hr_ok = True, hr_status = 200, hr_statusText = ''OK'', hr_json = Inr demo_body\<rparr>)"

definition demo_anchor :: AnchorView where
  "demo_anchor = \<lparr>av_layerId = ''l'', av_layerHeight = 0, av_stateRoot = ''aa'', av_validatorSetHash = ''bb'',
     av_mainChainHeight = 7000000, av_anchoredAt = 5, av_pqcSignature = ''cc'', av_transactionCount = 3,
     av_compressedStateProof = ''''\<rparr>"

definition demo_receipt :: SettlementReceipt where
  "demo_receipt = receiptFromParts ''r'' ''l'' 0 ''amy'' demo_anchor ''aa'' ''qorechain-diana''"

definition trusting :: pqc_verifier where
  "trusting = (\<lambda>_ _ _. Inr True)"

lemma demo_built: "buildSettlementReceipt demo_client ''r'' 0 = Inr demo_receipt"
  by code_simp

lemma demo_valid: "rr_valid (verifySettlementReceipt trusting demo_receipt (Some demo_client) None)"
  by code_simp

subsection \<open>Properties\<close>

text \<open>
  C1: A receipt is reported valid only when the chain that was queried holds it: a client was given;
  the chain's rollup carries the receipt's layer and creator; the chain's batch of that index carries
  the receipt's state root; an anchor of that layer on the chain agrees with the receipt on every
  anchor field it states; the receipt names no other chain; and the creator's key, read from the chain,
  accepts the chain's signature over the message built from the chain's anchor, in the form in force
  at the anchor's height.
\<close>

theorem valid_receipt_is_on_chain:
  assumes "rr_valid (verifySettlementReceipt pqcVerify receipt client pk)"
  shows "\<exists>c rollup batch anchors a account.
    client = Some c \<and> receiptSchemaError receipt = None \<and>
    getRollup (rk_rest c) (sr_rollupId receipt) = Inr rollup \<and>
    rv_layerId rollup = sr_layerId receipt \<and> rv_creator rollup = sr_creator receipt \<and>
    getBatch (rk_rest c) (sr_rollupId receipt) (sr_batchIndex receipt) = Inr batch \<and>
    wire_root_hex (bv_stateRoot batch) = Inr (sr_stateRoot receipt) \<and>
    getAnchors (rk_rest c) (sr_layerId receipt) = Inr anchors \<and> a \<in> set anchors \<and> agrees receipt a \<and>
    getPqcAccount (rk_rest c) (sr_creator receipt) = Inr account \<and> qv_publicKey account \<noteq> '''' \<and>
    (falsy (sr_chainId receipt) \<or> sr_chainId receipt = Some (nc_chainId (rk_network c))) \<and>
    signatureOver pqcVerify a (qv_publicKey account) (nc_chainId (rk_network c))
      (anchorSignBytesVersionFor (av_mainChainHeight a) (nc_anchorSignV2Height (rk_network c)))"
proof -
  from assms obtain c where c: "client = Some c" "receiptSchemaError receipt = None"
    "rr_valid (verify_on_chain pqcVerify c receipt)" by (rule verify_valid_cases)
  from c(3) obtain rollup batch anchors a where
    r: "getRollup (rk_rest c) (sr_rollupId receipt) = Inr rollup" "rv_layerId rollup = sr_layerId receipt"
    "getBatch (rk_rest c) (sr_rollupId receipt) (sr_batchIndex receipt) = Inr batch"
    "wire_root_hex (bv_stateRoot batch) = Inr (sr_stateRoot receipt)"
    "getAnchors (rk_rest c) (sr_layerId receipt) = Inr anchors"
    "find (matches_receipt receipt) anchors = Some a" "agrees receipt a"
    "rr_valid (verify_matched pqcVerify c receipt rollup a)"
    unfolding verify_on_chain_valid by blast
  from r(8) obtain account where k: "getPqcAccount (rk_rest c) (rv_creator rollup) = Inr account"
    "sr_creator receipt = rv_creator rollup" "qv_publicKey account \<noteq> ''''"
    "falsy (sr_chainId receipt) \<or> sr_chainId receipt = Some (nc_chainId (rk_network c))"
    "signatureOver pqcVerify a (qv_publicKey account) (nc_chainId (rk_network c))
      (anchorSignBytesVersionFor (av_mainChainHeight a) (nc_anchorSignV2Height (rk_network c)))"
    unfolding verify_matched_valid by blast
  have "a \<in> set anchors" using find_Some_first [OF r(6)] by simp
  moreover have "getPqcAccount (rk_rest c) (sr_creator receipt) = Inr account"
    "rv_creator rollup = sr_creator receipt" using k(1,2) by simp_all
  ultimately show ?thesis
    using c(1,2) r(1-5,7) k(3-5)
    by (intro exI [of _ c] exI [of _ rollup] exI [of _ batch] exI [of _ anchors] exI [of _ a]
        exI [of _ account] conjI)
qed

lemma valid_receipt_is_on_chain_witness:
  "\<exists>rollup anchors a. getRollup (rk_rest demo_client) ''r'' = Inr rollup \<and> rv_layerId rollup = ''l'' \<and>
     getAnchors (rk_rest demo_client) ''l'' = Inr anchors \<and> a \<in> set anchors \<and> agrees demo_receipt a"
proof -
  have "sr_rollupId demo_receipt = ''r''" "sr_layerId demo_receipt = ''l''"
    by (simp_all add: demo_receipt_def receiptFromParts_def)
  then show ?thesis using valid_receipt_is_on_chain [OF demo_valid] by auto
qed


lemma demo_account: "\<exists>acc. getPqcAccount (rk_rest demo_client) ''amy'' = Inr acc \<and> qv_publicKey acc = ''dd''"
proof -
  have "(case getPqcAccount (rk_rest demo_client) ''amy'' of Inl _ \<Rightarrow> False | Inr acc \<Rightarrow> qv_publicKey acc = ''dd'')"
    by code_simp
  then show ?thesis by (simp split: sum.splits)
qed

lemma demo_anchors: "getAnchors (rk_rest demo_client) ''l'' = Inr [demo_anchor]"
  by code_simp

lemma demo_signature: "signatureOver trusting demo_anchor ''dd'' ''qorechain-diana'' V2"
  by code_simp


text \<open>
  Without a client no receipt is valid and the verdict is marked as signature-only, whatever key is
  supplied and whatever the signature says.
\<close>

theorem no_client_never_valid:
  "\<not> rr_valid (verifySettlementReceipt pqcVerify receipt None pk) \<and>
   rr_mode (verifySettlementReceipt pqcVerify receipt None pk) = SignatureOnly \<and>
   rr_verifiedReceipt (verifySettlementReceipt pqcVerify receipt None pk) = None"
  by (auto simp: verifySettlementReceipt_def failed_def verify_signature_only_def Let_def split: option.splits)

text \<open>
  C17: The version 2 anchor message binds every field: two messages that \<open>anchorSignBytesV2\<close> makes equal
  are for the same chain, layer, height, state root, validator set, transaction count and state proof,
  integers at their 64-bit width and byte fields by value.
\<close>

theorem anchor_message_v2_binds:
  assumes "anchorSignBytes m V2 = Inr msg" "anchorSignBytes m' V2 = Inr msg"
    and "small_message (the (am_chainId m)) m" "small_message (the (am_chainId m')) m'"
  shows "covered (the (am_chainId m)) (the (am_transactionCount m)) m =
    covered (the (am_chainId m')) (the (am_transactionCount m')) m'"
  using assms anchorSignBytesV2_inject [of "the (am_chainId m)" _ m msg "the (am_chainId m')" _ m']
  by (auto simp: anchorSignBytes_def split: if_splits option.splits)

definition demo_message :: "string \<Rightarrow> AnchorMessage" where
  "demo_message c = \<lparr>am_layerId = ''l'', am_layerHeight = 1, am_stateRoot = ''aa'', am_validatorSetHash = '''',
     am_chainId = Some c, am_transactionCount = Some 2, am_compressedStateProof = None\<rparr>"

lemma anchor_message_v2_binds_witness:
  "(\<exists>msg. anchorSignBytes (demo_message ''q'') V2 = Inr msg) \<and>
   anchorSignBytes (demo_message ''q'') V2 \<noteq> anchorSignBytes (demo_message ''p'') V2"
proof -
  have small: "small_message c (demo_message c)" if "length c = 1" for c
  proof -
    have "length (utf8_encode [x]) \<le> 2" for x by (simp add: utf8_encode_def utf8_char_def Let_def)
    with that show ?thesis
      by (cases c) (auto simp: small_message_def demo_message_def proof_of_def utf8_encode_def
          utf8_char_def Let_def code_def)
  qed
  obtain msg where m: "anchorSignBytes (demo_message ''q'') V2 = Inr msg"
    by (simp add: anchorSignBytes_def demo_message_def falsy_def anchorSignBytesV2_def hexToBytes_def
        strip0x_def is_hex_char_def is_digit_def code_def prefix_def)
  have "anchorSignBytes (demo_message ''p'') V2 \<noteq> Inr msg"
  proof
    assume "anchorSignBytes (demo_message ''p'') V2 = Inr msg"
    from anchor_message_v2_binds [OF m this] small [of "''q''"] small [of "''p''"]
    show False by (simp add: covered_def demo_message_def)
  qed
  with m show ?thesis by metis
qed

text \<open>
  The version 1 message does not bind its fields: the same bytes are the message of two anchors that
  differ in their state root and validator set, and the message does not depend on the chain.
\<close>

theorem anchor_message_v1_ambiguous:
  "anchorSignBytesV1 m = anchorSignBytesV1 (m\<lparr>am_chainId := c\<rparr>) \<and>
   (\<exists>a b msg. anchorSignBytes a V1 = Inr msg \<and> anchorSignBytes b V1 = Inr msg \<and>
      hexToBytes (am_stateRoot a) \<noteq> hexToBytes (am_stateRoot b) \<and>
      hexToBytes (am_validatorSetHash a) \<noteq> hexToBytes (am_validatorSetHash b))"
proof -
  let ?a = "(demo_message ''q'')\<lparr>am_stateRoot := ''aabb'', am_validatorSetHash := ''''\<rparr>"
  let ?b = "(demo_message ''q'')\<lparr>am_stateRoot := ''aa'', am_validatorSetHash := ''bb''\<rparr>"
  have h: "hexToBytes ''aabb'' = Inr [0xaa, 0xbb]" "hexToBytes ''aa'' = Inr [0xaa]"
    "hexToBytes ''bb'' = Inr [0xbb]" "hexToBytes '''' = Inr []" by code_simp+
  have "anchorSignBytes ?a V1 = anchorSignBytes ?b V1" "\<exists>msg. anchorSignBytes ?a V1 = Inr msg"
    by (simp_all add: anchorSignBytes_def anchorSignBytesV1_def h)
  moreover have "hexToBytes (am_stateRoot ?a) \<noteq> hexToBytes (am_stateRoot ?b)"
    "hexToBytes (am_validatorSetHash ?a) \<noteq> hexToBytes (am_validatorSetHash ?b)"
    by (simp_all add: h)
  ultimately have "\<exists>a b msg. anchorSignBytes a V1 = Inr msg \<and> anchorSignBytes b V1 = Inr msg \<and>
      hexToBytes (am_stateRoot a) \<noteq> hexToBytes (am_stateRoot b) \<and>
      hexToBytes (am_validatorSetHash a) \<noteq> hexToBytes (am_validatorSetHash b)" by metis
  then show ?thesis by (simp add: anchorSignBytesV1_def)
qed

text \<open>
  The batch index is bound only through the state root. A valid receipt stays valid when its batch
  index is changed to that of any other batch of the rollup with the same state root, although the
  anchor it rests on, whose layer height is the batch index, is for one batch only.
\<close>

theorem receipt_index_not_bound_to_anchor:
  assumes "rr_valid (verifySettlementReceipt pqcVerify receipt (Some c) pk)"
    and "getBatch (rk_rest c) (sr_rollupId receipt) j = Inr other"
    and "wire_root_hex (bv_stateRoot other) = Inr (sr_stateRoot receipt)"
  shows "rr_valid (verifySettlementReceipt pqcVerify (receipt\<lparr>sr_batchIndex := j\<rparr>) (Some c) pk)"
proof -
  let ?r = "receipt\<lparr>sr_batchIndex := j\<rparr>"
  have same: "matches_receipt ?r = matches_receipt receipt" "agrees ?r a \<longleftrightarrow> agrees receipt a"
    "rr_valid (verify_matched pqcVerify c ?r rollup a) \<longleftrightarrow> rr_valid (verify_matched pqcVerify c receipt rollup a)"
    "receiptSchemaError ?r = receiptSchemaError receipt" for a rollup
    by (auto simp: matches_receipt_def agrees_def verify_matched_valid receiptSchemaError_def fun_eq_iff)
  obtain "receiptSchemaError receipt = None" "rr_valid (verify_on_chain pqcVerify c receipt)"
    using assms(1) by (rule verify_valid_cases) simp
  then have "rr_valid (verify_on_chain pqcVerify c ?r)"
    unfolding verify_on_chain_valid same using assms(2,3) by auto
  then show ?thesis
    using \<open>receiptSchemaError receipt = None\<close> same(4) by (simp add: verifySettlementReceipt_def)
qed

lemma receipt_index_not_bound_to_anchor_witness:
  "rr_valid (verifySettlementReceipt trusting (demo_receipt\<lparr>sr_batchIndex := 9\<rparr>) (Some demo_client) None)"
proof -
  have "(case getBatch (rk_rest demo_client) (sr_rollupId demo_receipt) 9 of Inl _ \<Rightarrow> False
     | Inr b \<Rightarrow> wire_root_hex (bv_stateRoot b) = Inr (sr_stateRoot demo_receipt))"
    by code_simp
  then obtain b where "getBatch (rk_rest demo_client) (sr_rollupId demo_receipt) 9 = Inr b"
    "wire_root_hex (bv_stateRoot b) = Inr (sr_stateRoot demo_receipt)"
    by (simp split: sum.splits)
  from receipt_index_not_bound_to_anchor [OF demo_valid this] show ?thesis .
qed

end
