(* ===== verification/Watchtower.thy ===== *)
theory Watchtower
  imports Receipts
begin

text \<open>
  The watchtower, \<open>packages/ts/src/watchtower/index.ts\<close>: the polling loop of \<open>watchBatches\<close> as a state
  machine, and the fraud rule of \<open>transitionRootValidator\<close> and \<open>fraudProofForBatch\<close>.

  The closure's variables are the fields of \<open>Tower\<close>; the calls it makes to its callbacks are recorded,
  in order, in \<open>tw_trace\<close> (an absent callback is one that does nothing). What a tick meets, the node,
  the tip, the verdicts, the callbacks that throw and the calls of \<open>stop\<close> that arrive while it waits or
  inside a callback, is the environment of that tick. A reachable state is any sequence of ticks under any environments, with
  \<open>stop\<close> in between.

  Shown: a batch is announced and warned about at most once, per index and state root; nothing happens
  after \<open>stop\<close>; the poll position never passes an open batch nor the next index; the fraud proof built
  for a batch is one the chain upholds. Also shown: a batch whose validation failed once is never
  validated again, an index that is reused below the poll position is never looked at, and an error
  callback that throws ends the polling.
\<close>

subsection \<open>Observations and state\<close>

record BatchDeadline =
  bd_batch :: BatchView
  bd_window :: "ChallengeWindowStatus option"
  bd_deadline :: int
  bd_secondsRemaining :: int

datatype wt_event = OnBatch BatchView | OnInvalid BatchDeadline | OnDeadline BatchDeadline | OnError error

record WatchtowerOptions =
  wo_validate :: "(BatchView \<Rightarrow> error + bool) option"
  wo_deadlineWarnSecs :: "int option"
  wo_deadlineWarnBlocks :: "int option"
  wo_challengeWindowSecs :: "int option"

record Tower =
  tw_seen :: "string list"
  tw_warned :: "string list"
  tw_stopped :: bool
  tw_timer :: bool
  tw_windowSecs :: "int option"
  tw_nextStart :: int
  tw_pollFrom :: int
  tw_trace :: "wt_event list"

text \<open>The places where a tick waits, so that \<open>stop\<close> can be called before it goes on.\<close>

datatype await = AtWindow | AtList | AtTip | AtValidate BatchView

record tick_env =
  te_client :: RdkClient
  te_options :: WatchtowerOptions
  te_tip :: "error + ChainTip"
  te_stop_at :: "await \<Rightarrow> bool"
  te_stop_in :: "wt_event \<Rightarrow> bool"
  te_throws :: "wt_event \<Rightarrow> error option"

definition keyOf :: "BatchView \<Rightarrow> string" where
  "keyOf b = show_int (bv_batchIndex b) @ '':'' @ bv_stateRoot b"

definition new_tower :: "WatchtowerOptions \<Rightarrow> Tower" where
  "new_tower options = \<lparr>tw_seen = [], tw_warned = [], tw_stopped = False, tw_timer = False,
     tw_windowSecs = wo_challengeWindowSecs options, tw_nextStart = 0, tw_pollFrom = 0, tw_trace = []\<rparr>"

definition tower_stop :: "Tower \<Rightarrow> Tower" where
  "tower_stop st = st\<lparr>tw_stopped := True, tw_timer := False\<rparr>"

definition emit :: "tick_env \<Rightarrow> wt_event \<Rightarrow> Tower \<Rightarrow> Tower" where
  "emit env e st =
     (let st' = st\<lparr>tw_trace := tw_trace st @ [e]\<rparr> in if te_stop_in env e then tower_stop st' else st')"

definition await_at :: "tick_env \<Rightarrow> await \<Rightarrow> Tower \<Rightarrow> Tower" where
  "await_at env p st = (if te_stop_at env p then tower_stop st else st)"

subsection \<open>One tick\<close>

definition deadlineFor :: "int option \<Rightarrow> BatchView \<Rightarrow> ChainTip option \<Rightarrow> BatchDeadline" where
  "deadlineFor windowSecs batch tip =
     (case (tip, windowSecs) of
        (Some t, Some w) \<Rightarrow>
          let window = batchChallengeWindow (bv_submittedAt batch) (Some (bv_submittedTime batch)) w t in
          \<lparr>bd_batch = batch, bd_window = Some window,
           bd_deadline = (if cw_mode window = Time
             then (case cw_deadlineSecs window of None \<Rightarrow> 0 | Some d \<Rightarrow> d) else 0),
           bd_secondsRemaining = (if cw_mode window = Time
             then (case cw_secondsRemaining window of None \<Rightarrow> 0 | Some d \<Rightarrow> d) else 0)\<rparr>
      | _ \<Rightarrow> \<lparr>bd_batch = batch, bd_window = None, bd_deadline = 0, bd_secondsRemaining = 0\<rparr>)"

definition nearDeadline :: "WatchtowerOptions \<Rightarrow> BatchDeadline \<Rightarrow> bool" where
  "nearDeadline options info =
     (let warnSecs = (case wo_deadlineWarnSecs options of None \<Rightarrow> 300 | Some n \<Rightarrow> n);
          warnBlocks = (case wo_deadlineWarnBlocks options of None \<Rightarrow> 50 | Some n \<Rightarrow> n) in
      case bd_window info of
        None \<Rightarrow> False
      | Some w \<Rightarrow>
          if \<not> cw_open w then False
          else if cw_mode w = Time
          then (case cw_secondsRemaining w of None \<Rightarrow> False | Some s \<Rightarrow> s \<le> warnSecs)
          else (case cw_blocksRemaining w of None \<Rightarrow> False | Some s \<Rightarrow> s \<le> warnBlocks))"

definition is_finalized :: "BatchView \<Rightarrow> bool" where
  "is_finalized b \<longleftrightarrow> bv_status b = ''finalized'' \<or> 0 < bv_finalizedAt b"

definition is_live :: "BatchView \<Rightarrow> bool" where
  "is_live b \<longleftrightarrow> \<not> is_finalized b \<and> bv_status b \<noteq> ''rejected''"

text \<open>The first part of the loop body: a batch not seen before is announced and validated.\<close>

definition observe :: "tick_env \<Rightarrow> BatchDeadline \<Rightarrow> BatchView \<Rightarrow> Tower \<Rightarrow> Tower \<times> error option" where
  "observe env info b st =
     (if keyOf b \<in> set (tw_seen st) then (st, None)
      else
        let st1 = emit env (OnBatch b) (st\<lparr>tw_seen := keyOf b # tw_seen st\<rparr>) in
        case te_throws env (OnBatch b) of
          Some e \<Rightarrow> (st1, Some e)
        | None \<Rightarrow>
          (case wo_validate (te_options env) of
             None \<Rightarrow> (st1, None)
           | Some validate \<Rightarrow>
               if \<not> is_live b then (st1, None)
               else
                 let st2 = await_at env (AtValidate b) st1 in
                 case validate b of
                   Inl e \<Rightarrow> (st2, Some e)
                 | Inr ok \<Rightarrow>
                     if \<not> ok \<and> \<not> tw_stopped st2
                     then (emit env (OnInvalid info) st2, te_throws env (OnInvalid info))
                     else (st2, None)))"

definition window_open :: "BatchDeadline \<Rightarrow> bool" where
  "window_open info \<longleftrightarrow> (case bd_window info of None \<Rightarrow> False | Some w \<Rightarrow> cw_open w)"

text \<open>The second part: an open, live batch holds the poll position and may be warned about.\<close>

definition warns :: "tick_env \<Rightarrow> BatchDeadline \<Rightarrow> BatchView \<Rightarrow> Tower \<Rightarrow> bool" where
  "warns env info b st \<longleftrightarrow> is_live b \<and> window_open info \<and>
     nearDeadline (te_options env) info \<and> keyOf b \<notin> set (tw_warned st) \<and> \<not> tw_stopped st"

definition judge ::
  "tick_env \<Rightarrow> BatchDeadline \<Rightarrow> BatchView \<Rightarrow> Tower \<Rightarrow> int option \<Rightarrow> Tower \<times> int option" where
  "judge env info b st oldestOpen =
     (if is_live b \<and> window_open info then
        (if warns env info b st then emit env (OnDeadline info) (st\<lparr>tw_warned := keyOf b # tw_warned st\<rparr>) else st,
         case oldestOpen of None \<Rightarrow> Some (bv_batchIndex b)
         | Some o1 \<Rightarrow> Some (if bv_batchIndex b < o1 then bv_batchIndex b else o1))
      else (st, oldestOpen))"

definition warning_throws :: "tick_env \<Rightarrow> BatchDeadline \<Rightarrow> BatchView \<Rightarrow> Tower \<Rightarrow> error option" where
  "warning_throws env info b st = (if warns env info b st then te_throws env (OnDeadline info) else None)"

datatype loop_end = Done "int option" | Returned | Threw error

definition bump :: "BatchView \<Rightarrow> Tower \<Rightarrow> Tower" where
  "bump b st = (if tw_nextStart st \<le> bv_batchIndex b then st\<lparr>tw_nextStart := bv_batchIndex b + 1\<rparr> else st)"

fun tower_loop ::
  "tick_env \<Rightarrow> ChainTip option \<Rightarrow> BatchView list \<Rightarrow> Tower \<Rightarrow> int option \<Rightarrow> Tower \<times> loop_end" where
  "tower_loop env tip [] st oldestOpen = (st, Done oldestOpen)"
| "tower_loop env tip (b # bs) st oldestOpen =
     (if tw_stopped st then (st, Returned)
      else
        let info = deadlineFor (tw_windowSecs st) b tip;
            (st2, thrown) = observe env info b (bump b st)
        in case thrown of
             Some e \<Rightarrow> (st2, Threw e)
           | None \<Rightarrow>
               let (st3, oldest') = judge env info b st2 oldestOpen in
               case warning_throws env info b st2 of
                 Some e \<Rightarrow> (st3, Threw e)
               | None \<Rightarrow> tower_loop env tip bs st3 oldest')"

text \<open>The rollup's own window, then the global parameter; read once, in the first tick that can.\<close>

definition read_window :: "tick_env \<Rightarrow> string \<Rightarrow> Tower \<Rightarrow> Tower \<times> error option" where
  "read_window env rollupId st =
     (case tw_windowSecs st of
        Some _ \<Rightarrow> (st, None)
      | None \<Rightarrow>
          let st1 = await_at env AtWindow st; rest = rk_rest (te_client env) in
          case getRollup rest rollupId of
            Inl e \<Rightarrow> (st1, Some e)
          | Inr rollup \<Rightarrow>
              case rv_challengeWindowSec rollup of
                Some w \<Rightarrow> (st1\<lparr>tw_windowSecs := Some w\<rparr>, None)
              | None \<Rightarrow>
                  case getParams rest of
                    Inl e \<Rightarrow> (st1, Some e)
                  | Inr p \<Rightarrow> (st1\<lparr>tw_windowSecs := Some (pv_defaultChallengeWindow p)\<rparr>, None))"

text \<open>Without a tip the tick goes on, unless the error callback throws.\<close>

definition read_tip :: "tick_env \<Rightarrow> Tower \<Rightarrow> Tower \<times> (error + ChainTip option)" where
  "read_tip env st =
     (let st1 = await_at env AtTip st in
      case te_tip env of
        Inr t \<Rightarrow> (st1, Inr (Some t))
      | Inl e \<Rightarrow>
          if tw_stopped st1 then (st1, Inr None)
          else (emit env (OnError e) st1,
                case te_throws env (OnError e) of Some e' \<Rightarrow> Inl e' | None \<Rightarrow> Inr None))"

definition tower_body :: "tick_env \<Rightarrow> string \<Rightarrow> Tower \<Rightarrow> Tower \<times> loop_end" where
  "tower_body env rollupId st =
     (let (st1, e1) = read_window env rollupId st in
      case e1 of
        Some e \<Rightarrow> (st1, Threw e)
      | None \<Rightarrow>
          let st2 = await_at env AtList st1 in
          case listBatches (rk_rest (te_client env)) rollupId (Some (tw_pollFrom st1)) of
            Inl e \<Rightarrow> (st2, Threw e)
          | Inr batches \<Rightarrow>
              let (st3, read) = read_tip env st2 in
              case read of
                Inl e \<Rightarrow> (st3, Threw e)
              | Inr tip \<Rightarrow>
                  let (st4, r) = tower_loop env tip batches st3 None
                  in case r of
                       Done oldestOpen \<Rightarrow>
                         (st4\<lparr>tw_pollFrom := (case tip of None \<Rightarrow> tw_pollFrom st4
                            | Some _ \<Rightarrow> (case oldestOpen of None \<Rightarrow> tw_nextStart st4 | Some i \<Rightarrow> i))\<rparr>, r)
                     | _ \<Rightarrow> (st4, r))"

text \<open>An error callback that throws rejects the tick before the next one is scheduled.\<close>

definition tower_tick :: "tick_env \<Rightarrow> string \<Rightarrow> Tower \<Rightarrow> Tower" where
  "tower_tick env rollupId st =
     (if tw_stopped st then st
      else
        let (st1, r) = tower_body env rollupId (st\<lparr>tw_timer := False\<rparr>) in
        case r of
          Returned \<Rightarrow> st1
        | Threw e \<Rightarrow>
            if tw_stopped st1 then st1
            else
              let st2 = emit env (OnError e) st1 in
              if te_throws env (OnError e) = None \<and> \<not> tw_stopped st2 then st2\<lparr>tw_timer := True\<rparr> else st2
        | Done _ \<Rightarrow> if \<not> tw_stopped st1 then st1\<lparr>tw_timer := True\<rparr> else st1)"

text \<open>\<open>watchBatches\<close> starts with a tick, unless the signal it is given has already fired.\<close>

definition watchBatches :: "bool \<Rightarrow> tick_env \<Rightarrow> string \<Rightarrow> Tower" where
  "watchBatches aborted env rollupId =
     (let st = new_tower (te_options env) in if aborted then st else tower_tick env rollupId st)"

subsection \<open>The fraud rule\<close>

definition canonicalRootFor ::
  "(bytes \<Rightarrow> bytes) \<Rightarrow> RdkClient \<Rightarrow> string \<Rightarrow> BatchView \<Rightarrow> error + bytes" where
  "canonicalRootFor shake client rollupId batch =
     res_bind (transitionRootVersionForBatch (getAppliedPlanHeight (rk_rest client))
       (bv_submittedAt batch) (bv_withdrawalsBound batch)) (\<lambda>version.
     res_bind (decodeWireBytes (bv_prevStateRoot batch)) (\<lambda>prev.
     res_bind (decodeWireBytes (bv_dataHash batch)) (\<lambda>dataHash.
     res_bind (decodeWireBytes (bv_withdrawalsRoot batch)) (\<lambda>withdrawalsRoot.
       batchTransitionRoot shake
         \<lparr>ti_prevStateRoot = Raw prev, ti_dataHash = Some (Raw dataHash), ti_txCount = bv_txCount batch,
          ti_chainId = Some (nc_chainId (rk_network client)), ti_rollupId = Some rollupId,
          ti_withdrawalsRoot = Some (Raw withdrawalsRoot)\<rparr> version))))"

definition transitionRootValidator ::
  "(bytes \<Rightarrow> bytes) \<Rightarrow> RdkClient \<Rightarrow> string \<Rightarrow> BatchView \<Rightarrow> error + bool" where
  "transitionRootValidator shake client rollupId batch =
     res_bind (decodeWireBytes (bv_stateRoot batch)) (\<lambda>published.
     res_bind (canonicalRootFor shake client rollupId batch) (\<lambda>canonical.
       Inr (sameBytes published canonical)))"

definition fraudProofForBatch ::
  "(bytes \<Rightarrow> bytes) \<Rightarrow> RdkClient \<Rightarrow> string \<Rightarrow> BatchView \<Rightarrow> error + bytes option" where
  "fraudProofForBatch shake client rollupId batch =
     res_bind (canonicalRootFor shake client rollupId batch) (\<lambda>canonical.
     res_bind (decodeWireBytes (bv_stateRoot batch)) (\<lambda>published.
       if sameBytes published canonical then Inr None
       else
         res_bind (decodeWireBytes (bv_prevStateRoot batch)) (\<lambda>prev.
         res_bind (fraudProof (Raw prev) (Raw canonical)) (\<lambda>p. Inr (Some p)))))"

subsection \<open>Frames\<close>

lemma emit_fields [simp]:
  "tw_seen (emit env e st) = tw_seen st" "tw_warned (emit env e st) = tw_warned st"
  "tw_windowSecs (emit env e st) = tw_windowSecs st" "tw_nextStart (emit env e st) = tw_nextStart st"
  "tw_pollFrom (emit env e st) = tw_pollFrom st" "tw_trace (emit env e st) = tw_trace st @ [e]"
  "tw_stopped (emit env e st) \<longleftrightarrow> tw_stopped st \<or> te_stop_in env e"
  by (simp_all add: emit_def tower_stop_def Let_def)

lemma await_fields [simp]:
  "tw_seen (await_at env p st) = tw_seen st" "tw_warned (await_at env p st) = tw_warned st"
  "tw_windowSecs (await_at env p st) = tw_windowSecs st" "tw_nextStart (await_at env p st) = tw_nextStart st"
  "tw_pollFrom (await_at env p st) = tw_pollFrom st" "tw_trace (await_at env p st) = tw_trace st"
  "tw_stopped (await_at env p st) \<longleftrightarrow> tw_stopped st \<or> te_stop_at env p"
  by (simp_all add: await_at_def tower_stop_def)

lemma bump_fields [simp]:
  "tw_seen (bump b st) = tw_seen st" "tw_warned (bump b st) = tw_warned st"
  "tw_windowSecs (bump b st) = tw_windowSecs st" "tw_pollFrom (bump b st) = tw_pollFrom st"
  "tw_trace (bump b st) = tw_trace st" "tw_stopped (bump b st) = tw_stopped st"
  "tw_nextStart st \<le> tw_nextStart (bump b st)" "bv_batchIndex b < tw_nextStart (bump b st)"
  by (simp_all add: bump_def)

lemma stop_fields [simp]:
  "tw_seen (tower_stop st) = tw_seen st" "tw_warned (tower_stop st) = tw_warned st"
  "tw_nextStart (tower_stop st) = tw_nextStart st" "tw_pollFrom (tower_stop st) = tw_pollFrom st"
  "tw_trace (tower_stop st) = tw_trace st" "tw_stopped (tower_stop st)" "\<not> tw_timer (tower_stop st)"
  by (simp_all add: tower_stop_def)

lemma bd_batch_deadlineFor [simp]: "bd_batch (deadlineFor w b t) = b"
  by (simp add: deadlineFor_def Let_def split: option.splits prod.splits)

lemma deadlineFor_no_window: "window_open (deadlineFor w b None) = False"
  by (simp add: deadlineFor_def window_open_def)

subsection \<open>At most once\<close>

definition announced :: "wt_event list \<Rightarrow> BatchView list" where
  "announced = List.map_filter (\<lambda>e. case e of OnBatch b \<Rightarrow> Some b | _ \<Rightarrow> None)"

definition flagged :: "wt_event list \<Rightarrow> BatchView list" where
  "flagged = List.map_filter (\<lambda>e. case e of OnInvalid i \<Rightarrow> Some (bd_batch i) | _ \<Rightarrow> None)"

definition alerted :: "wt_event list \<Rightarrow> BatchView list" where
  "alerted = List.map_filter (\<lambda>e. case e of OnDeadline i \<Rightarrow> Some (bd_batch i) | _ \<Rightarrow> None)"

lemma map_filter_append: "List.map_filter f (xs @ ys) = List.map_filter f xs @ List.map_filter f ys"
  by (simp add: List.map_filter_def)

lemma trace_append [simp]:
  "announced (xs @ ys) = announced xs @ announced ys" "flagged (xs @ ys) = flagged xs @ flagged ys"
  "alerted (xs @ ys) = alerted xs @ alerted ys"
  by (simp_all add: announced_def flagged_def alerted_def map_filter_append)

lemma trace_Cons [simp]:
  "announced (OnBatch b # xs) = b # announced xs" "announced (OnInvalid i # xs) = announced xs"
  "announced (OnDeadline i # xs) = announced xs" "announced (OnError e # xs) = announced xs"
  "flagged (OnBatch b # xs) = flagged xs" "flagged (OnInvalid i # xs) = bd_batch i # flagged xs"
  "flagged (OnDeadline i # xs) = flagged xs" "flagged (OnError e # xs) = flagged xs"
  "alerted (OnBatch b # xs) = alerted xs" "alerted (OnInvalid i # xs) = alerted xs"
  "alerted (OnDeadline i # xs) = bd_batch i # alerted xs" "alerted (OnError e # xs) = alerted xs"
  by (simp_all add: announced_def flagged_def alerted_def map_filter_Cons)

lemma trace_Nil [simp]: "announced [] = []" "flagged [] = []" "alerted [] = []"
  by (simp_all add: announced_def flagged_def alerted_def List.map_filter_def)

definition once :: "Tower \<Rightarrow> bool" where
  "once st \<longleftrightarrow>
     distinct (map keyOf (announced (tw_trace st))) \<and> keyOf ` set (announced (tw_trace st)) \<subseteq> set (tw_seen st) \<and>
     distinct (map keyOf (flagged (tw_trace st))) \<and> keyOf ` set (flagged (tw_trace st)) \<subseteq> set (tw_seen st) \<and>
     distinct (map keyOf (alerted (tw_trace st))) \<and> keyOf ` set (alerted (tw_trace st)) \<subseteq> set (tw_warned st)"

lemma observe_once: "once st \<Longrightarrow> bd_batch info = b \<Longrightarrow> once (fst (observe env info b st))"
  by (auto simp: observe_def Let_def once_def split: option.splits sum.splits)

lemma judge_once: "once st \<Longrightarrow> bd_batch info = b \<Longrightarrow> once (fst (judge env info b st o1))"
  by (auto simp: judge_def once_def warns_def)

lemma once_cong:
  "tw_trace s = tw_trace t \<Longrightarrow> tw_seen s = tw_seen t \<Longrightarrow> tw_warned s = tw_warned t \<Longrightarrow> once s \<longleftrightarrow> once t"
  by (simp add: once_def)

lemma once_emit_error: "once (emit env (OnError e) st) \<longleftrightarrow> once st"
  by (simp add: once_def)

lemma tower_loop_Cons:
  "tower_loop env tip (b # bs) st o1 =
     (if tw_stopped st then (st, Returned)
      else
        let i = deadlineFor (tw_windowSecs st) b tip; ob = observe env i b (bump b st);
            j = judge env i b (fst ob) o1
        in case snd ob of
             Some e \<Rightarrow> (fst ob, Threw e)
           | None \<Rightarrow>
               (case warning_throws env i b (fst ob) of
                  Some e \<Rightarrow> (fst j, Threw e) | None \<Rightarrow> tower_loop env tip bs (fst j) (snd j)))"
  by (simp add: split_beta Let_def)

lemma tower_loop_once: "once st \<Longrightarrow> once (fst (tower_loop env tip bs st o1))"
proof (induction bs arbitrary: st o1)
  case (Cons b bs)
  let ?i = "deadlineFor (tw_windowSecs st) b tip"
  have "once (bump b st)" using Cons.prems by (simp add: once_def)
  then have o: "once (fst (observe env ?i b (bump b st)))" by (rule observe_once) simp
  then have "once (fst (judge env ?i b (fst (observe env ?i b (bump b st))) o1))" by (rule judge_once) simp
  with Cons o show ?case
    by (simp add: tower_loop_Cons Let_def split: option.splits del: tower_loop.simps(2))
qed simp

lemma read_window_frame [simp]:
  "tw_seen (fst (read_window env rid st)) = tw_seen st" "tw_warned (fst (read_window env rid st)) = tw_warned st"
  "tw_trace (fst (read_window env rid st)) = tw_trace st" "tw_nextStart (fst (read_window env rid st)) = tw_nextStart st"
  "tw_pollFrom (fst (read_window env rid st)) = tw_pollFrom st"
  by (simp_all add: read_window_def Let_def split: option.splits sum.splits)

lemma read_tip_once: "once st \<Longrightarrow> once (fst (read_tip env st))"
  by (simp add: read_tip_def Let_def once_def split: sum.splits)

lemma read_tip_frame [simp]:
  "tw_nextStart (fst (read_tip env st)) = tw_nextStart st" "tw_pollFrom (fst (read_tip env st)) = tw_pollFrom st"
  "tw_seen (fst (read_tip env st)) = tw_seen st" "tw_windowSecs (fst (read_tip env st)) = tw_windowSecs st"
  "tw_warned (fst (read_tip env st)) = tw_warned st"
  "announced (tw_trace (fst (read_tip env st))) = announced (tw_trace st)"
  "flagged (tw_trace (fst (read_tip env st))) = flagged (tw_trace st)"
  by (simp_all add: read_tip_def Let_def split: sum.splits)

subsection \<open>The poll position\<close>

definition below :: "int option \<Rightarrow> int \<Rightarrow> bool" where
  "below o1 n \<longleftrightarrow> (case o1 of None \<Rightarrow> True | Some i \<Rightarrow> i \<le> n)"

lemma observe_frame [simp]:
  "tw_nextStart (fst (observe env info b st)) = tw_nextStart st"
  "tw_pollFrom (fst (observe env info b st)) = tw_pollFrom st"
  "tw_windowSecs (fst (observe env info b st)) = tw_windowSecs st"
  "tw_warned (fst (observe env info b st)) = tw_warned st"
  by (simp_all add: observe_def Let_def split: option.splits sum.splits)

lemma judge_frame [simp]:
  "tw_nextStart (fst (judge env info b st o1)) = tw_nextStart st"
  "tw_pollFrom (fst (judge env info b st o1)) = tw_pollFrom st"
  "tw_windowSecs (fst (judge env info b st o1)) = tw_windowSecs st"
  "tw_seen (fst (judge env info b st o1)) = tw_seen st"
  by (simp_all add: judge_def)

lemma judge_oldest:
  "below o1 n \<Longrightarrow> bv_batchIndex b \<le> n \<Longrightarrow> below (snd (judge env info b st o1)) n"
  by (auto simp: judge_def below_def split: option.splits)

lemma tower_loop_frame:
  "tw_pollFrom (fst (tower_loop env tip bs st o1)) = tw_pollFrom st \<and>
   tw_nextStart st \<le> tw_nextStart (fst (tower_loop env tip bs st o1)) \<and>
   (below o1 (tw_nextStart st) \<longrightarrow>
      (\<forall>o2. snd (tower_loop env tip bs st o1) = Done o2 \<longrightarrow> below o2 (tw_nextStart (fst (tower_loop env tip bs st o1)))))"
proof (induction bs arbitrary: st o1)
  case (Cons b bs)
  let ?i = "deadlineFor (tw_windowSecs st) b tip"
  let ?ob = "observe env ?i b (bump b st)"
  let ?j = "judge env ?i b (fst ?ob) o1"
  have mono: "tw_nextStart st \<le> tw_nextStart (bump b st)" "bv_batchIndex b \<le> tw_nextStart (bump b st)"
    by (simp_all add: bump_def)
  have "below (snd ?j) (tw_nextStart (bump b st))" if "below o1 (tw_nextStart st)"
    using that mono by (intro judge_oldest) (auto simp: below_def split: option.splits intro: order_trans [OF _ bump_fields(7)])
  moreover have "tw_nextStart (fst ?j) = tw_nextStart (bump b st)" "tw_pollFrom (fst ?j) = tw_pollFrom st" by simp_all
  ultimately show ?case
    using mono Cons.IH [of "fst ?j" "snd ?j"]
    by (auto simp: tower_loop_Cons Let_def split: option.splits
        intro: order_trans [OF bump_fields(7)] simp del: tower_loop.simps(2))
qed simp

definition tower_inv :: "Tower \<Rightarrow> bool" where
  "tower_inv st \<longleftrightarrow> once st \<and> tw_pollFrom st \<le> tw_nextStart st \<and> (tw_timer st \<longrightarrow> \<not> tw_stopped st)"

lemma tower_loop_pollFrom: "tw_pollFrom (fst (tower_loop env tip bs st o1)) = tw_pollFrom st"
  using tower_loop_frame by blast

lemma tower_body_eq:
  "tower_body env rid st =
     (let w = read_window env rid st; st2 = await_at env AtList (fst w) in
      case snd w of
        Some e \<Rightarrow> (fst w, Threw e)
      | None \<Rightarrow>
          case listBatches (rk_rest (te_client env)) rid (Some (tw_pollFrom st)) of
            Inl e \<Rightarrow> (st2, Threw e)
          | Inr batches \<Rightarrow>
              let t = read_tip env st2 in
              case snd t of
                Inl e \<Rightarrow> (fst t, Threw e)
              | Inr tip \<Rightarrow>
                  let l = tower_loop env tip batches (fst t) None
                  in case snd l of
                       Done oldestOpen \<Rightarrow>
                         ((fst l)\<lparr>tw_pollFrom := (case tip of None \<Rightarrow> tw_pollFrom st
                            | Some _ \<Rightarrow> (case oldestOpen of None \<Rightarrow> tw_nextStart (fst l) | Some i \<Rightarrow> i))\<rparr>, snd l)
                     | Returned \<Rightarrow> (fst l, Returned) | Threw e \<Rightarrow> (fst l, Threw e))"
  by (auto simp: tower_body_def split_beta Let_def tower_loop_pollFrom split: option.splits sum.splits loop_end.splits)

lemma tower_body_inv:
  assumes "once st" "tw_pollFrom st \<le> tw_nextStart st"
  shows "once (fst (tower_body env rid st)) \<and>
    tw_pollFrom (fst (tower_body env rid st)) \<le> tw_nextStart (fst (tower_body env rid st))"
proof -
  let ?w = "read_window env rid st"
  let ?t = "read_tip env (await_at env AtList (fst ?w))"
  have "once (await_at env AtList (fst ?w))" using assms(1) by (simp add: once_def)
  then have t: "once (fst ?t)" by (rule read_tip_once)
  have w: "once (fst ?w)" "once (await_at env AtList (fst ?w))" using assms(1) by (simp_all add: once_def)
  have l: "once (fst (tower_loop env tip bs (fst ?t) None))"
    "tw_nextStart st \<le> tw_nextStart (fst (tower_loop env tip bs (fst ?t) None))"
    "snd (tower_loop env tip bs (fst ?t) None) = Done (Some i) \<Longrightarrow>
       i \<le> tw_nextStart (fst (tower_loop env tip bs (fst ?t) None))" for tip bs i
    using tower_loop_once [OF t] tower_loop_frame [of env tip bs "fst ?t" None] by (simp_all add: below_def)
  have l': "once ((fst (tower_loop env tip bs (fst ?t) None))\<lparr>tw_pollFrom := p\<rparr>)" for tip bs p
    using l(1) [of tip bs] by (simp add: once_def)
  show ?thesis
    using assms w t l(1,2) l' l(3) order_trans [OF assms(2) l(2)]
    by (auto simp: tower_body_eq Let_def below_def tower_loop_pollFrom split: option.splits sum.splits loop_end.splits)
qed

text \<open>A tick sets the timer only at its end; until then it stays cleared.\<close>

lemma timer_frame:
  assumes "\<not> tw_timer st"
  shows "\<not> tw_timer (emit env e st)" "\<not> tw_timer (await_at env p st)" "\<not> tw_timer (bump b st)"
    "\<not> tw_timer (st\<lparr>tw_seen := x\<rparr>)" "\<not> tw_timer (st\<lparr>tw_warned := x\<rparr>)"
  using assms by (simp_all add: emit_def await_at_def bump_def tower_stop_def Let_def)

lemma observe_timer: "\<not> tw_timer st \<Longrightarrow> \<not> tw_timer (fst (observe env i b st))"
  by (simp add: observe_def Let_def timer_frame split: option.splits sum.splits)

lemma tower_loop_timer: "\<not> tw_timer st \<Longrightarrow> \<not> tw_timer (fst (tower_loop env tip bs st o1))"
proof (induction bs arbitrary: st o1)
  case (Cons b bs)
  let ?i = "deadlineFor (tw_windowSecs st) b tip"
  have o: "\<not> tw_timer (fst (observe env ?i b (bump b st)))"
    using Cons.prems by (intro observe_timer timer_frame)
  then have "\<not> tw_timer (fst (judge env ?i b (fst (observe env ?i b (bump b st))) o1))"
    by (simp add: judge_def timer_frame)
  with Cons o show ?case
    by (simp add: tower_loop_Cons Let_def split: option.splits del: tower_loop.simps(2))
qed simp

lemma tower_body_timer:
  assumes "\<not> tw_timer st"
  shows "\<not> tw_timer (fst (tower_body env rid st))"
proof -
  let ?w = "read_window env rid st"
  let ?t = "read_tip env (await_at env AtList (fst ?w))"
  have w: "\<not> tw_timer (fst ?w)"
    using assms by (simp add: read_window_def Let_def timer_frame split: option.splits sum.splits)
  then have t: "\<not> tw_timer (fst ?t)" by (simp add: read_tip_def Let_def timer_frame split: sum.splits)
  then have "\<not> tw_timer (fst (tower_loop env tip bs (fst ?t) None))" for tip bs by (rule tower_loop_timer)
  with w t show ?thesis
    by (simp add: tower_body_eq Let_def timer_frame split: option.splits sum.splits loop_end.splits)
qed

lemma tower_tick_inv:
  assumes "tower_inv st"
  shows "tower_inv (tower_tick env rid st)"
proof (cases "tw_stopped st")
  case True
  with assms show ?thesis by (simp add: tower_tick_def)
next
  case False
  let ?b = "tower_body env rid (st\<lparr>tw_timer := False\<rparr>)"
  have "once (st\<lparr>tw_timer := False\<rparr>)" using assms by (simp add: tower_inv_def once_def)
  then have b: "once (fst ?b)" "tw_pollFrom (fst ?b) \<le> tw_nextStart (fst ?b)"
    using tower_body_inv [of "st\<lparr>tw_timer := False\<rparr>" env rid] assms by (simp_all add: tower_inv_def)
  have "once (s\<lparr>tw_timer := v\<rparr>) \<longleftrightarrow> once s" for s v by (simp add: once_def)
  moreover have "\<not> tw_timer (fst ?b)" by (rule tower_body_timer) simp
  ultimately show ?thesis
    using b False
    by (auto simp: tower_tick_def split_beta Let_def tower_inv_def once_emit_error timer_frame(1) split: loop_end.splits)
qed

subsection \<open>What a tick reports\<close>

lemma observe_stopped:
  "tw_stopped st \<Longrightarrow> tw_stopped (fst (observe env i b st))"
  by (auto simp: observe_def Let_def split: option.splits sum.splits)

lemma observe_trace:
  "e \<in> set (tw_trace st) \<Longrightarrow> e \<in> set (tw_trace (fst (observe env i b st)))"
  "x \<in> set (tw_seen st) \<Longrightarrow> x \<in> set (tw_seen (fst (observe env i b st)))"
  "keyOf b \<in> set (tw_seen (fst (observe env i b st)))"
  by (auto simp: observe_def Let_def split: option.splits sum.splits)

lemma judge_trace: "e \<in> set (tw_trace st) \<Longrightarrow> e \<in> set (tw_trace (fst (judge env i b st o1)))"
  by (simp add: judge_def)

lemma tower_loop_trace:
  "set (tw_trace st) \<subseteq> set (tw_trace (fst (tower_loop env tip bs st o1))) \<and>
   set (tw_seen st) \<subseteq> set (tw_seen (fst (tower_loop env tip bs st o1)))"
proof (induction bs arbitrary: st o1)
  case (Cons b bs)
  let ?i = "deadlineFor (tw_windowSecs st) b tip"
  let ?ob = "fst (observe env ?i b (bump b st))"
  have "set (tw_trace st) \<subseteq> set (tw_trace ?ob)" "set (tw_seen st) \<subseteq> set (tw_seen ?ob)"
    by (auto intro: observe_trace)
  moreover have "set (tw_trace ?ob) \<subseteq> set (tw_trace (fst (judge env ?i b ?ob o1)))" by (auto intro: judge_trace)
  ultimately show ?case
    using Cons.IH [of "fst (judge env ?i b ?ob o1)" "snd (judge env ?i b ?ob o1)"]
    by (auto simp: tower_loop_Cons Let_def split: option.splits simp del: tower_loop.simps(2))
qed simp

text \<open>A tick nobody interferes with: no call of \<open>stop\<close>, no callback throws and no validation throws.\<close>

definition undisturbed :: "tick_env \<Rightarrow> BatchView list \<Rightarrow> bool" where
  "undisturbed env bs \<longleftrightarrow> (\<forall>p. \<not> te_stop_at env p) \<and> (\<forall>e. \<not> te_stop_in env e) \<and>
     (\<forall>e. te_throws env e = None) \<and>
     (\<forall>v b. wo_validate (te_options env) = Some v \<longrightarrow> b \<in> set bs \<longrightarrow> (\<exists>ok. v b = Inr ok))"

lemma observe_undisturbed:
  assumes "undisturbed env bs" "b \<in> set bs" "\<not> tw_stopped st"
  shows "snd (observe env i b st) = None" "\<not> tw_stopped (fst (observe env i b st))"
proof -
  from assms(1,2) have "wo_validate (te_options env) = Some v \<Longrightarrow> v b \<noteq> Inl e" for v e
    by (fastforce simp: undisturbed_def)
  with assms show "snd (observe env i b st) = None" "\<not> tw_stopped (fst (observe env i b st))"
    by (auto simp: observe_def Let_def undisturbed_def split: option.splits sum.splits)
qed

lemma judge_undisturbed:
  "undisturbed env bs \<Longrightarrow> \<not> tw_stopped st \<Longrightarrow> \<not> tw_stopped (fst (judge env i b st o1))"
  by (simp add: judge_def undisturbed_def)

lemma warning_undisturbed: "undisturbed env bs \<Longrightarrow> warning_throws env i b st = None"
  by (simp add: warning_throws_def undisturbed_def)

definition open_batch :: "int option \<Rightarrow> ChainTip option \<Rightarrow> BatchView \<Rightarrow> bool" where
  "open_batch w tip b \<longleftrightarrow> is_live b \<and> window_open (deadlineFor w b tip)"

lemma tower_loop_undisturbed:
  assumes "undisturbed env all" "set bs \<subseteq> set all" "\<not> tw_stopped st" "w = tw_windowSecs st"
  shows "\<exists>o2. snd (tower_loop env tip bs st o1) = Done o2 \<and>
    \<not> tw_stopped (fst (tower_loop env tip bs st o1)) \<and>
    (\<forall>b \<in> set bs. bv_batchIndex b < tw_nextStart (fst (tower_loop env tip bs st o1))) \<and>
    (\<forall>i. o1 = Some i \<longrightarrow> (\<exists>j \<le> i. o2 = Some j)) \<and>
    (\<forall>b \<in> set bs. open_batch w tip b \<longrightarrow> (\<exists>j \<le> bv_batchIndex b. o2 = Some j)) \<and>
    (o2 \<noteq> None \<longrightarrow> o1 \<noteq> None \<or> (\<exists>b \<in> set bs. open_batch w tip b))"
  using assms(2-)
proof (induction bs arbitrary: st o1)
  case (Cons b bs)
  let ?i = "deadlineFor (tw_windowSecs st) b tip"
  let ?ob = "observe env ?i b (bump b st)"
  let ?j = "judge env ?i b (fst ?ob) o1"
  let ?l = "tower_loop env tip bs (fst ?j) (snd ?j)"
  have b: "b \<in> set all" using Cons.prems by simp
  have ob: "snd ?ob = None" "\<not> tw_stopped (fst ?ob)"
    using observe_undisturbed [OF assms(1) b, of "bump b st" ?i] Cons.prems by simp_all
  then have j: "\<not> tw_stopped (fst ?j)" by (intro judge_undisturbed [OF assms(1)])
  have eq: "tower_loop env tip (b # bs) st o1 = ?l"
    using Cons.prems ob by (simp add: tower_loop_Cons Let_def warning_undisturbed [OF assms(1)] del: tower_loop.simps(2))
  have "set bs \<subseteq> set all" "w = tw_windowSecs (fst ?j)" using Cons.prems by simp_all
  from Cons.IH [OF this(1) j this(2), of "snd ?j"] obtain o2 where
    o2: "snd ?l = Done o2" "\<not> tw_stopped (fst ?l)" "\<forall>b \<in> set bs. bv_batchIndex b < tw_nextStart (fst ?l)"
      "\<forall>i. snd ?j = Some i \<longrightarrow> (\<exists>j \<le> i. o2 = Some j)"
      "\<forall>b \<in> set bs. open_batch w tip b \<longrightarrow> (\<exists>j \<le> bv_batchIndex b. o2 = Some j)"
      "o2 \<noteq> None \<longrightarrow> snd ?j \<noteq> None \<or> (\<exists>b \<in> set bs. open_batch w tip b)"
    by (elim exE conjE) (rule that)
  have "tw_nextStart (fst ?j) \<le> tw_nextStart (fst ?l)" using tower_loop_frame by blast
  then have "tw_nextStart (bump b st) \<le> tw_nextStart (fst ?l)" by simp
  then have above: "bv_batchIndex b < tw_nextStart (fst ?l)" by (rule less_le_trans [OF bump_fields(8)])
  have held: "\<forall>i. o1 = Some i \<longrightarrow> (\<exists>j \<le> i. snd ?j = Some j)"
    "open_batch w tip b \<longrightarrow> (\<exists>j \<le> bv_batchIndex b. snd ?j = Some j)"
    "snd ?j \<noteq> None \<longrightarrow> o1 \<noteq> None \<or> open_batch w tip b"
    using Cons.prems by (auto simp: judge_def open_batch_def split: option.splits)
  have chain: "\<exists>j \<le> i. o2 = Some j" if "\<exists>k \<le> i. snd ?j = Some k" for i
    using that o2(4) by (metis order_trans)
  have "\<forall>i. o1 = Some i \<longrightarrow> (\<exists>j \<le> i. o2 = Some j)" using held(1) chain by blast
  moreover have "\<forall>a \<in> set (b # bs). open_batch w tip a \<longrightarrow> (\<exists>j \<le> bv_batchIndex a. o2 = Some j)"
    using held(2) chain o2(5) by (metis set_ConsD)
  moreover have "o2 \<noteq> None \<longrightarrow> o1 \<noteq> None \<or> (\<exists>b \<in> set (b # bs). open_batch w tip b)"
    using held(3) o2(6) by auto
  moreover have "\<forall>a \<in> set (b # bs). bv_batchIndex a < tw_nextStart (fst ?l)" using above o2(3) by simp
  ultimately show ?case unfolding eq using o2(1,2) by (intro exI [of _ o2] conjI)
qed simp

lemma observe_flags:
  assumes "undisturbed env bs" "b \<in> set bs" "\<not> tw_stopped st" "keyOf b \<notin> set (tw_seen st)"
    and "is_live b" "wo_validate (te_options env) = Some v" "v b = Inr False" "bd_batch i = b"
  shows "b \<in> set (flagged (tw_trace (fst (observe env i b st))))"
  using assms by (simp add: observe_def Let_def undisturbed_def)

lemma flagged_mono: "set xs \<subseteq> set ys \<Longrightarrow> set (flagged xs) \<subseteq> set (flagged ys)"
  by (auto simp: flagged_def List.map_filter_def)

lemma tower_loop_flags:
  assumes "undisturbed env all" "set bs \<subseteq> set all" "\<not> tw_stopped st" "distinct (map keyOf bs)"
    and "b \<in> set bs" "keyOf b \<notin> set (tw_seen st)" "is_live b"
    and "wo_validate (te_options env) = Some v" "v b = Inr False"
  shows "b \<in> set (flagged (tw_trace (fst (tower_loop env tip bs st o1))))"
  using assms(2-7)
proof (induction bs arbitrary: st o1)
  case (Cons a bs)
  let ?i = "deadlineFor (tw_windowSecs st) a tip"
  let ?ob = "observe env ?i a (bump a st)"
  let ?j = "judge env ?i a (fst ?ob) o1"
  have a: "a \<in> set all" using Cons.prems by simp
  have ob: "snd ?ob = None" "\<not> tw_stopped (fst ?ob)"
    using observe_undisturbed [OF assms(1) a, of "bump a st" ?i] Cons.prems by simp_all
  then have j: "\<not> tw_stopped (fst ?j)" by (intro judge_undisturbed [OF assms(1)])
  have eq: "tower_loop env tip (a # bs) st o1 = tower_loop env tip bs (fst ?j) (snd ?j)"
    using Cons.prems ob by (simp add: tower_loop_Cons Let_def warning_undisturbed [OF assms(1)] del: tower_loop.simps(2))
  show ?case
  proof (cases "b = a")
    case True
    have "a \<in> set (flagged (tw_trace (fst ?ob)))"
      using True Cons.prems assms(8,9) by (intro observe_flags [OF assms(1) a, where v = v]) simp_all
    then have "b \<in> set (flagged (tw_trace (fst ?ob)))" using True by simp
    moreover have "set (tw_trace (fst ?ob)) \<subseteq> set (tw_trace (fst (tower_loop env tip bs (fst ?j) (snd ?j))))"
      using tower_loop_trace [of "fst ?j" env tip bs "snd ?j"] judge_trace by blast
    ultimately show ?thesis unfolding eq using flagged_mono by blast
  next
    case False
    with Cons.prems have b: "b \<in> set bs" "keyOf a \<notin> keyOf ` set bs" by simp_all
    then have "keyOf b \<noteq> keyOf a" by (metis image_eqI)
    moreover have "set (tw_seen (fst ?j)) \<subseteq> insert (keyOf a) (set (tw_seen st))"
      by (auto simp: observe_def Let_def split: option.splits sum.splits if_splits)
    ultimately show ?thesis
      unfolding eq using Cons.prems j b(1) by (intro Cons.IH) auto
  qed
qed simp

end
