(* ===== verification/Challenge.thy ===== *)
theory Challenge
  imports Watchtower
begin

text \<open>
  Properties of the watchtower: its reachable states, what a tick is sure to report, what many ticks report of
  a chain that grows meanwhile, when the polling goes on, the fraud proof the tower builds, and two cases in
  which it does not look at a batch again.
\<close>

subsection \<open>Reachable states\<close>

inductive tower_reach :: "string \<Rightarrow> Tower \<Rightarrow> Tower \<Rightarrow> bool" for rid where
  start: "tower_reach rid s s"
| tick: "tower_reach rid s t \<Longrightarrow> tower_reach rid s (tower_tick env rid t)"
| halt: "tower_reach rid s t \<Longrightarrow> tower_reach rid s (tower_stop t)"

lemma tower_inv_new: "tower_inv (new_tower options)"
  by (simp add: tower_inv_def once_def new_tower_def)

lemma tower_inv_stop: "tower_inv st \<Longrightarrow> tower_inv (tower_stop st)"
  by (simp add: tower_inv_def once_def)

lemma tower_reach_inv: "tower_reach rid s t \<Longrightarrow> tower_inv s \<Longrightarrow> tower_inv t"
  by (induction rule: tower_reach.induct) (simp_all add: tower_tick_inv tower_inv_stop)

lemma tower_reach_stopped:
  "tower_reach rid s t \<Longrightarrow> tw_stopped s \<Longrightarrow> tw_stopped t \<and> tw_trace t = tw_trace s"
  by (induction rule: tower_reach.induct) (simp_all add: tower_tick_def)

text \<open>The key of a batch names its index and its root.\<close>

lemma colon_not_in_show_int: "CHR '':'' \<notin> set (show_int i)"
proof -
  have "CHR '':'' \<notin> set (show_nat n)" for n
    using show_nat_digits [of n] digit_not_special(3) by (auto simp: list_all_iff)
  then show ?thesis by (simp add: show_int_def)
qed

lemma keyOf_inject: "keyOf a = keyOf b \<longleftrightarrow> bv_batchIndex a = bv_batchIndex b \<and> bv_stateRoot a = bv_stateRoot b"
  using split_at_first [OF colon_not_in_show_int colon_not_in_show_int] by (fastforce simp: keyOf_def)

subsection \<open>A whole tick without interference\<close>

lemma tower_tick_undisturbed:
  assumes "undisturbed env bs" "\<not> tw_stopped st" "tw_windowSecs st = Some w"
    and "listBatches (rk_rest (te_client env)) rid (Some (tw_pollFrom st)) = Inr bs" "te_tip env = Inr tip"
  shows "\<exists>o2. let l = fst (tower_loop env (Some tip) bs (st\<lparr>tw_timer := False\<rparr>) None) in
    snd (tower_loop env (Some tip) bs (st\<lparr>tw_timer := False\<rparr>) None) = Done o2 \<and> \<not> tw_stopped l \<and>
    tower_tick env rid st = l\<lparr>tw_pollFrom := (case o2 of None \<Rightarrow> tw_nextStart l | Some i \<Rightarrow> i), tw_timer := True\<rparr>"
proof -
  let ?s = "st\<lparr>tw_timer := False\<rparr>"
  have s: "\<not> tw_stopped ?s" "Some w = tw_windowSecs ?s" using assms(2,3) by simp_all
  obtain o2 where o2: "snd (tower_loop env (Some tip) bs ?s None) = Done o2"
    "\<not> tw_stopped (fst (tower_loop env (Some tip) bs ?s None))"
    using tower_loop_undisturbed [OF assms(1) subset_refl s, of "Some tip" None]
    by (elim exE conjE) (rule that)
  have w: "read_window env rid ?s = (?s, None)" using assms(3) by (simp add: read_window_def)
  have a: "await_at env p x = x" for p x using assms(1) by (simp add: await_at_def undisturbed_def)
  have t: "read_tip env ?s = (?s, Inr (Some tip))" using assms(5) by (simp add: read_tip_def a)
  have "tower_body env rid ?s = ((fst (tower_loop env (Some tip) bs ?s None))
      \<lparr>tw_pollFrom := (case o2 of None \<Rightarrow> tw_nextStart (fst (tower_loop env (Some tip) bs ?s None)) | Some i \<Rightarrow> i)\<rparr>, Done o2)"
    using assms(4) by (cases o2) (simp_all add: tower_body_eq w a t o2(1) Let_def)
  with o2 assms(2) show ?thesis by (auto simp: tower_tick_def Let_def)
qed

lemma tower_loop_events:
  "b \<in> set (announced (tw_trace (fst (tower_loop env tip bs st o1)))) \<Longrightarrow>
   b \<in> set (announced (tw_trace st)) \<or> b \<in> set bs"
proof (induction bs arbitrary: st o1)
  case (Cons a bs)
  let ?i = "deadlineFor (tw_windowSecs st) a tip"
  let ?ob = "fst (observe env ?i a (bump a st))"
  have "set (announced (tw_trace ?ob)) \<subseteq> insert a (set (announced (tw_trace st)))"
    by (auto simp: observe_def Let_def split: option.splits sum.splits if_splits)
  moreover have "set (announced (tw_trace (fst (judge env ?i a ?ob o1)))) \<subseteq> set (announced (tw_trace ?ob))"
    by (simp add: judge_def)
  ultimately show ?case
    using Cons.prems Cons.IH [of "fst (judge env ?i a ?ob o1)" "snd (judge env ?i a ?ob o1)"]
    by (auto simp: tower_loop_Cons Let_def split: option.splits if_splits simp del: tower_loop.simps(2))
qed simp

subsection \<open>Many ticks against a chain that grows\<close>

lemma observe_undisturbed_flagged:
  assumes "undisturbed env bs" "wo_validate (te_options env) = Some v" "\<not> tw_stopped st" "bd_batch i = b" "b \<in> set bs"
  shows "set (flagged (tw_trace (fst (observe env i b st)))) = set (flagged (tw_trace st)) \<union>
    (if keyOf b \<notin> set (tw_seen st) \<and> is_live b \<and> v b = Inr False then {b} else {})"
proof -
  obtain ok where "v b = Inr ok" using assms by (auto simp: undisturbed_def)
  with assms show ?thesis by (cases ok) (auto simp: observe_def Let_def undisturbed_def)
qed

lemma observe_undisturbed_seen:
  assumes "undisturbed env bs"
  shows "set (tw_seen (fst (observe env i b st))) = insert (keyOf b) (set (tw_seen st))"
  using assms by (auto simp: observe_def Let_def undisturbed_def split: option.splits sum.splits)

lemma tower_loop_reports:
  assumes "undisturbed env all" "wo_validate (te_options env) = Some v"
    and "set bs \<subseteq> set all" "\<not> tw_stopped st" "distinct (map keyOf bs)"
  shows "set (flagged (tw_trace (fst (tower_loop env tip bs st o1)))) = set (flagged (tw_trace st)) \<union>
      {b \<in> set bs. keyOf b \<notin> set (tw_seen st) \<and> is_live b \<and> v b = Inr False} \<and>
    set (tw_seen (fst (tower_loop env tip bs st o1))) = set (tw_seen st) \<union> keyOf ` set bs"
  using assms(3-)
proof (induction bs arbitrary: st o1)
  case (Cons a bs)
  let ?i = "deadlineFor (tw_windowSecs st) a tip"
  let ?ob = "observe env ?i a (bump a st)"
  let ?j = "judge env ?i a (fst ?ob) o1"
  have a: "a \<in> set all" and s: "\<not> tw_stopped (bump a st)" using Cons.prems by simp_all
  have ob: "snd ?ob = None" "\<not> tw_stopped (fst ?ob)" using observe_undisturbed [OF assms(1) a s] by simp_all
  have j: "\<not> tw_stopped (fst ?j)" by (rule judge_undisturbed [OF assms(1) ob(2)])
  have eq: "tower_loop env tip (a # bs) st o1 = tower_loop env tip bs (fst ?j) (snd ?j)"
    using Cons.prems ob by (simp add: tower_loop_Cons Let_def warning_undisturbed [OF assms(1)] del: tower_loop.simps(2))
  have "flagged (tw_trace (fst ?j)) = flagged (tw_trace (fst ?ob))" by (simp add: judge_def)
  moreover have "set (tw_seen (fst ?j)) = insert (keyOf a) (set (tw_seen st))"
    using observe_undisturbed_seen [OF assms(1)] by simp
  moreover have "keyOf b \<noteq> keyOf a" if "b \<in> set bs" for b using Cons.prems(3) that by (metis distinct.simps(2) image_eqI list.map(2) set_map)
  ultimately show ?case
    unfolding eq using Cons.IH [of "fst ?j" "snd ?j"] Cons.prems j
      observe_undisturbed_flagged [OF assms(1,2) s bd_batch_deadlineFor a, of "tw_windowSecs st" tip] by auto
qed simp

lemma tower_loop_windowSecs: "tw_windowSecs (fst (tower_loop env tip bs st o1)) = tw_windowSecs st"
proof (induction bs arbitrary: st o1)
  case (Cons b bs)
  then show ?case
    by (simp add: tower_loop_Cons Let_def split: option.splits del: tower_loop.simps(2))
qed simp

lemma tower_loop_next:
  "tw_nextStart (fst (tower_loop env tip bs st o1)) \<le> n" if "tw_nextStart st \<le> n" "\<forall>b \<in> set bs. bv_batchIndex b < n"
  using that
proof (induction bs arbitrary: st o1)
  case (Cons b bs)
  then have "tw_nextStart (bump b st) \<le> n" by (auto simp: bump_def)
  with Cons show ?case
    by (simp add: tower_loop_Cons Let_def split: option.splits del: tower_loop.simps(2))
qed simp

text \<open>
  What a tick meets when nothing goes wrong: the node lists the chain's batches from the poll position on and
  reports a tip, the validation is \<open>v\<close>, and nothing interferes.
\<close>

definition shows_chain :: "tick_env \<Rightarrow> string \<Rightarrow> (BatchView \<Rightarrow> error + bool) \<Rightarrow> int \<Rightarrow> BatchView list \<Rightarrow> bool" where
  "shows_chain env rid v start chain \<longleftrightarrow>
     wo_validate (te_options env) = Some v \<and> undisturbed env chain \<and> (\<exists>tip. te_tip env = Inr tip) \<and>
     listBatches (rk_rest (te_client env)) rid (Some start) = Inr (from_index chain (Some start))"

text \<open>
  The chain only grows: the batches it had keep their index and root, whatever becomes of their status, and
  every other batch has a larger index.
\<close>

definition grows :: "BatchView list \<Rightarrow> BatchView list \<Rightarrow> bool" where
  "grows chain chain' \<longleftrightarrow> distinct (map bv_batchIndex chain') \<and>
     keyOf ` set chain \<subseteq> keyOf ` set chain' \<and>
     (\<forall>b \<in> set chain'. 0 \<le> bv_batchIndex b \<and>
        (keyOf b \<in> keyOf ` set chain \<or> (\<forall>a \<in> set chain. bv_batchIndex a < bv_batchIndex b)))"

text \<open>
  A watch of such a chain, from the start, one tick after another: the chain at the last tick, every batch in
  the form in which it was first on the chain at a tick, and the tower.
\<close>

inductive watched ::
  "string \<Rightarrow> WatchtowerOptions \<Rightarrow> (BatchView \<Rightarrow> error + bool) \<Rightarrow> BatchView list \<Rightarrow> BatchView list \<Rightarrow> Tower \<Rightarrow> bool"
  for rid options v where
  fresh: "watched rid options v [] [] (new_tower options)"
| again: "watched rid options v chain first st \<Longrightarrow> grows chain chain' \<Longrightarrow>
    shows_chain env rid v (tw_pollFrom st) chain' \<Longrightarrow>
    watched rid options v chain' (first @ filter (\<lambda>b. keyOf b \<notin> keyOf ` set chain) chain') (tower_tick env rid st)"

definition kept_up :: "int \<Rightarrow> (BatchView \<Rightarrow> error + bool) \<Rightarrow> BatchView list \<Rightarrow> BatchView list \<Rightarrow> Tower \<Rightarrow> bool" where
  "kept_up w v chain first st \<longleftrightarrow>
     tower_inv st \<and> \<not> tw_stopped st \<and> tw_windowSecs st = Some w \<and>
     set (tw_seen st) = keyOf ` set chain \<and>
     (chain = [] \<and> tw_nextStart st = 0 \<or> (\<exists>b \<in> set chain. tw_nextStart st \<le> bv_batchIndex b + 1)) \<and>
     set (flagged (tw_trace st)) = {b \<in> set first. is_live b \<and> v b = Inr False}"

lemma from_index_set: "set (from_index bs (Some n)) = {b \<in> set bs. n \<le> bv_batchIndex b}"
  by (auto simp: from_index_def)

lemma undisturbed_subset: "undisturbed env bs \<Longrightarrow> set cs \<subseteq> set bs \<Longrightarrow> undisturbed env cs"
  unfolding undisturbed_def by blast

lemma grows_top:
  assumes "grows chain chain'" "chain' \<noteq> []" "chain = [] \<and> n = 0 \<or> (\<exists>b \<in> set chain. n \<le> bv_batchIndex b + 1)"
  shows "\<exists>top \<in> set chain'. n \<le> bv_batchIndex top + 1 \<and> (\<forall>b \<in> set chain'. bv_batchIndex b < bv_batchIndex top + 1)"
proof -
  let ?m = "Max (bv_batchIndex ` set chain')"
  have "?m \<in> bv_batchIndex ` set chain'" using assms(2) by (intro Max_in) auto
  then obtain top where top: "top \<in> set chain'" "?m = bv_batchIndex top" by auto
  have le: "bv_batchIndex b \<le> bv_batchIndex top" if "b \<in> set chain'" for b using that top(2) by (metis List.finite_set Max_ge finite_imageI imageI)
  have "n \<le> bv_batchIndex top + 1"
  proof (cases "chain = []")
    case True
    with assms top(1) show ?thesis by (auto simp: grows_def)
  next
    case False
    then obtain b where b: "b \<in> set chain" "n \<le> bv_batchIndex b + 1" using assms(3) by auto
    then obtain b' where b': "b' \<in> set chain'" "keyOf b = keyOf b'" using assms(1) by (auto simp: grows_def)
    then have "bv_batchIndex b \<le> bv_batchIndex top" using le [OF b'(1)] by (simp add: keyOf_inject)
    with b(2) show ?thesis by simp
  qed
  with top(1) le show ?thesis by fastforce
qed

lemma grows_new_listed:
  assumes "grows chain chain'" "chain = [] \<and> n = 0 \<or> (\<exists>b \<in> set chain. n \<le> bv_batchIndex b + 1)" "m \<le> n"
    and "b \<in> set chain'" "keyOf b \<notin> keyOf ` set chain"
  shows "m \<le> bv_batchIndex b"
  using assms by (fastforce simp: grows_def)

lemma kept_up_tick:
  assumes k: "kept_up w v chain first st" and g: "grows chain chain'" and shown: "shows_chain env rid v (tw_pollFrom st) chain'"
  shows "kept_up w v chain' (first @ filter (\<lambda>b. keyOf b \<notin> keyOf ` set chain) chain') (tower_tick env rid st) \<and>
    tw_timer (tower_tick env rid st)"
proof -
  let ?bs = "from_index chain' (Some (tw_pollFrom st))" and ?s = "st\<lparr>tw_timer := False\<rparr>"
  obtain tip where tip: "te_tip env = Inr tip" and v: "wo_validate (te_options env) = Some v"
    and ls: "listBatches (rk_rest (te_client env)) rid (Some (tw_pollFrom st)) = Inr ?bs"
    and all: "undisturbed env chain'"
    using shown by (auto simp: shows_chain_def)
  have st: "tower_inv st" "\<not> tw_stopped st" "tw_windowSecs st = Some w" "set (tw_seen st) = keyOf ` set chain"
    "set (flagged (tw_trace st)) = {b \<in> set first. is_live b \<and> v b = Inr False}"
    and top: "chain = [] \<and> tw_nextStart st = 0 \<or> (\<exists>b \<in> set chain. tw_nextStart st \<le> bv_batchIndex b + 1)"
    using k by (auto simp: kept_up_def)
  have sub: "set ?bs \<subseteq> set chain'" by (auto simp: from_index_def)
  have u: "undisturbed env ?bs" by (rule undisturbed_subset [OF all sub])
  have dist: "distinct (map keyOf ?bs)"
    using g by (auto simp: grows_def from_index_def distinct_map keyOf_inject inj_on_def)
  define l where "l = tower_loop env (Some tip) ?bs ?s None"
  obtain o2 where o2: "\<not> tw_stopped (fst l)" "tower_tick env rid st =
      (fst l)\<lparr>tw_pollFrom := (case o2 of None \<Rightarrow> tw_nextStart (fst l) | Some i \<Rightarrow> i), tw_timer := True\<rparr>"
    using tower_tick_undisturbed [OF u st(2,3) ls tip] unfolding l_def Let_def by blast
  have rep: "set (flagged (tw_trace (fst l))) = set (flagged (tw_trace st)) \<union>
      {b \<in> set ?bs. keyOf b \<notin> set (tw_seen st) \<and> is_live b \<and> v b = Inr False}"
    "set (tw_seen (fst l)) = set (tw_seen st) \<union> keyOf ` set ?bs"
    using tower_loop_reports [OF u v subset_refl, of ?s "Some tip" None] dist st(2) by (simp_all add: l_def)
  have listed: "b \<in> set ?bs" if "b \<in> set chain'" "keyOf b \<notin> keyOf ` set chain" for b
    using grows_new_listed [OF g top _ that, of "tw_pollFrom st"] st(1) that(1) by (simp add: from_index_set tower_inv_def)
  have "set (tw_seen (fst l)) = keyOf ` set chain'"
  proof -
    have "keyOf ` set chain \<subseteq> keyOf ` set chain'" using g by (simp add: grows_def)
    moreover have "keyOf ` set chain' \<subseteq> keyOf ` set chain \<union> keyOf ` set ?bs" using listed by blast
    moreover have "keyOf ` set ?bs \<subseteq> keyOf ` set chain'" using sub by blast
    ultimately show ?thesis unfolding rep(2) st(4) by blast
  qed
  moreover have "set (flagged (tw_trace (fst l))) =
      {b \<in> set (first @ filter (\<lambda>b. keyOf b \<notin> keyOf ` set chain) chain'). is_live b \<and> v b = Inr False}"
    unfolding rep(1) st(4,5) using sub listed by auto
  moreover have "chain' = [] \<and> tw_nextStart (fst l) = 0 \<or> (\<exists>b \<in> set chain'. tw_nextStart (fst l) \<le> bv_batchIndex b + 1)"
  proof (cases "chain' = []")
    case True
    with g top show ?thesis by (auto simp: l_def grows_def from_index_def)
  next
    case False
    obtain b where "b \<in> set chain'" "tw_nextStart st \<le> bv_batchIndex b + 1" "\<forall>a \<in> set chain'. bv_batchIndex a < bv_batchIndex b + 1"
      using grows_top [OF g False top] by blast
    moreover from this sub have "tw_nextStart (fst l) \<le> bv_batchIndex b + 1"
      unfolding l_def by (intro tower_loop_next) auto
    ultimately show ?thesis by blast
  qed
  moreover have "tw_windowSecs (fst l) = Some w" using st(3) by (simp add: l_def tower_loop_windowSecs)
  ultimately show ?thesis
    using tower_tick_inv [OF st(1), of env rid] o2 by (simp add: kept_up_def)
qed

lemma watched_kept_up:
  assumes "watched rid options v chain first st" "wo_challengeWindowSecs options = Some w"
  shows "kept_up w v chain first st"
  using assms
proof (induction rule: watched.induct)
  case fresh
  then show ?case using tower_inv_new [of options] by (simp add: kept_up_def new_tower_def)
next
  case (again chain first st chain' env)
  then show ?case using kept_up_tick by blast
qed

subsection \<open>A tick that nobody stops\<close>

lemma tower_loop_running:
  assumes "\<not> tw_stopped st" "\<And>p. \<not> te_stop_at env p" "\<And>e. \<not> te_stop_in env e"
  shows "\<not> tw_stopped (fst (tower_loop env tip bs st o1)) \<and> snd (tower_loop env tip bs st o1) \<noteq> Returned"
  using assms(1)
proof (induction bs arbitrary: st o1)
  case (Cons b bs)
  let ?i = "deadlineFor (tw_windowSecs st) b tip"
  let ?ob = "fst (observe env ?i b (bump b st))"
  have "\<not> tw_stopped ?ob"
    using Cons.prems assms(2,3) by (simp add: observe_def Let_def split: option.splits sum.splits)
  moreover from this assms(3) have "\<not> tw_stopped (fst (judge env ?i b ?ob o1))" by (simp add: judge_def)
  ultimately show ?case
    using Cons by (simp add: tower_loop_Cons Let_def split: option.splits del: tower_loop.simps(2))
qed simp

lemma tower_body_running:
  assumes "\<not> tw_stopped st" "\<And>p. \<not> te_stop_at env p" "\<And>e. \<not> te_stop_in env e"
  shows "\<not> tw_stopped (fst (tower_body env rid st)) \<and> snd (tower_body env rid st) \<noteq> Returned"
proof -
  let ?w = "read_window env rid st"
  let ?t = "read_tip env (await_at env AtList (fst ?w))"
  have w: "\<not> tw_stopped (fst ?w)"
    using assms by (simp add: read_window_def Let_def split: option.splits sum.splits)
  then have t: "\<not> tw_stopped (fst ?t)" using assms by (simp add: read_tip_def Let_def split: sum.splits)
  have "snd (tower_loop env tip bs (fst ?t) None) \<noteq> Returned" "\<not> tw_stopped (fst (tower_loop env tip bs (fst ?t) None))" for tip bs
    using tower_loop_running [OF t, of env] assms by simp_all
  with w t assms show ?thesis
    by (simp add: tower_body_eq Let_def split: option.splits sum.splits loop_end.splits)
qed

subsection \<open>Seen batches stay judged\<close>

lemma tower_loop_flagged_new:
  "b \<in> set (flagged (tw_trace (fst (tower_loop env tip bs st o1)))) \<Longrightarrow>
   b \<in> set (flagged (tw_trace st)) \<or> keyOf b \<notin> set (tw_seen st)"
proof (induction bs arbitrary: st o1)
  case (Cons a bs)
  let ?i = "deadlineFor (tw_windowSecs st) a tip"
  let ?ob = "fst (observe env ?i a (bump a st))"
  have "x \<in> set (flagged (tw_trace st)) \<or> keyOf x \<notin> set (tw_seen st)"
    if "x \<in> set (flagged (tw_trace ?ob))" for x
    using that by (auto simp: observe_def Let_def split: option.splits sum.splits if_splits)
  moreover have "flagged (tw_trace (fst (judge env ?i a ?ob o1))) = flagged (tw_trace ?ob)"
    by (simp add: judge_def)
  moreover have "set (tw_seen st) \<subseteq> set (tw_seen ?ob)" by (auto intro: observe_trace)
  ultimately show ?case
    using Cons.prems Cons.IH [of "fst (judge env ?i a ?ob o1)" "snd (judge env ?i a ?ob o1)"]
    by (auto simp: tower_loop_Cons Let_def split: option.splits if_splits simp del: tower_loop.simps(2))
qed simp

lemma tower_tick_flagged:
  assumes "keyOf b \<in> set (tw_seen st)" "b \<in> set (flagged (tw_trace (tower_tick env rid st)))"
  shows "b \<in> set (flagged (tw_trace st))"
proof (cases "tw_stopped st")
  case False
  let ?s = "st\<lparr>tw_timer := False\<rparr>"
  let ?w = "read_window env rid ?s"
  let ?t = "read_tip env (await_at env AtList (fst ?w))"
  have t: "flagged (tw_trace (fst ?t)) = flagged (tw_trace st)" "tw_seen (fst ?t) = tw_seen st" by simp_all
  have "x \<in> set (flagged (tw_trace (fst (tower_loop env tip bs (fst ?t) None)))) \<Longrightarrow>
      keyOf x \<in> set (tw_seen st) \<Longrightarrow> x \<in> set (flagged (tw_trace st))" for x tip bs
    using tower_loop_flagged_new [of x env tip bs "fst ?t" None] t by auto
  then have "b \<in> set (flagged (tw_trace (fst (tower_body env rid ?s)))) \<Longrightarrow> b \<in> set (flagged (tw_trace st))"
    using assms(1)
    by (auto simp: tower_body_eq Let_def split: option.splits sum.splits loop_end.splits)
  with assms(2) False show ?thesis
    by (auto simp: tower_tick_def split_beta Let_def split: loop_end.splits if_splits)
qed (use assms in \<open>simp add: tower_tick_def\<close>)

lemma tower_tick_seen: "set (tw_seen st) \<subseteq> set (tw_seen (tower_tick env rid st))"
proof (cases "tw_stopped st")
  case False
  let ?s = "st\<lparr>tw_timer := False\<rparr>"
  let ?t = "read_tip env (await_at env AtList (fst (read_window env rid ?s)))"
  have "set (tw_seen st) \<subseteq> set (tw_seen (fst (tower_loop env tip bs (fst ?t) None)))" for tip bs
    using tower_loop_trace [of "fst ?t" env tip bs None] by simp
  then have "set (tw_seen st) \<subseteq> set (tw_seen (fst (tower_body env rid ?s)))"
    by (simp add: tower_body_eq Let_def split: option.splits sum.splits loop_end.splits)
  with False show ?thesis
    by (simp add: tower_tick_def split_beta Let_def split: loop_end.splits)
qed (simp add: tower_tick_def)

lemma tower_reach_flagged:
  assumes "tower_reach rid s t" "keyOf b \<in> set (tw_seen s)"
  shows "keyOf b \<in> set (tw_seen t) \<and> (b \<in> set (flagged (tw_trace t)) \<longrightarrow> b \<in> set (flagged (tw_trace s)))"
  using assms
proof (induction rule: tower_reach.induct)
  case (tick s t env)
  then show ?case using tower_tick_seen [of t env rid] tower_tick_flagged [of b t env rid] by blast
qed simp_all

subsection \<open>The chain's fraud rule\<close>

text \<open>
  When the chain upholds a challenge: the proof is 64 bytes, its second half is the canonical root, its
  first half the previous root, and the batch published something else.
\<close>

definition upheld :: "bytes \<Rightarrow> bytes \<Rightarrow> bytes \<Rightarrow> bytes \<Rightarrow> bool" where
  "upheld prev canonical published proof \<longleftrightarrow>
     length proof = 64 \<and> take 32 proof = prev \<and> drop 32 proof = canonical \<and> published \<noteq> canonical"

lemma canonicalRootFor_length:
  assumes "\<And>d. length (shake d) = 32" "canonicalRootFor shake client rid b = Inr c"
  shows "length c = 32"
proof -
  have "length r = 32" if "batchTransitionRoot shake i v = Inr r" for i v r
    using that assms(1)
    by (cases v) (auto simp: batchTransitionRoot_def batchTransitionRootV1_def batchTransitionRootV2_def
        shake32_def qorehash_def res_simps)
  with assms(2) show ?thesis by (auto simp: canonicalRootFor_def res_simps)
qed

subsection \<open>Properties\<close>

text \<open>
  C7: In every reachable state of the watchtower, whatever the nodes answered and whenever \<open>stop\<close> was
  called: every batch was announced at most once, flagged as invalid at most once and warned about at
  most once, where a batch is its index together with its state root; the poll position is not past the
  next unseen index; and a timer is only pending while it runs.
\<close>

theorem tower_reports_once:
  assumes "tower_reach rid (new_tower options) t"
  shows "distinct (map (\<lambda>b. (bv_batchIndex b, bv_stateRoot b)) (announced (tw_trace t))) \<and>
    distinct (map (\<lambda>b. (bv_batchIndex b, bv_stateRoot b)) (flagged (tw_trace t))) \<and>
    distinct (map (\<lambda>b. (bv_batchIndex b, bv_stateRoot b)) (alerted (tw_trace t))) \<and>
    tw_pollFrom t \<le> tw_nextStart t \<and> (tw_timer t \<longrightarrow> \<not> tw_stopped t)"
proof -
  have "distinct (map keyOf bs) \<Longrightarrow> distinct (map (\<lambda>b. (bv_batchIndex b, bv_stateRoot b)) bs)" for bs
    by (auto simp: distinct_map inj_on_def keyOf_inject)
  moreover have "tower_inv t" using tower_reach_inv [OF assms tower_inv_new] .
  ultimately show ?thesis by (simp add: tower_inv_def once_def)
qed

definition quiet_options :: WatchtowerOptions where
  "quiet_options = \<lparr>wo_validate = Some (\<lambda>_. Inr False), wo_deadlineWarnSecs = None, wo_deadlineWarnBlocks = None,
     wo_challengeWindowSecs = Some 600\<rparr>"

definition quiet_env :: "fetch_like \<Rightarrow> tick_env" where
  "quiet_env fetch = \<lparr>te_client = demo_client\<lparr>rk_rest := newRestClient ''http://n'' fetch\<rparr>, te_options = quiet_options,
     te_tip = Inr \<lparr>tip_height = 20, tip_timeSecs = 0\<rparr>, te_stop_at = (\<lambda>_. False), te_stop_in = (\<lambda>_. False),
     te_throws = (\<lambda>_. None)\<rparr>"

lemma tower_reports_once_witness:
  "tw_pollFrom (tower_tick (quiet_env one_batch_node) ''r'' (new_tower quiet_options)) \<le>
   tw_nextStart (tower_tick (quiet_env one_batch_node) ''r'' (new_tower quiet_options))"
  using tower_reports_once [OF tower_reach.tick [OF tower_reach.start]] by blast

text \<open>
  \<open>stop\<close> is final: from a stopped state no callback is ever called again and no timer is pending.
\<close>

theorem tower_stop_is_final:
  assumes "tower_reach rid (tower_stop s) t"
  shows "tw_trace t = tw_trace s \<and> tw_stopped t \<and> \<not> tw_timer t"
proof -
  have "tw_stopped t \<and> tw_trace t = tw_trace s" using tower_reach_stopped [OF assms] by simp
  moreover from assms have "\<not> tw_timer t"
  proof (induction "tower_stop s" t rule: tower_reach.induct)
    case (tick t env)
    then show ?case using tower_reach_stopped [OF tick(1)] by (simp add: tower_tick_def)
  qed simp_all
  ultimately show ?thesis by simp
qed

lemma tower_stop_is_final_witness:
  "tw_trace (tower_tick (quiet_env one_batch_node) ''r'' (tower_stop (new_tower quiet_options))) = []"
  using tower_stop_is_final [OF tower_reach.tick [OF tower_reach.start], of "quiet_env one_batch_node" "''r''"
      "new_tower quiet_options"]
  by (simp add: new_tower_def)

text \<open>
  A tick that is not interfered with misses nothing it reads. Of the batches the node lists from the
  poll position: each one that was not seen before, is neither finalized nor rejected and fails the
  validation is flagged; the next poll starts no later than any of them whose window is still open, so
  it will be judged again; every listed index is below the next unseen one; and the next tick is
  scheduled.
\<close>

theorem tower_flags_every_invalid_batch:
  assumes "undisturbed env bs" "\<not> tw_stopped st" "tw_windowSecs st = Some w"
    and "listBatches (rk_rest (te_client env)) rid (Some (tw_pollFrom st)) = Inr bs" "te_tip env = Inr tip"
    and "distinct (map keyOf bs)" "wo_validate (te_options env) = Some v"
  shows "tw_timer (tower_tick env rid st) \<and>
    (\<forall>b \<in> set bs. keyOf b \<notin> set (tw_seen st) \<and> is_live b \<and> v b = Inr False \<longrightarrow>
       b \<in> set (flagged (tw_trace (tower_tick env rid st)))) \<and>
    (\<forall>b \<in> set bs. open_batch (Some w) (Some tip) b \<longrightarrow>
       tw_pollFrom (tower_tick env rid st) \<le> bv_batchIndex b) \<and>
    (\<forall>b \<in> set bs. bv_batchIndex b < tw_nextStart (tower_tick env rid st))"
proof -
  let ?s = "st\<lparr>tw_timer := False\<rparr>"
  let ?l = "tower_loop env (Some tip) bs ?s None"
  obtain o2 where o2: "snd ?l = Done o2" "\<not> tw_stopped (fst ?l)"
    "tower_tick env rid st = (fst ?l)\<lparr>tw_pollFrom := (case o2 of None \<Rightarrow> tw_nextStart (fst ?l) | Some i \<Rightarrow> i), tw_timer := True\<rparr>"
    using tower_tick_undisturbed [OF assms(1-5)] by (auto simp: Let_def)
  have s: "\<not> tw_stopped ?s" "Some w = tw_windowSecs ?s" using assms(2,3) by simp_all
  have idx: "\<forall>b \<in> set bs. bv_batchIndex b < tw_nextStart (fst ?l)"
    and opn: "\<forall>b \<in> set bs. open_batch (Some w) (Some tip) b \<longrightarrow> (\<exists>j \<le> bv_batchIndex b. o2 = Some j)"
    using tower_loop_undisturbed [OF assms(1) subset_refl s, of "Some tip" None] o2(1) by simp_all
  have "b \<in> set (flagged (tw_trace (fst ?l)))"
    if "b \<in> set bs" "keyOf b \<notin> set (tw_seen st)" "is_live b" "v b = Inr False" for b
    using that assms(6,7) s(1) by (intro tower_loop_flags [OF assms(1) subset_refl, where v = v]) simp_all
  with idx opn o2(3) show ?thesis by fastforce
qed

lemma list_batches_one_page:
  "listBatchesPage c rid start (Some 100) = Inr (bs, 0) \<Longrightarrow> listBatches c rid start = Inr bs"
proof -
  assume p: "listBatchesPage c rid start (Some 100) = Inr (bs, 0)"
  obtain n where n: "MAX_PAGES = Suc n" by (metis MAX_PAGES_def not0_implies_Suc zero_neq_numeral)
  show "listBatches c rid start = Inr bs" unfolding listBatches_def n list_batches_loop.simps p by simp
qed

text \<open>A node that lists one page of batches.\<close>

definition page_node :: "BatchView list \<Rightarrow> fetch_like" where
  "page_node bs r = Inr \<lparr>hr_ok = True, hr_status = 200, hr_statusText = ''OK'',
     hr_json = Inr (JObj [(''batches'', JArr (map (serve_batch True True) bs)), (''next_index'', JNum 0)])\<rparr>"

lemma served_batch_read: "bv_withdrawalsBound b = None \<Longrightarrow> mapBatchView (serve_batch True True b) = Inr b"
  by (simp add: mapBatchView_def serve_batch_def of_record_def key_def served_flag_def opt_true_def)

lemma page_node_lists:
  assumes "list_all (\<lambda>b. bv_withdrawalsBound b = None) bs"
  shows "listBatches (rk_rest (te_client (quiet_env (page_node bs)))) rid start = Inr bs"
proof -
  have "res_mapM mapBatchView (map (serve_batch True True) bs) = Inr bs"
    using assms by (induction bs) (simp_all add: served_batch_read)
  then show ?thesis
    by (intro list_batches_one_page)
      (simp add: listBatchesPage_def rest_get_def quiet_env_def newRestClient_def page_node_def
        asRecord_def asArray_def Let_def nullish_def to_number_def)
qed

lemma tower_flags_every_invalid_batch_witness:
  "sample_batch 0 \<in> set (flagged (tw_trace (tower_tick (quiet_env (page_node [sample_batch 0])) ''r'' (new_tower quiet_options))))"
proof -
  let ?env = "quiet_env (page_node [sample_batch 0])"
  have "undisturbed ?env [sample_batch 0]" by (auto simp: undisturbed_def quiet_env_def quiet_options_def)
  moreover have "listBatches (rk_rest (te_client ?env)) ''r'' (Some 0) = Inr [sample_batch 0]"
    by (rule page_node_lists) (simp add: sample_batch_def)
  ultimately show ?thesis
    using tower_flags_every_invalid_batch [of ?env "[sample_batch 0]" "new_tower quiet_options" 600 "''r''"
        "\<lparr>tip_height = 20, tip_timeSecs = 0\<rparr>" "\<lambda>_. Inr False"]
    by (simp add: new_tower_def quiet_options_def quiet_env_def is_live_def is_finalized_def sample_batch_def)
qed



text \<open>
  A running tower does not fall silent. A tick that is not stopped schedules the next one, whatever the node, the
  tip, the validation and the other callbacks did, as long as the error callback itself does not throw; and if it
  throws, no tick follows: the poll of the watchtower ends there although nobody stopped it.
\<close>

theorem tower_never_silent:
  assumes "\<not> tw_stopped st" "\<And>p. \<not> te_stop_at env p" "\<And>e. \<not> te_stop_in env e"
  shows "\<not> tw_stopped (tower_tick env rid st) \<and>
    (if (\<exists>e x. snd (tower_body env rid (st\<lparr>tw_timer := False\<rparr>)) = Threw e \<and> te_throws env (OnError e) = Some x)
     then \<not> tw_timer (tower_tick env rid st) \<and>
       (\<exists>e. tw_trace (tower_tick env rid st) = tw_trace (fst (tower_body env rid (st\<lparr>tw_timer := False\<rparr>))) @ [OnError e])
     else tw_timer (tower_tick env rid st))"
proof -
  let ?b = "tower_body env rid (st\<lparr>tw_timer := False\<rparr>)"
  have "\<not> tw_stopped (fst ?b)" "snd ?b \<noteq> Returned" using tower_body_running [of "st\<lparr>tw_timer := False\<rparr>" env rid] assms by simp_all
  moreover have "\<not> tw_timer (fst ?b)" by (rule tower_body_timer) simp
  ultimately show ?thesis
    using assms by (cases "snd ?b") (auto simp: tower_tick_def split_beta Let_def timer_frame)
qed

text \<open>A node that is down, and an error callback that throws what it is told.\<close>

definition down_env :: tick_env where
  "down_env = (quiet_env (\<lambda>_. Inl (Network ''down'')))\<lparr>te_throws := (\<lambda>e. case e of OnError x \<Rightarrow> Some x | _ \<Rightarrow> None)\<rparr>"

lemma tower_never_silent_witness:
  "\<not> tw_timer (tower_tick down_env ''r'' (new_tower quiet_options)) \<and>
   \<not> tw_stopped (tower_tick down_env ''r'' (new_tower quiet_options))"
proof -
  obtain n where n: "MAX_PAGES = Suc n" by (metis MAX_PAGES_def not0_implies_Suc zero_neq_numeral)
  have "\<exists>e. listBatches (rk_rest (te_client down_env)) ''r'' (Some 0) = Inl e"
    unfolding listBatches_def n by (simp add: listBatchesPage_def rest_get_def down_env_def quiet_env_def newRestClient_def)
  then have "\<exists>e. snd (tower_body down_env ''r'' ((new_tower quiet_options)\<lparr>tw_timer := False\<rparr>)) = Threw e"
    by (auto simp: tower_body_eq read_window_def new_tower_def quiet_options_def Let_def)
  then show ?thesis
    using tower_never_silent [of "new_tower quiet_options" down_env "''r''"]
    by (auto simp: new_tower_def down_env_def quiet_env_def)
qed



text \<open>
  A validation that throws is not retried. Once a batch has been seen it is never flagged again, in
  any later state; and a batch is seen from the moment it is observed, also when its announcement or its
  validation throws.
\<close>

theorem failed_validation_is_not_retried:
  assumes "observe env info b st = (st', Some e)" "tower_reach rid st' t" "tower_inv st"
    and "keyOf b \<notin> set (tw_seen st)" "bd_batch info = b" "te_throws env (OnInvalid info) = None"
  shows "b \<notin> set (flagged (tw_trace t))"
proof -
  have seen: "keyOf b \<in> set (tw_seen st')" using observe_trace(3) [of b env info st] assms(1) by simp
  have "flagged (tw_trace st') = flagged (tw_trace st)"
    using assms(1,6) by (auto simp: observe_def Let_def split: option.splits sum.splits if_splits)
  moreover have "b \<notin> set (flagged (tw_trace st))"
    using assms(3,4) by (auto simp: tower_inv_def once_def)
  ultimately show ?thesis using tower_reach_flagged [OF assms(2) seen] by simp
qed

lemma failed_validation_is_not_retried_witness:
  "let env = (quiet_env (page_node []))\<lparr>te_options := quiet_options\<lparr>wo_validate := Some (\<lambda>_. Inl (Network ''down''))\<rparr>\<rparr>;
       info = deadlineFor (Some 600) (sample_batch 0) None;
       st' = fst (observe env info (sample_batch 0) (new_tower quiet_options))
   in sample_batch 0 \<notin> set (flagged (tw_trace (tower_tick (quiet_env (page_node [sample_batch 0])) ''r'' st')))"
proof -
  let ?env = "(quiet_env (page_node []))\<lparr>te_options := quiet_options\<lparr>wo_validate := Some (\<lambda>_. Inl (Network ''down''))\<rparr>\<rparr>"
  let ?info = "deadlineFor (Some 600) (sample_batch 0) None"
  let ?o = "observe ?env ?info (sample_batch 0) (new_tower quiet_options)"
  have "?o = (fst ?o, Some (Network ''down''))"
    by (simp add: observe_def new_tower_def is_live_def is_finalized_def sample_batch_def quiet_env_def Let_def)
  from failed_validation_is_not_retried [OF this tower_reach.tick [OF tower_reach.start] tower_inv_new]
  show ?thesis by (simp add: Let_def new_tower_def quiet_env_def)
qed

text \<open>
  A reused index is missed. After an undisturbed tick that listed only rejected batches, the poll
  position is past all of them; a batch resubmitted under one of their indexes, with a new root, is
  not announced by the next tick against a node that serves from the poll position on.
\<close>

theorem reused_index_is_missed:
  assumes "tower_inv st" "undisturbed env bs" "\<not> tw_stopped st" "tw_windowSecs st = Some w"
    and "listBatches (rk_rest (te_client env)) rid (Some (tw_pollFrom st)) = Inr bs" "te_tip env = Inr tip"
    and "\<forall>b \<in> set bs. bv_status b = ''rejected''" "old \<in> set bs"
    and "t = tower_tick env rid st"
    and "bv_batchIndex new = bv_batchIndex old" "keyOf new \<notin> set (tw_seen t)"
    and "undisturbed env' (from_index bs' (Some (tw_pollFrom t)))" "te_tip env' = Inr tip'"
    and "listBatches (rk_rest (te_client env')) rid (Some (tw_pollFrom t)) = Inr (from_index bs' (Some (tw_pollFrom t)))"
  shows "bv_batchIndex new < tw_pollFrom t \<and> new \<notin> set (announced (tw_trace (tower_tick env' rid t)))"
proof -
  let ?l = "tower_loop env (Some tip) bs (st\<lparr>tw_timer := False\<rparr>) None"
  obtain o2 where o2: "snd ?l = Done o2" "\<not> tw_stopped (fst ?l)"
    "t = (fst ?l)\<lparr>tw_pollFrom := (case o2 of None \<Rightarrow> tw_nextStart (fst ?l) | Some i \<Rightarrow> i), tw_timer := True\<rparr>"
    using tower_tick_undisturbed [OF assms(2-6)] assms(9) by (auto simp: Let_def)
  have s: "\<not> tw_stopped (st\<lparr>tw_timer := False\<rparr>)" "Some w = tw_windowSecs (st\<lparr>tw_timer := False\<rparr>)"
    using assms(3,4) by simp_all
  have "\<not> open_batch (Some w) (Some tip) b" if "b \<in> set bs" for b
    using assms(7) that by (simp add: open_batch_def is_live_def)
  then have "o2 = None" and idx: "bv_batchIndex old < tw_nextStart (fst ?l)"
    using tower_loop_undisturbed [OF assms(2) subset_refl s, of "Some tip" None] o2(1) assms(8) by auto
  with o2(3) assms(10) have below: "bv_batchIndex new < tw_pollFrom t" by simp
  have t: "\<not> tw_stopped t" "tw_windowSecs t = Some w" using o2 assms(4) by (simp_all add: tower_loop_windowSecs)
  let ?m = "tower_loop env' (Some tip') (from_index bs' (Some (tw_pollFrom t))) (t\<lparr>tw_timer := False\<rparr>) None"
  have "tw_trace (tower_tick env' rid t) = tw_trace (fst ?m)"
    using tower_tick_undisturbed [OF assms(12) t assms(14) assms(13)] by (auto simp: Let_def)
  moreover have "new \<notin> set (announced (tw_trace t))"
    using tower_tick_inv [OF assms(1), of env rid] assms(9,11) by (auto simp: tower_inv_def once_def)
  moreover have "new \<notin> set (from_index bs' (Some (tw_pollFrom t)))" using below by (auto simp: from_index_def)
  ultimately show ?thesis using tower_loop_events [of new env' "Some tip'" _ "t\<lparr>tw_timer := False\<rparr>" None] below by auto
qed

definition rejected_batch :: BatchView where
  "rejected_batch = (sample_batch 0)\<lparr>bv_status := ''rejected''\<rparr>"

lemma reused_index_is_missed_witness:
  "let t = tower_tick (quiet_env (page_node [rejected_batch])) ''r'' (new_tower quiet_options);
       new = (sample_batch 0)\<lparr>bv_stateRoot := ''ee''\<rparr>
   in bv_batchIndex new < tw_pollFrom t \<and> from_index [new] (Some (tw_pollFrom t)) = [] \<and>
      new \<notin> set (announced (tw_trace (tower_tick (quiet_env (page_node [])) ''r'' t)))"
proof -
  let ?env = "quiet_env (page_node [rejected_batch])" and ?env' = "quiet_env (page_node [])"
  let ?new = "(sample_batch 0)\<lparr>bv_stateRoot := ''ee''\<rparr>"
  define t where "t = tower_tick ?env ''r'' (new_tower quiet_options)"
  have l: "listBatches (rk_rest (te_client ?env)) ''r'' (Some 0) = Inr [rejected_batch]"
    by (rule page_node_lists) (simp add: rejected_batch_def sample_batch_def)
  have l': "listBatches (rk_rest (te_client ?env')) ''r'' (Some i) = Inr []" for i
    by (rule page_node_lists) simp
  have u: "undisturbed ?env bs" "undisturbed ?env' bs" for bs
    by (auto simp: undisturbed_def quiet_env_def quiet_options_def)
  have s: "\<not> tw_stopped (new_tower quiet_options)" "tw_windowSecs (new_tower quiet_options) = Some 600"
    "tw_pollFrom (new_tower quiet_options) = 0"
    by (simp_all add: new_tower_def quiet_options_def)
  have tip: "te_tip ?env = Inr \<lparr>tip_height = 20, tip_timeSecs = 0\<rparr>" "te_tip ?env' = Inr \<lparr>tip_height = 20, tip_timeSecs = 0\<rparr>"
    by (simp_all add: quiet_env_def)
  have t: "tw_pollFrom t = 1" "tw_seen t = [keyOf rejected_batch]"
    using tower_tick_undisturbed [OF u(1) s(1,2) l [folded s(3)] tip(1)]
    by (auto simp: t_def Let_def observe_def judge_def warning_throws_def warns_def is_live_def rejected_batch_def
        quiet_env_def quiet_options_def new_tower_def bump_def sample_batch_def emit_def)
  have "keyOf ?new \<noteq> keyOf rejected_batch" by (simp add: keyOf_inject rejected_batch_def sample_batch_def)
  moreover have f: "from_index [?new] (Some (tw_pollFrom t)) = []" by (simp add: from_index_def t sample_batch_def)
  ultimately have "bv_batchIndex ?new < tw_pollFrom t \<and> ?new \<notin> set (announced (tw_trace (tower_tick ?env' ''r'' t)))"
    using reused_index_is_missed [OF tower_inv_new u(1) s(1,2) l [folded s(3)] tip(1), of rejected_batch t ?new ?env' "[?new]"]
      u(2) tip(2) l' t by (simp add: rejected_batch_def t_def)
  with f show ?thesis by (simp add: Let_def t_def)
qed

end
