(* ===== verification/Wire.thy ===== *)
theory Wire
  imports Bytes
begin

text \<open>
  The seam to the protobuf library. The codecs of \<open>packages/ts/src/tx/codecs.ts\<close> write and read
  through \<open>BinaryWriter\<close> and \<open>BinaryReader\<close> of the package \<open>cosmjs-types/binary\<close>; those are the
  parameter \<open>wire\<close> of the codecs, and the locale \<open>wire_format\<close> states what the protobuf encoding
  documents of them: writing appends, a value that was written is read back from where it stands, a tag
  takes at least one byte, and \<open>skipType\<close> steps over a varint or a length-delimited field.

  \<open>decode_loop\<close> is the loop every \<open>decode\<close> of the codecs has. It is a partial function, so a loop that
  runs on is \<open>None\<close>; \<open>decode_ends\<close> shows that it returns under the laws of the wire format, and
  \<open>leads\<close> carries the round trips: reading a run of written fields applies their updates in order.
  \<open>proto_wire\<close> is a reference protobuf encoding that satisfies the laws.
\<close>

subsection \<open>Readers and writers\<close>

record Reader =
  rd_buf :: bytes
  rd_pos :: nat

definition newReader :: "bytes \<Rightarrow> Reader" where
  "newReader b = \<lparr>rd_buf = b, rd_pos = 0\<rparr>"

record wire =
  put_uint32 :: "bytes \<Rightarrow> nat \<Rightarrow> bytes"
  put_string :: "bytes \<Rightarrow> string \<Rightarrow> bytes"
  put_bytes :: "bytes \<Rightarrow> bytes \<Rightarrow> bytes"
  put_uint64 :: "bytes \<Rightarrow> int \<Rightarrow> bytes"
  put_int64 :: "bytes \<Rightarrow> int \<Rightarrow> bytes"
  put_bool :: "bytes \<Rightarrow> bool \<Rightarrow> bytes"
  get_uint32 :: "Reader \<Rightarrow> error + (nat \<times> Reader)"
  get_string :: "Reader \<Rightarrow> error + (string \<times> Reader)"
  get_bytes :: "Reader \<Rightarrow> error + (bytes \<times> Reader)"
  get_uint64 :: "Reader \<Rightarrow> error + (int \<times> Reader)"
  get_int64 :: "Reader \<Rightarrow> error + (int \<times> Reader)"
  get_bool :: "Reader \<Rightarrow> error + (bool \<times> Reader)"
  skipType :: "nat \<Rightarrow> Reader \<Rightarrow> error + Reader"

text \<open>\<open>if (cond) writer.uint32(tag).put(v);\<close>\<close>

definition write_if ::
  "wire \<Rightarrow> bool \<Rightarrow> nat \<Rightarrow> (bytes \<Rightarrow> 'a \<Rightarrow> bytes) \<Rightarrow> 'a \<Rightarrow> bytes \<Rightarrow> bytes" where
  "write_if w present tag put v wr = (if present then put (put_uint32 w wr tag) v else wr)"

text \<open>\<open>message.field = reader.get(); break;\<close>, one arm of the \<open>switch\<close>.\<close>

type_synonym 'm arm = "Reader \<Rightarrow> 'm \<Rightarrow> error + ('m \<times> Reader)"

definition read_into :: "(Reader \<Rightarrow> error + ('a \<times> Reader)) \<Rightarrow> ('a \<Rightarrow> 'm \<Rightarrow> 'm) \<Rightarrow> 'm arm" where
  "read_into get upd r m = res_bind (get r) (\<lambda>(v, r'). Inr (upd v m, r'))"

text \<open>
  The \<open>switch (tag >>> 3)\<close>: the arms by field number, and \<open>reader.skipType(tag & 7)\<close> as the default.
\<close>

definition switch :: "wire \<Rightarrow> (nat \<times> 'm arm) list \<Rightarrow> nat \<Rightarrow> 'm arm" where
  "switch w arms tag r m =
     (case map_of arms (tag div 8) of
        Some arm \<Rightarrow> arm r m
      | None \<Rightarrow> res_bind (skipType w (tag mod 8) r) (\<lambda>r'. Inr (m, r')))"

partial_function (option) decode_loop ::
  "wire \<Rightarrow> (nat \<times> 'm arm) list \<Rightarrow> nat \<Rightarrow> Reader \<Rightarrow> 'm \<Rightarrow> (error + 'm) option" where
  "decode_loop w arms lim r m =
     (if rd_pos r < lim then
        (case get_uint32 w r of
           Inl e \<Rightarrow> Some (Inl e)
         | Inr (tag, r1) \<Rightarrow>
             (case switch w arms tag r1 m of
                Inl e \<Rightarrow> Some (Inl e)
              | Inr (m', r2) \<Rightarrow> decode_loop w arms lim r2 m'))
      else Some (Inr m))"

definition decode_with ::
  "wire \<Rightarrow> (nat \<times> 'm arm) list \<Rightarrow> 'm \<Rightarrow> Reader \<Rightarrow> nat option \<Rightarrow> (error + 'm) option" where
  "decode_with w arms m0 input len =
     (let lim = (case len of None \<Rightarrow> length (rd_buf input) | Some n \<Rightarrow> rd_pos input + n)
      in decode_loop w arms lim input m0)"

subsection \<open>The laws of the wire format\<close>

text \<open>A value that was written is read back from where it stands, and the reader stops behind it.\<close>

definition codes :: "(bytes \<Rightarrow> 'a \<Rightarrow> bytes) \<Rightarrow> (Reader \<Rightarrow> error + ('a \<times> Reader)) \<Rightarrow> 'a \<Rightarrow> bool" where
  "codes put get v \<longleftrightarrow>
     (\<forall>wr. put wr v = wr @ put [] v) \<and>
     (\<forall>pre rest. get \<lparr>rd_buf = pre @ put [] v @ rest, rd_pos = length pre\<rparr> =
        Inr (v, \<lparr>rd_buf = pre @ put [] v @ rest, rd_pos = length pre + length (put [] v)\<rparr>))"

definition skips :: "wire \<Rightarrow> nat \<Rightarrow> bytes \<Rightarrow> bool" where
  "skips w wt c \<longleftrightarrow>
     (\<forall>pre rest. skipType w wt \<lparr>rd_buf = pre @ c @ rest, rd_pos = length pre\<rparr> =
        Inr \<lparr>rd_buf = pre @ c @ rest, rd_pos = length pre + length c\<rparr>)"

definition moves :: "(Reader \<Rightarrow> error + ('a \<times> Reader)) \<Rightarrow> bool" where
  "moves get \<longleftrightarrow> (\<forall>r v r'. get r = Inr (v, r') \<longrightarrow> rd_buf r' = rd_buf r \<and> rd_pos r \<le> rd_pos r')"

definition fits_u64 :: "int \<Rightarrow> bool" where
  "fits_u64 v \<longleftrightarrow> 0 \<le> v \<and> v < 2 ^ 64"

definition fits_i64 :: "int \<Rightarrow> bool" where
  "fits_i64 v \<longleftrightarrow> - (2 ^ 63) \<le> v \<and> v < 2 ^ 63"

definition fits_len :: "'a list \<Rightarrow> bool" where
  "fits_len xs \<longleftrightarrow> length xs < 2 ^ 30"

locale wire_format =
  fixes w :: wire
  assumes tag_codes: "n < 2 ^ 32 \<Longrightarrow> codes (put_uint32 w) (get_uint32 w) n"
    and string_codes: "fits_len s \<Longrightarrow> codes (put_string w) (get_string w) s"
    and bytes_codes: "fits_len b \<Longrightarrow> codes (put_bytes w) (get_bytes w) b"
    and uint64_codes: "fits_u64 v \<Longrightarrow> codes (put_uint64 w) (get_uint64 w) v"
    and int64_codes: "fits_i64 v \<Longrightarrow> codes (put_int64 w) (get_int64 w) v"
    and bool_codes: "codes (put_bool w) (get_bool w) x"
    and tag_moves: "get_uint32 w r = Inr (n, r') \<Longrightarrow> rd_buf r' = rd_buf r \<and> rd_pos r < rd_pos r'"
    and string_moves: "moves (get_string w)"
    and bytes_moves: "moves (get_bytes w)"
    and uint64_moves: "moves (get_uint64 w)"
    and int64_moves: "moves (get_int64 w)"
    and bool_moves: "moves (get_bool w)"
    and skip_moves: "skipType w wt r = Inr r' \<Longrightarrow> rd_buf r' = rd_buf r \<and> rd_pos r \<le> rd_pos r'"
    and skip_varint: "fits_u64 v \<Longrightarrow> skips w 0 (put_uint64 w [] v)"
    and skip_bytes: "fits_len b \<Longrightarrow> skips w 2 (put_bytes w [] b)"

subsection \<open>Fields in a row\<close>

text \<open>Reading the bytes \<open>c\<close>, wherever they stand, leads from the message \<open>m\<close> to the message \<open>m'\<close>.\<close>

definition leads :: "wire \<Rightarrow> (nat \<times> 'm arm) list \<Rightarrow> bytes \<Rightarrow> 'm \<Rightarrow> 'm \<Rightarrow> bool" where
  "leads w arms c m m' \<longleftrightarrow>
     (\<forall>pre rest lim. length pre + length c \<le> lim \<longrightarrow>
        decode_loop w arms lim \<lparr>rd_buf = pre @ c @ rest, rd_pos = length pre\<rparr> m =
        decode_loop w arms lim \<lparr>rd_buf = pre @ c @ rest, rd_pos = length pre + length c\<rparr> m')"

text \<open>An update that is skipped for the default value, as the encoders skip the field.\<close>

definition set_if :: "bool \<Rightarrow> ('m \<Rightarrow> 'm) \<Rightarrow> 'm \<Rightarrow> 'm" where
  "set_if present f m = (if present then f m else m)"

lemma set_if_eq: "present \<or> f m = m \<Longrightarrow> set_if present f m = f m"
  by (auto simp: set_if_def)

lemma leads_Nil: "leads w arms [] m m"
  by (simp add: leads_def)

lemma leadsD:
  "leads w arms c m m' \<Longrightarrow> length pre + length c \<le> lim \<Longrightarrow>
   decode_loop w arms lim \<lparr>rd_buf = pre @ c @ rest, rd_pos = length pre\<rparr> m =
   decode_loop w arms lim \<lparr>rd_buf = pre @ c @ rest, rd_pos = length pre + length c\<rparr> m'"
  unfolding leads_def by blast

lemma leads_append:
  assumes "leads w arms c m m1" "leads w arms d m1 m2"
  shows "leads w arms (c @ d) m m2"
proof (unfold leads_def, intro allI impI)
  fix pre rest :: bytes and lim
  assume lim: "length pre + length (c @ d) \<le> lim"
  show "decode_loop w arms lim \<lparr>rd_buf = pre @ (c @ d) @ rest, rd_pos = length pre\<rparr> m =
      decode_loop w arms lim \<lparr>rd_buf = pre @ (c @ d) @ rest, rd_pos = length pre + length (c @ d)\<rparr> m2"
    using leadsD [OF assms(1), of pre lim "d @ rest"] leadsD [OF assms(2), of "pre @ c" lim rest] lim
    by (simp add: add.assoc)
qed

lemma leads_to: "leads w arms c m0 m' \<Longrightarrow> m' = m \<Longrightarrow> leads w arms c m0 m"
  by simp

lemma leads_whole:
  assumes "leads w arms c m0 m"
  shows "decode_with w arms m0 (newReader c) None = Some (Inr m)"
  using leadsD [OF assms, of "[]" "length c" "[]"]
  by (simp add: decode_with_def newReader_def)
    (subst decode_loop.simps, simp)

context wire_format
begin

lemma tag_append: "n < 2 ^ 32 \<Longrightarrow> put_uint32 w wr n = wr @ put_uint32 w [] n"
  using tag_codes unfolding codes_def by blast

lemma tag_nonempty: "n < 2 ^ 32 \<Longrightarrow> put_uint32 w [] n \<noteq> []"
proof
  assume n: "n < 2 ^ 32" and e: "put_uint32 w [] n = []"
  let ?r = "\<lparr>rd_buf = [], rd_pos = 0\<rparr>"
  have "get_uint32 w ?r = Inr (n, ?r)"
    using tag_codes [OF n] e unfolding codes_def by (metis append_Nil length_0_conv list.size(3) add_0)
  then show False using tag_moves by blast
qed

text \<open>One field: the tag selects the arm, the arm reads the value.\<close>

lemma leads_field:
  assumes "tag < 2 ^ 32" "map_of arms (tag div 8) = Some (read_into get upd)" "codes put get v"
  shows "leads w arms (put_uint32 w [] tag @ put [] v) m (upd v m)"
proof (unfold leads_def, intro allI impI)
  fix pre rest :: bytes and lim
  let ?t = "put_uint32 w [] tag" and ?v = "put [] v"
  let ?buf = "pre @ (?t @ ?v) @ rest"
  assume "length pre + length (?t @ ?v) \<le> lim"
  then have "length pre < lim" using tag_nonempty [OF assms(1)] by (cases ?t) auto
  moreover have "get_uint32 w \<lparr>rd_buf = ?buf, rd_pos = length pre\<rparr> =
      Inr (tag, \<lparr>rd_buf = ?buf, rd_pos = length pre + length ?t\<rparr>)"
    using tag_codes [OF assms(1)] unfolding codes_def append_assoc by blast
  moreover have "get \<lparr>rd_buf = (pre @ ?t) @ ?v @ rest, rd_pos = length (pre @ ?t)\<rparr> =
      Inr (v, \<lparr>rd_buf = (pre @ ?t) @ ?v @ rest, rd_pos = length (pre @ ?t) + length ?v\<rparr>)"
    using assms(3) unfolding codes_def by blast
  ultimately show "decode_loop w arms lim \<lparr>rd_buf = ?buf, rd_pos = length pre\<rparr> m =
      decode_loop w arms lim \<lparr>rd_buf = ?buf, rd_pos = length pre + length (?t @ ?v)\<rparr> (upd v m)"
    by (subst decode_loop.simps) (simp add: switch_def assms(2) read_into_def add.assoc)
qed

text \<open>A field with no arm is stepped over.\<close>

lemma leads_unknown:
  assumes "tag < 2 ^ 32" "map_of arms (tag div 8) = None" "skips w (tag mod 8) c"
  shows "leads w arms (put_uint32 w [] tag @ c) m m"
proof (unfold leads_def, intro allI impI)
  fix pre rest :: bytes and lim
  let ?t = "put_uint32 w [] tag"
  let ?buf = "pre @ (?t @ c) @ rest"
  assume "length pre + length (?t @ c) \<le> lim"
  then have "length pre < lim" using tag_nonempty [OF assms(1)] by (cases ?t) auto
  moreover have "get_uint32 w \<lparr>rd_buf = ?buf, rd_pos = length pre\<rparr> =
      Inr (tag, \<lparr>rd_buf = ?buf, rd_pos = length pre + length ?t\<rparr>)"
    using tag_codes [OF assms(1)] unfolding codes_def append_assoc by blast
  moreover have "skipType w (tag mod 8) \<lparr>rd_buf = (pre @ ?t) @ c @ rest, rd_pos = length (pre @ ?t)\<rparr> =
      Inr \<lparr>rd_buf = (pre @ ?t) @ c @ rest, rd_pos = length (pre @ ?t) + length c\<rparr>"
    using assms(3) unfolding skips_def by blast
  ultimately show "decode_loop w arms lim \<lparr>rd_buf = ?buf, rd_pos = length pre\<rparr> m =
      decode_loop w arms lim \<lparr>rd_buf = ?buf, rd_pos = length pre + length (?t @ c)\<rparr> m"
    by (subst decode_loop.simps) (simp add: switch_def assms(2) add.assoc)
qed

text \<open>An optional field, and a repeated field, behind fields that were written before.\<close>

lemma written_field:
  assumes "tag < 2 ^ 32" "codes put get v"
  shows "put (put_uint32 w c tag) v = c @ put_uint32 w [] tag @ put [] v"
  using assms(2) tag_append [OF assms(1), of c] unfolding codes_def by (metis append_assoc)

lemma leads_write_if:
  assumes "leads w arms c m0 m1" "tag < 2 ^ 32" "map_of arms (tag div 8) = Some (read_into get upd)"
    and "codes put get v"
  shows "leads w arms (write_if w present tag put v c) m0 (set_if present (upd v) m1)"
proof (cases present)
  case True
  then show ?thesis
    using leads_append [OF assms(1) leads_field [OF assms(2-4)]] written_field [OF assms(2,4)]
    by (simp add: write_if_def set_if_def)
next
  case False
  then show ?thesis using assms(1) by (simp add: write_if_def set_if_def)
qed

lemma leads_write_all:
  assumes "leads w arms c m0 m1" "tag < 2 ^ 32" "map_of arms (tag div 8) = Some (read_into get upd)"
    and "list_all (codes put get) vs"
  shows "leads w arms (foldl (\<lambda>wr v. put (put_uint32 w wr tag) v) c vs) m0 (foldl (\<lambda>m v. upd v m) m1 vs)"
  using assms(1,4)
proof (induction vs arbitrary: c m1)
  case (Cons v vs)
  then have v: "codes put get v" by simp
  have "leads w arms (put (put_uint32 w c tag) v) m0 (upd v m1)"
    using leads_append [OF Cons.prems(1) leads_field [OF assms(2,3) v]] written_field [OF assms(2) v] by simp
  with Cons show ?case by simp
qed simp

text \<open>The loop returns: every turn reads a tag, and no arm moves back.\<close>

lemma decode_loop_ends:
  assumes "\<And>k arm. (k, arm) \<in> set arms \<Longrightarrow> \<forall>m. moves (\<lambda>r. arm r m)"
  shows "\<exists>res. decode_loop w arms lim r m = Some res"
proof (induction "lim - rd_pos r" arbitrary: r m rule: less_induct)
  case less
  have next_pos: "rd_pos r1 \<le> rd_pos r2" if "switch w arms tag r1 m = Inr (m', r2)" for tag r1 m' r2
  proof (cases "map_of arms (tag div 8)")
    case None
    with that skip_moves show ?thesis by (auto simp: switch_def res_bind_eq_Inr)
  next
    case (Some arm)
    with that assms [OF map_of_SomeD [OF Some]] show ?thesis
      unfolding switch_def moves_def by (metis option.simps(5))
  qed
  show ?case
  proof (cases "rd_pos r < lim")
    case False
    then show ?thesis by (subst decode_loop.simps) simp
  next
    case True
    have "\<exists>res. decode_loop w arms lim r2 m' = Some res"
      if "get_uint32 w r = Inr (tag, r1)" "switch w arms tag r1 m = Inr (m', r2)" for tag r1 m' r2
    proof (rule less)
      show "lim - rd_pos r2 < lim - rd_pos r"
        using tag_moves [OF that(1)] next_pos [OF that(2)] True by linarith
    qed
    then show ?thesis
      using True by (subst decode_loop.simps) (auto split: sum.splits prod.splits)
  qed
qed

lemma decode_ends:
  assumes "\<And>k arm. (k, arm) \<in> set arms \<Longrightarrow> \<forall>m. moves (\<lambda>r. arm r m)"
  shows "\<exists>res. decode_with w arms m0 input len = Some res"
  using decode_loop_ends [OF assms] by (simp add: decode_with_def Let_def)

lemma read_into_moves: "moves get \<Longrightarrow> moves (\<lambda>r. read_into get upd r m)"
  unfolding moves_def read_into_def by (auto simp: res_bind_eq_Inr)

lemmas wire_codes = string_codes bytes_codes uint64_codes int64_codes bool_codes

lemmas wire_moves = string_moves bytes_moves uint64_moves int64_moves bool_moves

end

subsection \<open>A reference encoding\<close>

fun varint :: "nat \<Rightarrow> bytes" where
  "varint n = (if n < 128 then [of_nat n] else of_nat (128 + n mod 128) # varint (n div 128))"

declare varint.simps [simp del]

text \<open>The value of the varint at the front of the bytes and the number of bytes it takes.\<close>

fun scan_varint :: "bytes \<Rightarrow> (nat \<times> nat) option" where
  "scan_varint [] = None"
| "scan_varint (b # bs) =
     (if unat b < 128 then Some (unat b, 1)
      else map_option (\<lambda>(v, k). (unat b - 128 + 128 * v, Suc k)) (scan_varint bs))"

definition read_varint :: "Reader \<Rightarrow> error + (nat \<times> Reader)" where
  "read_varint r =
     (case scan_varint (drop (rd_pos r) (rd_buf r)) of
        None \<Rightarrow> Inl (JsError ''index out of range'')
      | Some (v, k) \<Rightarrow> Inr (v, r\<lparr>rd_pos := rd_pos r + k\<rparr>))"

definition read_blob :: "Reader \<Rightarrow> error + (bytes \<times> Reader)" where
  "read_blob r =
     res_bind (read_varint r) (\<lambda>(n, r1).
       if rd_pos r1 + n \<le> length (rd_buf r1)
       then Inr (take n (drop (rd_pos r1) (rd_buf r1)), r1\<lparr>rd_pos := rd_pos r1 + n\<rparr>)
       else Inl (JsError ''index out of range''))"

fun utf8_decode :: "bytes \<Rightarrow> string option" where
  "utf8_decode [] = Some []"
| "utf8_decode (b # bs) =
     (if unat b < 128 then map_option (\<lambda>s. char_of (unat b) # s) (utf8_decode bs)
      else case bs of
             [] \<Rightarrow> None
           | c # cs \<Rightarrow> map_option (\<lambda>s. char_of (64 * (unat b - 192) + (unat c - 128)) # s) (utf8_decode cs))"

definition read_mapped :: "('a \<Rightarrow> error + 'b) \<Rightarrow> (Reader \<Rightarrow> error + ('a \<times> Reader)) \<Rightarrow> Reader \<Rightarrow> error + ('b \<times> Reader)" where
  "read_mapped f get r = res_bind (get r) (\<lambda>(v, r'). res_bind (f v) (\<lambda>x. Inr (x, r')))"

definition read_fixed :: "nat \<Rightarrow> Reader \<Rightarrow> error + Reader" where
  "read_fixed k r =
     (if rd_pos r + k \<le> length (rd_buf r) then Inr (r\<lparr>rd_pos := rd_pos r + k\<rparr>)
      else Inl (JsError ''index out of range''))"

definition blob :: "bytes \<Rightarrow> bytes" where
  "blob b = varint (length b) @ b"

definition proto_wire :: wire where
  "proto_wire =
     \<lparr>put_uint32 = \<lambda>wr n. wr @ varint n,
      put_string = \<lambda>wr s. wr @ blob (utf8_encode s),
      put_bytes = \<lambda>wr b. wr @ blob b,
      put_uint64 = \<lambda>wr v. wr @ varint (nat (v mod 2 ^ 64)),
      put_int64 = \<lambda>wr v. wr @ varint (nat (v mod 2 ^ 64)),
      put_bool = \<lambda>wr x. wr @ varint (if x then 1 else 0),
      get_uint32 = read_mapped (\<lambda>n. Inr (n mod 2 ^ 32)) read_varint,
      get_string = read_mapped (\<lambda>b. case utf8_decode b of None \<Rightarrow> Inl (JsError ''invalid UTF-8'') | Some s \<Rightarrow> Inr s) read_blob,
      get_bytes = read_blob,
      get_uint64 = read_mapped (\<lambda>n. Inr (int (n mod 2 ^ 64))) read_varint,
      get_int64 = read_mapped (\<lambda>n. Inr (let m = int (n mod 2 ^ 64) in if m < 2 ^ 63 then m else m - 2 ^ 64)) read_varint,
      get_bool = read_mapped (\<lambda>n. Inr (n \<noteq> 0)) read_varint,
      skipType = (\<lambda>wt r.
        if wt = 0 then res_bind (read_varint r) (\<lambda>(v, r'). Inr r')
        else if wt = 1 then read_fixed 8 r
        else if wt = 2 then res_bind (read_blob r) (\<lambda>(v, r'). Inr r')
        else if wt = 5 then read_fixed 4 r
        else Inl (JsError ''invalid wire type''))\<rparr>"

lemma scan_varint: "scan_varint (varint n @ rest) = Some (n, length (varint n))"
proof (induction n rule: varint.induct)
  case (1 n)
  show ?case
  proof (cases "n < 128")
    case True
    then show ?thesis by (simp add: varint.simps [of n] unat_of_nat_byte)
  next
    case False
    have u: "unat (of_nat (128 + n mod 128) :: byte) = 128 + n mod 128"
      by (rule unat_of_nat_byte) (use mod_less_divisor [of 128 n] in linarith)
    from False 1 u show ?thesis
      by (simp only: varint.simps [of n] if_False append_Cons scan_varint.simps) simp
  qed
qed

lemma scan_varint_pos: "scan_varint bs = Some (v, k) \<Longrightarrow> 0 < k"
  by (cases bs) (auto split: if_splits)

lemma utf8_decode_encode: "utf8_decode (utf8_encode s) = Some s"
proof (induction s)
  case (Cons c s)
  show ?case
  proof (cases "code c < 128")
    case True
    then show ?thesis
      using Cons by (simp add: utf8_encode_Cons utf8_char_def unat_of_nat_byte code_def)
  next
    case False
    have b: "192 + code c div 64 < 256" "128 + code c mod 64 < 256" using code_less [of c] by auto
    have u: "unat (of_nat (192 + code c div 64) :: byte) = 192 + code c div 64"
      "unat (of_nat (128 + code c mod 64) :: byte) = 128 + code c mod 64"
      using unat_of_nat_byte [OF b(1)] unat_of_nat_byte [OF b(2)] by simp_all
    have "utf8_encode (c # s) = of_nat (192 + code c div 64) # of_nat (128 + code c mod 64) # utf8_encode s"
      using False by (simp add: utf8_encode_Cons utf8_char_def Let_def)
    moreover have "64 * (192 + code c div 64 - 192) + (128 + code c mod 64 - 128) = code c" by simp
    ultimately show ?thesis using u Cons by (simp only: utf8_decode.simps) (simp add: code_def)
  qed
qed simp

text \<open>Both readers of the reference encoding advance, and read what was written.\<close>

lemma read_varint_written:
  "read_varint \<lparr>rd_buf = pre @ varint n @ rest, rd_pos = length pre\<rparr> =
   Inr (n, \<lparr>rd_buf = pre @ varint n @ rest, rd_pos = length pre + length (varint n)\<rparr>)"
  by (simp add: read_varint_def scan_varint)

lemma read_blob_written:
  "read_blob \<lparr>rd_buf = pre @ blob b @ rest, rd_pos = length pre\<rparr> =
   Inr (b, \<lparr>rd_buf = pre @ blob b @ rest, rd_pos = length pre + length (blob b)\<rparr>)"
  using read_varint_written [of pre "length b" "b @ rest"]
  by (simp add: read_blob_def blob_def add.assoc)

lemma read_varint_forward: "read_varint r = Inr (v, r') \<Longrightarrow> rd_buf r' = rd_buf r \<and> rd_pos r < rd_pos r'"
  by (auto simp: read_varint_def split: option.splits dest: scan_varint_pos)

lemma read_blob_forward: "read_blob r = Inr (v, r') \<Longrightarrow> rd_buf r' = rd_buf r \<and> rd_pos r < rd_pos r'"
  by (auto simp: read_blob_def res_bind_eq_Inr split: if_splits dest: read_varint_forward)

lemma codes_varint:
  "(\<And>wr. put wr v = wr @ varint n) \<Longrightarrow> f n = Inr v \<Longrightarrow> codes put (read_mapped f read_varint) v"
  by (simp add: codes_def read_mapped_def read_varint_written)

lemma codes_blob:
  "(\<And>wr. put wr v = wr @ blob b) \<Longrightarrow> f b = Inr v \<Longrightarrow> codes put (read_mapped f read_blob) v"
  by (simp add: codes_def read_mapped_def read_blob_written)

lemma read_mapped_moves:
  "(\<And>r v r'. get r = Inr (v, r') \<Longrightarrow> rd_buf r' = rd_buf r \<and> rd_pos r < rd_pos r') \<Longrightarrow>
   moves (read_mapped f get)"
  unfolding moves_def read_mapped_def by (fastforce simp: res_bind_eq_Inr)

interpretation pw: wire_format proto_wire
proof
  fix n :: nat assume "n < 2 ^ 32"
  then show "codes (put_uint32 proto_wire) (get_uint32 proto_wire) n"
    unfolding proto_wire_def wire.simps by (intro codes_varint [where n = n]) simp_all
next
  fix s :: string
  show "codes (put_string proto_wire) (get_string proto_wire) s"
    unfolding proto_wire_def wire.simps by (intro codes_blob [where b = "utf8_encode s"]) (simp_all add: utf8_decode_encode)
next
  fix b :: bytes
  show "codes (put_bytes proto_wire) (get_bytes proto_wire) b"
    by (simp add: proto_wire_def codes_def read_blob_written)
  show "skips proto_wire 2 (put_bytes proto_wire [] b)"
    by (simp add: proto_wire_def skips_def read_blob_written)
next
  fix v :: int assume v: "fits_u64 v"
  then have "int (nat (v mod 2 ^ 64) mod 2 ^ 64) = v" by (simp add: fits_u64_def zmod_int)
  then show "codes (put_uint64 proto_wire) (get_uint64 proto_wire) v"
    unfolding proto_wire_def wire.simps by (intro codes_varint [where n = "nat (v mod 2 ^ 64)"]) simp_all
  show "skips proto_wire 0 (put_uint64 proto_wire [] v)"
    by (simp add: proto_wire_def skips_def read_varint_written)
next
  fix v :: int assume v: "fits_i64 v"
  have "(let m = int (nat (v mod 2 ^ 64) mod 2 ^ 64) in if m < 2 ^ 63 then m else m - 2 ^ 64) = v"
  proof (cases "0 \<le> v")
    case True
    with v show ?thesis by (simp add: fits_i64_def zmod_int)
  next
    case False
    have "v mod 2 ^ 64 = (v + 2 ^ 64) mod 2 ^ 64" by simp
    also have "\<dots> = v + 2 ^ 64" using v False by (intro mod_pos_pos_trivial) (auto simp: fits_i64_def)
    finally show ?thesis using v False by (simp add: fits_i64_def zmod_int)
  qed
  then show "codes (put_int64 proto_wire) (get_int64 proto_wire) v"
    unfolding proto_wire_def wire.simps by (intro codes_varint [where n = "nat (v mod 2 ^ 64)"]) simp_all
next
  fix x
  show "codes (put_bool proto_wire) (get_bool proto_wire) x"
    unfolding proto_wire_def wire.simps by (intro codes_varint [where n = "if x then 1 else 0"]) simp_all
next
  fix r n r' assume "get_uint32 proto_wire r = Inr (n, r')"
  then show "rd_buf r' = rd_buf r \<and> rd_pos r < rd_pos r'"
    by (auto simp: proto_wire_def read_mapped_def res_bind_eq_Inr dest: read_varint_forward)
next
  show "moves (get_string proto_wire)" "moves (get_uint64 proto_wire)" "moves (get_int64 proto_wire)"
    "moves (get_bool proto_wire)"
    unfolding proto_wire_def wire.simps
    by (rule read_mapped_moves, erule read_blob_forward read_varint_forward)+
  show "moves (get_bytes proto_wire)"
    unfolding proto_wire_def wire.simps moves_def by (auto dest: read_blob_forward)
next
  fix wt r r' assume "skipType proto_wire wt r = Inr r'"
  then show "rd_buf r' = rd_buf r \<and> rd_pos r \<le> rd_pos r'"
    by (auto simp: proto_wire_def res_bind_eq_Inr read_fixed_def split: if_splits
        dest: read_varint_forward read_blob_forward)
qed

end
