(* ===== verification/Codecs.thy ===== *)
theory Codecs
  imports Wire Config
begin

text \<open>
  The protobuf codecs of \<open>packages/ts/src/tx/codecs.ts\<close>: the nine messages of the module
  \<open>qorechain.rdk.v1\<close> as records, and for each its \<open>encode\<close>, \<open>decode\<close> and \<open>fromPartial\<close>, over the reader
  and writer of the parameter \<open>wire\<close>. A writer is the bytes written so far.
\<close>

subsection \<open>Messages\<close>

record MsgCreateRollup =
  mcr_creator :: string
  mcr_rollupId :: string
  mcr_profile :: string
  mcr_vmType :: string
  mcr_stakeAmount :: int

record MsgCreateRollupResponse =
  mcx_rollupId :: string

record MsgSubmitBatch =
  msb_sequencer :: string
  msb_rollupId :: string
  msb_batchIndex :: int
  msb_stateRoot :: bytes
  msb_prevStateRoot :: bytes
  msb_txCount :: int
  msb_dataHash :: bytes
  msb_proof :: bytes
  msb_withdrawalsRoot :: bytes
  msb_anchorSignature :: bytes
  msb_validatorSetHash :: bytes

record MsgChallengeBatch =
  mcb_challenger :: string
  mcb_rollupId :: string
  mcb_batchIndex :: int
  mcb_proof :: bytes

record MsgResolveChallenge =
  mrc_resolver :: string
  mrc_rollupId :: string
  mrc_batchIndex :: int
  mrc_fraudUpheld :: bool

record MsgPauseRollup =
  mpr_creator :: string
  mpr_rollupId :: string
  mpr_reason :: string

record MsgResumeRollup =
  mrr_creator :: string
  mrr_rollupId :: string

record MsgStopRollup =
  msr_creator :: string
  msr_rollupId :: string

record MsgExecuteWithdrawal =
  mew_submitter :: string
  mew_rollupId :: string
  mew_batchIndex :: int
  mew_withdrawalIndex :: int
  mew_recipient :: string
  mew_denom :: string
  mew_amount :: int
  mew_proof :: "bytes list"

subsection \<open>Type URLs, encoders, decoders and defaults\<close>

text \<open>\<open>value ?? fallback\<close>.\<close>

definition or_default :: "'a option \<Rightarrow> 'a \<Rightarrow> 'a" where
  "or_default v d = (case v of None \<Rightarrow> d | Some x \<Rightarrow> x)"

definition TYPE_URL_PREFIX :: string where
  "TYPE_URL_PREFIX = ''/qorechain.rdk.v1.''"

text \<open>
  Each codec is a group of five definitions: its type URL, \<open>encode\<close>, the arms of the \<open>switch\<close> in
  \<open>decode\<close>, \<open>decode\<close> with its initial message, and \<open>fromPartial\<close>, whose arguments are the fields of the
  partial object.
\<close>

definition MsgCreateRollup_typeUrl :: string where
  "MsgCreateRollup_typeUrl = TYPE_URL_PREFIX @ ''MsgCreateRollup''"

definition MsgCreateRollup_encode :: "wire \<Rightarrow> MsgCreateRollup \<Rightarrow> bytes \<Rightarrow> bytes" where
  "MsgCreateRollup_encode w m wr =
     (let wr = write_if w (mcr_creator m \<noteq> '''') 10 (put_string w) (mcr_creator m) wr;
          wr = write_if w (mcr_rollupId m \<noteq> '''') 18 (put_string w) (mcr_rollupId m) wr;
          wr = write_if w (mcr_profile m \<noteq> '''') 26 (put_string w) (mcr_profile m) wr;
          wr = write_if w (mcr_vmType m \<noteq> '''') 34 (put_string w) (mcr_vmType m) wr;
          wr = write_if w (mcr_stakeAmount m \<noteq> 0) 40 (put_int64 w) (mcr_stakeAmount m) wr
      in wr)"

definition MsgCreateRollup_arms :: "wire \<Rightarrow> (nat \<times> MsgCreateRollup arm) list" where
  "MsgCreateRollup_arms w =
     [(1, read_into (get_string w) (\<lambda>v m. m\<lparr>mcr_creator := v\<rparr>)),
      (2, read_into (get_string w) (\<lambda>v m. m\<lparr>mcr_rollupId := v\<rparr>)),
      (3, read_into (get_string w) (\<lambda>v m. m\<lparr>mcr_profile := v\<rparr>)),
      (4, read_into (get_string w) (\<lambda>v m. m\<lparr>mcr_vmType := v\<rparr>)),
      (5, read_into (get_int64 w) (\<lambda>v m. m\<lparr>mcr_stakeAmount := v\<rparr>))]"

definition MsgCreateRollup_decode :: "wire \<Rightarrow> Reader \<Rightarrow> nat option \<Rightarrow> (error + MsgCreateRollup) option" where
  "MsgCreateRollup_decode w input len =
     decode_with w (MsgCreateRollup_arms w)
       \<lparr>mcr_creator = '''', mcr_rollupId = '''', mcr_profile = '''', mcr_vmType = '''', mcr_stakeAmount = 0\<rparr> input len"

definition MsgCreateRollup_fromPartial ::
  "string option \<Rightarrow> string option \<Rightarrow> string option \<Rightarrow> string option \<Rightarrow> int option \<Rightarrow> MsgCreateRollup" where
  "MsgCreateRollup_fromPartial creator rollupId profile vmType stakeAmount =
     \<lparr>mcr_creator = or_default creator '''',
      mcr_rollupId = or_default rollupId '''',
      mcr_profile = or_default profile '''',
      mcr_vmType = or_default vmType '''',
      mcr_stakeAmount = or_default stakeAmount 0\<rparr>"

definition MsgCreateRollupResponse_typeUrl :: string where
  "MsgCreateRollupResponse_typeUrl = TYPE_URL_PREFIX @ ''MsgCreateRollupResponse''"

definition MsgCreateRollupResponse_encode :: "wire \<Rightarrow> MsgCreateRollupResponse \<Rightarrow> bytes \<Rightarrow> bytes" where
  "MsgCreateRollupResponse_encode w m wr =
     (let wr = write_if w (mcx_rollupId m \<noteq> '''') 10 (put_string w) (mcx_rollupId m) wr
      in wr)"

definition MsgCreateRollupResponse_arms :: "wire \<Rightarrow> (nat \<times> MsgCreateRollupResponse arm) list" where
  "MsgCreateRollupResponse_arms w =
     [(1, read_into (get_string w) (\<lambda>v m. m\<lparr>mcx_rollupId := v\<rparr>))]"

definition MsgCreateRollupResponse_decode :: "wire \<Rightarrow> Reader \<Rightarrow> nat option \<Rightarrow> (error + MsgCreateRollupResponse) option" where
  "MsgCreateRollupResponse_decode w input len =
     decode_with w (MsgCreateRollupResponse_arms w)
       \<lparr>mcx_rollupId = ''''\<rparr> input len"

definition MsgCreateRollupResponse_fromPartial ::
  "string option \<Rightarrow> MsgCreateRollupResponse" where
  "MsgCreateRollupResponse_fromPartial rollupId =
     \<lparr>mcx_rollupId = or_default rollupId ''''\<rparr>"

definition MsgSubmitBatch_typeUrl :: string where
  "MsgSubmitBatch_typeUrl = TYPE_URL_PREFIX @ ''MsgSubmitBatch''"

definition MsgSubmitBatch_encode :: "wire \<Rightarrow> MsgSubmitBatch \<Rightarrow> bytes \<Rightarrow> bytes" where
  "MsgSubmitBatch_encode w m wr =
     (let wr = write_if w (msb_sequencer m \<noteq> '''') 10 (put_string w) (msb_sequencer m) wr;
          wr = write_if w (msb_rollupId m \<noteq> '''') 18 (put_string w) (msb_rollupId m) wr;
          wr = write_if w (msb_batchIndex m \<noteq> 0) 24 (put_uint64 w) (msb_batchIndex m) wr;
          wr = write_if w (length (msb_stateRoot m) \<noteq> 0) 34 (put_bytes w) (msb_stateRoot m) wr;
          wr = write_if w (length (msb_prevStateRoot m) \<noteq> 0) 42 (put_bytes w) (msb_prevStateRoot m) wr;
          wr = write_if w (msb_txCount m \<noteq> 0) 48 (put_uint64 w) (msb_txCount m) wr;
          wr = write_if w (length (msb_dataHash m) \<noteq> 0) 58 (put_bytes w) (msb_dataHash m) wr;
          wr = write_if w (length (msb_proof m) \<noteq> 0) 66 (put_bytes w) (msb_proof m) wr;
          wr = write_if w (length (msb_withdrawalsRoot m) \<noteq> 0) 74 (put_bytes w) (msb_withdrawalsRoot m) wr;
          wr = write_if w (length (msb_anchorSignature m) \<noteq> 0) 82 (put_bytes w) (msb_anchorSignature m) wr;
          wr = write_if w (length (msb_validatorSetHash m) \<noteq> 0) 90 (put_bytes w) (msb_validatorSetHash m) wr
      in wr)"

definition MsgSubmitBatch_arms :: "wire \<Rightarrow> (nat \<times> MsgSubmitBatch arm) list" where
  "MsgSubmitBatch_arms w =
     [(1, read_into (get_string w) (\<lambda>v m. m\<lparr>msb_sequencer := v\<rparr>)),
      (2, read_into (get_string w) (\<lambda>v m. m\<lparr>msb_rollupId := v\<rparr>)),
      (3, read_into (get_uint64 w) (\<lambda>v m. m\<lparr>msb_batchIndex := v\<rparr>)),
      (4, read_into (get_bytes w) (\<lambda>v m. m\<lparr>msb_stateRoot := v\<rparr>)),
      (5, read_into (get_bytes w) (\<lambda>v m. m\<lparr>msb_prevStateRoot := v\<rparr>)),
      (6, read_into (get_uint64 w) (\<lambda>v m. m\<lparr>msb_txCount := v\<rparr>)),
      (7, read_into (get_bytes w) (\<lambda>v m. m\<lparr>msb_dataHash := v\<rparr>)),
      (8, read_into (get_bytes w) (\<lambda>v m. m\<lparr>msb_proof := v\<rparr>)),
      (9, read_into (get_bytes w) (\<lambda>v m. m\<lparr>msb_withdrawalsRoot := v\<rparr>)),
      (10, read_into (get_bytes w) (\<lambda>v m. m\<lparr>msb_anchorSignature := v\<rparr>)),
      (11, read_into (get_bytes w) (\<lambda>v m. m\<lparr>msb_validatorSetHash := v\<rparr>))]"

definition MsgSubmitBatch_decode :: "wire \<Rightarrow> Reader \<Rightarrow> nat option \<Rightarrow> (error + MsgSubmitBatch) option" where
  "MsgSubmitBatch_decode w input len =
     decode_with w (MsgSubmitBatch_arms w)
       \<lparr>msb_sequencer = '''', msb_rollupId = '''', msb_batchIndex = 0, msb_stateRoot = [], msb_prevStateRoot = [], msb_txCount = 0, msb_dataHash = [], msb_proof = [], msb_withdrawalsRoot = [], msb_anchorSignature = [], msb_validatorSetHash = []\<rparr> input len"

definition MsgSubmitBatch_fromPartial ::
  "string option \<Rightarrow> string option \<Rightarrow> int option \<Rightarrow> bytes option \<Rightarrow> bytes option \<Rightarrow> int option \<Rightarrow> bytes option \<Rightarrow> bytes option \<Rightarrow> bytes option \<Rightarrow> bytes option \<Rightarrow> bytes option \<Rightarrow> MsgSubmitBatch" where
  "MsgSubmitBatch_fromPartial sequencer rollupId batchIndex stateRoot prevStateRoot txCount dataHash proof withdrawalsRoot anchorSignature validatorSetHash =
     \<lparr>msb_sequencer = or_default sequencer '''',
      msb_rollupId = or_default rollupId '''',
      msb_batchIndex = or_default batchIndex 0,
      msb_stateRoot = or_default stateRoot [],
      msb_prevStateRoot = or_default prevStateRoot [],
      msb_txCount = or_default txCount 0,
      msb_dataHash = or_default dataHash [],
      msb_proof = or_default proof [],
      msb_withdrawalsRoot = or_default withdrawalsRoot [],
      msb_anchorSignature = or_default anchorSignature [],
      msb_validatorSetHash = or_default validatorSetHash []\<rparr>"

definition MsgChallengeBatch_typeUrl :: string where
  "MsgChallengeBatch_typeUrl = TYPE_URL_PREFIX @ ''MsgChallengeBatch''"

definition MsgChallengeBatch_encode :: "wire \<Rightarrow> MsgChallengeBatch \<Rightarrow> bytes \<Rightarrow> bytes" where
  "MsgChallengeBatch_encode w m wr =
     (let wr = write_if w (mcb_challenger m \<noteq> '''') 10 (put_string w) (mcb_challenger m) wr;
          wr = write_if w (mcb_rollupId m \<noteq> '''') 18 (put_string w) (mcb_rollupId m) wr;
          wr = write_if w (mcb_batchIndex m \<noteq> 0) 24 (put_uint64 w) (mcb_batchIndex m) wr;
          wr = write_if w (length (mcb_proof m) \<noteq> 0) 34 (put_bytes w) (mcb_proof m) wr
      in wr)"

definition MsgChallengeBatch_arms :: "wire \<Rightarrow> (nat \<times> MsgChallengeBatch arm) list" where
  "MsgChallengeBatch_arms w =
     [(1, read_into (get_string w) (\<lambda>v m. m\<lparr>mcb_challenger := v\<rparr>)),
      (2, read_into (get_string w) (\<lambda>v m. m\<lparr>mcb_rollupId := v\<rparr>)),
      (3, read_into (get_uint64 w) (\<lambda>v m. m\<lparr>mcb_batchIndex := v\<rparr>)),
      (4, read_into (get_bytes w) (\<lambda>v m. m\<lparr>mcb_proof := v\<rparr>))]"

definition MsgChallengeBatch_decode :: "wire \<Rightarrow> Reader \<Rightarrow> nat option \<Rightarrow> (error + MsgChallengeBatch) option" where
  "MsgChallengeBatch_decode w input len =
     decode_with w (MsgChallengeBatch_arms w)
       \<lparr>mcb_challenger = '''', mcb_rollupId = '''', mcb_batchIndex = 0, mcb_proof = []\<rparr> input len"

definition MsgChallengeBatch_fromPartial ::
  "string option \<Rightarrow> string option \<Rightarrow> int option \<Rightarrow> bytes option \<Rightarrow> MsgChallengeBatch" where
  "MsgChallengeBatch_fromPartial challenger rollupId batchIndex proof =
     \<lparr>mcb_challenger = or_default challenger '''',
      mcb_rollupId = or_default rollupId '''',
      mcb_batchIndex = or_default batchIndex 0,
      mcb_proof = or_default proof []\<rparr>"

definition MsgResolveChallenge_typeUrl :: string where
  "MsgResolveChallenge_typeUrl = TYPE_URL_PREFIX @ ''MsgResolveChallenge''"

definition MsgResolveChallenge_encode :: "wire \<Rightarrow> MsgResolveChallenge \<Rightarrow> bytes \<Rightarrow> bytes" where
  "MsgResolveChallenge_encode w m wr =
     (let wr = write_if w (mrc_resolver m \<noteq> '''') 10 (put_string w) (mrc_resolver m) wr;
          wr = write_if w (mrc_rollupId m \<noteq> '''') 18 (put_string w) (mrc_rollupId m) wr;
          wr = write_if w (mrc_batchIndex m \<noteq> 0) 24 (put_uint64 w) (mrc_batchIndex m) wr;
          wr = write_if w (mrc_fraudUpheld m) 32 (put_bool w) (mrc_fraudUpheld m) wr
      in wr)"

definition MsgResolveChallenge_arms :: "wire \<Rightarrow> (nat \<times> MsgResolveChallenge arm) list" where
  "MsgResolveChallenge_arms w =
     [(1, read_into (get_string w) (\<lambda>v m. m\<lparr>mrc_resolver := v\<rparr>)),
      (2, read_into (get_string w) (\<lambda>v m. m\<lparr>mrc_rollupId := v\<rparr>)),
      (3, read_into (get_uint64 w) (\<lambda>v m. m\<lparr>mrc_batchIndex := v\<rparr>)),
      (4, read_into (get_bool w) (\<lambda>v m. m\<lparr>mrc_fraudUpheld := v\<rparr>))]"

definition MsgResolveChallenge_decode :: "wire \<Rightarrow> Reader \<Rightarrow> nat option \<Rightarrow> (error + MsgResolveChallenge) option" where
  "MsgResolveChallenge_decode w input len =
     decode_with w (MsgResolveChallenge_arms w)
       \<lparr>mrc_resolver = '''', mrc_rollupId = '''', mrc_batchIndex = 0, mrc_fraudUpheld = False\<rparr> input len"

definition MsgResolveChallenge_fromPartial ::
  "string option \<Rightarrow> string option \<Rightarrow> int option \<Rightarrow> bool option \<Rightarrow> MsgResolveChallenge" where
  "MsgResolveChallenge_fromPartial resolver rollupId batchIndex fraudUpheld =
     \<lparr>mrc_resolver = or_default resolver '''',
      mrc_rollupId = or_default rollupId '''',
      mrc_batchIndex = or_default batchIndex 0,
      mrc_fraudUpheld = or_default fraudUpheld False\<rparr>"

definition MsgPauseRollup_typeUrl :: string where
  "MsgPauseRollup_typeUrl = TYPE_URL_PREFIX @ ''MsgPauseRollup''"

definition MsgPauseRollup_encode :: "wire \<Rightarrow> MsgPauseRollup \<Rightarrow> bytes \<Rightarrow> bytes" where
  "MsgPauseRollup_encode w m wr =
     (let wr = write_if w (mpr_creator m \<noteq> '''') 10 (put_string w) (mpr_creator m) wr;
          wr = write_if w (mpr_rollupId m \<noteq> '''') 18 (put_string w) (mpr_rollupId m) wr;
          wr = write_if w (mpr_reason m \<noteq> '''') 26 (put_string w) (mpr_reason m) wr
      in wr)"

definition MsgPauseRollup_arms :: "wire \<Rightarrow> (nat \<times> MsgPauseRollup arm) list" where
  "MsgPauseRollup_arms w =
     [(1, read_into (get_string w) (\<lambda>v m. m\<lparr>mpr_creator := v\<rparr>)),
      (2, read_into (get_string w) (\<lambda>v m. m\<lparr>mpr_rollupId := v\<rparr>)),
      (3, read_into (get_string w) (\<lambda>v m. m\<lparr>mpr_reason := v\<rparr>))]"

definition MsgPauseRollup_decode :: "wire \<Rightarrow> Reader \<Rightarrow> nat option \<Rightarrow> (error + MsgPauseRollup) option" where
  "MsgPauseRollup_decode w input len =
     decode_with w (MsgPauseRollup_arms w)
       \<lparr>mpr_creator = '''', mpr_rollupId = '''', mpr_reason = ''''\<rparr> input len"

definition MsgPauseRollup_fromPartial ::
  "string option \<Rightarrow> string option \<Rightarrow> string option \<Rightarrow> MsgPauseRollup" where
  "MsgPauseRollup_fromPartial creator rollupId reason =
     \<lparr>mpr_creator = or_default creator '''',
      mpr_rollupId = or_default rollupId '''',
      mpr_reason = or_default reason ''''\<rparr>"

definition MsgResumeRollup_typeUrl :: string where
  "MsgResumeRollup_typeUrl = TYPE_URL_PREFIX @ ''MsgResumeRollup''"

definition MsgResumeRollup_encode :: "wire \<Rightarrow> MsgResumeRollup \<Rightarrow> bytes \<Rightarrow> bytes" where
  "MsgResumeRollup_encode w m wr =
     (let wr = write_if w (mrr_creator m \<noteq> '''') 10 (put_string w) (mrr_creator m) wr;
          wr = write_if w (mrr_rollupId m \<noteq> '''') 18 (put_string w) (mrr_rollupId m) wr
      in wr)"

definition MsgResumeRollup_arms :: "wire \<Rightarrow> (nat \<times> MsgResumeRollup arm) list" where
  "MsgResumeRollup_arms w =
     [(1, read_into (get_string w) (\<lambda>v m. m\<lparr>mrr_creator := v\<rparr>)),
      (2, read_into (get_string w) (\<lambda>v m. m\<lparr>mrr_rollupId := v\<rparr>))]"

definition MsgResumeRollup_decode :: "wire \<Rightarrow> Reader \<Rightarrow> nat option \<Rightarrow> (error + MsgResumeRollup) option" where
  "MsgResumeRollup_decode w input len =
     decode_with w (MsgResumeRollup_arms w)
       \<lparr>mrr_creator = '''', mrr_rollupId = ''''\<rparr> input len"

definition MsgResumeRollup_fromPartial ::
  "string option \<Rightarrow> string option \<Rightarrow> MsgResumeRollup" where
  "MsgResumeRollup_fromPartial creator rollupId =
     \<lparr>mrr_creator = or_default creator '''',
      mrr_rollupId = or_default rollupId ''''\<rparr>"

definition MsgStopRollup_typeUrl :: string where
  "MsgStopRollup_typeUrl = TYPE_URL_PREFIX @ ''MsgStopRollup''"

definition MsgStopRollup_encode :: "wire \<Rightarrow> MsgStopRollup \<Rightarrow> bytes \<Rightarrow> bytes" where
  "MsgStopRollup_encode w m wr =
     (let wr = write_if w (msr_creator m \<noteq> '''') 10 (put_string w) (msr_creator m) wr;
          wr = write_if w (msr_rollupId m \<noteq> '''') 18 (put_string w) (msr_rollupId m) wr
      in wr)"

definition MsgStopRollup_arms :: "wire \<Rightarrow> (nat \<times> MsgStopRollup arm) list" where
  "MsgStopRollup_arms w =
     [(1, read_into (get_string w) (\<lambda>v m. m\<lparr>msr_creator := v\<rparr>)),
      (2, read_into (get_string w) (\<lambda>v m. m\<lparr>msr_rollupId := v\<rparr>))]"

definition MsgStopRollup_decode :: "wire \<Rightarrow> Reader \<Rightarrow> nat option \<Rightarrow> (error + MsgStopRollup) option" where
  "MsgStopRollup_decode w input len =
     decode_with w (MsgStopRollup_arms w)
       \<lparr>msr_creator = '''', msr_rollupId = ''''\<rparr> input len"

definition MsgStopRollup_fromPartial ::
  "string option \<Rightarrow> string option \<Rightarrow> MsgStopRollup" where
  "MsgStopRollup_fromPartial creator rollupId =
     \<lparr>msr_creator = or_default creator '''',
      msr_rollupId = or_default rollupId ''''\<rparr>"

definition MsgExecuteWithdrawal_typeUrl :: string where
  "MsgExecuteWithdrawal_typeUrl = TYPE_URL_PREFIX @ ''MsgExecuteWithdrawal''"

definition MsgExecuteWithdrawal_encode :: "wire \<Rightarrow> MsgExecuteWithdrawal \<Rightarrow> bytes \<Rightarrow> bytes" where
  "MsgExecuteWithdrawal_encode w m wr =
     (let wr = write_if w (mew_submitter m \<noteq> '''') 10 (put_string w) (mew_submitter m) wr;
          wr = write_if w (mew_rollupId m \<noteq> '''') 18 (put_string w) (mew_rollupId m) wr;
          wr = write_if w (mew_batchIndex m \<noteq> 0) 24 (put_uint64 w) (mew_batchIndex m) wr;
          wr = write_if w (mew_withdrawalIndex m \<noteq> 0) 32 (put_uint64 w) (mew_withdrawalIndex m) wr;
          wr = write_if w (mew_recipient m \<noteq> '''') 42 (put_string w) (mew_recipient m) wr;
          wr = write_if w (mew_denom m \<noteq> '''') 50 (put_string w) (mew_denom m) wr;
          wr = write_if w (mew_amount m \<noteq> 0) 56 (put_int64 w) (mew_amount m) wr;
          wr = foldl (\<lambda>wr v. put_bytes w (put_uint32 w wr 66) v) wr (mew_proof m)
      in wr)"

definition MsgExecuteWithdrawal_arms :: "wire \<Rightarrow> (nat \<times> MsgExecuteWithdrawal arm) list" where
  "MsgExecuteWithdrawal_arms w =
     [(1, read_into (get_string w) (\<lambda>v m. m\<lparr>mew_submitter := v\<rparr>)),
      (2, read_into (get_string w) (\<lambda>v m. m\<lparr>mew_rollupId := v\<rparr>)),
      (3, read_into (get_uint64 w) (\<lambda>v m. m\<lparr>mew_batchIndex := v\<rparr>)),
      (4, read_into (get_uint64 w) (\<lambda>v m. m\<lparr>mew_withdrawalIndex := v\<rparr>)),
      (5, read_into (get_string w) (\<lambda>v m. m\<lparr>mew_recipient := v\<rparr>)),
      (6, read_into (get_string w) (\<lambda>v m. m\<lparr>mew_denom := v\<rparr>)),
      (7, read_into (get_int64 w) (\<lambda>v m. m\<lparr>mew_amount := v\<rparr>)),
      (8, read_into (get_bytes w) (\<lambda>v m. m\<lparr>mew_proof := mew_proof m @ [v]\<rparr>))]"

definition MsgExecuteWithdrawal_decode :: "wire \<Rightarrow> Reader \<Rightarrow> nat option \<Rightarrow> (error + MsgExecuteWithdrawal) option" where
  "MsgExecuteWithdrawal_decode w input len =
     decode_with w (MsgExecuteWithdrawal_arms w)
       \<lparr>mew_submitter = '''', mew_rollupId = '''', mew_batchIndex = 0, mew_withdrawalIndex = 0, mew_recipient = '''', mew_denom = '''', mew_amount = 0, mew_proof = []\<rparr> input len"

definition MsgExecuteWithdrawal_fromPartial ::
  "string option \<Rightarrow> string option \<Rightarrow> int option \<Rightarrow> int option \<Rightarrow> string option \<Rightarrow> string option \<Rightarrow> int option \<Rightarrow> bytes list option \<Rightarrow> MsgExecuteWithdrawal" where
  "MsgExecuteWithdrawal_fromPartial submitter rollupId batchIndex withdrawalIndex recipient denom amount proof =
     \<lparr>mew_submitter = or_default submitter '''',
      mew_rollupId = or_default rollupId '''',
      mew_batchIndex = or_default batchIndex 0,
      mew_withdrawalIndex = or_default withdrawalIndex 0,
      mew_recipient = or_default recipient '''',
      mew_denom = or_default denom '''',
      mew_amount = or_default amount 0,
      mew_proof = or_default proof []\<rparr>"

subsection \<open>Round trips\<close>

text \<open>The messages whose integers fit their wire type and whose texts and byte strings have a length the format can state.\<close>

definition MsgCreateRollup_fits :: "MsgCreateRollup \<Rightarrow> bool" where
  "MsgCreateRollup_fits m \<longleftrightarrow>
     fits_len (mcr_creator m) \<and>
     fits_len (mcr_rollupId m) \<and>
     fits_len (mcr_profile m) \<and>
     fits_len (mcr_vmType m) \<and>
     fits_i64 (mcr_stakeAmount m)"

definition MsgCreateRollupResponse_fits :: "MsgCreateRollupResponse \<Rightarrow> bool" where
  "MsgCreateRollupResponse_fits m \<longleftrightarrow>
     fits_len (mcx_rollupId m)"

definition MsgSubmitBatch_fits :: "MsgSubmitBatch \<Rightarrow> bool" where
  "MsgSubmitBatch_fits m \<longleftrightarrow>
     fits_len (msb_sequencer m) \<and>
     fits_len (msb_rollupId m) \<and>
     fits_u64 (msb_batchIndex m) \<and>
     fits_len (msb_stateRoot m) \<and>
     fits_len (msb_prevStateRoot m) \<and>
     fits_u64 (msb_txCount m) \<and>
     fits_len (msb_dataHash m) \<and>
     fits_len (msb_proof m) \<and>
     fits_len (msb_withdrawalsRoot m) \<and>
     fits_len (msb_anchorSignature m) \<and>
     fits_len (msb_validatorSetHash m)"

definition MsgChallengeBatch_fits :: "MsgChallengeBatch \<Rightarrow> bool" where
  "MsgChallengeBatch_fits m \<longleftrightarrow>
     fits_len (mcb_challenger m) \<and>
     fits_len (mcb_rollupId m) \<and>
     fits_u64 (mcb_batchIndex m) \<and>
     fits_len (mcb_proof m)"

definition MsgResolveChallenge_fits :: "MsgResolveChallenge \<Rightarrow> bool" where
  "MsgResolveChallenge_fits m \<longleftrightarrow>
     fits_len (mrc_resolver m) \<and>
     fits_len (mrc_rollupId m) \<and>
     fits_u64 (mrc_batchIndex m)"

definition MsgPauseRollup_fits :: "MsgPauseRollup \<Rightarrow> bool" where
  "MsgPauseRollup_fits m \<longleftrightarrow>
     fits_len (mpr_creator m) \<and>
     fits_len (mpr_rollupId m) \<and>
     fits_len (mpr_reason m)"

definition MsgResumeRollup_fits :: "MsgResumeRollup \<Rightarrow> bool" where
  "MsgResumeRollup_fits m \<longleftrightarrow>
     fits_len (mrr_creator m) \<and>
     fits_len (mrr_rollupId m)"

definition MsgStopRollup_fits :: "MsgStopRollup \<Rightarrow> bool" where
  "MsgStopRollup_fits m \<longleftrightarrow>
     fits_len (msr_creator m) \<and>
     fits_len (msr_rollupId m)"

definition MsgExecuteWithdrawal_fits :: "MsgExecuteWithdrawal \<Rightarrow> bool" where
  "MsgExecuteWithdrawal_fits m \<longleftrightarrow>
     fits_len (mew_submitter m) \<and>
     fits_len (mew_rollupId m) \<and>
     fits_u64 (mew_batchIndex m) \<and>
     fits_u64 (mew_withdrawalIndex m) \<and>
     fits_len (mew_recipient m) \<and>
     fits_len (mew_denom m) \<and>
     fits_i64 (mew_amount m) \<and>
     list_all fits_len (mew_proof m)"

context wire_format
begin

lemma MsgCreateRollup_leads:
  "MsgCreateRollup_fits m \<Longrightarrow>
   leads w (MsgCreateRollup_arms w) (MsgCreateRollup_encode w m [])
     \<lparr>mcr_creator = '''', mcr_rollupId = '''', mcr_profile = '''', mcr_vmType = '''', mcr_stakeAmount = 0\<rparr> m"
  unfolding MsgCreateRollup_encode_def Let_def MsgCreateRollup_fits_def
  by (rule leads_to, (rule leads_write_if leads_Nil)+) (simp add: MsgCreateRollup_arms_def wire_codes set_if_eq)+

lemma MsgCreateRollupResponse_leads:
  "MsgCreateRollupResponse_fits m \<Longrightarrow>
   leads w (MsgCreateRollupResponse_arms w) (MsgCreateRollupResponse_encode w m [])
     \<lparr>mcx_rollupId = ''''\<rparr> m"
  unfolding MsgCreateRollupResponse_encode_def Let_def MsgCreateRollupResponse_fits_def
  by (rule leads_to, (rule leads_write_if leads_Nil)+) (simp add: MsgCreateRollupResponse_arms_def wire_codes set_if_eq)+

lemma MsgSubmitBatch_leads:
  "MsgSubmitBatch_fits m \<Longrightarrow>
   leads w (MsgSubmitBatch_arms w) (MsgSubmitBatch_encode w m [])
     \<lparr>msb_sequencer = '''', msb_rollupId = '''', msb_batchIndex = 0, msb_stateRoot = [], msb_prevStateRoot = [], msb_txCount = 0, msb_dataHash = [], msb_proof = [], msb_withdrawalsRoot = [], msb_anchorSignature = [], msb_validatorSetHash = []\<rparr> m"
  unfolding MsgSubmitBatch_encode_def Let_def MsgSubmitBatch_fits_def
  by (rule leads_to, (rule leads_write_if leads_Nil)+) (simp add: MsgSubmitBatch_arms_def wire_codes set_if_eq)+

lemma MsgChallengeBatch_leads:
  "MsgChallengeBatch_fits m \<Longrightarrow>
   leads w (MsgChallengeBatch_arms w) (MsgChallengeBatch_encode w m [])
     \<lparr>mcb_challenger = '''', mcb_rollupId = '''', mcb_batchIndex = 0, mcb_proof = []\<rparr> m"
  unfolding MsgChallengeBatch_encode_def Let_def MsgChallengeBatch_fits_def
  by (rule leads_to, (rule leads_write_if leads_Nil)+) (simp add: MsgChallengeBatch_arms_def wire_codes set_if_eq)+

lemma MsgResolveChallenge_leads:
  "MsgResolveChallenge_fits m \<Longrightarrow>
   leads w (MsgResolveChallenge_arms w) (MsgResolveChallenge_encode w m [])
     \<lparr>mrc_resolver = '''', mrc_rollupId = '''', mrc_batchIndex = 0, mrc_fraudUpheld = False\<rparr> m"
  unfolding MsgResolveChallenge_encode_def Let_def MsgResolveChallenge_fits_def
  by (rule leads_to, (rule leads_write_if leads_Nil)+) (simp add: MsgResolveChallenge_arms_def wire_codes set_if_eq)+

lemma MsgPauseRollup_leads:
  "MsgPauseRollup_fits m \<Longrightarrow>
   leads w (MsgPauseRollup_arms w) (MsgPauseRollup_encode w m [])
     \<lparr>mpr_creator = '''', mpr_rollupId = '''', mpr_reason = ''''\<rparr> m"
  unfolding MsgPauseRollup_encode_def Let_def MsgPauseRollup_fits_def
  by (rule leads_to, (rule leads_write_if leads_Nil)+) (simp add: MsgPauseRollup_arms_def wire_codes set_if_eq)+

lemma MsgResumeRollup_leads:
  "MsgResumeRollup_fits m \<Longrightarrow>
   leads w (MsgResumeRollup_arms w) (MsgResumeRollup_encode w m [])
     \<lparr>mrr_creator = '''', mrr_rollupId = ''''\<rparr> m"
  unfolding MsgResumeRollup_encode_def Let_def MsgResumeRollup_fits_def
  by (rule leads_to, (rule leads_write_if leads_Nil)+) (simp add: MsgResumeRollup_arms_def wire_codes set_if_eq)+

lemma MsgStopRollup_leads:
  "MsgStopRollup_fits m \<Longrightarrow>
   leads w (MsgStopRollup_arms w) (MsgStopRollup_encode w m [])
     \<lparr>msr_creator = '''', msr_rollupId = ''''\<rparr> m"
  unfolding MsgStopRollup_encode_def Let_def MsgStopRollup_fits_def
  by (rule leads_to, (rule leads_write_if leads_Nil)+) (simp add: MsgStopRollup_arms_def wire_codes set_if_eq)+

lemma push_all:
  "foldl (\<lambda>m v. m\<lparr>mew_proof := mew_proof m @ [v]\<rparr>) m vs = m\<lparr>mew_proof := mew_proof m @ vs\<rparr>"
  by (induction vs arbitrary: m) simp_all

lemma MsgExecuteWithdrawal_leads:
  assumes "MsgExecuteWithdrawal_fits m"
  shows "leads w (MsgExecuteWithdrawal_arms w) (MsgExecuteWithdrawal_encode w m [])
     \<lparr>mew_submitter = '''', mew_rollupId = '''', mew_batchIndex = 0, mew_withdrawalIndex = 0, mew_recipient = '''', mew_denom = '''', mew_amount = 0, mew_proof = []\<rparr> m"
proof -
  have "list_all (codes (put_bytes w) (get_bytes w)) (mew_proof m)"
    using assms by (auto simp: MsgExecuteWithdrawal_fits_def list_all_iff bytes_codes)
  with assms show ?thesis
    unfolding MsgExecuteWithdrawal_encode_def Let_def MsgExecuteWithdrawal_fits_def
    by - (rule leads_to, rule leads_write_all, (rule leads_write_if leads_Nil)+,
      (simp add: MsgExecuteWithdrawal_arms_def wire_codes set_if_eq push_all)+)
qed

lemmas codec_leads = MsgCreateRollup_leads MsgCreateRollupResponse_leads MsgSubmitBatch_leads MsgChallengeBatch_leads MsgResolveChallenge_leads MsgPauseRollup_leads MsgResumeRollup_leads MsgStopRollup_leads MsgExecuteWithdrawal_leads

lemmas decode_defs = MsgCreateRollup_decode_def MsgCreateRollupResponse_decode_def MsgSubmitBatch_decode_def MsgChallengeBatch_decode_def MsgResolveChallenge_decode_def MsgPauseRollup_decode_def MsgResumeRollup_decode_def MsgStopRollup_decode_def MsgExecuteWithdrawal_decode_def

lemmas arms_defs = MsgCreateRollup_arms_def MsgCreateRollupResponse_arms_def MsgSubmitBatch_arms_def MsgChallengeBatch_arms_def MsgResolveChallenge_arms_def MsgPauseRollup_arms_def MsgResumeRollup_arms_def MsgStopRollup_arms_def MsgExecuteWithdrawal_arms_def

end
end
