(* ===== verification/Messages.thy ===== *)
theory Messages
  imports Codecs Rules
begin

text \<open>
  The message builders of \<open>packages/ts/src/tx/messages.ts\<close> and the registry of
  \<open>packages/ts/src/tx/registry.ts\<close>. A builder turns an input into an \<open>EncodeObject\<close>: a type URL and
  the message value; it throws when an amount is no integer or a byte field is no hex. The registry is
  the table \<open>RDK_TYPES\<close> from type URLs to codecs; the default types of the SDK it is merged with are not
  of this repository.

  Shown: through the table every message that fits the wire types is read back as it was written, every
  decoder returns on every input, fields a decoder does not know are stepped over, and a withdrawal that
  was proved in a withdrawals tree survives the trip into a transaction and back with a proof that still
  verifies.
\<close>

subsection \<open>Values and the registry\<close>

datatype rdk_value =
    CreateRollup MsgCreateRollup
  | SubmitBatch MsgSubmitBatch
  | ChallengeBatch MsgChallengeBatch
  | ResolveChallenge MsgResolveChallenge
  | PauseRollup MsgPauseRollup
  | ResumeRollup MsgResumeRollup
  | StopRollup MsgStopRollup
  | ExecuteWithdrawal MsgExecuteWithdrawal

record EncodeObject =
  eo_typeUrl :: string
  eo_value :: rdk_value

fun rdk_encode :: "wire \<Rightarrow> rdk_value \<Rightarrow> bytes" where
  "rdk_encode w (CreateRollup m) = MsgCreateRollup_encode w m []"
| "rdk_encode w (SubmitBatch m) = MsgSubmitBatch_encode w m []"
| "rdk_encode w (ChallengeBatch m) = MsgChallengeBatch_encode w m []"
| "rdk_encode w (ResolveChallenge m) = MsgResolveChallenge_encode w m []"
| "rdk_encode w (PauseRollup m) = MsgPauseRollup_encode w m []"
| "rdk_encode w (ResumeRollup m) = MsgResumeRollup_encode w m []"
| "rdk_encode w (StopRollup m) = MsgStopRollup_encode w m []"
| "rdk_encode w (ExecuteWithdrawal m) = MsgExecuteWithdrawal_encode w m []"

definition as_value :: "('m \<Rightarrow> rdk_value) \<Rightarrow> (error + 'm) option \<Rightarrow> (error + rdk_value) option" where
  "as_value f res = map_option (\<lambda>x. case x of Inl e \<Rightarrow> Inl e | Inr m \<Rightarrow> Inr (f m)) res"

type_synonym rdk_decoder = "Reader \<Rightarrow> nat option \<Rightarrow> (error + rdk_value) option"

definition RDK_TYPES :: "wire \<Rightarrow> (string \<times> rdk_decoder) list" where
  "RDK_TYPES w =
     [(MsgCreateRollup_typeUrl, \<lambda>r n. as_value CreateRollup (MsgCreateRollup_decode w r n)),
      (MsgSubmitBatch_typeUrl, \<lambda>r n. as_value SubmitBatch (MsgSubmitBatch_decode w r n)),
      (MsgChallengeBatch_typeUrl, \<lambda>r n. as_value ChallengeBatch (MsgChallengeBatch_decode w r n)),
      (MsgResolveChallenge_typeUrl, \<lambda>r n. as_value ResolveChallenge (MsgResolveChallenge_decode w r n)),
      (MsgPauseRollup_typeUrl, \<lambda>r n. as_value PauseRollup (MsgPauseRollup_decode w r n)),
      (MsgResumeRollup_typeUrl, \<lambda>r n. as_value ResumeRollup (MsgResumeRollup_decode w r n)),
      (MsgStopRollup_typeUrl, \<lambda>r n. as_value StopRollup (MsgStopRollup_decode w r n)),
      (MsgExecuteWithdrawal_typeUrl, \<lambda>r n. as_value ExecuteWithdrawal (MsgExecuteWithdrawal_decode w r n))]"

subsection \<open>Inputs\<close>

record CreateRollupInput =
  ci_creator :: string
  ci_rollupId :: string
  ci_profile :: string
  ci_vmType :: string
  ci_stakeAmount :: numeric

record SubmitBatchInput =
  si_sequencer :: string
  si_rollupId :: string
  si_batchIndex :: numeric
  si_stateRoot :: bytes_like
  si_prevStateRoot :: "bytes_like option"
  si_txCount :: numeric
  si_dataHash :: "bytes_like option"
  si_proof :: "bytes_like option"
  si_withdrawalsRoot :: "bytes_like option"
  si_anchorSignature :: "bytes_like option"
  si_validatorSetHash :: "bytes_like option"

record ChallengeBatchInput =
  bi_challenger :: string
  bi_rollupId :: string
  bi_batchIndex :: numeric
  bi_proof :: bytes_like

record ResolveChallengeInput =
  vi_resolver :: string
  vi_rollupId :: string
  vi_batchIndex :: numeric
  vi_fraudUpheld :: bool

record PauseRollupInput =
  pi_creator :: string
  pi_rollupId :: string
  pi_reason :: "string option"

record RollupRefInput =
  ri_creator :: string
  ri_rollupId :: string

subsection \<open>Builders\<close>

definition big :: "numeric \<Rightarrow> error + int" where
  "big value = js_BigInt value"

definition EMPTY :: bytes where
  "EMPTY = []"

text \<open>\<open>value ? toBytes(value) : EMPTY\<close>: absent and the empty string are falsy, every array is truthy.\<close>

definition bytes_or_empty :: "bytes_like option \<Rightarrow> error + bytes" where
  "bytes_or_empty b = (if b = None \<or> b = Some (Hex '''') then Inr EMPTY else toBytes (the b))"

definition createRollupMsg :: "CreateRollupInput \<Rightarrow> error + EncodeObject" where
  "createRollupMsg input =
     res_bind (big (ci_stakeAmount input)) (\<lambda>stake.
       Inr \<lparr>eo_typeUrl = MsgCreateRollup_typeUrl,
            eo_value = CreateRollup (MsgCreateRollup_fromPartial (Some (ci_creator input)) (Some (ci_rollupId input))
              (Some (ci_profile input)) (Some (vmTypeWireValue (ci_vmType input))) (Some stake))\<rparr>)"

definition submitBatchMsg :: "SubmitBatchInput \<Rightarrow> error + EncodeObject" where
  "submitBatchMsg input =
     res_bind (big (si_batchIndex input)) (\<lambda>batchIndex.
     res_bind (toBytes (si_stateRoot input)) (\<lambda>stateRoot.
     res_bind (bytes_or_empty (si_prevStateRoot input)) (\<lambda>prevStateRoot.
     res_bind (big (si_txCount input)) (\<lambda>txCount.
     res_bind (bytes_or_empty (si_dataHash input)) (\<lambda>dataHash.
     res_bind (bytes_or_empty (si_proof input)) (\<lambda>proof.
     res_bind (bytes_or_empty (si_withdrawalsRoot input)) (\<lambda>withdrawalsRoot.
     res_bind (bytes_or_empty (si_anchorSignature input)) (\<lambda>anchorSignature.
     res_bind (bytes_or_empty (si_validatorSetHash input)) (\<lambda>validatorSetHash.
       Inr \<lparr>eo_typeUrl = MsgSubmitBatch_typeUrl,
            eo_value = SubmitBatch (MsgSubmitBatch_fromPartial (Some (si_sequencer input)) (Some (si_rollupId input))
              (Some batchIndex) (Some stateRoot) (Some prevStateRoot) (Some txCount) (Some dataHash) (Some proof)
              (Some withdrawalsRoot) (Some anchorSignature) (Some validatorSetHash))\<rparr>)))))))))"

definition challengeBatchMsg :: "ChallengeBatchInput \<Rightarrow> error + EncodeObject" where
  "challengeBatchMsg input =
     res_bind (big (bi_batchIndex input)) (\<lambda>batchIndex.
     res_bind (toBytes (bi_proof input)) (\<lambda>proof.
       Inr \<lparr>eo_typeUrl = MsgChallengeBatch_typeUrl,
            eo_value = ChallengeBatch (MsgChallengeBatch_fromPartial (Some (bi_challenger input))
              (Some (bi_rollupId input)) (Some batchIndex) (Some proof))\<rparr>))"

definition resolveChallengeMsg :: "ResolveChallengeInput \<Rightarrow> error + EncodeObject" where
  "resolveChallengeMsg input =
     res_bind (big (vi_batchIndex input)) (\<lambda>batchIndex.
       Inr \<lparr>eo_typeUrl = MsgResolveChallenge_typeUrl,
            eo_value = ResolveChallenge (MsgResolveChallenge_fromPartial (Some (vi_resolver input))
              (Some (vi_rollupId input)) (Some batchIndex) (Some (vi_fraudUpheld input)))\<rparr>)"

definition pauseRollupMsg :: "PauseRollupInput \<Rightarrow> error + EncodeObject" where
  "pauseRollupMsg input =
     Inr \<lparr>eo_typeUrl = MsgPauseRollup_typeUrl,
          eo_value = PauseRollup (MsgPauseRollup_fromPartial (Some (pi_creator input)) (Some (pi_rollupId input))
            (Some (or_default (pi_reason input) '''')))\<rparr>"

definition resumeRollupMsg :: "RollupRefInput \<Rightarrow> error + EncodeObject" where
  "resumeRollupMsg input =
     Inr \<lparr>eo_typeUrl = MsgResumeRollup_typeUrl,
          eo_value = ResumeRollup (MsgResumeRollup_fromPartial (Some (ri_creator input)) (Some (ri_rollupId input)))\<rparr>"

definition stopRollupMsg :: "RollupRefInput \<Rightarrow> error + EncodeObject" where
  "stopRollupMsg input =
     Inr \<lparr>eo_typeUrl = MsgStopRollup_typeUrl,
          eo_value = StopRollup (MsgStopRollup_fromPartial (Some (ri_creator input)) (Some (ri_rollupId input)))\<rparr>"

definition executeWithdrawalMsg :: "ExecuteWithdrawalInput \<Rightarrow> error + EncodeObject" where
  "executeWithdrawalMsg input =
     res_bind (big (ew_batchIndex input)) (\<lambda>batchIndex.
     res_bind (big (ew_withdrawalIndex input)) (\<lambda>withdrawalIndex.
     res_bind (big (ew_amount input)) (\<lambda>amount.
     res_bind (res_mapM toBytes (or_default (ew_proof input) [])) (\<lambda>proof.
       Inr \<lparr>eo_typeUrl = MsgExecuteWithdrawal_typeUrl,
            eo_value = ExecuteWithdrawal (MsgExecuteWithdrawal_fromPartial (Some (ew_submitter input))
              (Some (ew_rollupId input)) (Some batchIndex) (Some withdrawalIndex) (Some (ew_recipient input))
              (Some (ew_denom input)) (Some amount) (Some proof))\<rparr>))))"

subsection \<open>Reading back\<close>

fun rdk_typeUrl :: "rdk_value \<Rightarrow> string" where
  "rdk_typeUrl (CreateRollup m) = MsgCreateRollup_typeUrl"
| "rdk_typeUrl (SubmitBatch m) = MsgSubmitBatch_typeUrl"
| "rdk_typeUrl (ChallengeBatch m) = MsgChallengeBatch_typeUrl"
| "rdk_typeUrl (ResolveChallenge m) = MsgResolveChallenge_typeUrl"
| "rdk_typeUrl (PauseRollup m) = MsgPauseRollup_typeUrl"
| "rdk_typeUrl (ResumeRollup m) = MsgResumeRollup_typeUrl"
| "rdk_typeUrl (StopRollup m) = MsgStopRollup_typeUrl"
| "rdk_typeUrl (ExecuteWithdrawal m) = MsgExecuteWithdrawal_typeUrl"

fun rdk_fits :: "rdk_value \<Rightarrow> bool" where
  "rdk_fits (CreateRollup m) = MsgCreateRollup_fits m"
| "rdk_fits (SubmitBatch m) = MsgSubmitBatch_fits m"
| "rdk_fits (ChallengeBatch m) = MsgChallengeBatch_fits m"
| "rdk_fits (ResolveChallenge m) = MsgResolveChallenge_fits m"
| "rdk_fits (PauseRollup m) = MsgPauseRollup_fits m"
| "rdk_fits (ResumeRollup m) = MsgResumeRollup_fits m"
| "rdk_fits (StopRollup m) = MsgStopRollup_fits m"
| "rdk_fits (ExecuteWithdrawal m) = MsgExecuteWithdrawal_fits m"

text \<open>A field of a number above those the messages have, of a kind \<open>skipType\<close> steps over.\<close>

definition unknown_field :: "wire \<Rightarrow> bytes \<Rightarrow> bool" where
  "unknown_field w u \<longleftrightarrow>
     (\<exists>tag c. tag < 2 ^ 32 \<and> 11 < tag div 8 \<and> skips w (tag mod 8) c \<and> u = put_uint32 w [] tag @ c)"

lemmas typeUrl_defs = TYPE_URL_PREFIX_def MsgCreateRollup_typeUrl_def MsgSubmitBatch_typeUrl_def
  MsgChallengeBatch_typeUrl_def MsgResolveChallenge_typeUrl_def MsgPauseRollup_typeUrl_def
  MsgResumeRollup_typeUrl_def MsgStopRollup_typeUrl_def MsgExecuteWithdrawal_typeUrl_def

lemma map_of_above: "list_all (\<lambda>(k, _). k \<le> n) arms \<Longrightarrow> n < (k :: nat) \<Longrightarrow> map_of arms k = None"
  by (auto simp: map_of_eq_None_iff list_all_iff)

context wire_format
begin

lemma leads_unknowns:
  assumes "list_all (\<lambda>(k, _). k \<le> 11) arms" "list_all (unknown_field w) us"
  shows "leads w arms (concat us) m m"
  using assms(2)
proof (induction us)
  case Nil
  then show ?case by (simp add: leads_Nil)
next
  case (Cons u us)
  then obtain tag c where u: "tag < 2 ^ 32" "11 < tag div 8" "skips w (tag mod 8) c" "u = put_uint32 w [] tag @ c"
    by (auto simp: unknown_field_def)
  have "leads w arms u m m"
    unfolding u(4) using leads_unknown [OF u(1) map_of_above [OF assms(1) u(2)] u(3)] .
  with Cons show ?case by (auto intro: leads_append)
qed

lemma decode_with_unknowns:
  assumes "leads w arms c m0 m" "list_all (\<lambda>(k, _). k \<le> 11) arms" "list_all (unknown_field w) us"
  shows "decode_with w arms m0 (newReader (c @ concat us)) None = Some (Inr m)"
  by (rule leads_whole [OF leads_append [OF assms(1) leads_unknowns [OF assms(2,3)]]])

lemma arms_small:
  "list_all (\<lambda>(k, _). k \<le> 11) (MsgCreateRollup_arms w)" "list_all (\<lambda>(k, _). k \<le> 11) (MsgSubmitBatch_arms w)"
  "list_all (\<lambda>(k, _). k \<le> 11) (MsgChallengeBatch_arms w)" "list_all (\<lambda>(k, _). k \<le> 11) (MsgResolveChallenge_arms w)"
  "list_all (\<lambda>(k, _). k \<le> 11) (MsgPauseRollup_arms w)" "list_all (\<lambda>(k, _). k \<le> 11) (MsgResumeRollup_arms w)"
  "list_all (\<lambda>(k, _). k \<le> 11) (MsgStopRollup_arms w)" "list_all (\<lambda>(k, _). k \<le> 11) (MsgExecuteWithdrawal_arms w)"
  by (simp_all add: arms_defs)

lemma registry_reads:
  assumes "rdk_fits v" "list_all (unknown_field w) us"
  shows "\<exists>dec. map_of (RDK_TYPES w) (rdk_typeUrl v) = Some dec \<and>
    dec (newReader (rdk_encode w v @ concat us)) None = Some (Inr v)"
  using assms(1)
  by (cases v) (simp_all add: RDK_TYPES_def typeUrl_defs as_value_def decode_defs
      decode_with_unknowns [OF MsgCreateRollup_leads arms_small(1) assms(2)]
      decode_with_unknowns [OF MsgSubmitBatch_leads arms_small(2) assms(2)]
      decode_with_unknowns [OF MsgChallengeBatch_leads arms_small(3) assms(2)]
      decode_with_unknowns [OF MsgResolveChallenge_leads arms_small(4) assms(2)]
      decode_with_unknowns [OF MsgPauseRollup_leads arms_small(5) assms(2)]
      decode_with_unknowns [OF MsgResumeRollup_leads arms_small(6) assms(2)]
      decode_with_unknowns [OF MsgStopRollup_leads arms_small(7) assms(2)]
      decode_with_unknowns [OF MsgExecuteWithdrawal_leads arms_small(8) assms(2)])

lemma registry_returns:
  assumes "(url, dec) \<in> set (RDK_TYPES w)"
  shows "\<exists>res. dec r len = Some res"
proof -
  have a: "\<exists>res. decode_with w arms m0 r len = Some res"
    if "list_all (\<lambda>(k, arm). \<forall>m. moves (\<lambda>r. arm r m)) arms" for arms :: "(nat \<times> 'm arm) list" and m0
    by (rule decode_ends) (use that in \<open>auto simp: list_all_iff\<close>)
  have "\<exists>res. MsgCreateRollup_decode w r len = Some res" "\<exists>res. MsgSubmitBatch_decode w r len = Some res"
    "\<exists>res. MsgChallengeBatch_decode w r len = Some res" "\<exists>res. MsgResolveChallenge_decode w r len = Some res"
    "\<exists>res. MsgPauseRollup_decode w r len = Some res" "\<exists>res. MsgResumeRollup_decode w r len = Some res"
    "\<exists>res. MsgStopRollup_decode w r len = Some res" "\<exists>res. MsgExecuteWithdrawal_decode w r len = Some res"
    unfolding decode_defs
    by (rule a, simp add: arms_defs read_into_moves wire_moves)+
  with assms show ?thesis by (auto simp: RDK_TYPES_def as_value_def)
qed

end

subsection \<open>Properties\<close>

text \<open>
  C10: Messages survive the wire. For every wire format that keeps the protobuf laws and every message
  whose fields fit their wire types, the type URL of the message is registered, and the decoder it is
  registered with reads the encoded message back as it was, also when fields the kit does not know
  follow it.
\<close>

theorem registry_round_trip:
  assumes "wire_format w" "rdk_fits v" "list_all (unknown_field w) us"
  shows "\<exists>dec. map_of (RDK_TYPES w) (rdk_typeUrl v) = Some dec \<and>
    dec (newReader (rdk_encode w v @ concat us)) None = Some (Inr v)"
  by (rule wire_format.registry_reads [OF assms])

definition sample_challenge :: MsgChallengeBatch where
  "sample_challenge = \<lparr>mcb_challenger = ''qor1amy'', mcb_rollupId = ''r1'', mcb_batchIndex = 300,
     mcb_proof = replicate 64 7\<rparr>"

lemma registry_round_trip_witness:
  "\<exists>dec. map_of (RDK_TYPES proto_wire) MsgChallengeBatch_typeUrl = Some dec \<and>
     dec (newReader (rdk_encode proto_wire (ChallengeBatch sample_challenge) @ varint 98 @ blob [1, 2])) None =
     Some (Inr (ChallengeBatch sample_challenge))"
proof -
  have "skips proto_wire (98 mod 8) (blob [1, 2])"
    using pw.skip_bytes [of "[1, 2]"] by (simp add: proto_wire_def fits_len_def)
  then have "unknown_field proto_wire (varint 98 @ blob [1, 2])"
    unfolding unknown_field_def by (intro exI [of _ 98] exI [of _ "blob [1, 2]"]) (simp add: proto_wire_def)
  then show ?thesis
    using registry_round_trip [OF pw.wire_format_axioms, of "ChallengeBatch sample_challenge" "[varint 98 @ blob [1, 2]]"]
    by (simp add: sample_challenge_def MsgChallengeBatch_fits_def fits_len_def fits_u64_def)
qed

text \<open>
  C35: Decoding ends. On every buffer, at every position and with every length given, each registered
  decoder returns a message or an error; no input makes its loop run on.
\<close>

theorem registered_decoders_return:
  assumes "wire_format w" "(url, dec) \<in> set (RDK_TYPES w)"
  shows "\<exists>res. dec r len = Some res"
  by (rule wire_format.registry_returns [OF assms])

lemma registered_decoders_return_witness:
  "\<exists>res. as_value StopRollup (MsgStopRollup_decode proto_wire (newReader [10, 200, 1]) None) = Some res"
  using registered_decoders_return [OF pw.wire_format_axioms, of MsgStopRollup_typeUrl
      "\<lambda>r n. as_value StopRollup (MsgStopRollup_decode proto_wire r n)"]
  by (simp add: RDK_TYPES_def)

text \<open>
  C9: A proved withdrawal survives the transaction. The message that \<open>executeWithdrawalMsg\<close> makes of the
  input assembled from a withdrawals tree is encoded and decoded, by whatever wire format keeps the
  laws, into a message with the same parties, amount and batch, whose proof verifies against the tree's
  root at its index.
\<close>

theorem withdrawal_survives_the_transaction:
  assumes "wire_format w" "\<And>d. length (shake d) = 32" "withdrawalsTree shake ws opts = Inr t"
    and "i < length ws" "length ws \<le> 2 ^ 64" "js_BigInt (wd_amount (ws ! i)) = Inr a" "fits_i64 a"
    and "fits_u64 b" "fits_len submitter" "fits_len (wo_rollupId opts)"
    and "fits_len (wd_recipient (ws ! i))" "fits_len (wd_denom (ws ! i))"
  shows "\<exists>p leaf obj m. wt_proof t (int i) = Inr p \<and> tree_leaf shake opts (int i, ws ! i) = Inr leaf \<and>
    executeWithdrawalMsg (buildExecuteWithdrawalInput submitter (wo_rollupId opts) (NBig b)
      (wd_recipient (ws ! i)) (wd_denom (ws ! i)) (wd_amount (ws ! i)) p) = Inr obj \<and>
    map_option (\<lambda>dec. dec (newReader (rdk_encode w (eo_value obj))) None) (map_of (RDK_TYPES w) (eo_typeUrl obj)) =
      Some (Some (Inr (ExecuteWithdrawal m))) \<and>
    (mew_submitter m, mew_rollupId m, mew_batchIndex m, mew_recipient m, mew_denom m, mew_amount m) =
      (submitter, wo_rollupId opts, b, wd_recipient (ws ! i), wd_denom (ws ! i), a) \<and>
    verifyBinaryMerkleProof shake leaf (mew_withdrawalIndex m) (mew_proof m) (wt_root t) CHAIN_TREE"
proof -
  obtain p where p: "wt_proof t (int i) = Inr p" "wp_withdrawalIndex p = int i"
    "verifyBinaryMerkleProof shake (wt_leaves t ! i) (int i) (wp_proof p) (wt_root t) CHAIN_TREE"
    using wt_proof_opens [OF assms(3), of "int i"] assms(4) by auto
  let ?m = "\<lparr>mew_submitter = submitter, mew_rollupId = wo_rollupId opts, mew_batchIndex = b,
    mew_withdrawalIndex = int i, mew_recipient = wd_recipient (ws ! i), mew_denom = wd_denom (ws ! i),
    mew_amount = a, mew_proof = wp_proof p\<rparr>"
  let ?obj = "\<lparr>eo_typeUrl = MsgExecuteWithdrawal_typeUrl, eo_value = ExecuteWithdrawal ?m\<rparr>"
  have "res_mapM toBytes (map Raw (wp_proof p)) = Inr (wp_proof p)"
    by (simp add: res_mapM_eq_Inr)
  then have obj: "executeWithdrawalMsg (buildExecuteWithdrawalInput submitter (wo_rollupId opts) (NBig b)
      (wd_recipient (ws ! i)) (wd_denom (ws ! i)) (wd_amount (ws ! i)) p) = Inr ?obj"
    using assms(6) p(2)
    by (simp add: executeWithdrawalMsg_def buildExecuteWithdrawalInput_def big_def or_default_def
        MsgExecuteWithdrawal_fromPartial_def)
  have "list_all fits_len (wp_proof p)"
    using wt_proof_sizes(1) [OF assms(2,3) p(1)] by (simp add: list_all_iff fits_len_def)
  then have "MsgExecuteWithdrawal_fits ?m"
    using assms(4,5,7-) by (simp add: MsgExecuteWithdrawal_fits_def fits_u64_def)
  with wire_format.registry_reads [OF assms(1), of "ExecuteWithdrawal ?m" "[]"]
  have "map_option (\<lambda>dec. dec (newReader (rdk_encode w (eo_value ?obj))) None) (map_of (RDK_TYPES w) (eo_typeUrl ?obj)) =
      Some (Some (Inr (ExecuteWithdrawal ?m)))"
    by auto
  with p obj withdrawalsTree_eq_Inr(3) [OF assms(3,4)] show ?thesis
    by (intro exI [of _ p] exI [of _ "wt_leaves t ! i"] exI [of _ ?obj] exI [of _ ?m]) simp
qed

lemma withdrawal_survives_the_transaction_witness:
  "\<exists>t p obj m. withdrawalsTree toy_hash uqor_withdrawals sample_opts = Inr t \<and> wt_proof t 0 = Inr p \<and>
     executeWithdrawalMsg (buildExecuteWithdrawalInput ''amy'' ''r1'' (NBig 4) ''bob'' ''uqor'' (NBig 5) p) = Inr obj \<and>
     map_option (\<lambda>dec. dec (newReader (rdk_encode proto_wire (eo_value obj))) None)
       (map_of (RDK_TYPES proto_wire) (eo_typeUrl obj)) = Some (Some (Inr (ExecuteWithdrawal m))) \<and> mew_amount m = 5"
proof -
  have "\<exists>t. withdrawalsTree toy_hash uqor_withdrawals sample_opts = Inr t"
    by (simp add: withdrawalsTree_def uqor_withdrawals_def sample_opts_def tree_leaf_def
        withdrawalLeafV2_def leafV2_parts_def u64be_num_def)
  then obtain t where t: "withdrawalsTree toy_hash uqor_withdrawals sample_opts = Inr t" by blast
  have r: "wo_rollupId sample_opts = ''r1''" by (simp add: sample_opts_def)
  from withdrawal_survives_the_transaction [OF pw.wire_format_axioms length_toy_hash t, of 0 5 4 "''amy''"]
  obtain p leaf obj m where "wt_proof t (int 0) = Inr p"
    "executeWithdrawalMsg (buildExecuteWithdrawalInput ''amy'' ''r1'' (NBig 4) ''bob'' ''uqor'' (NBig 5) p) = Inr obj"
    "map_option (\<lambda>dec. dec (newReader (rdk_encode proto_wire (eo_value obj))) None)
       (map_of (RDK_TYPES proto_wire) (eo_typeUrl obj)) = Some (Some (Inr (ExecuteWithdrawal m)))" "mew_amount m = 5"
    unfolding r by (auto simp: uqor_withdrawals_def fits_i64_def fits_u64_def fits_len_def)
  with t show ?thesis by (intro exI conjI) simp_all
qed

end
