(* ===== verification/TxClient.thy ===== *)
theory TxClient
  imports Receipts Messages
begin

text \<open>
  The transaction client, \<open>packages/ts/src/tx/client.ts\<close>, and the recording backend of
  \<open>packages/ts/src/tx/mock.ts\<close>. What a call does to the outside is its first component: the list of
  transactions it hands over to be signed and broadcast, in order; the second is the value it returns or
  the error it throws. So \<open>throws before broadcasting\<close> is \<open>([], Inl e)\<close>.

  The signing client of \<open>@cosmjs/stargate\<close> is the record \<open>tx_client\<close>, whose optional members may be
  missing, and what the kit takes from packages is the record \<open>tx_env\<close>: \<open>signAndBroadcastHybrid\<close> and
  \<open>pqcSign\<close> of \<open>@qorechain/sdk\<close>, \<open>calculateFee\<close> and \<open>GasPrice.fromString\<close> of \<open>@cosmjs/stargate\<close>, the
  platform's \<open>fetch\<close> and the bech32 decoder. Opening the connection is the member \<open>tv_connectWithSigner\<close>.

  Shown: no operation broadcasts more than one transaction, and none does when its guard fails; a signed
  transaction carries the client's own address; an anchor signature is only ever attached by the creator
  of the rollup and is the one the receipts verify; a hybrid client never uses the classical path and
  always states a fee.
\<close>

subsection \<open>Responses and capabilities\<close>

record RawEvent =
  ev_type :: string
  ev_attributes :: "(string \<times> string) list"

record DeliverTxResponse =
  dr_code :: int
  dr_height :: int
  dr_txIndex :: int
  dr_transactionHash :: string
  dr_events :: "RawEvent list"
  dr_rawLog :: "string option"
  dr_msgResponses :: "(string \<times> bytes) list"
  dr_gasUsed :: int
  dr_gasWanted :: int

record StdFee =
  sf_amount :: "(string \<times> string) list"
  sf_gas :: string

datatype TxFee = FeeStd StdFee | FeeGas int | FeeAuto

record tx_client =
  uc_signAndBroadcast :: "string \<Rightarrow> EncodeObject list \<Rightarrow> TxFee \<Rightarrow> string \<Rightarrow> error + DeliverTxResponse"
  uc_simulate :: "(string \<Rightarrow> EncodeObject list \<Rightarrow> string option \<Rightarrow> error + int) option"
  uc_getChainId :: "(error + string) option"
  uc_getSequence :: "(string \<Rightarrow> error + (int \<times> int)) option"
  uc_broadcastTx :: bool

record PqcKeypair =
  pk_publicKey :: bytes
  pk_secretKey :: bytes

record OfflineSigner =
  os_signDirect :: bool
  os_getAccounts :: "error + string list"

type_synonym GasPrice = string

record HybridSigningOptions =
  ho_pqcKeypair :: "PqcKeypair option"
  ho_rest :: "string option"
  ho_signBytesVersion :: "string option"
  ho_includePqcPublicKey :: "bool option"

datatype gas_price_option = PriceText string | PriceValue GasPrice

record RdkTxClientConnectOptions = HybridSigningOptions +
  co_gasPrice :: "gas_price_option option"

record TxOptions =
  to_fee :: "TxFee option"
  to_memo :: "string option"

record HybridConfig =
  hc_signer :: OfflineSigner
  hc_pqcKeypair :: PqcKeypair
  hc_rest :: "string option"
  hc_signBytesVersion :: "string option"
  hc_includePqcPublicKey :: "bool option"

record RdkTxClient =
  tc_client :: tx_client
  tc_address :: string
  tc_hybrid :: "HybridConfig option"
  tc_gasPrice :: "GasPrice option"

text \<open>The argument of \<open>signAndBroadcastHybrid\<close> and its result.\<close>

record hybrid_tx =
  hx_config :: HybridConfig
  hx_messages :: "EncodeObject list"
  hx_fee :: StdFee
  hx_memo :: string
  hx_chainId :: string
  hx_accountNumber :: int
  hx_sequence :: int
  hx_signBytesVersion :: string

record hybrid_result =
  hr2_code :: int
  hr2_height :: "int option"
  hr2_transactionHash :: string
  hr2_events :: "RawEvent list option"
  hr2_rawLog :: "string option"
  hr2_msgResponses :: "(string \<times> bytes) list option"
  hr2_gasUsed :: "int option"
  hr2_gasWanted :: "int option"

record tx_env =
  tv_fetch :: fetch_like
  tv_bech32 :: bech32_decoder
  tv_signAndBroadcastHybrid :: "hybrid_tx \<Rightarrow> error + hybrid_result"
  tv_pqcSign :: "bytes \<Rightarrow> bytes \<Rightarrow> bytes"
  tv_calculateFee :: "int \<Rightarrow> GasPrice \<Rightarrow> StdFee"
  tv_gasPriceFromString :: "string \<Rightarrow> error + GasPrice"
  tv_connectWithSigner :: "string \<Rightarrow> OfflineSigner \<Rightarrow> GasPrice option \<Rightarrow> error + tx_client"

datatype broadcast =
    Classical string "EncodeObject list" TxFee string
  | Hybrid hybrid_tx

type_synonym tx_result = "broadcast list \<times> (error + DeliverTxResponse)"

definition refuse :: "error \<Rightarrow> tx_result" where
  "refuse e = ([], Inl e)"

text \<open>A step that reads or computes before anything is broadcast; it may throw.\<close>

definition before :: "error + 'a \<Rightarrow> ('a \<Rightarrow> tx_result) \<Rightarrow> tx_result" where
  "before m k = (case m of Inl e \<Rightarrow> refuse e | Inr x \<Rightarrow> k x)"

subsection \<open>Construction\<close>

definition asDirectSigner :: "OfflineSigner \<Rightarrow> error + OfflineSigner" where
  "asDirectSigner signer =
     (if \<not> os_signDirect signer
      then Inl (JsError (''hybrid (post-quantum) signing requires an OfflineDirectSigner (SIGN_MODE_DIRECT); '' @
             ''the signer provided has no signDirect - amino-only signers cannot carry the '' @
             ''PQC signature extension. Use directSignerFromPrivateKey from @qorechain/sdk.''))
      else Inr signer)"

definition hybridConfigFrom ::
  "OfflineSigner \<Rightarrow> 'a HybridSigningOptions_scheme \<Rightarrow> error + HybridConfig option" where
  "hybridConfigFrom signer options =
     (case ho_pqcKeypair options of
        None \<Rightarrow> Inr None
      | Some kp \<Rightarrow> res_bind (asDirectSigner signer) (\<lambda>s.
          Inr (Some \<lparr>hc_signer = s, hc_pqcKeypair = kp, hc_rest = ho_rest options,
            hc_signBytesVersion = ho_signBytesVersion options,
            hc_includePqcPublicKey = ho_includePqcPublicKey options\<rparr>)))"

definition gas_price :: "tx_env \<Rightarrow> gas_price_option option \<Rightarrow> error + GasPrice option" where
  "gas_price env p =
     (case p of
        Some (PriceText s) \<Rightarrow> res_bind (tv_gasPriceFromString env s) (\<lambda>g. Inr (Some g))
      | Some (PriceValue g) \<Rightarrow> Inr (Some g)
      | None \<Rightarrow> Inr None)"

definition isHybrid :: "RdkTxClient \<Rightarrow> bool" where
  "isHybrid c \<longleftrightarrow> tc_hybrid c \<noteq> None"

definition tx_simulate :: "RdkTxClient \<Rightarrow> EncodeObject list \<Rightarrow> string option \<Rightarrow> error + int" where
  "tx_simulate c messages memo =
     (case uc_simulate (tc_client c) of
        None \<Rightarrow> Inl (JsError ''the underlying client does not support simulation'')
      | Some sim \<Rightarrow> sim (tc_address c) messages memo)"

definition tx_connect ::
  "tx_env \<Rightarrow> string \<Rightarrow> OfflineSigner \<Rightarrow> RdkTxClientConnectOptions \<Rightarrow> error + RdkTxClient" where
  "tx_connect env rpcUrl signer options =
     res_bind (gas_price env (co_gasPrice options)) (\<lambda>gasPrice.
     res_bind (hybridConfigFrom signer options) (\<lambda>hybrid.
     res_bind (tv_connectWithSigner env rpcUrl signer gasPrice) (\<lambda>client.
     res_bind (os_getAccounts signer) (\<lambda>accounts.
       case accounts of
         [] \<Rightarrow> Inl (JsError ''signer has no accounts'')
       | a # _ \<Rightarrow> Inr \<lparr>tc_client = client, tc_address = a, tc_hybrid = hybrid, tc_gasPrice = gasPrice\<rparr>))))"

definition fromClient ::
  "tx_env \<Rightarrow> tx_client \<Rightarrow> string \<Rightarrow> RdkTxClientConnectOptions \<Rightarrow> OfflineSigner option \<Rightarrow> error + RdkTxClient" where
  "fromClient env client address options signer =
     res_bind (gas_price env (co_gasPrice options)) (\<lambda>gasPrice.
     res_bind
       (if ho_pqcKeypair options \<noteq> None then
          (case signer of
             None \<Rightarrow> Inl (JsError ''hybrid signing requires `signer` (an OfflineDirectSigner)'')
           | Some s \<Rightarrow> hybridConfigFrom s options)
        else Inr None) (\<lambda>hybrid.
       Inr \<lparr>tc_client = client, tc_address = address, tc_hybrid = hybrid, tc_gasPrice = gasPrice\<rparr>))"

text \<open>\<open>RdkClient.connectTx\<close>: the REST endpoint of the network unless the caller gives one.\<close>

definition connectTx ::
  "tx_env \<Rightarrow> RdkClient \<Rightarrow> OfflineSigner \<Rightarrow> RdkTxClientConnectOptions \<Rightarrow> error + RdkTxClient" where
  "connectTx env rk signer opts =
     tx_connect env (ep_rpc (nc_endpoints (rk_network rk))) signer
       (opts\<lparr>ho_rest := Some (or_default (ho_rest opts) (ep_rest (nc_endpoints (rk_network rk))))\<rparr>)"

subsection \<open>Fees and broadcasting\<close>

text \<open>
  \<open>Math.round(gas * 1.4)\<close>: tenths of an integer times fourteen are never half-way, so rounding to the
  nearest integer is exact on gas below \<open>2 ^ 49\<close>.
\<close>

definition with_multiplier :: "int \<Rightarrow> int" where
  "with_multiplier gas = (14 * gas + 5) div 10"

definition resolveFee :: "tx_env \<Rightarrow> RdkTxClient \<Rightarrow> EncodeObject list \<Rightarrow> TxFee \<Rightarrow> string option \<Rightarrow> error + StdFee" where
  "resolveFee env c messages fee memo =
     (case fee of
        FeeStd f \<Rightarrow> Inr f
      | _ \<Rightarrow>
          (case tc_gasPrice c of
             None \<Rightarrow> Inl (JsError (''hybrid signing needs an explicit fee: pass `fee` as an StdFee in the transaction '' @
                       ''options, or set `gasPrice` on connect (e.g. '' @ quote ''0.15uqor'' @ '') so a gas limit or '' @
                       quote ''auto'' @ '' can be priced.''))
           | Some price \<Rightarrow>
               (case fee of
                  FeeGas g \<Rightarrow> Inr (tv_calculateFee env g price)
                | _ \<Rightarrow> res_bind (tx_simulate c messages memo) (\<lambda>gas.
                    Inr (tv_calculateFee env (with_multiplier gas) price)))))"

definition of_hybrid_result :: "hybrid_result \<Rightarrow> DeliverTxResponse" where
  "of_hybrid_result r =
     \<lparr>dr_code = hr2_code r, dr_height = or_default (hr2_height r) 0, dr_txIndex = 0,
      dr_transactionHash = hr2_transactionHash r, dr_events = or_default (hr2_events r) [],
      dr_rawLog = hr2_rawLog r, dr_msgResponses = or_default (hr2_msgResponses r) [],
      dr_gasUsed = or_default (hr2_gasUsed r) 0, dr_gasWanted = or_default (hr2_gasWanted r) 0\<rparr>"

definition broadcastHybrid ::
  "tx_env \<Rightarrow> RdkTxClient \<Rightarrow> HybridConfig \<Rightarrow> EncodeObject list \<Rightarrow> 'o TxOptions_scheme \<Rightarrow> tx_result" where
  "broadcastHybrid env c hybrid messages opts =
     (let transport = tc_client c in
      if uc_getChainId transport = None \<or> uc_getSequence transport = None \<or> \<not> uc_broadcastTx transport
      then refuse (JsError (''the underlying client cannot sign hybrid transactions: it must provide '' @
             ''getChainId, getSequence, and broadcastTx (a connected StargateClient does).''))
      else
        before (resolveFee env c messages (or_default (to_fee opts) FeeAuto) (to_memo opts)) (\<lambda>fee.
        before (the (uc_getChainId transport)) (\<lambda>chainId.
        before (the (uc_getSequence transport) (tc_address c)) (\<lambda>(accountNumber, sequence).
          let tx = \<lparr>hx_config = hybrid, hx_messages = messages, hx_fee = fee,
                hx_memo = or_default (to_memo opts) '''', hx_chainId = chainId,
                hx_accountNumber = accountNumber, hx_sequence = sequence,
                hx_signBytesVersion = or_default (hc_signBytesVersion hybrid) ''auto''\<rparr>
          in ([Hybrid tx], res_bind (tv_signAndBroadcastHybrid env tx) (\<lambda>r. Inr (of_hybrid_result r)))))))"

definition tx_broadcast ::
  "tx_env \<Rightarrow> RdkTxClient \<Rightarrow> EncodeObject list \<Rightarrow> 'o TxOptions_scheme \<Rightarrow> tx_result" where
  "tx_broadcast env c messages opts =
     (case tc_hybrid c of
        Some hybrid \<Rightarrow> broadcastHybrid env c hybrid messages opts
      | None \<Rightarrow>
          let fee = or_default (to_fee opts) FeeAuto; memo = or_default (to_memo opts) ''''
          in ([Classical (tc_address c) messages fee memo],
              uc_signAndBroadcast (tc_client c) (tc_address c) messages fee memo))"

subsection \<open>Operations\<close>

text \<open>
  An operation that takes an input without its signer (\<open>Omit<..., "creator">\<close>) is given the whole record
  here and overwrites that field with the client's address.
\<close>

definition createRollup ::
  "tx_env \<Rightarrow> RdkTxClient \<Rightarrow> CreateRollupInput \<Rightarrow> TxOptions \<Rightarrow> tx_result" where
  "createRollup env c input opts =
     (case rollupIdError (ci_rollupId input) of
        Some idError \<Rightarrow> refuse (JsError (''rollupId '' @ quote (ci_rollupId input) @ '' '' @ idError))
      | None \<Rightarrow>
          before (createRollupMsg (input\<lparr>ci_creator := tc_address c\<rparr>)) (\<lambda>m. tx_broadcast env c [m] opts))"

definition anchorSignBytesForBatch ::
  "string \<Rightarrow> string \<Rightarrow> numeric \<Rightarrow> bytes_like \<Rightarrow> numeric \<Rightarrow> bytes_like option \<Rightarrow> error + bytes" where
  "anchorSignBytesForBatch chainId layerId batchIndex stateRoot txCount validatorSetHash =
     res_bind (js_BigInt batchIndex) (\<lambda>height.
     res_bind (toBytes stateRoot) (\<lambda>root.
     res_bind (bytes_or_empty validatorSetHash) (\<lambda>vsh.
     res_bind (js_BigInt txCount) (\<lambda>count.
       anchorSignBytesV2 chainId count
         \<lparr>am_layerId = layerId, am_layerHeight = height, am_stateRoot = bytesToHex root,
          am_validatorSetHash = bytesToHex vsh, am_chainId = Some chainId,
          am_transactionCount = Some count, am_compressedStateProof = Some ''''\<rparr>))))"

definition tryAnchorSignature ::
  "tx_env \<Rightarrow> RdkTxClient \<Rightarrow> SubmitBatchInput \<Rightarrow> error + (bytes option \<times> string)" where
  "tryAnchorSignature env c input =
     (case tc_hybrid c of
        None \<Rightarrow> Inr (None, ''this client does not sign hybrid, so it holds no post-quantum key to sign the anchor'')
      | Some hybrid \<Rightarrow>
          if falsy (hc_rest hybrid)
          then Inr (None, ''no REST endpoint configured, so the rollup'' @ [CHR 0x27] @
                 ''s layer and creator cannot be read'')
          else case uc_getChainId (tc_client c) of
            None \<Rightarrow> Inr (None, ''the underlying client cannot report the chain id'')
          | Some getChainId \<Rightarrow>
              case getRollup (newRestClient (the (hc_rest hybrid)) (tv_fetch env)) (si_rollupId input) of
                Inl err \<Rightarrow> Inr (None, ''could not read rollup '' @ quote (si_rollupId input) @ '': '' @ message err)
              | Inr rollup \<Rightarrow>
                  if rv_layerId rollup = ''''
                  then Inr (None, ''rollup '' @ quote (si_rollupId input) @
                         '' has no layer_id, so there is nothing to anchor to'')
                  else if rv_creator rollup \<noteq> tc_address c
                  then Inr (None, ''this client ('' @ tc_address c @ '') is not the rollup'' @ [CHR 0x27] @
                         ''s creator ('' @ rv_creator rollup @ ''); the chain verifies the anchor against the creator'' @
                         [CHR 0x27] @ ''s key, so the creator must sign it out of band'')
                  else
                    res_bind getChainId (\<lambda>chainId.
                    res_bind (anchorSignBytesForBatch chainId (rv_layerId rollup) (si_batchIndex input)
                        (si_stateRoot input) (si_txCount input) (si_validatorSetHash input)) (\<lambda>msg.
                      Inr (Some (tv_pqcSign env (pk_secretKey (hc_pqcKeypair hybrid)) msg), ''signed''))))"

datatype anchor_mode = AnchorAuto | AnchorRequire | AnchorOff

record SubmitOptions = TxOptions +
  so_anchor :: "anchor_mode option"

text \<open>\<open>String(input.batchIndex)\<close> in the error texts.\<close>

fun numeric_text :: "numeric \<Rightarrow> string" where
  "numeric_text (NNum n) = show_int n"
| "numeric_text (NBig n) = show_int n"
| "numeric_text (NStr s) = s"

text \<open>The check of the data hash against the rollup, when there is a hash and the rollup can be read.\<close>

definition falsy_bytes :: "bytes_like option \<Rightarrow> bool" where
  "falsy_bytes b \<longleftrightarrow> b = None \<or> b = Some (Hex '''')"

definition has_rest :: "RdkTxClient \<Rightarrow> bool" where
  "has_rest c \<longleftrightarrow> (case tc_hybrid c of None \<Rightarrow> False | Some h \<Rightarrow> \<not> falsy (hc_rest h))"

definition client_rest :: "tx_env \<Rightarrow> RdkTxClient \<Rightarrow> RestClient" where
  "client_rest env c = newRestClient (the (hc_rest (the (tc_hybrid c)))) (tv_fetch env)"

definition check_data_hash :: "tx_env \<Rightarrow> RdkTxClient \<Rightarrow> SubmitBatchInput \<Rightarrow> error + unit" where
  "check_data_hash env c input =
     (if falsy_bytes (si_dataHash input) then Inr ()
      else res_bind (toBytes (the (si_dataHash input))) (\<lambda>d.
        if d \<noteq> [] \<and> has_rest c then
          res_bind (getRollup (client_rest env c) (si_rollupId input)) (\<lambda>rollup.
            case dataHashError (rv_daBackend rollup) (si_dataHash input) of
              Some err \<Rightarrow> Inl (JsError (''cannot submit batch '' @ numeric_text (si_batchIndex input) @ '': '' @ err))
            | None \<Rightarrow> Inr ())
        else Inr ()))"

text \<open>The input with the anchor signature the mode asks for.\<close>

definition anchored_input ::
  "tx_env \<Rightarrow> RdkTxClient \<Rightarrow> SubmitBatchInput \<Rightarrow> anchor_mode \<Rightarrow> error + SubmitBatchInput" where
  "anchored_input env c input mode =
     (if falsy_bytes (si_anchorSignature input) \<and> mode \<noteq> AnchorOff then
        res_bind (tryAnchorSignature env c input) (\<lambda>(sig, reason).
          case sig of
            Some s \<Rightarrow> Inr (input\<lparr>si_anchorSignature := Some (Raw s)\<rparr>)
          | None \<Rightarrow>
              if mode = AnchorRequire
              then Inl (JsError (''cannot anchor batch '' @ numeric_text (si_batchIndex input) @ '': '' @ reason))
              else Inr input)
      else Inr input)"

definition submitBatch ::
  "tx_env \<Rightarrow> RdkTxClient \<Rightarrow> SubmitBatchInput \<Rightarrow> SubmitOptions \<Rightarrow> tx_result" where
  "submitBatch env c input opts =
     (let mode = or_default (so_anchor opts) AnchorAuto in
      case withdrawalsRootError (si_withdrawalsRoot input) of
        Some rootErr \<Rightarrow> refuse (JsError (''cannot submit batch '' @ numeric_text (si_batchIndex input) @ '': '' @ rootErr))
      | None \<Rightarrow>
          before (check_data_hash env c input) (\<lambda>_.
          before (anchored_input env c input mode) (\<lambda>anchored.
          before (submitBatchMsg (anchored\<lparr>si_sequencer := tc_address c\<rparr>)) (\<lambda>m.
            tx_broadcast env c [m] opts))))"

definition challengeBatch ::
  "tx_env \<Rightarrow> RdkTxClient \<Rightarrow> ChallengeBatchInput \<Rightarrow> TxOptions \<Rightarrow> tx_result" where
  "challengeBatch env c input opts =
     before (challengeBatchMsg (input\<lparr>bi_challenger := tc_address c\<rparr>)) (\<lambda>m. tx_broadcast env c [m] opts)"

definition resolveChallenge ::
  "tx_env \<Rightarrow> RdkTxClient \<Rightarrow> ResolveChallengeInput \<Rightarrow> TxOptions \<Rightarrow> tx_result" where
  "resolveChallenge env c input opts =
     before (resolveChallengeMsg (input\<lparr>vi_resolver := tc_address c\<rparr>)) (\<lambda>m. tx_broadcast env c [m] opts)"

definition check_action :: "RollupAction \<Rightarrow> RollupStatus option \<Rightarrow> error + unit" where
  "check_action action currentStatus =
     (case currentStatus of None \<Rightarrow> Inr () | Some s \<Rightarrow> assertRollupAction action s)"

definition pauseRollup ::
  "tx_env \<Rightarrow> RdkTxClient \<Rightarrow> string \<Rightarrow> string option \<Rightarrow> RollupStatus option \<Rightarrow> TxOptions \<Rightarrow> tx_result" where
  "pauseRollup env c rollupId reason currentStatus opts =
     before (check_action pause currentStatus) (\<lambda>_.
     before (pauseRollupMsg \<lparr>pi_creator = tc_address c, pi_rollupId = rollupId, pi_reason = reason\<rparr>) (\<lambda>m.
       tx_broadcast env c [m] opts))"

definition resumeRollup ::
  "tx_env \<Rightarrow> RdkTxClient \<Rightarrow> string \<Rightarrow> RollupStatus option \<Rightarrow> TxOptions \<Rightarrow> tx_result" where
  "resumeRollup env c rollupId currentStatus opts =
     before (check_action resume currentStatus) (\<lambda>_.
     before (resumeRollupMsg \<lparr>ri_creator = tc_address c, ri_rollupId = rollupId\<rparr>) (\<lambda>m.
       tx_broadcast env c [m] opts))"

text \<open>The check of the latest batch before a rollup is stopped.\<close>

definition check_latest :: "tx_env \<Rightarrow> RdkTxClient \<Rightarrow> string \<Rightarrow> error + unit" where
  "check_latest env c rollupId =
     (if has_rest c then
        res_bind (isProtocolFeatureEnabled (client_rest env c) FEATURE_RDK_CHALLENGE_SETTLEMENT) (\<lambda>enabled.
          if enabled then
            (let latest = (case getLatestBatch (client_rest env c) rollupId of
                             Inl _ \<Rightarrow> None | Inr b \<Rightarrow> Some (bv_status b))
             in case stopRollupError latest of
                  Some err \<Rightarrow> Inl (JsError (''cannot stop rollup '' @ quote rollupId @ '': '' @ err))
                | None \<Rightarrow> Inr ())
          else Inr ())
      else Inr ())"

definition stopRollup ::
  "tx_env \<Rightarrow> RdkTxClient \<Rightarrow> string \<Rightarrow> RollupStatus option \<Rightarrow> TxOptions \<Rightarrow> tx_result" where
  "stopRollup env c rollupId currentStatus opts =
     before (check_action stop currentStatus) (\<lambda>_.
     before (check_latest env c rollupId) (\<lambda>_.
     before (stopRollupMsg \<lparr>ri_creator = tc_address c, ri_rollupId = rollupId\<rparr>) (\<lambda>m.
       tx_broadcast env c [m] opts)))"

definition executeWithdrawal ::
  "tx_env \<Rightarrow> RdkTxClient \<Rightarrow> ExecuteWithdrawalInput \<Rightarrow> TxOptions \<Rightarrow> tx_result" where
  "executeWithdrawal env c input opts =
     (let signed = input\<lparr>ew_submitter := tc_address c\<rparr>;
          errors = withdrawalErrors (tv_bech32 env) (withdrawal_to_check signed)
      in if errors \<noteq> []
         then refuse (JsError (''withdrawal would be refused by the chain: '' @ join ''; '' errors))
         else before (executeWithdrawalMsg signed) (\<lambda>m. tx_broadcast env c [m] opts))"

subsection \<open>The recording backend\<close>

record MockCall =
  mc_signerAddress :: string
  mc_messages :: "EncodeObject list"
  mc_fee :: TxFee
  mc_memo :: "string option"

record MockTxClient =
  mk_calls :: "MockCall list"
  mk_gasEstimate :: int
  mk_response :: "DeliverTxResponse \<Rightarrow> DeliverTxResponse"

text \<open>The fields of \<open>options.response\<close> are merged over the fake response: \<open>mk_response\<close> is that merge.\<close>

definition newMockTxClient :: "int option \<Rightarrow> (DeliverTxResponse \<Rightarrow> DeliverTxResponse) option \<Rightarrow> MockTxClient" where
  "newMockTxClient gasEstimate response =
     \<lparr>mk_calls = [], mk_gasEstimate = or_default gasEstimate 120000, mk_response = or_default response (\<lambda>r. r)\<rparr>"

definition mock_signAndBroadcast ::
  "MockTxClient \<Rightarrow> string \<Rightarrow> EncodeObject list \<Rightarrow> TxFee \<Rightarrow> string option \<Rightarrow> MockTxClient \<times> (error + DeliverTxResponse)" where
  "mock_signAndBroadcast k signerAddress messages fee memo =
     (k\<lparr>mk_calls := mk_calls k @ [\<lparr>mc_signerAddress = signerAddress, mc_messages = messages, mc_fee = fee, mc_memo = memo\<rparr>]\<rparr>,
      Inr (mk_response k
        \<lparr>dr_code = 0, dr_height = 1, dr_txIndex = 0, dr_transactionHash = ''MOCK_TX_HASH'', dr_events = [],
         dr_rawLog = Some '''', dr_msgResponses = [], dr_gasUsed = mk_gasEstimate k, dr_gasWanted = mk_gasEstimate k\<rparr>))"

definition mock_simulate :: "MockTxClient \<Rightarrow> error + int" where
  "mock_simulate k = Inr (mk_gasEstimate k)"

text \<open>The backend as the capability \<open>RdkTxClient\<close> depends on.\<close>

definition mock_capability :: "MockTxClient \<Rightarrow> tx_client" where
  "mock_capability k =
     \<lparr>uc_signAndBroadcast = (\<lambda>a ms fee memo. snd (mock_signAndBroadcast k a ms fee (Some memo))),
      uc_simulate = Some (\<lambda>a ms memo. mock_simulate k), uc_getChainId = None, uc_getSequence = None,
      uc_broadcastTx = False\<rparr>"

subsection \<open>All operations as one\<close>

datatype tx_op =
    OpCreate CreateRollupInput
  | OpSubmit SubmitBatchInput "anchor_mode option"
  | OpChallenge ChallengeBatchInput
  | OpResolve ResolveChallengeInput
  | OpPause string "string option" "RollupStatus option"
  | OpResume string "RollupStatus option"
  | OpStop string "RollupStatus option"
  | OpWithdraw ExecuteWithdrawalInput

definition submit_options :: "TxOptions \<Rightarrow> anchor_mode option \<Rightarrow> SubmitOptions" where
  "submit_options opts mode = \<lparr>to_fee = to_fee opts, to_memo = to_memo opts, so_anchor = mode\<rparr>"

fun run_op :: "tx_env \<Rightarrow> RdkTxClient \<Rightarrow> tx_op \<Rightarrow> TxOptions \<Rightarrow> tx_result" where
  "run_op env c (OpCreate input) opts = createRollup env c input opts"
| "run_op env c (OpSubmit input mode) opts = submitBatch env c input (submit_options opts mode)"
| "run_op env c (OpChallenge input) opts = challengeBatch env c input opts"
| "run_op env c (OpResolve input) opts = resolveChallenge env c input opts"
| "run_op env c (OpPause rid reason status) opts = pauseRollup env c rid reason status opts"
| "run_op env c (OpResume rid status) opts = resumeRollup env c rid status opts"
| "run_op env c (OpStop rid status) opts = stopRollup env c rid status opts"
| "run_op env c (OpWithdraw input) opts = executeWithdrawal env c input opts"

text \<open>What the chain's rules demand of the operation, as far as the client checks them.\<close>

definition allowed :: "RollupAction \<Rightarrow> RollupStatus option \<Rightarrow> bool" where
  "allowed action status \<longleftrightarrow> (case status of None \<Rightarrow> True | Some s \<Rightarrow> canPerformRollupAction action s)"

fun op_guard :: "tx_env \<Rightarrow> RdkTxClient \<Rightarrow> tx_op \<Rightarrow> bool" where
  "op_guard env c (OpCreate input) \<longleftrightarrow> id_grammar (ci_rollupId input)"
| "op_guard env c (OpSubmit input mode) \<longleftrightarrow> withdrawalsRootError (si_withdrawalsRoot input) = None"
| "op_guard env c (OpChallenge input) \<longleftrightarrow> True"
| "op_guard env c (OpResolve input) \<longleftrightarrow> True"
| "op_guard env c (OpPause rid reason status) \<longleftrightarrow> allowed pause status"
| "op_guard env c (OpResume rid status) \<longleftrightarrow> allowed resume status"
| "op_guard env c (OpStop rid status) \<longleftrightarrow> allowed stop status \<and> check_latest env c rid = Inr ()"
| "op_guard env c (OpWithdraw input) \<longleftrightarrow>
     withdrawalErrors (tv_bech32 env) (withdrawal_to_check (input\<lparr>ew_submitter := tc_address c\<rparr>)) = []"

fun call_messages :: "broadcast \<Rightarrow> EncodeObject list" where
  "call_messages (Classical a ms fee memo) = ms"
| "call_messages (Hybrid tx) = hx_messages tx"

fun signer_field :: "rdk_value \<Rightarrow> string" where
  "signer_field (CreateRollup m) = mcr_creator m"
| "signer_field (SubmitBatch m) = msb_sequencer m"
| "signer_field (ChallengeBatch m) = mcb_challenger m"
| "signer_field (ResolveChallenge m) = mrc_resolver m"
| "signer_field (PauseRollup m) = mpr_creator m"
| "signer_field (ResumeRollup m) = mrr_creator m"
| "signer_field (StopRollup m) = msr_creator m"
| "signer_field (ExecuteWithdrawal m) = mew_submitter m"

text \<open>A message under its own type URL that names \<open>a\<close> as its signer.\<close>

definition signed_by :: "string \<Rightarrow> EncodeObject \<Rightarrow> bool" where
  "signed_by a obj \<longleftrightarrow> eo_typeUrl obj = rdk_typeUrl (eo_value obj) \<and> signer_field (eo_value obj) = a"

subsection \<open>Lemmas\<close>

lemma before_simps [simp]: "before (Inl e) k = refuse e" "before (Inr x) k = k x"
  by (simp_all add: before_def)

lemma refuse_simps [simp]: "fst (refuse e) = []" "snd (refuse e) = Inl e"
  by (simp_all add: refuse_def)

lemma before_calls: "fst (before m k) \<noteq> [] \<longleftrightarrow> (\<exists>x. m = Inr x \<and> fst (k x) \<noteq> [])"
  by (cases m) simp_all

lemma before_quiet:
  "(\<And>x. m = Inr x \<Longrightarrow> fst (k x) = [] \<Longrightarrow> \<exists>e. snd (k x) = Inl e) \<Longrightarrow> fst (before m k) = [] \<Longrightarrow>
   \<exists>e. snd (before m k) = Inl e"
  by (cases m) simp_all

text \<open>Handing over a transaction happens at most once, with the messages given.\<close>

lemma hybrid_calls:
  assumes "fst (broadcastHybrid env c h ms opts) \<noteq> []"
  shows "\<exists>tx. fst (broadcastHybrid env c h ms opts) = [Hybrid tx] \<and> hx_messages tx = ms \<and> hx_config tx = h \<and>
    resolveFee env c ms (or_default (to_fee opts) FeeAuto) (to_memo opts) = Inr (hx_fee tx) \<and>
    uc_getChainId (tc_client c) = Some (Inr (hx_chainId tx))"
  using assms by (auto simp: broadcastHybrid_def Let_def before_calls split: if_splits prod.splits)

lemma broadcast_calls:
  assumes "fst (tx_broadcast env c ms opts) \<noteq> []"
  shows "\<exists>b. fst (tx_broadcast env c ms opts) = [b] \<and> call_messages b = ms"
proof (cases "tc_hybrid c")
  case None
  then show ?thesis by (simp add: tx_broadcast_def Let_def)
next
  case (Some h)
  with assms hybrid_calls [of env c h ms opts] show ?thesis by (auto simp: tx_broadcast_def)
qed

lemma broadcast_quiet:
  "fst (tx_broadcast env c ms opts) = [] \<Longrightarrow> \<exists>e. snd (tx_broadcast env c ms opts) = Inl e"
proof (cases "tc_hybrid c")
  case (Some h)
  assume "fst (tx_broadcast env c ms opts) = []"
  with Some have q: "fst (broadcastHybrid env c h ms opts) = []" by (simp add: tx_broadcast_def)
  have "\<exists>e. snd (broadcastHybrid env c h ms opts) = Inl e"
    using q unfolding broadcastHybrid_def Let_def
    by (auto simp: before_def split: if_splits sum.splits)
  with Some show ?thesis by (simp add: tx_broadcast_def)
qed (simp add: tx_broadcast_def Let_def)

text \<open>The builders name the signer they are given.\<close>

lemma builders_sign:
  "createRollupMsg ci = Inr obj \<Longrightarrow> signed_by (ci_creator ci) obj"
  "submitBatchMsg si = Inr obj \<Longrightarrow> signed_by (si_sequencer si) obj"
  "challengeBatchMsg bi = Inr obj \<Longrightarrow> signed_by (bi_challenger bi) obj"
  "resolveChallengeMsg vi = Inr obj \<Longrightarrow> signed_by (vi_resolver vi) obj"
  "pauseRollupMsg pi = Inr obj \<Longrightarrow> signed_by (pi_creator pi) obj"
  "resumeRollupMsg ri = Inr obj \<Longrightarrow> signed_by (ri_creator ri) obj"
  "stopRollupMsg ri = Inr obj \<Longrightarrow> signed_by (ri_creator ri) obj"
  "executeWithdrawalMsg ew = Inr obj \<Longrightarrow> signed_by (ew_submitter ew) obj"
  by (auto simp: signed_by_def res_bind_eq_Inr or_default_def
      createRollupMsg_def submitBatchMsg_def challengeBatchMsg_def resolveChallengeMsg_def pauseRollupMsg_def
      resumeRollupMsg_def stopRollupMsg_def executeWithdrawalMsg_def MsgCreateRollup_fromPartial_def
      MsgSubmitBatch_fromPartial_def MsgChallengeBatch_fromPartial_def MsgResolveChallenge_fromPartial_def
      MsgPauseRollup_fromPartial_def MsgResumeRollup_fromPartial_def MsgStopRollup_fromPartial_def
      MsgExecuteWithdrawal_fromPartial_def)

lemma check_action_ok: "check_action a s = Inr u \<Longrightarrow> allowed a s"
  by (auto simp: check_action_def allowed_def assertRollupAction_def split: option.splits if_splits)

text \<open>The two ways a call can go: refused with nothing sent, or one transaction that \<open>g\<close> allowed.\<close>

definition outcome :: "bool \<Rightarrow> string \<Rightarrow> tx_result \<Rightarrow> bool" where
  "outcome g a r \<longleftrightarrow> (fst r = [] \<and> (\<exists>e. snd r = Inl e)) \<or>
     (g \<and> (\<exists>b obj. fst r = [b] \<and> call_messages b = [obj] \<and> signed_by a obj))"

lemma outcome_refuse: "outcome g a (refuse e)"
  by (simp add: outcome_def)

lemma outcome_before: "(\<And>x. m = Inr x \<Longrightarrow> outcome g a (k x)) \<Longrightarrow> outcome g a (before m k)"
  by (cases m) (simp_all add: outcome_refuse)

lemma outcome_broadcast: "g \<Longrightarrow> signed_by a obj \<Longrightarrow> outcome g a (tx_broadcast env c [obj] opts)"
  using broadcast_calls [of env c "[obj]" opts] broadcast_quiet [of env c "[obj]" opts]
  unfolding outcome_def by blast

lemma outcome_send:
  "g \<Longrightarrow> (\<And>m. msg = Inr m \<Longrightarrow> signed_by a m) \<Longrightarrow> outcome g a (before msg (\<lambda>m. tx_broadcast env c [m] opts))"
  by (rule outcome_before) (rule outcome_broadcast)

lemma run_op_outcome: "outcome (op_guard env c op) (tc_address c) (run_op env c op opts)"
proof (cases op)
  case (OpCreate i)
  then show ?thesis
    by (auto simp: createRollup_def id_grammar_iff outcome_refuse split: option.split
        intro!: outcome_send dest: builders_sign(1))
next
  case (OpSubmit i mode)
  then show ?thesis
    by (auto simp: submitBatch_def Let_def outcome_refuse split: option.split
        intro!: outcome_before outcome_broadcast dest: builders_sign(2))
next
  case (OpChallenge i)
  then show ?thesis by (auto simp: challengeBatch_def intro!: outcome_send dest: builders_sign(3))
next
  case (OpResolve i)
  then show ?thesis by (auto simp: resolveChallenge_def intro!: outcome_send dest: builders_sign(4))
next
  case (OpPause rid reason s)
  then show ?thesis
    by (auto simp: pauseRollup_def intro!: outcome_before outcome_broadcast dest: builders_sign(5) check_action_ok)
next
  case (OpResume rid s)
  then show ?thesis
    by (auto simp: resumeRollup_def intro!: outcome_before outcome_broadcast dest: builders_sign(6) check_action_ok)
next
  case (OpStop rid s)
  then show ?thesis
    by (auto simp: stopRollup_def intro!: outcome_before outcome_broadcast dest: builders_sign(7) check_action_ok)
next
  case (OpWithdraw i)
  then show ?thesis
    by (auto simp: executeWithdrawal_def Let_def outcome_refuse intro!: outcome_send dest: builders_sign(8))
qed

text \<open>An anchor signature that was attached, and what it was made over.\<close>

lemma anchored_input_cases:
  assumes "anchored_input env c input mode = Inr i"
  shows "i = input \<or> (\<exists>s reason. tryAnchorSignature env c input = Inr (Some s, reason) \<and>
    i = input\<lparr>si_anchorSignature := Some (Raw s)\<rparr>)"
  using assms by (auto simp: anchored_input_def res_bind_eq_Inr split: if_splits option.splits)

lemma try_anchor_signed:
  assumes "tryAnchorSignature env c input = Inr (Some s, reason)"
  obtains h rollup chainId msg where "tc_hybrid c = Some h" "\<not> falsy (hc_rest h)"
    "getRollup (client_rest env c) (si_rollupId input) = Inr rollup" "rv_layerId rollup \<noteq> ''''"
    "rv_creator rollup = tc_address c" "uc_getChainId (tc_client c) = Some (Inr chainId)"
    "anchorSignBytesForBatch chainId (rv_layerId rollup) (si_batchIndex input) (si_stateRoot input)
       (si_txCount input) (si_validatorSetHash input) = Inr msg"
    "s = tv_pqcSign env (pk_secretKey (hc_pqcKeypair h)) msg"
  using assms
  by (auto simp: tryAnchorSignature_def client_rest_def res_bind_eq_Inr split: option.splits if_splits sum.splits)

lemma submit_msg_fields:
  assumes "submitBatchMsg i = Inr \<lparr>eo_typeUrl = u, eo_value = SubmitBatch m\<rparr>"
  shows "js_BigInt (si_batchIndex i) = Inr (msb_batchIndex m)" "toBytes (si_stateRoot i) = Inr (msb_stateRoot m)"
    "js_BigInt (si_txCount i) = Inr (msb_txCount m)" "bytes_or_empty (si_anchorSignature i) = Inr (msb_anchorSignature m)"
    "bytes_or_empty (si_validatorSetHash i) = Inr (msb_validatorSetHash m)"
    "msb_rollupId m = si_rollupId i" "msb_sequencer m = si_sequencer i"
  using assms
  by (auto simp: submitBatchMsg_def res_bind_eq_Inr big_def MsgSubmitBatch_fromPartial_def or_default_def)

lemma submit_sends:
  assumes "fst (submitBatch env c input opts) = [b]" "call_messages b = [obj]"
  obtains i where "anchored_input env c input (or_default (so_anchor opts) AnchorAuto) = Inr i"
    "submitBatchMsg (i\<lparr>si_sequencer := tc_address c\<rparr>) = Inr obj"
proof -
  from assms(1) have "fst (submitBatch env c input opts) \<noteq> []" by simp
  then obtain i m where i: "anchored_input env c input (or_default (so_anchor opts) AnchorAuto) = Inr i"
    "submitBatchMsg (i\<lparr>si_sequencer := tc_address c\<rparr>) = Inr m"
    "submitBatch env c input opts = tx_broadcast env c [m] opts" "fst (tx_broadcast env c [m] opts) \<noteq> []"
    by (auto simp: submitBatch_def Let_def before_calls split: option.splits)
  with broadcast_calls [OF i(4)] assms that show ?thesis by auto
qed

text \<open>The anchor the chain records for a submitted batch, by the mapping the documentation gives.\<close>

definition anchor_of_batch :: "string \<Rightarrow> MsgSubmitBatch \<Rightarrow> int \<Rightarrow> int \<Rightarrow> AnchorView" where
  "anchor_of_batch layerId m height time =
     \<lparr>av_layerId = layerId, av_layerHeight = msb_batchIndex m, av_stateRoot = bytesToHex (msb_stateRoot m),
      av_validatorSetHash = bytesToHex (msb_validatorSetHash m), av_mainChainHeight = height, av_anchoredAt = time,
      av_pqcSignature = bytesToHex (msb_anchorSignature m), av_transactionCount = msb_txCount m,
      av_compressedStateProof = ''''\<rparr>"

lemma attached_anchor_signed:
  assumes "falsy_bytes (si_anchorSignature input)"
    and "fst (submitBatch env c input opts) = [b]" "call_messages b = [\<lparr>eo_typeUrl = u, eo_value = SubmitBatch m\<rparr>]"
    and "msb_anchorSignature m \<noteq> []" "pk \<noteq> []"
    and "\<And>h msg. tc_hybrid c = Some h \<Longrightarrow> pqcVerify pk msg (tv_pqcSign env (pk_secretKey (hc_pqcKeypair h)) msg) = Inr True"
  shows "\<exists>rollup chainId. getRollup (client_rest env c) (si_rollupId input) = Inr rollup \<and>
    rv_creator rollup = tc_address c \<and> uc_getChainId (tc_client c) = Some (Inr chainId) \<and>
    signatureOver pqcVerify (anchor_of_batch (rv_layerId rollup) m height time) (bytesToHex pk) chainId V2"
proof -
  obtain i where i: "anchored_input env c input (or_default (so_anchor opts) AnchorAuto) = Inr i"
    "submitBatchMsg (i\<lparr>si_sequencer := tc_address c\<rparr>) = Inr \<lparr>eo_typeUrl = u, eo_value = SubmitBatch m\<rparr>"
    using submit_sends [OF assms(2,3)] .
  note f = submit_msg_fields [OF i(2)]
  have "i \<noteq> input"
    using f(4) assms(1,4) by (auto simp: bytes_or_empty_def falsy_bytes_def EMPTY_def)
  with anchored_input_cases [OF i(1)] obtain s reason where s: "tryAnchorSignature env c input = Inr (Some s, reason)"
    "i = input\<lparr>si_anchorSignature := Some (Raw s)\<rparr>" by blast
  obtain h rollup chainId msg where h: "tc_hybrid c = Some h"
    "getRollup (client_rest env c) (si_rollupId input) = Inr rollup" "rv_creator rollup = tc_address c"
    "uc_getChainId (tc_client c) = Some (Inr chainId)"
    "anchorSignBytesForBatch chainId (rv_layerId rollup) (si_batchIndex input) (si_stateRoot input)
       (si_txCount input) (si_validatorSetHash input) = Inr msg"
    "s = tv_pqcSign env (pk_secretKey (hc_pqcKeypair h)) msg"
    using try_anchor_signed [OF s(1)] by metis
  have sig: "msb_anchorSignature m = s"
    using f(4) s(2) by (simp add: bytes_or_empty_def)
  have "anchorSignBytesV2 chainId (msb_txCount m)
      (anchor_message (anchor_of_batch (rv_layerId rollup) m height time)) = Inr msg"
    using h(5) f s(2)
    by (simp add: anchorSignBytesForBatch_def anchor_message_def anchor_of_batch_def anchorSignBytesV2_def)
  then have "signatureOver pqcVerify (anchor_of_batch (rv_layerId rollup) m height time) (bytesToHex pk) chainId V2"
    using assms(4,5) assms(6) [OF h(1), of msg] sig h(6)
    by (simp add: signatureOver_def anchor_of_batch_def)
  with h show ?thesis by blast
qed

subsection \<open>A client for the witnesses\<close>

text \<open>The node of \<open>demo_body\<close>, whose rollup \<open>r\<close> was created by \<open>amy\<close>, and amy's hybrid client for it.\<close>

definition demo_env :: tx_env where
  "demo_env =
     \<lparr>tv_fetch = (\<lambda>_. Inr \<lparr>hr_ok = True, hr_status = 200, hr_statusText = ''OK'', hr_json = Inr demo_body\<rparr>),
      tv_bech32 = (\<lambda>s. Some (s, [])),
      tv_signAndBroadcastHybrid = (\<lambda>tx. Inr \<lparr>hr2_code = 0, hr2_height = None, hr2_transactionHash = ''H'',
        hr2_events = None, hr2_rawLog = None, hr2_msgResponses = None, hr2_gasUsed = None, hr2_gasWanted = None\<rparr>),
      tv_pqcSign = (\<lambda>sk m. sk), tv_calculateFee = (\<lambda>g p. \<lparr>sf_amount = [], sf_gas = if g = 140000 then ''140000'' else ''0''\<rparr>),
      tv_gasPriceFromString = (\<lambda>s. Inr s),
      tv_connectWithSigner = (\<lambda>url signer price. Inl (JsError ''offline''))\<rparr>"

definition demo_hybrid :: HybridConfig where
  "demo_hybrid = \<lparr>hc_signer = \<lparr>os_signDirect = True, os_getAccounts = Inr [''amy'']\<rparr>,
     hc_pqcKeypair = \<lparr>pk_publicKey = [0xdd], pk_secretKey = [0xcc]\<rparr>, hc_rest = Some ''http://n'',
     hc_signBytesVersion = None, hc_includePqcPublicKey = None\<rparr>"

definition demo_transport :: tx_client where
  "demo_transport = \<lparr>uc_signAndBroadcast = (\<lambda>a ms fee memo. Inl (JsError ''offline'')),
     uc_simulate = Some (\<lambda>a ms memo. Inr 100000), uc_getChainId = Some (Inr ''qorechain-diana''),
     uc_getSequence = Some (\<lambda>a. Inr (3, 4)), uc_broadcastTx = True\<rparr>"

definition demo_tx :: RdkTxClient where
  "demo_tx = \<lparr>tc_client = demo_transport, tc_address = ''amy'', tc_hybrid = Some demo_hybrid,
     tc_gasPrice = Some ''0.15uqor''\<rparr>"

definition demo_batch :: SubmitBatchInput where
  "demo_batch = \<lparr>si_sequencer = '''', si_rollupId = ''r'', si_batchIndex = NNum 0, si_stateRoot = Hex ''aa'',
     si_prevStateRoot = None, si_txCount = NNum 3, si_dataHash = None, si_proof = None, si_withdrawalsRoot = None,
     si_anchorSignature = None, si_validatorSetHash = Some (Hex ''bb'')\<rparr>"

definition no_options :: SubmitOptions where
  "no_options = \<lparr>to_fee = None, to_memo = None, so_anchor = None\<rparr>"

subsection \<open>Properties\<close>


text \<open>
  C3: An anchor signature is attached only by the rollup's creator and verifies. When \<open>submitBatch\<close> was
  given no signature and the batch it sends carries one, the chain names the client's address as the
  rollup's creator, and the anchor that the chain records for that batch passes the signature check of
  the receipts against the client's public key, for any signature scheme that accepts its own signatures.
\<close>

theorem attached_anchor_verifies:
  assumes "falsy_bytes (si_anchorSignature input)"
    and "fst (submitBatch env c input opts) = [b]" "call_messages b = [\<lparr>eo_typeUrl = u, eo_value = SubmitBatch m\<rparr>]"
    and "msb_anchorSignature m \<noteq> []" "pk \<noteq> []"
    and "\<And>h msg. tc_hybrid c = Some h \<Longrightarrow> pqcVerify pk msg (tv_pqcSign env (pk_secretKey (hc_pqcKeypair h)) msg) = Inr True"
  shows "\<exists>rollup chainId. getRollup (client_rest env c) (si_rollupId input) = Inr rollup \<and>
    rv_creator rollup = tc_address c \<and> uc_getChainId (tc_client c) = Some (Inr chainId) \<and>
    signatureOver pqcVerify (anchor_of_batch (rv_layerId rollup) m height time) (bytesToHex pk) chainId V2"
  by (rule attached_anchor_signed [OF assms(1-5)], rule assms(6))

definition demo_msg :: MsgSubmitBatch where
  "demo_msg = \<lparr>msb_sequencer = ''amy'', msb_rollupId = ''r'', msb_batchIndex = 0, msb_stateRoot = [0xaa],
     msb_prevStateRoot = [], msb_txCount = 3, msb_dataHash = [], msb_proof = [], msb_withdrawalsRoot = [],
     msb_anchorSignature = [0xcc], msb_validatorSetHash = [0xbb]\<rparr>"

lemma demo_submit:
  "map call_messages (fst (submitBatch demo_env demo_tx demo_batch no_options)) =
     [[\<lparr>eo_typeUrl = MsgSubmitBatch_typeUrl, eo_value = SubmitBatch demo_msg\<rparr>]]"
  by code_simp

lemma attached_anchor_verifies_witness:
  "\<exists>rollup chainId. getRollup (client_rest demo_env demo_tx) ''r'' = Inr rollup \<and> rv_creator rollup = ''amy'' \<and>
     signatureOver trusting (anchor_of_batch (rv_layerId rollup) demo_msg 7000000 5) (bytesToHex [0xdd]) chainId V2"
proof -
  obtain b where "fst (submitBatch demo_env demo_tx demo_batch no_options) = [b]"
    "call_messages b = [\<lparr>eo_typeUrl = MsgSubmitBatch_typeUrl, eo_value = SubmitBatch demo_msg\<rparr>]"
    using demo_submit by (auto simp: map_eq_Cons_conv)
  from attached_anchor_verifies [OF _ this, of "[0xdd]" trusting 7000000 5] show ?thesis
    by (auto simp: demo_batch_def falsy_bytes_def demo_msg_def trusting_def demo_tx_def)
qed

text \<open>What each path states of the fee, and which path is taken.\<close>

definition priced :: "tx_env \<Rightarrow> RdkTxClient \<Rightarrow> TxFee \<Rightarrow> string option \<Rightarrow> EncodeObject list \<Rightarrow> StdFee \<Rightarrow> bool" where
  "priced env c fee memo ms f \<longleftrightarrow>
     (case fee of
        FeeStd g \<Rightarrow> f = g
      | FeeGas g \<Rightarrow> (\<exists>p. tc_gasPrice c = Some p \<and> f = tv_calculateFee env g p)
      | FeeAuto \<Rightarrow> (\<exists>p gas. tc_gasPrice c = Some p \<and> tx_simulate c ms memo = Inr gas \<and>
                     f = tv_calculateFee env (with_multiplier gas) p))"

definition on_path :: "tx_env \<Rightarrow> RdkTxClient \<Rightarrow> TxFee \<Rightarrow> string option \<Rightarrow> broadcast \<Rightarrow> bool" where
  "on_path env c fee memo b \<longleftrightarrow>
     (case b of
        Classical a ms fee' memo' \<Rightarrow> tc_hybrid c = None \<and> a = tc_address c \<and> fee' = fee \<and> memo' = or_default memo ''''
      | Hybrid tx \<Rightarrow> tc_hybrid c = Some (hx_config tx) \<and> priced env c fee memo (hx_messages tx) (hx_fee tx) \<and>
          uc_getChainId (tc_client c) = Some (Inr (hx_chainId tx)))"

lemma resolveFee_priced: "resolveFee env c ms fee memo = Inr f \<Longrightarrow> priced env c fee memo ms f"
  by (auto simp: resolveFee_def priced_def res_bind_eq_Inr split: TxFee.splits option.splits)

lemma broadcast_on_path:
  assumes "b \<in> set (fst (tx_broadcast env c ms opts))"
  shows "on_path env c (or_default (to_fee opts) FeeAuto) (to_memo opts) b"
proof (cases "tc_hybrid c")
  case None
  with assms show ?thesis by (simp add: tx_broadcast_def Let_def on_path_def)
next
  case (Some h)
  with assms have b: "b \<in> set (fst (broadcastHybrid env c h ms opts))" by (simp add: tx_broadcast_def)
  then have "fst (broadcastHybrid env c h ms opts) \<noteq> []" by auto
  from hybrid_calls [OF this] b Some show ?thesis
    by (auto simp: on_path_def dest: resolveFee_priced)
qed

lemma before_mem: "b \<in> set (fst (before m k)) \<longleftrightarrow> (\<exists>x. m = Inr x \<and> b \<in> set (fst (k x)))"
  by (cases m) simp_all

lemma refuse_mem [simp]: "b \<notin> set (fst (refuse e))"
  by simp

text \<open>
  The signing path follows the key. A client with a post-quantum key hands every transaction to the
  hybrid signer, with its own configuration, the chain id its transport reports and an explicit fee: the
  given one, the given gas limit priced, or the simulated gas times 1.4 priced. A client without one uses
  the classical path only, with the caller's fee or \<open>auto\<close>.
\<close>

theorem signing_path_follows_the_key:
  assumes "b \<in> set (fst (run_op env c op opts))"
  shows "on_path env c (or_default (to_fee opts) FeeAuto) (to_memo opts) b"
proof -
  obtain ms where "b \<in> set (fst (tx_broadcast env c ms opts)) \<or>
      (\<exists>mode. b \<in> set (fst (tx_broadcast env c ms (submit_options opts mode))))"
    using assms
    by (cases op) (auto simp: createRollup_def submitBatch_def challengeBatch_def resolveChallenge_def
        pauseRollup_def resumeRollup_def stopRollup_def executeWithdrawal_def before_mem Let_def
        split: option.splits if_splits)
  then show ?thesis
    using broadcast_on_path [of b env c ms opts] broadcast_on_path [of b env c ms "submit_options opts mode" for mode]
    by (auto simp: submit_options_def)
qed

definition plain_options :: TxOptions where
  "plain_options = \<lparr>to_fee = None, to_memo = None\<rparr>"

definition demo_resume :: broadcast where
  "demo_resume = Hybrid \<lparr>hx_config = demo_hybrid,
     hx_messages = [\<lparr>eo_typeUrl = MsgResumeRollup_typeUrl, eo_value = ResumeRollup \<lparr>mrr_creator = ''amy'', mrr_rollupId = ''r''\<rparr>\<rparr>],
     hx_fee = \<lparr>sf_amount = [], sf_gas = ''140000''\<rparr>, hx_memo = '''', hx_chainId = ''qorechain-diana'',
     hx_accountNumber = 3, hx_sequence = 4, hx_signBytesVersion = ''auto''\<rparr>"

lemma signing_path_follows_the_key_witness:
  "on_path demo_env demo_tx FeeAuto None demo_resume"
proof -
  have "with_multiplier 100000 = 140000" by (simp add: with_multiplier_def)
  then have "demo_resume \<in> set (fst (run_op demo_env demo_tx (OpResume ''r'' (Some paused)) plain_options))"
    by (simp add: resumeRollup_def check_action_def assertRollupAction_def canPerformRollupAction_def
        resumeRollupMsg_def tx_broadcast_def broadcastHybrid_def demo_tx_def demo_transport_def
        demo_resume_def plain_options_def or_default_def resolveFee_def tx_simulate_def demo_env_def
        MsgResumeRollup_fromPartial_def demo_hybrid_def)
  from signing_path_follows_the_key [OF this] show ?thesis by (simp add: plain_options_def or_default_def)
qed

text \<open>
  The mode \<open>require\<close> does not always refuse to submit unanchored: an anchor signature that is present
  but empty, as a zero-length array or the text \<open>0x\<close>, is taken as given, and the batch goes out without
  a signature, although the client could have signed it.
\<close>

theorem require_submits_unanchored:
  assumes "si_anchorSignature input = Some (Raw []) \<or> si_anchorSignature input = Some (Hex ''0x'')"
    and "fst (submitBatch env c input (opts\<lparr>so_anchor := Some AnchorRequire\<rparr>)) = [b]"
    and "call_messages b = [\<lparr>eo_typeUrl = u, eo_value = SubmitBatch m\<rparr>]"
  shows "msb_anchorSignature m = []"
proof -
  obtain i where i: "anchored_input env c input AnchorRequire = Inr i"
    "submitBatchMsg (i\<lparr>si_sequencer := tc_address c\<rparr>) = Inr \<lparr>eo_typeUrl = u, eo_value = SubmitBatch m\<rparr>"
    using submit_sends [OF assms(2,3)] by (auto simp: or_default_def)
  have "i = input"
    using i(1) assms(1) by (auto simp: anchored_input_def falsy_bytes_def)
  with submit_msg_fields(4) [OF i(2)] assms(1) show ?thesis
    by (auto simp: bytes_or_empty_def hexToBytes_def strip0x_def split: if_splits)
qed

lemma require_submits_unanchored_witness:
  "\<exists>b m. fst (submitBatch demo_env demo_tx (demo_batch\<lparr>si_anchorSignature := Some (Raw [])\<rparr>)
       (no_options\<lparr>so_anchor := Some AnchorRequire\<rparr>)) = [b] \<and>
     call_messages b = [\<lparr>eo_typeUrl = MsgSubmitBatch_typeUrl, eo_value = SubmitBatch m\<rparr>] \<and> msb_anchorSignature m = []"
proof -
  let ?r = "submitBatch demo_env demo_tx (demo_batch\<lparr>si_anchorSignature := Some (Raw [])\<rparr>)
    (no_options\<lparr>so_anchor := Some AnchorRequire\<rparr>)"
  have "map call_messages (fst ?r) =
     [[\<lparr>eo_typeUrl = MsgSubmitBatch_typeUrl, eo_value = SubmitBatch (demo_msg\<lparr>msb_anchorSignature := []\<rparr>)\<rparr>]]"
    by code_simp
  then obtain b where b: "fst ?r = [b]"
    "call_messages b = [\<lparr>eo_typeUrl = MsgSubmitBatch_typeUrl, eo_value = SubmitBatch (demo_msg\<lparr>msb_anchorSignature := []\<rparr>)\<rparr>]"
    by (auto simp: map_eq_Cons_conv)
  with require_submits_unanchored [OF _ b] show ?thesis by auto
qed

text \<open>
  The comment on \<open>tryAnchorSignature\<close> says that it never throws; it does, when the transport cannot
  report its chain id or when the state root is no hex.
\<close>

lemma try_anchor_throws:
  assumes "tc_hybrid c = Some h" "\<not> falsy (hc_rest h)" "getRollup (client_rest env c) (si_rollupId input) = Inr rollup"
    and "rv_layerId rollup \<noteq> ''''" "rv_creator rollup = tc_address c" "uc_getChainId (tc_client c) = Some (Inl e)"
  shows "tryAnchorSignature env c input = Inl e"
  using assms by (simp add: tryAnchorSignature_def client_rest_def)

text \<open>The recording backend records each transaction of a classical client, in order.\<close>

lemma mock_records:
  assumes "tc_client c = mock_capability k" "tc_hybrid c = None"
  shows "tx_broadcast env c ms opts =
    ([Classical (tc_address c) ms (or_default (to_fee opts) FeeAuto) (or_default (to_memo opts) '''')],
     snd (mock_signAndBroadcast k (tc_address c) ms (or_default (to_fee opts) FeeAuto)
       (Some (or_default (to_memo opts) ''''))))"
  using assms by (simp add: tx_broadcast_def mock_capability_def Let_def)

end
