(* ===== verification/CrossVm.thy ===== *)
theory CrossVm
  imports Rest
begin

text \<open>
  The cross-VM tooling, \<open>packages/ts/src/crossvm/index.ts\<close>: calldata for the precompile that lets EVM
  contracts call QoreChain Native contracts, the queries that tell whether it is live, and the decoders of
  its return data. Keccak-256 is third-party code, the parameter \<open>keccak256\<close>.

  Offsets and lengths are read from 32-byte words; the source turns them into doubles, which is exact
  below \<open>2 ^ 53\<close> and keeps every larger value above the length of any buffer, so the comparisons have the
  outcome of the exact integers used here.

  Shown: \<open>abi_reads\<close>, the reading of a dynamic tuple by its offsets as a reference decoder, recovers every
  item that \<open>encodeDynamicTuple\<close> laid out; the calldata carries the selector, the target and both dynamic
  arguments where that decoder finds them; return data and revert reasons are read back; a decoded result
  is always a slice of the data given; and a target is reported ready exactly when all three conditions
  hold.
\<close>

definition CROSS_VM_PRECOMPILE :: string where
  "CROSS_VM_PRECOMPILE = ''0x0000000000000000000000000000000000000901''"

definition CROSS_VM_DEFAULT_SIGNATURE :: string where
  "CROSS_VM_DEFAULT_SIGNATURE = ''executeCrossVMCall(uint8,string,bytes)''"

definition CROSS_VM_TARGET_EVM :: int where "CROSS_VM_TARGET_EVM = 0"

definition CROSS_VM_TARGET_NATIVE :: int where "CROSS_VM_TARGET_NATIVE = 1"

subsection \<open>Encoding\<close>

definition functionSelector :: "(bytes \<Rightarrow> bytes) \<Rightarrow> string \<Rightarrow> string" where
  "functionSelector keccak256 signature = ''0x'' @ bytesToHex (take 4 (keccak256 (utf8_encode signature)))"

definition u256be :: "int \<Rightarrow> bytes" where
  "u256be v = be_loop 32 v []"

definition padRight32 :: "bytes \<Rightarrow> bytes" where
  "padRight32 data = (let len = (length data + 31) div 32 * 32 in data @ replicate (len - length data) 0)"

text \<open>The loop over the items: \<open>running\<close> is the length of the tail so far.\<close>

fun tuple_loop :: "int \<Rightarrow> bytes list \<Rightarrow> int \<Rightarrow> bytes list \<Rightarrow> bytes list \<Rightarrow> bytes list \<times> bytes list" where
  "tuple_loop headLen [] running offsets tail = (offsets, tail)"
| "tuple_loop headLen (item # items) running offsets tail =
     (let chunk = concat [u256be (int (length item)), padRight32 item]
      in tuple_loop headLen items (running + int (length chunk)) (offsets @ [u256be (headLen + running)])
           (tail @ [chunk]))"

definition encodeDynamicTuple :: "bytes list \<Rightarrow> int \<Rightarrow> bytes" where
  "encodeDynamicTuple items headWords =
     (let headLen = (headWords + int (length items)) * 32;
          (offsets, tail) = tuple_loop headLen items 0 [] []
      in concat (offsets @ tail))"

datatype text_or_bytes = Text string | Bytes bytes

record CrossVmCall =
  xc_contract :: string
  xc_msg :: text_or_bytes
  xc_targetVm :: "int option"

definition encodeCrossVmCalldata :: "(bytes \<Rightarrow> bytes) \<Rightarrow> CrossVmCall \<Rightarrow> error + string" where
  "encodeCrossVmCalldata keccak256 call =
     (let targetVm = (case xc_targetVm call of None \<Rightarrow> CROSS_VM_TARGET_NATIVE | Some t \<Rightarrow> t) in
      if targetVm \<noteq> CROSS_VM_TARGET_EVM \<and> targetVm \<noteq> CROSS_VM_TARGET_NATIVE
      then Inl (JsError (''unsupported cross-VM target '' @ show_int targetVm @
             '': the precompile accepts 0 (EVM) or 1 (Native)''))
      else
        let selector = drop 2 (functionSelector keccak256 CROSS_VM_DEFAULT_SIGNATURE);
            contractBytes = utf8_encode (xc_contract call);
            msgBytes = (case xc_msg call of Text s \<Rightarrow> utf8_encode s | Bytes b \<Rightarrow> b);
            head = u256be targetVm;
            dynamic = encodeDynamicTuple [contractBytes, msgBytes] 1
        in Inr (''0x'' @ selector @ bytesToHex (concat [head, dynamic])))"

subsection \<open>Queries\<close>

record CrossVmPrecompileStatus =
  xs_active :: bool
  xs_activePrecompiles :: "string list"
  xs_reason :: string

definition crossvm_get :: "fetch_like \<Rightarrow> string \<Rightarrow> string \<Rightarrow> error + HttpResponse" where
  "crossvm_get fetch restBase path = fetch (GET (strip_slashes restBase @ path))"

definition isCrossVmPrecompileActive :: "fetch_like \<Rightarrow> string \<Rightarrow> error + CrossVmPrecompileStatus" where
  "isCrossVmPrecompileActive fetch restBase =
     res_bind (crossvm_get fetch restBase ''/cosmos/evm/vm/v1/params'') (\<lambda>res.
     if \<not> hr_ok res
     then Inr \<lparr>xs_active = False, xs_activePrecompiles = [],
                xs_reason = ''could not read EVM params (HTTP '' @ show_nat (hr_status res) @ '')''\<rparr>
     else
       res_bind (hr_json res) (\<lambda>body.
       if body = JNull then Inl (JsError ''Cannot read properties of null'') else
       let raw = (case field_of body ''params'' of None \<Rightarrow> None | Some p \<Rightarrow> field_of p ''active_static_precompiles'');
           list = (case raw of Some (JArr xs) \<Rightarrow> map (\<lambda>a. toLowerCase (js_String a)) xs | _ \<Rightarrow> []);
           active = toLowerCase CROSS_VM_PRECOMPILE \<in> set list
       in Inr \<lparr>xs_active = active, xs_activePrecompiles = list,
            xs_reason =
              (if active then ''the cross-VM precompile is listed in active_static_precompiles''
               else if list = []
               then ''active_static_precompiles is empty on this network, so no QoreChain precompile runs; '' @
                    ''a call to the address succeeds with empty data and does nothing''
               else ''the cross-VM precompile is not among the '' @ show_nat (length list) @ '' active precompile(s)'')\<rparr>))"

record CrossVmParams =
  xp_enabled :: bool
  xp_bridgeAllowedTargets :: "string list"
  xp_maxMessageSize :: "int option"

text \<open>\<open>maxMessageSize\<close> is \<open>Number(...)\<close>; \<open>None\<close> is \<open>NaN\<close>.\<close>

definition getCrossVmParams :: "fetch_like \<Rightarrow> string \<Rightarrow> error + CrossVmParams" where
  "getCrossVmParams fetch restBase =
     res_bind (crossvm_get fetch restBase ''/qorechain/crossvm/v1/params'') (\<lambda>res.
     if \<not> hr_ok res then Inl (JsError (''could not read cross-VM params (HTTP '' @ show_nat (hr_status res) @ '')''))
     else
       res_bind (hr_json res) (\<lambda>body.
       if body = JNull then Inl (JsError ''Cannot read properties of null'') else
       let p = nullish (field_of body ''params'') body;
           targets = (case field_of p ''bridge_allowed_targets'' of Some (JArr xs) \<Rightarrow> map js_String xs | _ \<Rightarrow> [])
       in Inr \<lparr>xp_enabled = (field_of p ''enabled'' = Some (JBool True)), xp_bridgeAllowedTargets = targets,
               xp_maxMessageSize = js_Number (nullish (field_of p ''max_message_size'') (JNum 0))\<rparr>))"

definition crossVmTargetReady :: "fetch_like \<Rightarrow> string \<Rightarrow> string \<Rightarrow> error + (bool \<times> string)" where
  "crossVmTargetReady fetch restBase contract =
     res_bind (isCrossVmPrecompileActive fetch restBase) (\<lambda>precompile.
     if \<not> xs_active precompile then Inr (False, xs_reason precompile)
     else case getCrossVmParams fetch restBase of
       Inl err \<Rightarrow> Inr (False, message err)
     | Inr params \<Rightarrow>
         if \<not> xp_enabled params then Inr (False, ''the cross-VM bridge is disabled on this network'')
         else
           let target = ''cosmwasm:'' @ contract in
           if target \<in> set (xp_bridgeAllowedTargets params)
           then Inr (True, target @ '' is allowlisted and the precompile is active'')
           else Inr (False, target @ '' is not in bridge_allowed_targets; governance must allowlist it''))"

subsection \<open>Decoding\<close>

fun word_loop :: "nat \<Rightarrow> bytes \<Rightarrow> int \<Rightarrow> int" where
  "word_loop 0 b v = v"
| "word_loop (Suc n) b v = word_loop n (tl b) (push_bit 8 v OR uint (hd b))"

definition readWord :: "bytes \<Rightarrow> nat \<Rightarrow> int" where
  "readWord b at = word_loop 32 (drop at b) 0"

definition decodeCrossVmResult :: "bytes_like \<Rightarrow> error + bytes" where
  "decodeCrossVmResult ret =
     res_bind (toBytes ret) (\<lambda>b.
     if length b = 0
     then Inl (JsError ''empty return data: the cross-VM precompile is not active, so the call did nothing'')
     else if length b < 64
     then Inl (JsError (''cross-VM return data is '' @ show_nat (length b) @ '' bytes; abi.encode(bytes) is at least 64''))
     else
       let offset = readWord b 0 in
       if offset + 32 > int (length b) then Inl (JsError ''cross-VM return data has an out-of-range offset'')
       else
         let len = readWord b (nat offset) in
         if offset + 32 + len > int (length b)
         then Inl (JsError ''cross-VM return data is shorter than its length word'')
         else Inr (take (nat len) (drop (nat (offset + 32)) b)))"

text \<open>
  \<open>TextDecoder\<close>: one- and two-byte sequences of the modelled code units; a byte that is part of no such
  sequence stands for characters outside the model and is written \<open>?\<close>.
\<close>

fun utf8_text :: "bytes \<Rightarrow> string" where
  "utf8_text [] = []"
| "utf8_text (b # bs) =
     (if unat b < 128 then char_of (unat b) # utf8_text bs
      else case bs of
             [] \<Rightarrow> ''?''
           | c # cs \<Rightarrow>
               if unat b \<in> {194, 195} \<and> 128 \<le> unat c \<and> unat c < 192
               then char_of (64 * (unat b - 192) + (unat c - 128)) # utf8_text cs
               else CHR ''?'' # utf8_text bs)"

definition decodeRevertReason :: "bytes_like \<Rightarrow> error + string option" where
  "decodeRevertReason data =
     res_bind (toBytes data) (\<lambda>b.
     if length b < 4 + 64 \<or> bytesToHex (take 4 b) \<noteq> ''08c379a0'' then Inr None
     else
       let body = drop 4 b; offset = readWord body 0 in
       if offset + 32 > int (length body) then Inr None
       else
         let len = readWord body (nat offset) in
         if offset + 32 + len > int (length body) then Inr None
         else Inr (Some (utf8_text (take (nat len) (drop (nat (offset + 32)) body)))))"

subsection \<open>Reading a dynamic tuple\<close>

text \<open>
  The item behind the \<open>k\<close>-th head word of a tuple: the word is an offset from the start of the tuple, at
  the offset stands the length, behind it the data. This is the decoding the ABI prescribes.
\<close>

definition abi_word :: "bytes \<Rightarrow> nat \<Rightarrow> int" where
  "abi_word full k = be_val (take 32 (drop k full))"

definition abi_reads :: "bytes \<Rightarrow> nat \<Rightarrow> bytes" where
  "abi_reads full k =
     (let off = nat (abi_word full (32 * k)) in take (nat (abi_word full off)) (drop (off + 32) full))"

definition chunk :: "bytes \<Rightarrow> bytes" where
  "chunk item = u256be (int (length item)) @ padRight32 item"

definition tail_before :: "bytes list \<Rightarrow> nat \<Rightarrow> nat" where
  "tail_before items i = length (concat (map chunk (take i items)))"

lemma u256be_eq: "u256be v = be_bytes 32 v"
  by (simp add: u256be_def be_bytes_def)

lemma length_u256be [simp]: "length (u256be v) = 32"
  by (simp add: u256be_eq)

lemma be_val_u256be: "0 \<le> v \<Longrightarrow> v < 2 ^ 256 \<Longrightarrow> be_val (u256be v) = v"
  by (simp add: u256be_eq be_val_be_bytes)

lemma padRight32_prefix: "\<exists>z. padRight32 data = data @ z"
  by (simp add: padRight32_def Let_def)

lemma shift_or: "push_bit 8 v OR uint (b :: byte) = 256 * v + uint b"
proof -
  have "push_bit 8 v AND uint b = 0"
    by (rule bit_eqI) (auto simp: bit_simps dest: bit_imp_le_length)
  then show ?thesis
    by (simp add: push_bit_eq_mult flip: disjunctive_add_eq_or)
qed

lemma word_loop_eq: "n \<le> length b \<Longrightarrow> word_loop n b v = v * 256 ^ n + be_val (take n b)"
proof (induction n arbitrary: b v)
  case (Suc n)
  then obtain x xs where b: "b = x # xs" by (cases b) auto
  with Suc show ?case by (simp add: shift_or algebra_simps)
qed simp

lemma readWord_eq: "at + 32 \<le> length b \<Longrightarrow> readWord b at = abi_word b at"
  by (simp add: readWord_def abi_word_def word_loop_eq)

lemma be_val_nonneg: "0 \<le> be_val bs"
  by (induction bs) simp_all

lemma abi_word_nonneg: "0 \<le> abi_word b k"
  by (simp add: abi_word_def be_val_nonneg)

lemma tuple_loop_eq:
  "tuple_loop H items r offs ts =
     (offs @ map (\<lambda>i. u256be (H + r + int (tail_before items i))) [0..<length items], ts @ map chunk items)"
proof (induction H items r offs ts rule: tuple_loop.induct)
  case (2 H item items r offs ts)
  have "map (\<lambda>i. u256be (H + (r + int (length (chunk item))) + int (tail_before items i))) [0..<length items] =
      map (\<lambda>i. u256be (H + r + int (tail_before (item # items) i))) [1..<Suc (length items)]"
    by (simp add: tail_before_def map_Suc_upt [symmetric] add.assoc del: upt_Suc)
  then show ?case
    using 2 by (simp add: Let_def chunk_def tail_before_def upt_conv_Cons del: upt_Suc)
qed simp

definition offset_words :: "bytes list \<Rightarrow> nat \<Rightarrow> bytes list" where
  "offset_words items hw =
     map (\<lambda>i. u256be (int (32 * (hw + length items) + tail_before items i))) [0..<length items]"

lemma encodeDynamicTuple_eq:
  "encodeDynamicTuple items (int hw) = concat (offset_words items hw) @ concat (map chunk items)"
  by (simp add: encodeDynamicTuple_def tuple_loop_eq Let_def offset_words_def algebra_simps)

lemma take_drop_concat:
  assumes "\<And>x. x \<in> set xs \<Longrightarrow> length x = w" "i < length xs"
  shows "take w (drop (w * i) (concat xs @ ys)) = xs ! i"
  using assms
proof (induction xs arbitrary: i)
  case (Cons x xs)
  then show ?case by (cases i) simp_all
qed simp

lemma length_concat_words: "(\<And>x. x \<in> set xs \<Longrightarrow> length x = w) \<Longrightarrow> length (concat xs) = w * length xs"
  by (induction xs) simp_all

lemma tail_split:
  assumes "i < length items"
  shows "drop (tail_before items i) (concat (map chunk items)) = chunk (items ! i) @ concat (map chunk (drop (Suc i) items))"
proof -
  have "concat (map chunk items) = concat (map chunk (take i items)) @ concat (map chunk (drop i items))"
    by (metis append_take_drop_id concat_append map_append)
  then show ?thesis
    using assms by (simp add: tail_before_def flip: Cons_nth_drop_Suc)
qed

lemma abi_reads_tuple:
  assumes len: "length pre = 32 * hw" and i: "i < length items"
    and fits: "int (length (pre @ encodeDynamicTuple items (int hw))) < 2 ^ 256"
  shows "abi_reads (pre @ encodeDynamicTuple items (int hw)) (hw + i) = items ! i"
proof -
  let ?full = "pre @ encodeDynamicTuple items (int hw)"
  let ?off = "32 * (hw + length items) + tail_before items i"
  let ?item = "items ! i"
  have words: "length (concat (offset_words items hw)) = 32 * length items"
    by (subst length_concat_words [where w = 32]) (auto simp: offset_words_def)
  have full: "?full = (pre @ concat (offset_words items hw)) @ concat (map chunk items)"
    by (simp add: encodeDynamicTuple_eq)
  have "take 32 (drop (32 * i) (concat (offset_words items hw) @ concat (map chunk items))) = offset_words items hw ! i"
    using i by (intro take_drop_concat) (auto simp: offset_words_def)
  then have word: "take 32 (drop (32 * (hw + i)) ?full) = u256be (int ?off)"
    using i len by (simp add: encodeDynamicTuple_eq offset_words_def algebra_simps)
  obtain z where z: "padRight32 ?item = ?item @ z" using padRight32_prefix by blast
  have at_off: "drop ?off ?full = u256be (int (length ?item)) @ ?item @ z @ concat (map chunk (drop (Suc i) items))"
    unfolding full using len words tail_split [OF i] z by (simp add: chunk_def algebra_simps)
  then have "32 + length ?item \<le> length (drop ?off ?full)" by simp
  then have bound: "?off + 32 + length ?item \<le> length ?full" unfolding length_drop by linarith
  have off: "abi_word ?full (32 * (hw + i)) = int ?off"
    unfolding abi_word_def word using bound fits by (intro be_val_u256be) linarith+
  have lenw: "abi_word ?full ?off = int (length ?item)"
    unfolding abi_word_def at_off using bound fits by (simp add: be_val_u256be)
  have "drop (?off + 32) ?full = drop 32 (drop ?off ?full)" by (metis drop_drop add.commute)
  then have "drop (?off + 32) ?full = ?item @ z @ concat (map chunk (drop (Suc i) items))"
    unfolding at_off by simp
  then show ?thesis
    unfolding abi_reads_def off nat_int Let_def lenw by simp
qed

lemma encode_length: "64 * length items \<le> length (encodeDynamicTuple items (int hw))"
proof -
  have "32 * length xs \<le> length (concat (map chunk xs))" for xs
    by (induction xs) (simp_all add: chunk_def)
  moreover have "length (concat (offset_words items hw)) = 32 * length items"
    by (subst length_concat_words [where w = 32]) (auto simp: offset_words_def)
  ultimately show ?thesis
    using add_mono [of "32 * length items" "32 * length items"] by (simp add: encodeDynamicTuple_eq)
qed

lemma utf8_text_encode: "utf8_text (utf8_encode s) = s"
proof (induction s)
  case (Cons c s)
  show ?case
  proof (cases "code c < 128")
    case True
    then show ?thesis
      using Cons by (simp add: utf8_encode_Cons utf8_char_def unat_of_nat_byte code_def)
  next
    case False
    have d: "code c div 64 \<in> {2, 3}" using False code_less [of c] by auto
    have b: "192 + code c div 64 < 256" "128 + code c mod 64 < 256" using code_less [of c] by auto
    have u: "unat (of_nat (192 + code c div 64) :: byte) = 192 + code c div 64"
      "unat (of_nat (128 + code c mod 64) :: byte) = 128 + code c mod 64"
      using unat_of_nat_byte [OF b(1)] unat_of_nat_byte [OF b(2)] by simp_all
    have "128 + code c mod 64 < 192" by simp
    moreover have "utf8_encode (c # s) = of_nat (192 + code c div 64) # of_nat (128 + code c mod 64) # utf8_encode s"
      using False by (simp add: utf8_encode_Cons utf8_char_def Let_def)
    moreover have "64 * (192 + code c div 64 - 192) + (128 + code c mod 64 - 128) = code c" by simp
    ultimately show ?thesis using u d Cons by (simp only: utf8_text.simps) (auto simp: code_def)
  qed
qed simp

text \<open>The one-item decoders find the item the encoder wrote.\<close>

lemma one_item:
  assumes "int (length (encodeDynamicTuple [p] 0)) < 2 ^ 256"
  shows "abi_word (encodeDynamicTuple [p] 0) 0 = 32" "abi_word (encodeDynamicTuple [p] 0) 32 = int (length p)"
    "take (length p) (drop 64 (encodeDynamicTuple [p] 0)) = p" "64 + length p \<le> length (encodeDynamicTuple [p] 0)"
proof -
  obtain z where z: "padRight32 p = p @ z" using padRight32_prefix by blast
  have e: "encodeDynamicTuple [p] 0 = u256be 32 @ u256be (int (length p)) @ p @ z"
    using encodeDynamicTuple_eq [of "[p]" 0] z by (simp add: offset_words_def chunk_def tail_before_def)
  then show "64 + length p \<le> length (encodeDynamicTuple [p] 0)" by simp
  with assms have l: "int (length p) < 2 ^ 256" by linarith
  show "abi_word (encodeDynamicTuple [p] 0) 0 = 32" "abi_word (encodeDynamicTuple [p] 0) 32 = int (length p)"
    "take (length p) (drop 64 (encodeDynamicTuple [p] 0)) = p"
    unfolding e abi_word_def using l by (simp_all add: be_val_u256be)
qed

subsection \<open>Properties\<close>

text \<open>
  C20: The ABI layout. Behind a head of \<open>hw\<close> words, the decoding the ABI prescribes finds each item of
  \<open>encodeDynamicTuple items hw\<close> through its own offset word, for any number of items of any lengths, empty
  ones included.
\<close>

theorem dynamic_tuple_is_abi:
  assumes "length pre = 32 * hw" "i < length items"
    and "int (length (pre @ encodeDynamicTuple items (int hw))) < 2 ^ 256"
  shows "abi_reads (pre @ encodeDynamicTuple items (int hw)) (hw + i) = items ! i"
  by (rule abi_reads_tuple [OF assms])

lemma dynamic_tuple_is_abi_witness:
  "abi_reads (encodeDynamicTuple [[1, 2, 3], [], replicate 33 7] 0) 2 = replicate 33 7"
proof -
  have "int (length ([] @ encodeDynamicTuple [[1, 2, 3], [], replicate 33 7] (int 0))) < 2 ^ 256"
    by (simp add: encodeDynamicTuple_eq [of _ 0, simplified] offset_words_def chunk_def padRight32_def upt_rec)
  from dynamic_tuple_is_abi [of "[]" 0 2, OF _ _ this] show ?thesis by (simp add: numeral_2_eq_2)
qed

text \<open>
  Cross-VM calldata says what the caller asked. For the two targets the precompile accepts, the
  calldata is \<open>0x\<close>, four bytes of the hash of the signature, the target as the first word, and behind it
  the contract and the message where an ABI decoder looks for them; every other target is refused.
\<close>

theorem crossvm_calldata_decodes:
  assumes "4 \<le> length (keccak256 (utf8_encode CROSS_VM_DEFAULT_SIGNATURE))"
    and "int (length (utf8_encode (xc_contract call))) < 2 ^ 64" "int (length msg) < 2 ^ 64"
    and "msg = (case xc_msg call of Text s \<Rightarrow> utf8_encode s | Bytes b \<Rightarrow> b)"
    and "t = (case xc_targetVm call of None \<Rightarrow> 1 | Some v \<Rightarrow> v)"
  shows "if t \<in> {0, 1}
    then \<exists>text b. encodeCrossVmCalldata keccak256 call = Inr text \<and> hexToBytes text = Inr b \<and>
      take 4 b = take 4 (keccak256 (utf8_encode CROSS_VM_DEFAULT_SIGNATURE)) \<and>
      abi_word (drop 4 b) 0 = t \<and> abi_reads (drop 4 b) 1 = utf8_encode (xc_contract call) \<and>
      abi_reads (drop 4 b) 2 = msg
    else \<exists>e. encodeCrossVmCalldata keccak256 call = Inl e"
proof (cases "t \<in> {0, 1}")
  case False
  then show ?thesis
    using assms(5) by (auto simp: encodeCrossVmCalldata_def CROSS_VM_TARGET_EVM_def CROSS_VM_TARGET_NATIVE_def
        split: option.splits)
next
  case True
  let ?items = "[utf8_encode (xc_contract call), msg]"
  let ?sel = "take 4 (keccak256 (utf8_encode CROSS_VM_DEFAULT_SIGNATURE))"
  let ?body = "u256be t @ encodeDynamicTuple ?items (int 1)"
  have "encodeCrossVmCalldata keccak256 call = Inr (''0x'' @ bytesToHex (?sel @ ?body))"
    using True assms(4,5)
    by (auto simp: encodeCrossVmCalldata_def functionSelector_def CROSS_VM_TARGET_EVM_def CROSS_VM_TARGET_NATIVE_def
        bytesToHex_def split: option.splits)
  moreover have pad: "length (padRight32 d) < length d + 32" for d
    by (simp add: padRight32_def Let_def)
  have fits: "int (length ?body) < 2 ^ 256"
    unfolding encodeDynamicTuple_eq
    using assms(2,3) pad [of msg] pad [of "utf8_encode (xc_contract call)"]
    by (simp add: offset_words_def chunk_def upt_rec)
  have "abi_reads ?body (1 + 0) = ?items ! 0" "abi_reads ?body (1 + 1) = ?items ! 1"
    using abi_reads_tuple [of "u256be t" 1 _ ?items, OF _ _ fits] by simp_all
  moreover have "abi_word ?body 0 = t"
    using True by (auto simp: abi_word_def be_val_u256be)
  ultimately show ?thesis
    using True assms(1)
    by (intro if_P [THEN iffD2] exI [of _ "''0x'' @ bytesToHex (?sel @ ?body)"] exI [of _ "?sel @ ?body"])
      (simp_all add: numeral_2_eq_2)
qed

lemma crossvm_calldata_decodes_witness:
  "\<exists>text. encodeCrossVmCalldata toy_hash \<lparr>xc_contract = ''qor1abc'', xc_msg = Text ''{}'', xc_targetVm = None\<rparr> = Inr text"
proof -
  let ?call = "\<lparr>xc_contract = ''qor1abc'', xc_msg = Text ''{}'', xc_targetVm = None\<rparr>"
  have l: "int (length (utf8_encode ''qor1abc'')) < 2 ^ 64" "int (length (utf8_encode ''{}'')) < 2 ^ 64"
    by (simp_all add: utf8_encode_def utf8_char_def code_def)
  have p: "4 \<le> length (toy_hash (utf8_encode CROSS_VM_DEFAULT_SIGNATURE))"
    "int (length (utf8_encode (xc_contract ?call))) < 2 ^ 64"
    "utf8_encode ''{}'' = (case xc_msg ?call of Text s \<Rightarrow> utf8_encode s | Bytes b \<Rightarrow> b)"
    "1 = (case xc_targetVm ?call of None \<Rightarrow> 1 | Some v \<Rightarrow> v)"
    using l(1) by simp_all
  have "(1 :: int) \<in> {0, 1}" by simp
  with crossvm_calldata_decodes [of toy_hash ?call "utf8_encode ''{}''" 1, OF p(1,2) l(2) p(3,4)]
  show ?thesis by (simp only: if_True) blast
qed

text \<open>
  Return data round trips. What \<open>abi.encode(bytes)\<close> makes of a payload is decoded to that payload, and
  what a revert with \<open>Error(string)\<close> carries is decoded to its reason; both for every payload, the empty
  one included.
\<close>

theorem crossvm_results_round_trip:
  assumes "int (length (encodeDynamicTuple [p] 0)) < 2 ^ 256" "int (length (encodeDynamicTuple [utf8_encode s] 0)) < 2 ^ 256"
  shows "decodeCrossVmResult (Raw (encodeDynamicTuple [p] 0)) = Inr p \<and>
    decodeRevertReason (Raw ([0x08, 0xc3, 0x79, 0xa0] @ encodeDynamicTuple [utf8_encode s] 0)) = Inr (Some s)"
proof
  note f = one_item [OF assms(1)]
  have "readWord (encodeDynamicTuple [p] 0) 0 = 32" "readWord (encodeDynamicTuple [p] 0) 32 = int (length p)"
    using f by (simp_all add: readWord_eq)
  with f show "decodeCrossVmResult (Raw (encodeDynamicTuple [p] 0)) = Inr p"
    by (auto simp: decodeCrossVmResult_def Let_def)
next
  note f = one_item [OF assms(2)]
  have "readWord (encodeDynamicTuple [utf8_encode s] 0) 0 = 32"
    "readWord (encodeDynamicTuple [utf8_encode s] 0) 32 = int (length (utf8_encode s))"
    using f by (simp_all add: readWord_eq)
  moreover have "bytesToHex [0x08, 0xc3, 0x79, 0xa0] = ''08c379a0''" by code_simp
  ultimately show "decodeRevertReason (Raw ([0x08, 0xc3, 0x79, 0xa0] @ encodeDynamicTuple [utf8_encode s] 0)) = Inr (Some s)"
    using f by (auto simp: decodeRevertReason_def Let_def utf8_text_encode)
qed

lemma crossvm_results_round_trip_witness:
  "decodeCrossVmResult (Raw (encodeDynamicTuple [[1, 2, 3]] 0)) = Inr [1, 2, 3]"
proof -
  have "int (length (encodeDynamicTuple [[1, 2, 3]] 0)) < 2 ^ 256" "int (length (encodeDynamicTuple [utf8_encode ''no''] 0)) < 2 ^ 256"
    using encodeDynamicTuple_eq [of "[[1, 2, 3]]" 0] encodeDynamicTuple_eq [of "[utf8_encode ''no'']" 0]
    by (simp_all add: offset_words_def chunk_def padRight32_def utf8_encode_def utf8_char_def code_def)
  from crossvm_results_round_trip [OF this] show ?thesis by blast
qed

text \<open>
  Decoding stays inside the data. Whatever the node returns, \<open>decodeCrossVmResult\<close> throws or gives a
  contiguous part of it that starts behind its first 32 bytes; on empty or short data it throws.
\<close>

theorem crossvm_result_is_a_slice:
  "if length b < 64 then \<exists>e. decodeCrossVmResult (Raw b) = Inl e
   else case decodeCrossVmResult (Raw b) of
      Inl e \<Rightarrow> True
    | Inr out \<Rightarrow> \<exists>pre post. b = pre @ out @ post \<and> 32 \<le> length pre"
proof (cases "length b < 64")
  case True
  then show ?thesis by (auto simp: decodeCrossVmResult_def)
next
  case False
  let ?k = "nat (readWord b 0 + 32)" and ?n = "nat (readWord b (nat (readWord b 0)))"
  have "0 \<le> readWord b 0"
    using False abi_word_nonneg [of b 0] by (simp add: readWord_eq)
  then have k: "32 \<le> ?k" by simp
  have inside: "\<exists>pre post. b = pre @ out @ post \<and> 32 \<le> length pre" if "decodeCrossVmResult (Raw b) = Inr out" for out
  proof -
    have "out = take ?n (drop ?k b)"
      using that False by (auto simp: decodeCrossVmResult_def Let_def split: if_splits)
    then have "b = take ?k b @ out @ drop ?n (drop ?k b)" by (simp only: append_take_drop_id)
    moreover have "32 \<le> length (take ?k b)" using k False by simp
    ultimately show ?thesis by blast
  qed
  with False show ?thesis by (auto split: sum.split)
qed

text \<open>
  A target is ready exactly when the node lists the precompile as active, the bridge is enabled and
  \<open>cosmwasm:\<close> with the contract is allowlisted; when the parameters cannot be read it is not ready, and
  no error escapes from that read.
\<close>

theorem target_ready_exactly:
  "case isCrossVmPrecompileActive fetch restBase of
     Inl e \<Rightarrow> crossVmTargetReady fetch restBase contract = Inl e
   | Inr st \<Rightarrow> (\<exists>ready reason. crossVmTargetReady fetch restBase contract = Inr (ready, reason) \<and>
       (ready \<longleftrightarrow> xs_active st \<and> (\<exists>p. getCrossVmParams fetch restBase = Inr p \<and> xp_enabled p \<and>
          ''cosmwasm:'' @ contract \<in> set (xp_bridgeAllowedTargets p))))"
  by (auto simp: crossVmTargetReady_def Let_def split: sum.splits)

end
