(* ===== verification/Health.thy ===== *)
theory Health
  imports Challenge TxClient
begin

text \<open>
  Reading a rollup's state: \<open>getChainTip\<close> of \<open>packages/ts/src/client/rdk-client.ts\<close>, the consolidated
  health report of \<open>health/index.ts\<close>, the polling of \<open>monitor/index.ts\<close> and the event decoding of
  \<open>events/decode.ts\<close>.

  The block time is an ISO 8601 text in UTC, as the consensus RPC reports it, read by the rule that
  ECMAScript gives for \<open>Date.parse\<close> on that format; other texts read as \<open>NaN\<close>. A report is assembled from
  one snapshot of the node. The monitor is a state machine like the watchtower's: its variables are the
  fields of \<open>RollupWatch\<close>, its calls of the callbacks are recorded in \<open>rw_trace\<close>, and what a tick meets,
  the node, a callback that throws and the calls of \<open>stop\<close> that arrive meanwhile, is its environment.

  Shown: the report's flag and notes say what the chain says; the batch
  named as holding back the latest one is the oldest unsettled one, and the bounded search for it misses
  none; a tick of the monitor reports exactly once and schedules the next one whatever happened; and
  \<open>stop\<close> ends both pollers for good, by one argument made about their common interface.
\<close>

subsection \<open>Block times\<close>

text \<open>\<open>DayFromYear\<close>, \<open>DayWithinYear\<close> and \<open>MakeTime\<close> of ECMAScript.\<close>

definition day_from_year :: "int \<Rightarrow> int" where
  "day_from_year y = 365 * (y - 1970) + (y - 1969) div 4 - (y - 1901) div 100 + (y - 1601) div 400"

definition leap_year :: "int \<Rightarrow> bool" where
  "leap_year y \<longleftrightarrow> y mod 4 = 0 \<and> (y mod 100 \<noteq> 0 \<or> y mod 400 = 0)"

definition month_lengths :: "int \<Rightarrow> int list" where
  "month_lengths y = [31, if leap_year y then 29 else 28, 31, 30, 31, 30, 31, 31, 30, 31, 30, 31]"

definition day_number :: "int \<Rightarrow> nat \<Rightarrow> int \<Rightarrow> int" where
  "day_number y m d = day_from_year y + sum_list (take (m - 1) (month_lengths y)) + (d - 1)"

text \<open>The fields of \<open>YYYY-MM-DDTHH:mm:ss\<close>, and the fraction with the zone behind them.\<close>

definition digits_at :: "string \<Rightarrow> nat \<Rightarrow> nat \<Rightarrow> nat option" where
  "digits_at s i n =
     (let f = take n (drop i s) in if length f = n \<and> list_all is_digit f then Some (nat_of_digits f) else None)"

definition zone_ms :: "string \<Rightarrow> nat option" where
  "zone_ms s =
     (case s of
        CHR ''.'' # r \<Rightarrow>
          let ds = takeWhile is_digit r in
          if ds \<noteq> [] \<and> dropWhile is_digit r = ''Z'' then Some (nat_of_digits (take 3 (padEnd 3 CHR ''0'' ds))) else None
      | _ \<Rightarrow> if s = ''Z'' then Some 0 else None)"

definition date_marks :: "string \<Rightarrow> bool" where
  "date_marks s \<longleftrightarrow> map (\<lambda>i. take 1 (drop i s)) [4, 7, 10, 13, 16] = [''-'', ''-'', ''T'', '':'', '':'']"

definition date_parse :: "string \<Rightarrow> int option" where
  "date_parse s =
     (case (map (\<lambda>(i, n). digits_at s i n) [(0, 4), (5, 2), (8, 2), (11, 2), (14, 2), (17, 2)], zone_ms (drop 19 s)) of
        ([Some y, Some mo, Some d, Some h, Some mi, Some sec], Some ms) \<Rightarrow>
          if date_marks s \<and> 1 \<le> mo \<and> mo \<le> 12 \<and> 1 \<le> d \<and> int d \<le> month_lengths (int y) ! (mo - 1) \<and>
             h < 24 \<and> mi < 60 \<and> sec < 60
          then Some ((((day_number (int y) mo (int d) * 24 + int h) * 60 + int mi) * 60 + int sec) * 1000 + int ms)
          else None
      | _ \<Rightarrow> None)"

subsection \<open>The chain tip\<close>

definition maybe_field :: "json option \<Rightarrow> string \<Rightarrow> json option" where
  "maybe_field v k = (case v of None \<Rightarrow> None | Some x \<Rightarrow> field_of x k)"

definition getChainTip :: "RdkClient \<Rightarrow> error + ChainTip" where
  "getChainTip client =
     (let url = strip_slashes (ep_rpc (nc_endpoints (rk_network client))) @ ''/status'' in
      res_bind (rest_fetch (rk_rest client) (GET url)) (\<lambda>res.
      if \<not> hr_ok res
      then Inl (JsError (''could not read the chain tip from '' @ url @ '' (HTTP '' @ show_nat (hr_status res) @ '')''))
      else
        res_bind (hr_json res) (\<lambda>body. of_record body (
        let info = maybe_field (field_of body ''result'') ''sync_info'';
            height = (case maybe_field info ''latest_block_height'' of
                        None \<Rightarrow> None | Some JNull \<Rightarrow> None | Some v \<Rightarrow> js_Number v);
            timeMs = date_parse (js_String (nullish (maybe_field info ''latest_block_time'') (JStr '''')))
        in case (height, timeMs) of
             (Some h, Some t) \<Rightarrow> Inr \<lparr>tip_height = h, tip_timeSecs = t div 1000\<rparr>
           | _ \<Rightarrow> Inl (JsError (''the node at '' @ url @ '' did not report a latest block height and time''))))))"

subsection \<open>Health\<close>

record RollupHealth =
  rh_rollupId :: string
  rh_status :: string
  rh_hasBatches :: bool
  rh_latestBatchIndex :: "int option"
  rh_latestBatchStatus :: "string option"
  rh_latestBatchHeight :: "int option"
  rh_batchAgeBlocks :: "int option"
  rh_batchAgeSecs :: "int option"
  rh_challengeWindow :: "ChallengeWindowStatus option"
  rh_challengeDeadlineSecs :: "int option"
  rh_secondsUntilChallengeDeadline :: "int option"
  rh_heldBackBy :: "(int \<times> string) option"
  rh_healthy :: bool
  rh_notes :: "string list"

record HealthOptions =
  he_tip :: "ChainTip option"
  he_nowSecs :: "int option"
  he_challengeWindowSecs :: "int option"

definition unsettled :: "BatchView \<Rightarrow> bool" where
  "unsettled b \<longleftrightarrow> bv_status b = ''submitted'' \<or> bv_status b = ''challenged''"

definition oldestUnsettledBefore :: "RdkClient \<Rightarrow> string \<Rightarrow> int \<Rightarrow> error + (int \<times> string) option" where
  "oldestUnsettledBefore client rollupId latestIndex =
     res_bind (listBatches (rk_rest client) rollupId
       (Some (max 0 (latestIndex - MAX_PENDING_OPTIMISTIC_BATCHES)))) (\<lambda>batches.
     let pending = sort_key bv_batchIndex (filter (\<lambda>b. bv_batchIndex b < latestIndex \<and> unsettled b) batches) in
     Inr (case pending of [] \<Rightarrow> None | b # _ \<Rightarrow> Some (bv_batchIndex b, bv_status b)))"

definition NO_BATCHES :: string where
  "NO_BATCHES = ''no settlement batches submitted yet''"

text \<open>The tip: the given one, else the node's, with its time replaced by \<open>nowSecs\<close> when that is given.\<close>

definition health_tip :: "RdkClient \<Rightarrow> HealthOptions \<Rightarrow> ChainTip option \<times> string list" where
  "health_tip client options =
     (case he_tip options of
        Some t \<Rightarrow> (Some t, [])
      | None \<Rightarrow>
          case getChainTip client of
            Inl err \<Rightarrow> (None, [''could not read the chain tip: '' @ message err])
          | Inr t \<Rightarrow>
              (Some (case he_nowSecs options of None \<Rightarrow> t | Some n \<Rightarrow> t\<lparr>tip_timeSecs := n\<rparr>), []))"

definition batch_ages :: "BatchView \<Rightarrow> ChainTip option \<Rightarrow> RollupHealth \<Rightarrow> RollupHealth" where
  "batch_ages b tip health =
     (case tip of
        None \<Rightarrow> health
      | Some t \<Rightarrow>
          health\<lparr>rh_batchAgeBlocks := Some (tip_height t - bv_submittedAt b),
                 rh_batchAgeSecs := (if 0 < bv_submittedTime b then Some (tip_timeSecs t - bv_submittedTime b) else None)\<rparr>)"

text \<open>The window of a batch that is still pending.\<close>

definition window_fields :: "BatchView \<Rightarrow> int \<Rightarrow> ChainTip option \<Rightarrow> RollupHealth \<Rightarrow> RollupHealth" where
  "window_fields b windowSecs tip health =
     (case tip of
        None \<Rightarrow> health
      | Some t \<Rightarrow>
          let window = batchChallengeWindow (bv_submittedAt b) (Some (bv_submittedTime b)) windowSecs t;
              health1 = health\<lparr>rh_challengeWindow := Some window\<rparr>
          in if cw_mode window = Time
             then health1\<lparr>rh_challengeDeadlineSecs := cw_deadlineSecs window,
                          rh_secondsUntilChallengeDeadline := cw_secondsRemaining window\<rparr>
             else health1)"

definition GLOBAL_WINDOW_NOTE :: string where
  "GLOBAL_WINDOW_NOTE = ''this node does not report the rollup'' @ [CHR 0x27] @
     ''s own challenge window; using the global default, which is wrong for a rollup that set its own''"

definition finalizable :: "RollupHealth \<Rightarrow> bool" where
  "finalizable health \<longleftrightarrow> (case rh_challengeWindow health of None \<Rightarrow> False | Some w \<Rightarrow> cw_finalizable w)"

text \<open>The last check: a submitted batch whose window has passed may wait for an earlier one.\<close>

definition held_back :: "RdkClient \<Rightarrow> string \<Rightarrow> BatchView \<Rightarrow> RollupHealth \<Rightarrow> error + RollupHealth" where
  "held_back client rollupId b health =
     (if bv_status b = ''submitted'' \<and> finalizable health then
        res_bind (isProtocolFeatureEnabled (rk_rest client) FEATURE_RDK_CHALLENGE_SETTLEMENT) (\<lambda>on.
        if \<not> on then Inr health
        else
          res_bind (oldestUnsettledBefore client rollupId (bv_batchIndex b)) (\<lambda>blocker.
          case blocker of
            None \<Rightarrow> Inr health
          | Some (i, s) \<Rightarrow>
              Inr (health\<lparr>rh_heldBackBy := Some (i, s),
                rh_notes := rh_notes health @ [''batch '' @ show_int (bv_batchIndex b) @ [CHR 0x27] @
                  ''s window has passed, but batches finalize in order and batch '' @ show_int i @
                  '' is still '' @ s]\<rparr>)))
      else Inr health)"

definition pending_checks ::
  "RdkClient \<Rightarrow> string \<Rightarrow> HealthOptions \<Rightarrow> RollupView \<Rightarrow> BatchView \<Rightarrow> ChainTip option \<Rightarrow> RollupHealth \<Rightarrow>
   error + RollupHealth" where
  "pending_checks client rollupId options rollup b tip health =
     (if unsettled b then
        res_bind (case orElse (he_challengeWindowSecs options) (rv_challengeWindowSec rollup) of
                    Some w \<Rightarrow> Inr w
                  | None \<Rightarrow> res_bind (client_params client) (\<lambda>p. Inr (pv_defaultChallengeWindow p))) (\<lambda>windowSecs.
        let health1 = window_fields b windowSecs tip health;
            health2 = health1\<lparr>rh_notes := rh_notes health1 @
              (if rv_challengeWindowSec rollup = None \<and> he_challengeWindowSecs options = None
               then [GLOBAL_WINDOW_NOTE] else []) @
              (if bv_status b = ''challenged'' then [''latest batch is under challenge''] else [])\<rparr>
        in held_back client rollupId b health2)
      else Inr health)"

definition getRollupHealth :: "RdkClient \<Rightarrow> string \<Rightarrow> HealthOptions \<Rightarrow> error + RollupHealth" where
  "getRollupHealth client rollupId options =
     res_bind (getRollup (rk_rest client) rollupId) (\<lambda>rollup.
     let healthy = (rv_status rollup = ''active'');
         notes = (if rv_status rollup \<noteq> ''active'' then [''rollup status is '' @ quote (rv_status rollup)] else []);
         health = \<lparr>rh_rollupId = rollupId, rh_status = rv_status rollup, rh_hasBatches = False,
           rh_latestBatchIndex = None, rh_latestBatchStatus = None, rh_latestBatchHeight = None,
           rh_batchAgeBlocks = None, rh_batchAgeSecs = None, rh_challengeWindow = None,
           rh_challengeDeadlineSecs = None, rh_secondsUntilChallengeDeadline = None, rh_heldBackBy = None,
           rh_healthy = healthy, rh_notes = notes\<rparr>;
         no_batches = health\<lparr>rh_notes := notes @ [NO_BATCHES]\<rparr>
     in case getLatestBatch (rk_rest client) rollupId of
          Inl _ \<Rightarrow> Inr no_batches
        | Inr b \<Rightarrow>
            if bv_submittedAt b = 0 then Inr no_batches
            else
              let healthy2 = (healthy \<and> bv_status b \<noteq> ''rejected'');
                  (tip, tip_notes) = health_tip client options;
                  health1 = health\<lparr>rh_hasBatches := True, rh_latestBatchIndex := Some (bv_batchIndex b),
                    rh_latestBatchStatus := Some (bv_status b), rh_latestBatchHeight := Some (bv_submittedAt b),
                    rh_notes := notes @ (if bv_status b = ''rejected'' then [''latest batch was rejected''] else []) @
                      tip_notes\<rparr>
              in res_bind (pending_checks client rollupId options rollup b tip (batch_ages b tip health1)) (\<lambda>health2.
                 Inr (health2\<lparr>rh_healthy := healthy2\<rparr>)))"

subsection \<open>Events\<close>

definition RDK_EVENT_TYPES :: "string list" where
  "RDK_EVENT_TYPES = [''rollup_created'', ''rollup_paused'', ''rollup_resumed'', ''rollup_stopped'',
     ''batch_submitted'', ''batch_challenged'', ''batch_finalized'', ''batch_rejected'', ''da_blob_stored'',
     ''da_blob_pruned'', ''profile_suggested'']"

record DecodedRdkEvent =
  de_type :: string
  de_attributes :: "string \<rightharpoonup> string"

definition isRdkEventType :: "string \<Rightarrow> bool" where
  "isRdkEventType t \<longleftrightarrow> t \<in> set RDK_EVENT_TYPES"

text \<open>\<open>attributes[attr.key] = attr.value\<close>, in order: the last value of a key stays.\<close>

fun attributes_loop :: "(string \<times> string) list \<Rightarrow> (string \<rightharpoonup> string) \<Rightarrow> (string \<rightharpoonup> string)" where
  "attributes_loop [] attributes = attributes"
| "attributes_loop ((k, v) # attrs) attributes = attributes_loop attrs (attributes(k \<mapsto> v))"

fun events_loop :: "RawEvent list \<Rightarrow> DecodedRdkEvent list \<Rightarrow> DecodedRdkEvent list" where
  "events_loop [] out = out"
| "events_loop (event # events) out =
     (if \<not> isRdkEventType (ev_type event) then events_loop events out
      else events_loop events
        (out @ [\<lparr>de_type = ev_type event, de_attributes = attributes_loop (ev_attributes event) Map.empty\<rparr>]))"

definition decodeRdkEvents :: "RawEvent list \<Rightarrow> DecodedRdkEvent list" where
  "decodeRdkEvents events = events_loop events []"

definition findRdkEvent :: "RawEvent list \<Rightarrow> string \<Rightarrow> DecodedRdkEvent option" where
  "findRdkEvent events type = find (\<lambda>e. de_type e = type) (decodeRdkEvents events)"

text \<open>
  The events of a transaction, in the shape \<open>RawEvent\<close> declares; the model is of nodes that serve it.
\<close>

definition as_event :: "json \<Rightarrow> RawEvent" where
  "as_event e = \<lparr>ev_type = text_of (field_of e ''type''),
     ev_attributes = map (\<lambda>a. (text_of (field_of a ''key''), text_of (field_of a ''value''))) (asArray (field_of e ''attributes''))\<rparr>"

definition eventsFromTxHash :: "RdkClient \<Rightarrow> string \<Rightarrow> error + DecodedRdkEvent list" where
  "eventsFromTxHash client h =
     res_bind (getTx (rk_rest client) h) (\<lambda>body.
     let txResponse = nullish (field_of body ''tx_response'') (nullish (field_of body ''txResponse'') (JObj []));
         events = map as_event (asArray (field_of txResponse ''events''))
     in Inr (decodeRdkEvents events))"

subsection \<open>The monitor\<close>

datatype watch_event = OnUpdate RollupHealth | OnPollError error

record RollupWatch =
  rw_stopped :: bool
  rw_timer :: bool
  rw_trace :: "watch_event list"

text \<open>
  What a tick meets: the node, the clock if one is given, a call of \<open>stop\<close> while the report is awaited or
  inside a callback, and what a callback throws.
\<close>

record watch_env =
  we_client :: RdkClient
  we_nowSecs :: "int option"
  we_stop_meanwhile :: bool
  we_stop_in :: "watch_event \<Rightarrow> bool"
  we_throws :: "watch_event \<Rightarrow> error option"

definition new_watch :: RollupWatch where
  "new_watch = \<lparr>rw_stopped = False, rw_timer = False, rw_trace = []\<rparr>"

definition watch_stop :: "RollupWatch \<Rightarrow> RollupWatch" where
  "watch_stop st = st\<lparr>rw_stopped := True, rw_timer := False\<rparr>"

definition watch_emit :: "watch_env \<Rightarrow> watch_event \<Rightarrow> RollupWatch \<Rightarrow> RollupWatch" where
  "watch_emit env e st =
     (let st' = st\<lparr>rw_trace := rw_trace st @ [e]\<rparr> in if we_stop_in env e then watch_stop st' else st')"

definition watch_arm :: "RollupWatch \<Rightarrow> RollupWatch" where
  "watch_arm st = (if \<not> rw_stopped st then st\<lparr>rw_timer := True\<rparr> else st)"

text \<open>
  One tick. The update callback runs inside the \<open>try\<close>, so what it throws is reported to \<open>onError\<close>; what
  \<open>onError\<close> throws leaves the tick before the next one is scheduled.
\<close>

definition watch_tick :: "watch_env \<Rightarrow> string \<Rightarrow> RollupWatch \<Rightarrow> RollupWatch" where
  "watch_tick env rollupId st =
     (if rw_stopped st then st
      else
        let st1 = st\<lparr>rw_timer := False\<rparr>;
            health = getRollupHealth (we_client env) rollupId
              \<lparr>he_tip = None, he_nowSecs = we_nowSecs env, he_challengeWindowSecs = None\<rparr>;
            st2 = (if we_stop_meanwhile env then watch_stop st1 else st1);
            (st3, caught) =
              (case health of
                 Inl e \<Rightarrow> (st2, Some e)
               | Inr h \<Rightarrow> if \<not> rw_stopped st2 then (watch_emit env (OnUpdate h) st2, we_throws env (OnUpdate h))
                          else (st2, None))
        in case caught of
             None \<Rightarrow> watch_arm st3
           | Some e \<Rightarrow>
               if rw_stopped st3 then st3
               else
                 let st4 = watch_emit env (OnPollError e) st3 in
                 if we_throws env (OnPollError e) \<noteq> None then st4 else watch_arm st4)"

text \<open>\<open>watchRollup\<close> starts with a tick, unless the signal it is given has already fired.\<close>

definition watchRollup :: "bool \<Rightarrow> watch_env \<Rightarrow> string \<Rightarrow> RollupWatch" where
  "watchRollup aborted env rollupId = (if aborted then new_watch else watch_tick env rollupId new_watch)"

subsection \<open>Pollers\<close>

text \<open>
  The contract of a stoppable poller, which the watchtower and the monitor share: a stopped poller ignores
  its ticks, and stopping calls nothing and clears the timer. A run is any sequence of ticks, each in its
  environment, and calls of \<open>stop\<close>.
\<close>

datatype 'env poll = Tick 'env | Stop

fun poll_run :: "('env \<Rightarrow> 'st \<Rightarrow> 'st) \<Rightarrow> ('st \<Rightarrow> 'st) \<Rightarrow> 'env poll list \<Rightarrow> 'st \<Rightarrow> 'st" where
  "poll_run tick halt [] st = st"
| "poll_run tick halt (Tick env # ps) st = poll_run tick halt ps (tick env st)"
| "poll_run tick halt (Stop # ps) st = poll_run tick halt ps (halt st)"

locale poller =
  fixes tick :: "'env \<Rightarrow> 'st \<Rightarrow> 'st" and halt :: "'st \<Rightarrow> 'st" and stopped :: "'st \<Rightarrow> bool"
    and armed :: "'st \<Rightarrow> bool" and calls :: "'st \<Rightarrow> 'ev list"
  assumes stopped_tick: "stopped st \<Longrightarrow> tick env st = st"
    and stop_stops: "stopped (halt st)" and stop_disarms: "\<not> armed (halt st)" and stop_silent: "calls (halt st) = calls st"
begin

lemma stopped_run:
  "stopped st \<Longrightarrow> \<not> armed st \<Longrightarrow>
   stopped (poll_run tick halt ps st) \<and> \<not> armed (poll_run tick halt ps st) \<and> calls (poll_run tick halt ps st) = calls st"
proof (induction ps arbitrary: st)
  case (Cons p ps)
  then show ?case
    by (cases p) (simp_all add: stopped_tick stop_stops stop_disarms stop_silent)
qed simp

lemma run_append: "poll_run tick halt (ps @ qs) st = poll_run tick halt qs (poll_run tick halt ps st)"
proof (induction ps arbitrary: st)
  case (Cons p ps)
  then show ?case by (cases p) simp_all
qed simp

text \<open>Whatever happened before, nothing is called after \<open>stop\<close> and no timer is left.\<close>

lemma stop_is_final:
  "calls (poll_run tick halt (ps @ Stop # qs) st) = calls (poll_run tick halt ps st) \<and>
   stopped (poll_run tick halt (ps @ Stop # qs) st) \<and> \<not> armed (poll_run tick halt (ps @ Stop # qs) st)"
  using stopped_run [of "halt (poll_run tick halt ps st)" qs]
  by (simp add: run_append stop_stops stop_disarms stop_silent)

end

interpretation watch: poller "\<lambda>env. watch_tick env rid" watch_stop rw_stopped rw_timer rw_trace for rid
  by unfold_locales (simp_all add: watch_tick_def watch_stop_def)

interpretation tower: poller "\<lambda>env. tower_tick env rid" tower_stop tw_stopped tw_timer tw_trace for rid
  by unfold_locales (simp_all add: tower_tick_def tower_stop_def)

subsection \<open>Facts about the report\<close>

lemma window_fields_same [simp]:
  "rh_rollupId (window_fields b w tip h) = rh_rollupId h" "rh_status (window_fields b w tip h) = rh_status h"
  "rh_hasBatches (window_fields b w tip h) = rh_hasBatches h" "rh_notes (window_fields b w tip h) = rh_notes h"
  "rh_latestBatchIndex (window_fields b w tip h) = rh_latestBatchIndex h"
  "rh_latestBatchStatus (window_fields b w tip h) = rh_latestBatchStatus h"
  "rh_heldBackBy (window_fields b w tip h) = rh_heldBackBy h"
  by (simp_all add: window_fields_def Let_def split: option.splits)

lemma batch_ages_same [simp]:
  "rh_rollupId (batch_ages b tip h) = rh_rollupId h" "rh_status (batch_ages b tip h) = rh_status h"
  "rh_hasBatches (batch_ages b tip h) = rh_hasBatches h" "rh_notes (batch_ages b tip h) = rh_notes h"
  "rh_latestBatchIndex (batch_ages b tip h) = rh_latestBatchIndex h"
  "rh_latestBatchStatus (batch_ages b tip h) = rh_latestBatchStatus h"
  "rh_heldBackBy (batch_ages b tip h) = rh_heldBackBy h"
  by (simp_all add: batch_ages_def split: option.splits)

text \<open>What a later check may change of a report: it adds notes, and a blocker only with a note.\<close>

definition extends :: "RollupHealth \<Rightarrow> RollupHealth \<Rightarrow> bool" where
  "extends h h' \<longleftrightarrow> rh_rollupId h' = rh_rollupId h \<and> rh_status h' = rh_status h \<and> rh_hasBatches h' = rh_hasBatches h \<and>
     rh_latestBatchIndex h' = rh_latestBatchIndex h \<and> rh_latestBatchStatus h' = rh_latestBatchStatus h \<and>
     (\<exists>more. rh_notes h' = rh_notes h @ more \<and> (rh_heldBackBy h' = rh_heldBackBy h \<or> more \<noteq> []))"

lemma held_back_extends:
  "held_back client rid b h = Inr h' \<Longrightarrow> extends h h'"
  by (auto simp: held_back_def extends_def res_bind_eq_Inr split: if_splits option.splits)

lemma pending_checks_extends:
  assumes "pending_checks client rid options rollup b tip h = Inr h'"
  shows "extends h h'"
proof (cases "unsettled b")
  case True
  with assms obtain w more where "held_back client rid b
      ((window_fields b w tip h)\<lparr>rh_notes := rh_notes (window_fields b w tip h) @ more\<rparr>) = Inr h'"
    by (auto simp: pending_checks_def res_bind_eq_Inr Let_def)
  from held_back_extends [OF this] show ?thesis by (auto simp: extends_def)
next
  case False
  with assms show ?thesis by (simp add: pending_checks_def extends_def)
qed

text \<open>The batch the report is about.\<close>

definition latest_submitted :: "RdkClient \<Rightarrow> string \<Rightarrow> BatchView option" where
  "latest_submitted client rid =
     (case getLatestBatch (rk_rest client) rid of
        Inl _ \<Rightarrow> None | Inr b \<Rightarrow> if bv_submittedAt b = 0 then None else Some b)"

lemma health_parts:
  assumes "getRollupHealth client rid options = Inr h"
  obtains rollup where "getRollup (rk_rest client) rid = Inr rollup"
    "rh_rollupId h = rid" "rh_status h = rv_status rollup"
    "rh_healthy h \<longleftrightarrow> rv_status rollup = ''active'' \<and>
       (\<forall>b. latest_submitted client rid = Some b \<longrightarrow> bv_status b \<noteq> ''rejected'')"
    "rh_hasBatches h \<longleftrightarrow> latest_submitted client rid \<noteq> None"
    "rh_latestBatchIndex h = map_option bv_batchIndex (latest_submitted client rid)"
    "rh_latestBatchStatus h = map_option bv_status (latest_submitted client rid)"
    "rh_notes h = [] \<Longrightarrow> rh_healthy h \<and> rh_hasBatches h \<and> rh_heldBackBy h = None"
proof -
  obtain rollup where r: "getRollup (rk_rest client) rid = Inr rollup"
    using assms by (auto simp: getRollupHealth_def res_bind_eq_Inr)
  show ?thesis
  proof (cases "latest_submitted client rid")
    case None
    with assms r show ?thesis
      by (intro that [OF r]) (auto simp: getRollupHealth_def latest_submitted_def Let_def split: sum.splits if_splits)
  next
    case (Some b)
    then have b: "getLatestBatch (rk_rest client) rid = Inr b" "bv_submittedAt b \<noteq> 0"
      by (auto simp: latest_submitted_def split: sum.splits if_splits)
    obtain tip ns where t: "health_tip client options = (tip, ns)" by (cases "health_tip client options") auto
    from assms r b t obtain h1 h2 where h: "pending_checks client rid options rollup b tip h1 = Inr h2"
      "h = h2\<lparr>rh_healthy := rv_status rollup = ''active'' \<and> bv_status b \<noteq> ''rejected''\<rparr>"
      "rh_rollupId h1 = rid" "rh_status h1 = rv_status rollup" "rh_hasBatches h1" "rh_heldBackBy h1 = None"
      "rh_latestBatchIndex h1 = Some (bv_batchIndex b)" "rh_latestBatchStatus h1 = Some (bv_status b)"
      "rh_notes h1 = (if rv_status rollup \<noteq> ''active'' then [''rollup status is '' @ quote (rv_status rollup)] else []) @
         (if bv_status b = ''rejected'' then [''latest batch was rejected''] else []) @ ns"
      by (auto simp: getRollupHealth_def res_bind_eq_Inr Let_def)
    from pending_checks_extends [OF h(1)] h(2-) Some show ?thesis
      by (intro that [OF r]) (auto simp: extends_def split: if_splits)
  qed
qed

text \<open>The first of the sorted pending batches is a least one.\<close>

lemma sort_key_first:
  assumes "sort_key f xs = y # ys"
  shows "y \<in> set xs" "\<And>x. x \<in> set xs \<Longrightarrow> f y \<le> f x"
proof -
  have s: "set (y # ys) = set xs" using assms set_sort [of f xs] by simp
  then show "y \<in> set xs" by auto
  have "sorted (map f (y # ys))" using assms sorted_sort_key [of f xs] by simp
  then show "f y \<le> f x" if "x \<in> set xs" for x using that s by auto
qed

lemma sort_key_eq_Nil: "sort_key f xs = [] \<longleftrightarrow> xs = []"
  using length_sort [of f xs] by (metis length_0_conv)

lemma oldest_of_list:
  assumes "listBatches (rk_rest client) rid (Some (max 0 (latest - MAX_PENDING_OPTIMISTIC_BATCHES))) = Inr bs"
  shows "\<exists>r. oldestUnsettledBefore client rid latest = Inr r \<and>
    (case r of
       None \<Rightarrow> (\<forall>c \<in> set bs. unsettled c \<longrightarrow> latest \<le> bv_batchIndex c)
     | Some (i, s) \<Rightarrow> i < latest \<and> (\<exists>b \<in> set bs. bv_batchIndex b = i \<and> bv_status b = s \<and> unsettled b) \<and>
         (\<forall>c \<in> set bs. unsettled c \<longrightarrow> i \<le> bv_batchIndex c))"
proof -
  let ?p = "filter (\<lambda>b. bv_batchIndex b < latest \<and> unsettled b) bs"
  show ?thesis
  proof (cases "sort_key bv_batchIndex ?p")
    case Nil
    then have "?p = []" by (simp only: sort_key_eq_Nil)
    then show ?thesis using assms Nil by (auto simp: oldestUnsettledBefore_def filter_empty_conv not_less)
  next
    case (Cons b bs')
    have "b \<in> set bs" "bv_batchIndex b < latest" "unsettled b" using sort_key_first(1) [OF Cons] by auto
    moreover have "bv_batchIndex b \<le> bv_batchIndex c" if "c \<in> set bs" "unsettled c" for c
      using sort_key_first(2) [OF Cons, of c] that \<open>bv_batchIndex b < latest\<close> by (cases "bv_batchIndex c < latest") auto
    ultimately show ?thesis using assms Cons by (auto simp: oldestUnsettledBefore_def)
  qed
qed

text \<open>
  The chain settles in order: from an unsettled batch up to the latest one, every index before it is an
  unsettled batch. It keeps at most \<open>MAX_PENDING_OPTIMISTIC_BATCHES\<close> of them.
\<close>

definition settles_in_order :: "BatchView list \<Rightarrow> int \<Rightarrow> bool" where
  "settles_in_order bs latest \<longleftrightarrow>
     (\<forall>b \<in> set bs. unsettled b \<longrightarrow>
        (\<forall>i. bv_batchIndex b \<le> i \<and> i < latest \<longrightarrow> (\<exists>c \<in> set bs. bv_batchIndex c = i \<and> unsettled c)))"

lemma unsettled_close:
  assumes "settles_in_order bs latest" "int (length (filter unsettled bs)) \<le> m" "b \<in> set bs" "unsettled b"
  shows "latest - m \<le> bv_batchIndex b"
proof (cases "bv_batchIndex b < latest")
  case True
  let ?u = "bv_batchIndex ` set (filter unsettled bs)"
  have "{bv_batchIndex b..<latest} \<subseteq> ?u"
    using assms(1,3,4) unfolding settles_in_order_def by fastforce
  then have "card {bv_batchIndex b..<latest} \<le> card ?u" by (intro card_mono) auto
  also have "\<dots> \<le> length (filter unsettled bs)"
    using card_image_le card_length le_trans by (metis List.finite_set)
  finally show ?thesis using assms(2) True by simp
next
  case False
  with assms(2) show ?thesis by linarith
qed

subsection \<open>Properties\<close>


definition health_body :: json where
  "health_body = JObj
     [(''rollup'', JObj [(''rollup_id'', JStr ''r''), (''status'', JStr ''active'')]),
      (''batch'', JObj [(''batch_index'', JStr ''3''), (''status'', JStr ''finalized''), (''submitted_at'', JStr ''7'')]),
      (''result'', JObj [(''sync_info'', JObj [(''latest_block_height'', JStr ''9''),
         (''latest_block_time'', JStr ''1970-01-01T00:01:02.5Z'')])])]"

definition health_client :: RdkClient where
  "health_client = createRdkClient None \<lparr>eo_rest = None, eo_rpc = None, eo_grpc = None, eo_evmRpc = None\<rparr>
     (\<lambda>_. Inr \<lparr>hr_ok = True, hr_status = 200, hr_statusText = ''OK'', hr_json = Inr health_body\<rparr>)"

definition no_health_options :: HealthOptions where
  "no_health_options = \<lparr>he_tip = None, he_nowSecs = None, he_challengeWindowSecs = None\<rparr>"


text \<open>
  C27: The search for the batch that holds back the latest one misses none. On a chain that settles in order
  and keeps at most 4096 unsettled batches, read through a node that pages as documented, the search from
  4096 batches back finds the oldest of all unsettled batches, or reports none when no earlier batch is
  unsettled.
\<close>

theorem blocker_search_is_complete:
  assumes "index_ordered bs" "length bs \<le> 10000000" "settles_in_order bs latest"
    and "int (length (filter unsettled bs)) \<le> MAX_PENDING_OPTIMISTIC_BATCHES"
    and "\<And>s. s = Some (max 0 (latest - MAX_PENDING_OPTIMISTIC_BATCHES)) \<or> (\<exists>b \<in> set bs. s = Some (bv_batchIndex b)) \<Longrightarrow>
      listBatchesPage (rk_rest client) rid s (Some 100) = Inr (node_page bs 100 s)"
  shows "\<exists>r. oldestUnsettledBefore client rid latest = Inr r \<and>
    (case r of
       None \<Rightarrow> (\<forall>c \<in> set bs. unsettled c \<longrightarrow> latest \<le> bv_batchIndex c)
     | Some (i, s) \<Rightarrow> i < latest \<and> (\<exists>b \<in> set bs. bv_batchIndex b = i \<and> bv_status b = s \<and> unsettled b) \<and>
         (\<forall>c \<in> set bs. unsettled c \<longrightarrow> i \<le> bv_batchIndex c))"
proof -
  let ?start = "max 0 (latest - MAX_PENDING_OPTIMISTIC_BATCHES)"
  have "length (from_index bs (Some ?start)) \<le> 100 * MAX_PAGES"
    using order.trans [OF length_filter_le assms(2), of "\<lambda>b. ?start \<le> bv_batchIndex b"]
    by (simp only: from_index_def MAX_PAGES_def option.case)
  then have "listBatches (rk_rest client) rid (Some ?start) = Inr ([] @ from_index bs (Some ?start))"
    unfolding listBatches_def using assms(1,5)
    by (intro list_batches_loop_complete [of bs 100]) (simp_all add: MAX_PAGES_def)
  then have l: "listBatches (rk_rest client) rid (Some ?start) = Inr (filter (\<lambda>b. ?start \<le> bv_batchIndex b) bs)"
    by (simp add: from_index_def)
  have "?start \<le> bv_batchIndex c" if "c \<in> set bs" "unsettled c" for c
    using unsettled_close [OF assms(3,4) that] assms(1) that by (auto simp: index_ordered_def list_all_iff)
  then have "c \<in> set (filter (\<lambda>b. ?start \<le> bv_batchIndex b) bs) \<longleftrightarrow> c \<in> set bs" if "unsettled c" for c
    using that by auto
  with oldest_of_list [OF l] show ?thesis by (elim exE) (intro exI, fastforce split: option.splits)
qed

lemma blocker_search_is_complete_witness:
  "\<exists>s. oldestUnsettledBefore (te_client (quiet_env (page_node [sample_batch 0]))) ''r'' 1 = Inr (Some (0, s))"
proof -
  let ?c = "te_client (quiet_env (page_node [sample_batch 0]))"
  have "listBatchesPage (rk_rest ?c) ''r'' s (Some 100) = Inr (node_page [sample_batch 0] 100 s)"
    if "s = Some (max 0 (1 - MAX_PENDING_OPTIMISTIC_BATCHES)) \<or> (\<exists>b \<in> set [sample_batch 0]. s = Some (bv_batchIndex b))" for s
    using that served_batch_read [of "sample_batch 0"]
    by (auto simp: listBatchesPage_def rest_get_def quiet_env_def newRestClient_def page_node_def asRecord_def asArray_def
        Let_def nullish_def to_number_def node_page_def from_index_def sample_batch_def MAX_PENDING_OPTIMISTIC_BATCHES_def)
  from blocker_search_is_complete [OF _ _ _ _ this, of 1]
  obtain r where r: "oldestUnsettledBefore ?c ''r'' 1 = Inr r"
    "case r of None \<Rightarrow> False | Some (i, s) \<Rightarrow> i = 0"
    by (auto simp: index_ordered_def settles_in_order_def unsettled_def sample_batch_def
        MAX_PENDING_OPTIMISTIC_BATCHES_def split: option.splits)
  then show ?thesis by (auto split: option.splits)
qed

text \<open>
  The monitor keeps polling. Unless \<open>stop\<close> is called meanwhile, a tick of a running monitor calls
  \<open>onUpdate\<close> with the report, or \<open>onError\<close> with what reading it threw; what \<open>onUpdate\<close> throws goes to
  \<open>onError\<close>; and the next tick is scheduled in every case in which \<open>onError\<close> itself does not throw.
\<close>

theorem monitor_keeps_polling:
  assumes "\<not> rw_stopped st" "\<not> we_stop_meanwhile env" "\<And>e. \<not> we_stop_in env e"
    and "\<And>e. we_throws env (OnPollError e) = None"
  shows "rw_timer (watch_tick env rid st) \<and> \<not> rw_stopped (watch_tick env rid st) \<and>
    rw_trace (watch_tick env rid st) = rw_trace st @
      (case getRollupHealth (we_client env) rid
          \<lparr>he_tip = None, he_nowSecs = we_nowSecs env, he_challengeWindowSecs = None\<rparr> of
         Inl e \<Rightarrow> [OnPollError e]
       | Inr h \<Rightarrow> OnUpdate h # (case we_throws env (OnUpdate h) of None \<Rightarrow> [] | Some e \<Rightarrow> [OnPollError e]))"
  using assms
  by (simp add: watch_tick_def watch_emit_def watch_arm_def Let_def split: sum.split option.split)

definition calm :: "RdkClient \<Rightarrow> watch_env" where
  "calm client = \<lparr>we_client = client, we_nowSecs = None, we_stop_meanwhile = False, we_stop_in = (\<lambda>_. False),
     we_throws = (\<lambda>_. None)\<rparr>"

lemma monitor_keeps_polling_witness: "rw_timer (watch_tick (calm health_client) ''r'' new_watch)"
  using monitor_keeps_polling [of new_watch "calm health_client" "''r''"] by (simp add: new_watch_def calm_def)

text \<open>
  The states of a monitor that was started without a fired signal: it ticks when its timer is pending, and may
  be stopped at any time. The flag says whether an \<open>onError\<close> callback has thrown.
\<close>

definition new_events :: "RollupWatch \<Rightarrow> RollupWatch \<Rightarrow> watch_event list" where
  "new_events st st' = drop (length (rw_trace st)) (rw_trace st')"

fun raises :: "watch_env \<Rightarrow> watch_event \<Rightarrow> bool" where
  "raises env (OnUpdate h) \<longleftrightarrow> False"
| "raises env (OnPollError e) \<longleftrightarrow> we_throws env (OnPollError e) \<noteq> None"

inductive watch_reach :: "string \<Rightarrow> bool \<Rightarrow> RollupWatch \<Rightarrow> bool" for rid where
  started: "watch_reach rid (list_ex (raises env) (rw_trace (watchRollup False env rid))) (watchRollup False env rid)"
| ticked: "watch_reach rid raised st \<Longrightarrow> rw_timer st \<Longrightarrow>
    watch_reach rid (raised \<or> list_ex (raises env) (new_events st (watch_tick env rid st))) (watch_tick env rid st)"
| halted: "watch_reach rid raised st \<Longrightarrow> watch_reach rid raised (watch_stop st)"

lemma watch_tick_shape:
  assumes "\<not> rw_stopped st"
  shows "rw_timer (watch_tick env rid st) \<longleftrightarrow>
      \<not> rw_stopped (watch_tick env rid st) \<and> \<not> list_ex (raises env) (new_events st (watch_tick env rid st))"
    and "\<not> rw_stopped (watch_tick env rid st) \<Longrightarrow> new_events st (watch_tick env rid st) \<noteq> []"
    and "rw_trace (watch_tick env rid st) = rw_trace st @ new_events st (watch_tick env rid st)"
  using assms
  by (auto simp: watch_tick_def watch_emit_def watch_arm_def watch_stop_def new_events_def Let_def
      split: sum.splits option.splits if_splits)

text \<open>
  C31: The monitor does not fall silent. In every reachable state, whatever the nodes answered, whatever the
  callbacks threw and whenever \<open>stop\<close> was called, the next tick is pending exactly if the monitor was not stopped
  and no \<open>onError\<close> callback has thrown; and a tick that does not end in a stopped monitor has reported: it adds
  to what was reported before.
\<close>

theorem monitor_never_silent:
  assumes "watch_reach rid raised st"
  shows "(rw_timer st \<longleftrightarrow> \<not> rw_stopped st \<and> \<not> raised) \<and>
    (rw_stopped (watch_tick env rid st) \<or>
      (\<exists>e es. rw_trace (watch_tick env rid st) = rw_trace st @ e # es))"
proof
  from assms show "rw_timer st \<longleftrightarrow> \<not> rw_stopped st \<and> \<not> raised"
  proof induction
    case (started env)
    have "\<not> rw_stopped new_watch" "rw_trace new_watch = []" by (simp_all add: new_watch_def)
    with watch_tick_shape(1) [of new_watch env rid] show ?case by (simp add: watchRollup_def new_events_def)
  next
    case (ticked raised st env)
    with watch_tick_shape(1) [of st env rid] show ?case by auto
  qed (simp add: watch_stop_def)
  show "rw_stopped (watch_tick env rid st) \<or> (\<exists>e es. rw_trace (watch_tick env rid st) = rw_trace st @ e # es)"
  proof (cases "rw_stopped st")
    case False
    with watch_tick_shape(2,3) [of st env rid] show ?thesis by (metis list.exhaust)
  qed (simp add: watch_tick_def)
qed

lemma monitor_never_silent_witness:
  "rw_timer (watchRollup False (calm health_client) ''r'') \<and> watch_reach ''r'' False (watchRollup False (calm health_client) ''r'')"
proof -
  let ?st = "watchRollup False (calm health_client) ''r''"
  have quiet: "raises (calm health_client) e \<longleftrightarrow> False" for e by (cases e) (simp_all add: calm_def)
  have "list_ex (raises (calm health_client)) xs \<longleftrightarrow> False" for xs by (simp add: quiet list_ex_iff)
  with watch_reach.started [of "''r''" "calm health_client"] have reach: "watch_reach ''r'' False ?st" by simp
  have "\<not> rw_stopped new_watch" by (simp add: new_watch_def)
  then have "\<not> rw_stopped ?st"
    by (auto simp: watchRollup_def watch_tick_def watch_emit_def watch_arm_def calm_def Let_def split: sum.split)
  with monitor_never_silent [OF reach] reach show ?thesis by blast
qed

text \<open>
  Stopping the monitor is final: whatever sequence of ticks and calls of \<open>stop\<close> follows the first
  \<open>stop\<close>, no callback is called and no timer is pending.
\<close>

theorem monitor_stop_is_final:
  "rw_trace (poll_run (\<lambda>env. watch_tick env rid) watch_stop (ps @ Stop # qs) st) =
     rw_trace (poll_run (\<lambda>env. watch_tick env rid) watch_stop ps st) \<and>
   \<not> rw_timer (poll_run (\<lambda>env. watch_tick env rid) watch_stop (ps @ Stop # qs) st)"
  using watch.stop_is_final by blast

definition decoded :: "RawEvent \<Rightarrow> DecodedRdkEvent" where
  "decoded e = \<lparr>de_type = ev_type e, de_attributes = map_of (rev (ev_attributes e))\<rparr>"

lemma de_type_decoded [simp]: "de_type (decoded e) = ev_type e"
  by (simp add: decoded_def)

text \<open>
  Decoding events keeps the order and drops only foreign ones: the decoded events are the \<open>rdk\<close> events
  of the transaction, in order, each with the last value given for every attribute key, and
  \<open>findRdkEvent\<close> is the first of them of a type.
\<close>

theorem events_decoded_exactly:
  "decodeRdkEvents events = map decoded (filter (\<lambda>e. ev_type e \<in> set RDK_EVENT_TYPES) events) \<and>
   findRdkEvent events t =
     (if t \<in> set RDK_EVENT_TYPES then map_option decoded (find (\<lambda>e. ev_type e = t) events) else None)"
proof -
  have attrs: "attributes_loop as m = m ++ map_of (rev as)" for as m
    by (induction as arbitrary: m) auto
  have loop: "events_loop es out = out @ map decoded (filter (\<lambda>e. ev_type e \<in> set RDK_EVENT_TYPES) es)" for es out
    by (induction es out rule: events_loop.induct) (simp_all add: isRdkEventType_def attrs decoded_def)
  have "find (\<lambda>d. de_type d = t) (map decoded (filter (\<lambda>e. ev_type e \<in> set RDK_EVENT_TYPES) es)) =
      (if t \<in> set RDK_EVENT_TYPES then map_option decoded (find (\<lambda>e. ev_type e = t) es) else None)" for es
    by (induction es) auto
  then show ?thesis by (simp add: decodeRdkEvents_def findRdkEvent_def loop)
qed

end
