(* ===== verification/Accounts.thy ===== *)
theory Accounts
  imports TxClient
begin

text \<open>
  The operator's keys and money: \<open>packages/ts/src/accounts/index.ts\<close>, \<open>utils/bech32.ts\<close>,
  \<open>errors/index.ts\<close> and \<open>faucet/index.ts\<close>. Key derivation, signers, bech32 and the error decoder of the
  SDK are third-party code, fields of \<open>key_sdk\<close> and arguments; environment variables are a map.

  Shown: the post-quantum key resolved for an account is the one the chain has registered, whenever the
  chain can be read; a key the chain does not know of is never returned for an account that has another;
  an error while reading the chain is taken for an account without a key; the table of error codes
  names every code once; and the faucet is asked only at a configured URL.
\<close>

type_synonym cli_env = "string \<rightharpoonup> string"

record NativeAccount =
  na_address :: string
  na_privateKey :: bytes

record key_sdk =
  ks_derivePqcCanonical :: "string \<Rightarrow> string \<Rightarrow> error + PqcKeypair"
  ks_derivePqcLegacy :: "string \<Rightarrow> error + PqcKeypair"
  ks_generatePqcKeypair :: "bytes \<Rightarrow> error + PqcKeypair"
  ks_deriveNativeAccount :: "string \<Rightarrow> error + NativeAccount"
  ks_directSigner :: "bytes \<Rightarrow> string \<Rightarrow> error + OfflineSigner"

subsection \<open>Signers and keys\<close>

text \<open>A text that is present and not blank, trimmed.\<close>

definition nonblank :: "string option \<Rightarrow> string option" where
  "nonblank v = (case v of None \<Rightarrow> None | Some s \<Rightarrow> if trim s \<noteq> '''' then Some (trim s) else None)"

definition signerFromEnv :: "key_sdk \<Rightarrow> cli_env \<Rightarrow> string \<Rightarrow> error + OfflineSigner option" where
  "signerFromEnv sdk env hrp =
     (case nonblank (env ''QORE_OPERATOR_PRIVATE_KEY_HEX'') of
        Some hex \<Rightarrow> res_bind (hexToBytes hex) (\<lambda>k. res_bind (ks_directSigner sdk k hrp) (\<lambda>s. Inr (Some s)))
      | None \<Rightarrow>
          case nonblank (env ''QORE_MNEMONIC'') of
            Some mnemonic \<Rightarrow>
              res_bind (ks_deriveNativeAccount sdk mnemonic) (\<lambda>account.
              res_bind (ks_directSigner sdk (na_privateKey account) hrp) (\<lambda>s. Inr (Some s)))
          | None \<Rightarrow> Inr None)"

datatype PqcDerivation = canonical | legacy | seed

record ResolvedPqcKeypair =
  rk2_keypair :: PqcKeypair
  rk2_derivation :: PqcDerivation
  rk2_registered :: bool
  rk2_includePqcPublicKey :: bool

definition registeredPqcKey :: "RdkClient \<Rightarrow> string \<Rightarrow> string" where
  "registeredPqcKey client address =
     (case getPqcAccount (rk_rest client) address of Inr account \<Rightarrow> toLowerCase (qv_publicKey account) | Inl _ \<Rightarrow> '''')"

definition resolvePqcKeypair :: "key_sdk \<Rightarrow> RdkClient \<Rightarrow> string \<Rightarrow> string \<Rightarrow> error + ResolvedPqcKeypair" where
  "resolvePqcKeypair sdk client address mnemonic =
     res_bind (ks_derivePqcCanonical sdk address mnemonic) (\<lambda>can.
     res_bind (ks_derivePqcLegacy sdk mnemonic) (\<lambda>leg.
     let registeredKey = registeredPqcKey client address in
     if registeredKey = '''' then
       Inr \<lparr>rk2_keypair = can, rk2_derivation = canonical, rk2_registered = False, rk2_includePqcPublicKey = True\<rparr>
     else if registeredKey = toLowerCase (bytesToHex (pk_publicKey can)) then
       Inr \<lparr>rk2_keypair = can, rk2_derivation = canonical, rk2_registered = True, rk2_includePqcPublicKey = False\<rparr>
     else if registeredKey = toLowerCase (bytesToHex (pk_publicKey leg)) then
       Inr \<lparr>rk2_keypair = leg, rk2_derivation = legacy, rk2_registered = True, rk2_includePqcPublicKey = False\<rparr>
     else Inl (JsError (''account '' @ address @
       '' has a post-quantum key on chain that neither the canonical nor the legacy '' @
       ''derivation of this mnemonic produces, so it was registered from another secret. Supply that '' @
       ''keypair explicitly (QORE_PQC_SEED_HEX), or check that the mnemonic belongs to this account.''))))"

definition pqcKeypairFromEnv ::
  "key_sdk \<Rightarrow> RdkClient \<Rightarrow> string \<Rightarrow> cli_env \<Rightarrow> error + ResolvedPqcKeypair option" where
  "pqcKeypairFromEnv sdk client address env =
     (case nonblank (env ''QORE_PQC_SEED_HEX'') of
        Some seedHex \<Rightarrow>
          res_bind (hexToBytes seedHex) (\<lambda>s.
          if length s \<noteq> 32
          then Inl (JsError (''QORE_PQC_SEED_HEX must be 32 bytes, got '' @ show_nat (length s)))
          else
            res_bind (ks_generatePqcKeypair sdk s) (\<lambda>keypair.
            let registeredKey = registeredPqcKey client address in
            if registeredKey = '''' then
              Inr (Some \<lparr>rk2_keypair = keypair, rk2_derivation = seed, rk2_registered = False,
                         rk2_includePqcPublicKey = True\<rparr>)
            else if registeredKey = toLowerCase (bytesToHex (pk_publicKey keypair)) then
              Inr (Some \<lparr>rk2_keypair = keypair, rk2_derivation = seed, rk2_registered = True,
                         rk2_includePqcPublicKey = False\<rparr>)
            else Inl (JsError (''QORE_PQC_SEED_HEX does not produce the post-quantum key registered for '' @ address @
              ''; every hybrid transaction signed with it would be refused''))))
      | None \<Rightarrow>
          case nonblank (env ''QORE_MNEMONIC'') of
            Some mnemonic \<Rightarrow> res_bind (resolvePqcKeypair sdk client address mnemonic) (\<lambda>r. Inr (Some r))
          | None \<Rightarrow> Inr None)"

subsection \<open>Addresses\<close>

text \<open>The bech32 package: its codec on words of five bits and the conversion between words and bytes.\<close>

record bech32_lib =
  bl_decode :: "string \<Rightarrow> error + (string \<times> nat list)"
  bl_encode :: "string \<Rightarrow> nat list \<Rightarrow> error + string"
  bl_fromWords :: "nat list \<Rightarrow> error + bytes"
  bl_toWords :: "bytes \<Rightarrow> nat list"

definition bech32ToHex :: "bech32_lib \<Rightarrow> string \<Rightarrow> error + string" where
  "bech32ToHex lib address =
     res_bind (bl_decode lib address) (\<lambda>(hrp, words).
     res_bind (bl_fromWords lib words) (\<lambda>b. Inr (''0x'' @ bytesToHex b)))"

definition hexToBech32 :: "bech32_lib \<Rightarrow> string \<Rightarrow> string \<Rightarrow> error + string" where
  "hexToBech32 lib hex hrp = res_bind (hexToBytes hex) (\<lambda>b. bl_encode lib hrp (bl_toWords lib b))"

definition bech32Prefix :: "bech32_lib \<Rightarrow> string \<Rightarrow> error + string" where
  "bech32Prefix lib address = res_bind (bl_decode lib address) (\<lambda>(hrp, words). Inr hrp)"

subsection \<open>The faucet\<close>

record FaucetOptions =
  fo_url :: "string option"
  fo_address :: string
  fo_denom :: "string option"

record FaucetResult =
  fr_ok :: bool
  fr_status :: nat
  fr_body :: "json option"

text \<open>The request carries \<open>JSON.stringify\<close> of an object; the body stays structured, as in every request here.\<close>

definition requestFaucet :: "fetch_like \<Rightarrow> FaucetOptions \<Rightarrow> error + FaucetResult" where
  "requestFaucet fetch options =
     (case fo_url options of
        None \<Rightarrow> Inl (JsError (''No faucet URL configured. Set a faucet endpoint (e.g. QORE_FAUCET_URL) or fund the '' @
                  ''account manually - see the keys & funding guide.''))
      | Some url \<Rightarrow>
          if trim url = ''''
          then Inl (JsError (''No faucet URL configured. Set a faucet endpoint (e.g. QORE_FAUCET_URL) or fund the '' @
                 ''account manually - see the keys & funding guide.''))
          else
            res_bind (fetch (POST url (JObj [(''address'', JStr (fo_address options)),
                (''denom'', JStr (or_default (fo_denom options) ''uqor''))]))) (\<lambda>res.
            let body = (case hr_json res of Inl _ \<Rightarrow> None | Inr b \<Rightarrow> Some b) in
            if \<not> hr_ok res
            then Inl (JsError (''Faucet request failed: '' @ show_nat (hr_status res) @ '' '' @ hr_statusText res))
            else Inr \<lparr>fr_ok = True, fr_status = hr_status res, fr_body = body\<rparr>))"

subsection \<open>Transaction errors\<close>

record RdkErrorInfo =
  re_kind :: string
  re_message :: string
  re_hint :: "string option"

definition plain :: "string \<Rightarrow> string \<Rightarrow> RdkErrorInfo" where
  "plain kind msg = \<lparr>re_kind = kind, re_message = msg, re_hint = None\<rparr>"

definition hinted :: "string \<Rightarrow> string \<Rightarrow> string \<Rightarrow> RdkErrorInfo" where
  "hinted kind msg hint = \<lparr>re_kind = kind, re_message = msg, re_hint = Some hint\<rparr>"

definition RDK_ERRORS :: "(int \<times> RdkErrorInfo) list" where
  "RDK_ERRORS =
    [(2, plain ''rollup_not_found'' ''rollup not found''),
     (3, plain ''rollup_already_exists'' ''rollup already exists''),
     (4, plain ''rollup_not_active'' ''rollup not active''),
     (5, hinted ''max_rollups_reached'' ''maximum rollups reached'' ''every max_rollups slot is taken''),
     (6, hinted ''insufficient_stake'' ''insufficient stake amount'' ''stake at least min_stake_for_rollup''),
     (7, plain ''unauthorized'' ''only the rollup creator can do this''),
     (8, plain ''batch_not_found'' ''batch not found''),
     (9, plain ''batch_exists'' ''a batch with this index already exists''),
     (10, hinted ''challenge_window_closed'' ''challenge window closed or not applicable''
        ''a batch can be challenged only while its own window is open''),
     (11, plain ''invalid_proof'' ''invalid proof''),
     (12, plain ''proof_required'' ''proof required for this settlement mode''),
     (13, plain ''da_blob_too_large'' ''DA blob exceeds the maximum size''),
     (14, plain ''da_blob_not_found'' ''DA blob not found''),
     (15, plain ''celestia_unavailable'' ''Celestia data availability is not active''),
     (16, plain ''invalid_settlement_mode'' ''invalid settlement mode''),
     (17, plain ''invalid_sequencer_mode'' ''invalid sequencer mode''),
     (18, plain ''invalid_proof_system'' ''invalid proof system''),
     (19, plain ''based_sequencer_only'' ''based settlement requires a based sequencer''),
     (20, plain ''challenge_bond_required'' ''a challenge bond is required''),
     (21, hinted ''verification_key_missing'' ''ZK verification key not configured for the rollup''
        ''no chain release up to v3.2.5 can register a verification key, so zk settlement cannot be used yet''),
     (22, plain ''stark_not_supported'' ''STARK verification is not available for this rollup''),
     (23, plain ''proof_verify_failed'' ''ZK proof verification failed''),
     (24, plain ''no_open_challenge'' ''no open challenge for this batch''),
     (25, plain ''batch_not_challenged'' ''batch is not challenged''),
     (26, hinted ''data_unavailable'' (''no DA blob matches the batch'' @ [CHR 0x27] @ ''s data hash'')
        ''leave dataHash empty on native or both data availability: no transaction posts a blob''),
     (27, plain ''batch_not_finalized'' ''withdrawals need a finalized batch''),
     (28, plain ''withdrawal_already_done'' ''withdrawal already executed''),
     (29, hinted ''invalid_withdrawal_proof'' (''withdrawal proof does not match the batch'' @ [CHR 0x27] @ ''s withdrawals root'')
        (''build it with withdrawalsTree, using the batch'' @ [CHR 0x27] @ ''s own binding (v2 from chain v3.2.5)'')),
     (30, plain ''invalid_rollup_id'' ''invalid rollup id''),
     (31, hinted ''anchor_refused'' (''the batch'' @ [CHR 0x27] @ ''s signed state anchor was refused'')
        (''only the rollup creator'' @ [CHR 0x27] @ ''s registered post-quantum key can sign the anchor'')),
     (32, plain ''insufficient_escrow'' (''the rollup'' @ [CHR 0x27] @ ''s escrow does not cover the withdrawal'')),
     (33, plain ''invalid_withdrawal'' ''malformed withdrawal message''),
     (34, plain ''params_update_disabled'' ''rdk parameter updates are not enabled at this height''),
     (35, plain ''invalid_params'' ''invalid rdk parameters''),
     (36, hinted ''settlement_pending'' ''the rollup has a batch that is not settled yet''
        ''a rollup cannot be stopped, and cannot take more than 4096 waiting batches, while batches are unsettled'')]"

record TxErrorInput =
  te2_code :: int
  te2_codespace :: "string option"
  te2_rawLog :: "string option"

record DecodedTxError =
  dx_code :: int
  dx_codespace :: "string option"
  dx_kind :: string
  dx_message :: string
  dx_hint :: "string option"
  dx_rawLog :: "string option"

text \<open>The SDK's own decoder, for everything else, is the argument \<open>decodeTxError\<close>.\<close>

definition decodeRdkTxError :: "(TxErrorInput \<Rightarrow> DecodedTxError) \<Rightarrow> TxErrorInput \<Rightarrow> DecodedTxError" where
  "decodeRdkTxError decodeTxError input =
     (if te2_codespace input = Some ''rdk'' then
        case map_of RDK_ERRORS (te2_code input) of
          Some info \<Rightarrow>
            \<lparr>dx_code = te2_code input, dx_codespace = Some ''rdk'', dx_kind = re_kind info,
             dx_message = (case re_hint info of
                Some hint \<Rightarrow> re_message info @ '' ('' @ hint @ '')'' | None \<Rightarrow> re_message info),
             dx_hint = re_hint info, dx_rawLog = te2_rawLog input\<rparr>
        | None \<Rightarrow> decodeTxError input
      else decodeTxError input)"

subsection \<open>Helper facts\<close>

lemma lower_hex [simp]: "toLowerCase (bytesToHex b) = bytesToHex b"
  using bytesToHex_hex_pairs [of "bytesToHex b"] by (simp add: bytesToHex_hex)

lemma toLowerCase_eq_Nil [simp]: "toLowerCase s = [] \<longleftrightarrow> s = []"
  by (simp add: toLowerCase_def)

lemma trim_Nil [simp]: "trim [] = []"
  by (simp add: trim_def)

lemma nonblank_None: "nonblank (Some s) = None \<longleftrightarrow> trim s = []"
  by (simp add: nonblank_def)

subsection \<open>Properties\<close>

text \<open>
  C19: The resolved post-quantum key is the one the chain has. When the chain answers for the account, with no
  key registered the canonical key is returned for registration; with a key registered, the returned key
  is that key and is not registered again; and there is an error exactly when neither derivation of the
  mnemonic gives the registered key.
\<close>

theorem resolved_key_is_registered:
  assumes "getPqcAccount (rk_rest client) address = Inr account"
    and "ks_derivePqcCanonical sdk address mnemonic = Inr can" "ks_derivePqcLegacy sdk mnemonic = Inr leg"
  shows "case resolvePqcKeypair sdk client address mnemonic of
      Inl e \<Rightarrow> qv_publicKey account \<noteq> '''' \<and>
        toLowerCase (qv_publicKey account) \<notin> {bytesToHex (pk_publicKey can), bytesToHex (pk_publicKey leg)}
    | Inr r \<Rightarrow> rk2_includePqcPublicKey r = (qv_publicKey account = '''') \<and>
        rk2_registered r = (qv_publicKey account \<noteq> '''') \<and>
        (if qv_publicKey account = '''' then rk2_keypair r = can
         else toLowerCase (qv_publicKey account) = bytesToHex (pk_publicKey (rk2_keypair r)) \<and> rk2_keypair r \<in> {can, leg})"
  using assms by (auto simp: resolvePqcKeypair_def registeredPqcKey_def Let_def split: sum.split)

definition toy_sdk :: key_sdk where
  "toy_sdk = \<lparr>ks_derivePqcCanonical = (\<lambda>_ _. Inr \<lparr>pk_publicKey = [0xcc], pk_secretKey = [1]\<rparr>),
     ks_derivePqcLegacy = (\<lambda>_. Inr \<lparr>pk_publicKey = [0xdd], pk_secretKey = [2]\<rparr>),
     ks_generatePqcKeypair = (\<lambda>s. Inr \<lparr>pk_publicKey = take 1 s, pk_secretKey = s\<rparr>),
     ks_deriveNativeAccount = (\<lambda>m. Inr \<lparr>na_address = ''qor1'' @ m, na_privateKey = utf8_encode m\<rparr>),
     ks_directSigner = (\<lambda>k _. Inr \<lparr>os_signDirect = True, os_getAccounts = Inr [''amy'']\<rparr>)\<rparr>"

lemma demo_registered_key: "\<exists>a. getPqcAccount (rk_rest demo_client) ''amy'' = Inr a \<and> qv_publicKey a = ''dd''"
proof -
  have "map_sum (\<lambda>_. ()) qv_publicKey (getPqcAccount (rk_rest demo_client) ''amy'') = Inr ''dd''" by code_simp
  then show ?thesis by (cases "getPqcAccount (rk_rest demo_client) ''amy''") auto
qed

lemma resolved_key_is_registered_witness:
  "\<exists>r. resolvePqcKeypair toy_sdk demo_client ''amy'' ''words'' = Inr r \<and> rk2_registered r \<and>
     pk_publicKey (rk2_keypair r) = [0xdd]"
proof -
  obtain a where a: "getPqcAccount (rk_rest demo_client) ''amy'' = Inr a" "qv_publicKey a = ''dd''"
    using demo_registered_key by blast
  have d: "toLowerCase ''dd'' = bytesToHex [0xdd]" by code_simp
  have e: "ks_derivePqcCanonical toy_sdk ''amy'' ''words'' = Inr \<lparr>pk_publicKey = [0xcc], pk_secretKey = [1]\<rparr>"
    "ks_derivePqcLegacy toy_sdk ''words'' = Inr \<lparr>pk_publicKey = [0xdd], pk_secretKey = [2]\<rparr>"
    by (simp_all add: toy_sdk_def)
  show ?thesis
  proof (cases "resolvePqcKeypair toy_sdk demo_client ''amy'' ''words''")
    case (Inl err)
    with resolved_key_is_registered [OF a(1) e] a(2) d show ?thesis by simp
  next
    case (Inr r)
    with resolved_key_is_registered [OF a(1) e] a(2) d
    have "rk2_registered r \<and> bytesToHex [0xdd] = bytesToHex (pk_publicKey (rk2_keypair r))" by simp
    with Inr show ?thesis by (simp only: bytesToHex_inject) simp
  qed
qed

text \<open>
  An unreadable account passes for one without a key. When the query for the account's key fails, for
  whatever reason, the canonical key is returned for registration, although the chain may hold the legacy
  one; the environment's seed is treated the same way.
\<close>

theorem unreadable_key_reads_as_unregistered:
  assumes "getPqcAccount (rk_rest client) address = Inl err"
    and "ks_derivePqcCanonical sdk address mnemonic = Inr can" "ks_derivePqcLegacy sdk mnemonic = Inr leg"
  shows "resolvePqcKeypair sdk client address mnemonic =
    Inr \<lparr>rk2_keypair = can, rk2_derivation = canonical, rk2_registered = False, rk2_includePqcPublicKey = True\<rparr>"
  using assms by (simp add: resolvePqcKeypair_def registeredPqcKey_def)

definition down_client :: RdkClient where
  "down_client = demo_client\<lparr>rk_rest := newRestClient ''http://n'' (\<lambda>_. Inl (Network ''down''))\<rparr>"

lemma unreadable_key_reads_as_unregistered_witness:
  "map_sum id rk2_includePqcPublicKey (resolvePqcKeypair toy_sdk down_client ''amy'' ''words'') = Inr True"
proof -
  have "getPqcAccount (rk_rest down_client) ''amy'' = Inl (Network ''down'')"
    by (simp add: getPqcAccount_def rest_get_def down_client_def newRestClient_def)
  from unreadable_key_reads_as_unregistered [OF this, of toy_sdk "''words''"]
  show ?thesis by (simp add: toy_sdk_def)
qed

text \<open>
  Which secret signs. A seed in the environment takes precedence over a mnemonic, must be 32 bytes of hex,
  and is refused when the account has another key; without either, there is no key and nothing is read.
\<close>

theorem environment_key_precedence:
  "case nonblank (env ''QORE_PQC_SEED_HEX'') of
     None \<Rightarrow> pqcKeypairFromEnv sdk client address env =
       (case nonblank (env ''QORE_MNEMONIC'') of
          None \<Rightarrow> Inr None
        | Some m \<Rightarrow> res_bind (resolvePqcKeypair sdk client address m) (\<lambda>r. Inr (Some r)))
   | Some h \<Rightarrow>
       (case pqcKeypairFromEnv sdk client address env of
          Inl e \<Rightarrow> True
        | Inr None \<Rightarrow> False
        | Inr (Some r) \<Rightarrow> \<exists>sd. hexToBytes h = Inr sd \<and> length sd = 32 \<and>
            ks_generatePqcKeypair sdk sd = Inr (rk2_keypair r) \<and>
            registeredPqcKey client address \<in> {[], bytesToHex (pk_publicKey (rk2_keypair r))} \<and>
            (rk2_registered r \<longleftrightarrow> registeredPqcKey client address \<noteq> []))"
  by (auto simp: pqcKeypairFromEnv_def Let_def res_bind_eq_Inr split: option.split sum.split if_splits)

text \<open>
  The error table names every code of the \<open>rdk\<close> codespace from 2 to 36 once, each with a kind of its
  own; a refused transaction with such a code is named by it, with its hint in the message, and any other
  one is left to the SDK's decoder.
\<close>

theorem error_codes_named_once:
  "map fst RDK_ERRORS = [2..36] \<and> distinct (map (re_kind \<circ> snd) RDK_ERRORS) \<and>
   (if te2_codespace input = Some ''rdk'' \<and> te2_code input \<in> {2..36}
    then \<exists>info. (te2_code input, info) \<in> set RDK_ERRORS \<and>
      dx_kind (decodeRdkTxError dec input) = re_kind info \<and> dx_hint (decodeRdkTxError dec input) = re_hint info \<and>
      take (length (re_message info)) (dx_message (decodeRdkTxError dec input)) = re_message info
    else decodeRdkTxError dec input = dec input)"
proof -
  have c: "map fst RDK_ERRORS = [2..36]" by code_simp
  moreover have "distinct (map (re_kind \<circ> snd) RDK_ERRORS)" by code_simp
  moreover have "if te2_codespace input = Some ''rdk'' \<and> te2_code input \<in> {2..36}
    then \<exists>info. (te2_code input, info) \<in> set RDK_ERRORS \<and>
      dx_kind (decodeRdkTxError dec input) = re_kind info \<and> dx_hint (decodeRdkTxError dec input) = re_hint info \<and>
      take (length (re_message info)) (dx_message (decodeRdkTxError dec input)) = re_message info
    else decodeRdkTxError dec input = dec input"
  proof -
    have "fst ` set RDK_ERRORS = {2..36}" using arg_cong [OF c, of set] by (simp only: set_map set_upto)
    then have none: "map_of RDK_ERRORS (te2_code input) = None \<longleftrightarrow> te2_code input \<notin> {2..36}"
      by (simp only: map_of_eq_None_iff)
    show ?thesis
    proof (cases "map_of RDK_ERRORS (te2_code input)")
      case None
      with none show ?thesis by (auto simp: decodeRdkTxError_def)
    next
      case (Some info)
      with none have "te2_code input \<in> {2..36}" "(te2_code input, info) \<in> set RDK_ERRORS"
        by (simp_all add: map_of_SomeD)
      with Some show ?thesis
        by (auto simp: decodeRdkTxError_def intro!: exI [of _ info] split: option.split)
    qed
  qed
  ultimately show ?thesis by blast
qed

text \<open>
  The faucet is asked only at a URL that is configured: without one, or with a blank one, the request
  throws whatever the network would answer, and with one it succeeds exactly when the answer is a success.
\<close>

theorem faucet_needs_a_url:
  "(case nonblank (fo_url options) of
      None \<Rightarrow> \<exists>e. \<forall>fetch. requestFaucet fetch options = Inl e
    | Some _ \<Rightarrow> (\<exists>r. requestFaucet fetch options = Inr r) \<longleftrightarrow>
        (\<exists>res. fetch (POST (the (fo_url options)) (JObj [(''address'', JStr (fo_address options)),
           (''denom'', JStr (or_default (fo_denom options) ''uqor''))])) = Inr res \<and> hr_ok res))"
  by (auto simp: requestFaucet_def nonblank_def res_bind_eq_Inr Let_def split: option.splits if_splits)

end
