(* ===== verification/Json.thy ===== *)
theory Json
  imports Views
begin

text \<open>
  \<open>JSON.stringify\<close> and \<open>JSON.parse\<close>, as the kit, the command line and the scaffolding command use them.

  Printing is given for both layouts the program asks for: without white space, and indented by two
  spaces. Parsing is a scanner, one step per character, followed by a pushdown automaton, one step per
  token, so both are structural recursions. The values are those of \<open>Views\<close>: a number literal with a
  fraction or an exponent, and an escape of a character above U+00FF, are outside the modelled values and
  read as errors. Where a key is repeated the last value counts, at the place of the first; a key that reads
  as an array index, which the platform moves to the front of its object, keeps its place.

  Shown: either layout is read back, for every value whose objects have distinct keys.
\<close>

subsection \<open>Printing\<close>

definition json_char :: "char \<Rightarrow> string" where
  "json_char c =
     (if c = CHR 0x22 then [CHR 0x5c, c]
      else if c = CHR 0x5c then [c, c]
      else if code c = 8 then [CHR 0x5c, CHR ''b'']
      else if code c = 9 then [CHR 0x5c, CHR ''t'']
      else if code c = 10 then [CHR 0x5c, CHR ''n'']
      else if code c = 12 then [CHR 0x5c, CHR ''f'']
      else if code c = 13 then [CHR 0x5c, CHR ''r'']
      else if code c < 32 then [CHR 0x5c] @ ''u00'' @ padStart 2 CHR ''0'' (toString16 (code c))
      else [c])"

definition json_string :: "string \<Rightarrow> string" where
  "json_string s = [CHR 0x22] @ concat (map json_char s) @ [CHR 0x22]"

fun json_text :: "json \<Rightarrow> string" where
  "json_text JNull = ''null''"
| "json_text (JBool b) = (if b then ''true'' else ''false'')"
| "json_text (JNum n) = show_int n"
| "json_text (JStr s) = json_string s"
| "json_text (JArr xs) = ''['' @ join '','' (map json_text xs) @ '']''"
| "json_text (JObj fs) = ''{'' @ join '','' (map (\<lambda>(k, v). json_string k @ '':'' @ json_text v) fs) @ ''}''"

text \<open>\<open>JSON.stringify(value, null, 2)\<close>, at an indentation \<open>ind\<close>; empty arrays and objects have no inside.\<close>

definition newline :: "string \<Rightarrow> string" where
  "newline ind = CHR 0x0a # ind"

fun json_lines :: "string \<Rightarrow> json \<Rightarrow> string" where
  "json_lines ind (JArr xs) =
     (if xs = [] then ''[]''
      else let inner = ind @ ''  '' in
        ''['' @ newline inner @ join ('','' @ newline inner) (map (json_lines inner) xs) @ newline ind @ '']'')"
| "json_lines ind (JObj fs) =
     (if fs = [] then ''{}''
      else let inner = ind @ ''  '' in
        ''{'' @ newline inner @
        join ('','' @ newline inner) (map (\<lambda>(k, v). json_string k @ '': '' @ json_lines inner v) fs) @
        newline ind @ ''}'')"
| "json_lines ind v = json_text v"

definition json_pretty :: "json \<Rightarrow> string" where
  "json_pretty v = json_lines '''' v"

subsection \<open>Scanning\<close>

datatype token = TOpen | TClose | TOpenArr | TCloseArr | TColon | TComma | TLit json

definition json_space :: "char \<Rightarrow> bool" where
  "json_space c \<longleftrightarrow> code c \<in> set [9, 10, 13, 32]"

definition punct :: "char \<Rightarrow> token option" where
  "punct c = map_of [(CHR ''{'', TOpen), (CHR ''}'', TClose), (CHR ''['', TOpenArr), (CHR '']'', TCloseArr),
     (CHR '':'', TColon), (CHR '','', TComma)] c"

definition delim :: "char \<Rightarrow> bool" where
  "delim c \<longleftrightarrow> json_space c \<or> punct c \<noteq> None \<or> c = CHR 0x22"

text \<open>The integer literals of JSON: no plus sign, no leading zero.\<close>

definition digits_literal :: "string \<Rightarrow> bool" where
  "digits_literal ds \<longleftrightarrow> ds \<noteq> '''' \<and> list_all is_digit ds \<and> (length ds = 1 \<or> hd ds \<noteq> CHR ''0'')"

definition int_literal :: "string \<Rightarrow> int option" where
  "int_literal w =
     (case w of
        [] \<Rightarrow> None
      | c # ds \<Rightarrow>
          if c = CHR ''-'' then (if digits_literal ds then Some (- int (nat_of_digits ds)) else None)
          else if digits_literal w then Some (int (nat_of_digits w)) else None)"

definition word_token :: "string \<Rightarrow> token option" where
  "word_token w =
     (if w = ''null'' then Some (TLit JNull)
      else if w = ''true'' then Some (TLit (JBool True))
      else if w = ''false'' then Some (TLit (JBool False))
      else map_option (\<lambda>n. TLit (JNum n)) (int_literal w))"

text \<open>Between tokens, inside a text, after a backslash, inside \<open>\u\<close> with the digits so far, inside a word.\<close>

datatype scan = Between | InText string | Escaped string | InHex string nat nat | InWord string

definition begin_token :: "char \<Rightarrow> token list \<times> scan" where
  "begin_token c =
     (if json_space c then ([], Between)
      else case punct c of
          Some t \<Rightarrow> ([t], Between)
        | None \<Rightarrow> ([], if c = CHR 0x22 then InText [] else InWord [c]))"

definition unescape :: "char \<Rightarrow> char option" where
  "unescape c = map_of [(CHR 0x22, CHR 0x22), (CHR 0x5c, CHR 0x5c), (CHR ''/'', CHR ''/''), (CHR ''b'', char_of (8 :: nat)),
     (CHR ''f'', char_of (12 :: nat)), (CHR ''n'', char_of (10 :: nat)), (CHR ''r'', char_of (13 :: nat)),
     (CHR ''t'', char_of (9 :: nat))] c"

fun scan_step :: "scan \<Rightarrow> char \<Rightarrow> (token list \<times> scan) option" where
  "scan_step Between c = Some (begin_token c)"
| "scan_step (InText a) c =
     (if c = CHR 0x22 then Some ([TLit (JStr (rev a))], Between)
      else if c = CHR 0x5c then Some ([], Escaped a)
      else if code c < 32 then None else Some ([], InText (c # a)))"
| "scan_step (Escaped a) c =
     (if c = CHR ''u'' then Some ([], InHex a 0 0)
      else case unescape c of None \<Rightarrow> None | Some d \<Rightarrow> Some ([], InText (d # a)))"
| "scan_step (InHex a n v) c =
     (if \<not> is_hex_char c then None
      else let v' = 16 * v + hex_val c in
        if n < 3 then Some ([], InHex a (n + 1) v')
        else if v' < 256 then Some ([], InText (char_of v' # a)) else None)"
| "scan_step (InWord w) c =
     (if delim c
      then case word_token (rev w) of
          None \<Rightarrow> None
        | Some t \<Rightarrow> let (ts, s) = begin_token c in Some (t # ts, s)
      else Some ([], InWord (c # w)))"

fun scan_end :: "scan \<Rightarrow> token list option" where
  "scan_end Between = Some []"
| "scan_end (InWord w) = map_option (\<lambda>t. [t]) (word_token (rev w))"
| "scan_end _ = None"

fun scan_text :: "scan \<Rightarrow> string \<Rightarrow> token list option" where
  "scan_text s [] = scan_end s"
| "scan_text s (c # cs) =
     (case scan_step s c of
        None \<Rightarrow> None
      | Some (ts, s') \<Rightarrow> map_option (\<lambda>us. ts @ us) (scan_text s' cs))"

subsection \<open>Parsing\<close>

text \<open>\<open>obj[key] = v\<close>: the first place of a key, its last value.\<close>

fun set_key :: "string \<Rightarrow> json \<Rightarrow> (string \<times> json) list \<Rightarrow> (string \<times> json) list" where
  "set_key k v [] = [(k, v)]"
| "set_key k v ((k', v') # fs) = (if k' = k then (k, v) # fs else (k', v') # set_key k v fs)"

text \<open>
  What may come next: a value, the first value of an array, a key, the first key of an object, the colon
  behind a key, or what follows a value. The frames are the arrays and objects around it.
\<close>

datatype place =
    AtValue
  | AtFirstValue
  | AtKey "(string \<times> json) list"
  | AtFirstKey
  | AtColon "(string \<times> json) list" string
  | After json

datatype frame = InArr "json list" | InObj "(string \<times> json) list" string

type_synonym pda = "place \<times> frame list"

fun value_step :: "token \<Rightarrow> frame list \<Rightarrow> pda option" where
  "value_step (TLit v) st = Some (After v, st)"
| "value_step TOpenArr st = Some (AtFirstValue, InArr [] # st)"
| "value_step TOpen st = Some (AtFirstKey, st)"
| "value_step _ st = None"

fun key_step :: "token \<Rightarrow> (string \<times> json) list \<Rightarrow> frame list \<Rightarrow> pda option" where
  "key_step (TLit (JStr k)) fs st = Some (AtColon fs k, st)"
| "key_step _ fs st = None"

fun after_step :: "token \<Rightarrow> json \<Rightarrow> frame list \<Rightarrow> pda option" where
  "after_step TComma v (InArr xs # st) = Some (AtValue, InArr (xs @ [v]) # st)"
| "after_step TCloseArr v (InArr xs # st) = Some (After (JArr (xs @ [v])), st)"
| "after_step TComma v (InObj fs k # st) = Some (AtKey (set_key k v fs), st)"
| "after_step TClose v (InObj fs k # st) = Some (After (JObj (set_key k v fs)), st)"
| "after_step _ v st = None"

fun pda_step :: "token \<Rightarrow> pda \<Rightarrow> pda option" where
  "pda_step t (AtValue, st) = value_step t st"
| "pda_step t (AtFirstValue, st) =
     (case (t, st) of (TCloseArr, InArr [] # st') \<Rightarrow> Some (After (JArr []), st') | _ \<Rightarrow> value_step t st)"
| "pda_step t (AtKey fs, st) = key_step t fs st"
| "pda_step t (AtFirstKey, st) = (if t = TClose then Some (After (JObj []), st) else key_step t [] st)"
| "pda_step t (AtColon fs k, st) = (if t = TColon then Some (AtValue, InObj fs k # st) else None)"
| "pda_step t (After v, st) = after_step t v st"

fun pda_run :: "token list \<Rightarrow> pda \<Rightarrow> pda option" where
  "pda_run [] p = Some p"
| "pda_run (t # ts) p = (case pda_step t p of None \<Rightarrow> None | Some p' \<Rightarrow> pda_run ts p')"

definition JSON_parse :: "string \<Rightarrow> error + json" where
  "JSON_parse s =
     (case scan_text Between s of
        None \<Rightarrow> Inl (JsError ''Unexpected token in JSON'')
      | Some ts \<Rightarrow>
          (case pda_run ts (AtValue, []) of
             Some (After v, []) \<Rightarrow> Inr v
           | _ \<Rightarrow> Inl (JsError ''Unexpected end of JSON input'')))"

subsection \<open>Scanning what was printed\<close>

lemma map_append_Nil [simp]: "map_option ((@) []) x = x" "map_option (\<lambda>us. us) x = x"
  by (cases x, simp_all)+

lemma append_Cons_fun: "(@) (t # ts) = (\<lambda>us. t # ts @ us)"
  by (rule ext) simp

text \<open>The tokens of a value.\<close>

fun separated :: "token list list \<Rightarrow> token list" where
  "separated [] = []"
| "separated [ts] = ts"
| "separated (ts # us # r) = ts @ [TComma] @ separated (us # r)"

fun tokens :: "json \<Rightarrow> token list" where
  "tokens (JArr xs) = [TOpenArr] @ separated (map tokens xs) @ [TCloseArr]"
| "tokens (JObj fs) =
     [TOpen] @ separated (map (\<lambda>(k, v). [TLit (JStr k), TColon] @ tokens v) fs) @ [TClose]"
| "tokens v = [TLit v]"

text \<open>\<open>s\<close> scans as \<open>ts\<close> in front of anything that ends a word.\<close>

definition ends_word :: "string \<Rightarrow> bool" where
  "ends_word r \<longleftrightarrow> (case r of [] \<Rightarrow> True | c # _ \<Rightarrow> delim c)"

definition scans :: "string \<Rightarrow> token list \<Rightarrow> bool" where
  "scans s ts \<longleftrightarrow>
     (\<forall>r. ends_word r \<longrightarrow> scan_text Between (s @ r) = map_option (\<lambda>us. ts @ us) (scan_text Between r))"

lemma scans_Nil: "scans [] []"
  by (simp add: scans_def)

lemma ends_word_append: "ends_word s \<Longrightarrow> s \<noteq> [] \<or> ends_word r \<Longrightarrow> ends_word (s @ r)"
  by (auto simp: ends_word_def split: list.splits)

lemma scans_append:
  assumes "scans s ts" "scans s' us" "ends_word s'"
  shows "scans (s @ s') (ts @ us)"
  unfolding scans_def
proof (intro allI impI)
  fix r assume r: "ends_word r"
  then have "ends_word (s' @ r)" using assms(3) by (intro ends_word_append) auto
  with r assms(1,2) show "scan_text Between ((s @ s') @ r) = map_option (\<lambda>vs. (ts @ us) @ vs) (scan_text Between r)"
    by (simp add: scans_def option.map_comp comp_def)
qed

lemma scans_space: "json_space c \<Longrightarrow> scans s ts \<Longrightarrow> scans (c # s) ts"
  by (simp add: scans_def begin_token_def)

lemma scans_punct: "punct c = Some t \<Longrightarrow> \<not> json_space c \<Longrightarrow> scans s ts \<Longrightarrow> scans (c # s) (t # ts)"
  by (simp add: scans_def begin_token_def option.map_comp comp_def)

lemma scans_newline: "list_all json_space ind \<Longrightarrow> scans s ts \<Longrightarrow> scans (newline ind @ s) ts"
proof -
  assume s: "scans s ts" and ind: "list_all json_space ind"
  from ind have "scans (ind @ s) ts" by (induction ind) (simp_all add: s scans_space)
  then show ?thesis by (simp add: newline_def scans_space json_space_def code_def)
qed

subsubsection \<open>Words\<close>

lemma scan_word:
  assumes "list_all (\<lambda>c. \<not> delim c) w" "ends_word r" "word_token (rev a @ w) = Some t"
  shows "scan_text (InWord a) (w @ r) = map_option (\<lambda>us. t # us) (scan_text Between r)"
  using assms
proof (induction w arbitrary: a)
  case Nil
  then show ?case
    by (cases r) (auto simp: ends_word_def option.map_comp comp_def append_Cons_fun split: prod.split)
next
  case (Cons c w)
  then show ?case using Cons.IH [of "c # a"] by simp
qed

lemma not_delim: "\<not> delim c \<Longrightarrow> begin_token c = ([], InWord [c])"
  by (auto simp: delim_def begin_token_def)

lemma scans_word:
  assumes "w \<noteq> []" "list_all (\<lambda>c. \<not> delim c) w" "word_token w = Some t"
  shows "scans w [t]"
proof -
  obtain c v where w: "w = c # v" using assms(1) by (cases w) auto
  with assms scan_word [of v _ "[c]" t] show ?thesis
    by (simp add: scans_def not_delim)
qed

lemma digit_not_delim: "is_digit c \<Longrightarrow> \<not> delim c"
proof -
  have "\<forall>c. is_digit c \<longrightarrow> \<not> delim c" by code_simp
  then show "is_digit c \<Longrightarrow> \<not> delim c" by blast
qed

lemma show_nat_no_zero: "0 < n \<Longrightarrow> hd (show_nat n) \<noteq> CHR ''0''"
proof (induction n rule: show_nat.induct)
  case (1 n)
  show ?case
  proof (cases "n < 10")
    case True
    have "\<forall>m \<in> {1..<10}. digit_char m \<noteq> CHR ''0''" by code_simp
    with True 1(2) show ?thesis by (subst show_nat.simps) simp
  next
    case False
    with 1(1) show ?thesis by (subst show_nat.simps) simp
  qed
qed

lemma show_nat_literal: "digits_literal (show_nat n)"
proof (cases "n = 0")
  case True
  then have "show_nat n = [digit_char 0]" by (subst show_nat.simps) simp
  then show ?thesis using show_nat_digits [of n] by (simp add: digits_literal_def)
next
  case False
  then show ?thesis using show_nat_digits [of n] show_nat_no_zero [of n] by (simp add: digits_literal_def)
qed

lemma digit_not_dash: "is_digit c \<Longrightarrow> c \<noteq> CHR ''-''"
  by (auto simp: is_digit_def code_def)

lemma int_literal_show: "int_literal (show_int n) = Some n"
proof (cases "n < 0")
  case True
  then show ?thesis using show_nat_literal [of "nat (- n)"] by (simp add: show_int_def int_literal_def)
next
  case False
  obtain c ds where s: "show_nat (nat n) = c # ds" by (cases "show_nat (nat n)") auto
  moreover have "c \<noteq> CHR ''-''" using show_nat_digits [of "nat n"] s digit_not_dash by simp
  moreover have "nat_of_digits (c # ds) = nat n" using s nat_of_digits_show_nat [of "nat n"] by simp
  ultimately show ?thesis using False show_nat_literal [of "nat n"] by (simp add: show_int_def int_literal_def)
qed

lemma show_int_shape: "\<exists>c ds. show_int n = c # ds \<and> (c = CHR ''-'' \<or> is_digit c) \<and> list_all is_digit ds"
  using show_nat_digits [of "nat n"] show_nat_digits [of "nat (- n)"]
  by (cases "show_nat (nat n)") (auto simp: show_int_def)

lemma word_token_show: "word_token (show_int n) = Some (TLit (JNum n))"
proof -
  obtain c ds where s: "show_int n = c # ds" "c = CHR ''-'' \<or> is_digit c" using show_int_shape by blast
  then have "show_int n \<noteq> ''null''" "show_int n \<noteq> ''true''" "show_int n \<noteq> ''false''"
    by (auto simp: is_digit_def code_def)
  then show ?thesis unfolding word_token_def by (simp only: int_literal_show if_False option.map)
qed

lemma scans_int: "scans (show_int n) [TLit (JNum n)]"
proof -
  obtain c ds where s: "show_int n = c # ds" "c = CHR ''-'' \<or> is_digit c" "list_all is_digit ds"
    using show_int_shape by blast
  have "\<not> delim (CHR ''-'')" by (simp add: delim_def json_space_def punct_def code_def)
  with s have "list_all (\<lambda>c. \<not> delim c) (show_int n)" by (auto simp: list_all_iff digit_not_delim)
  with s(1) show ?thesis by (intro scans_word) (simp, simp, rule word_token_show)
qed

subsubsection \<open>Texts\<close>

lemma control_hex:
  assumes "n < 32"
  shows "padStart 2 CHR ''0'' (toString16 n) = [hex_char (n div 16), hex_char (n mod 16)]"
proof -
  have "unat (of_nat n :: byte) = n" using assms by (simp add: unat_of_nat)
  then show ?thesis using byte_hex [of "of_nat n :: byte"] by simp
qed

lemma scan_escape:
  "e \<noteq> CHR ''u'' \<Longrightarrow> unescape e = Some d \<Longrightarrow> scan_text (InText a) (CHR 0x5c # e # r) = scan_text (InText (d # a)) r"
  by simp

lemma hex_zero: "is_hex_char (CHR ''0'')" "hex_val (CHR ''0'') = 0"
  by code_simp+

lemma scan_hex_step:
  "is_hex_char h \<Longrightarrow> n < 3 \<Longrightarrow> scan_text (InHex a n v) (h # r) = scan_text (InHex a (n + 1) (16 * v + hex_val h)) r"
  "is_hex_char h \<Longrightarrow> 16 * v + hex_val h < 256 \<Longrightarrow>
     scan_text (InHex a 3 v) (h # r) = scan_text (InText (char_of (16 * v + hex_val h) # a)) r"
  by (simp_all add: Let_def)

lemma scan_u: "scan_text (InText a) (CHR 0x5c # CHR ''u'' # r) = scan_text (InHex a 0 0) r"
  by simp

lemma scan_control:
  assumes "n < 32"
  shows "scan_text (InText a) (CHR 0x5c # CHR ''u'' # CHR ''0'' # CHR ''0'' # hex_char (n div 16) # hex_char (n mod 16) # r)
     = scan_text (InText (char_of n # a)) r"
proof -
  have n: "n div 16 < 16" "n mod 16 < 16" "16 * (n div 16) + n mod 16 = n" using assms by simp_all
  have "scan_text (InText a) (CHR 0x5c # CHR ''u'' # CHR ''0'' # CHR ''0'' # hex_char (n div 16) # hex_char (n mod 16) # r)
     = scan_text (InHex a 3 (n div 16)) (hex_char (n mod 16) # r)"
    using n by (simp add: scan_u scan_hex_step hex_zero numeral_3_eq_3 del: scan_text.simps)
  also have "\<dots> = scan_text (InText (char_of n # a)) r"
    using n assms scan_hex_step(2) [of "hex_char (n mod 16)" "n div 16" a r] by (simp del: scan_text.simps)
  finally show ?thesis .
qed

lemma code_cases:
  fixes c :: char
  obtains "c = CHR 0x22" | "c = CHR 0x5c" | (escape) e where "json_char c = [CHR 0x5c, e]" "e \<noteq> CHR ''u''" "unescape e = Some c"
  | (control) "code c < 32" "json_char c = [CHR 0x5c] @ ''u00'' @ padStart 2 CHR ''0'' (toString16 (code c))"
  | (plain_char) "json_char c = [c]" "32 \<le> code c" "c \<noteq> CHR 0x22" "c \<noteq> CHR 0x5c"
proof -
  have small: "c = char_of n" "c \<noteq> CHR 0x22" "c \<noteq> CHR 0x5c" if "code c = n" "n < 32" for n
    using that by (auto simp: code_def)
  consider "c = CHR 0x22 \<or> c = CHR 0x5c" | "code c = 8" | "code c = 9" | "code c = 10" | "code c = 12" | "code c = 13"
    | "code c < 32" "code c \<notin> {8, 9, 10, 12, 13}" | "32 \<le> code c" "c \<noteq> CHR 0x22" "c \<noteq> CHR 0x5c" by force
  then show thesis
  proof cases
    case 2 then show thesis using small [of 8] by (intro escape [of "CHR ''b''"]) (simp_all add: json_char_def unescape_def)
  next
    case 3 then show thesis using small [of 9] by (intro escape [of "CHR ''t''"]) (simp_all add: json_char_def unescape_def)
  next
    case 4 then show thesis using small [of 10] by (intro escape [of "CHR ''n''"]) (simp_all add: json_char_def unescape_def)
  next
    case 5 then show thesis using small [of 12] by (intro escape [of "CHR ''f''"]) (simp_all add: json_char_def unescape_def)
  next
    case 6 then show thesis using small [of 13] by (intro escape [of "CHR ''r''"]) (simp_all add: json_char_def unescape_def)
  next
    case 7 then show thesis using small [of "code c"] by (intro control) (simp_all add: json_char_def)
  next
    case 8 then show thesis by (intro plain_char) (simp_all add: json_char_def)
  qed (use that in blast)
qed

lemma scan_char: "scan_text (InText a) (json_char c @ r) = scan_text (InText (c # a)) r"
proof (cases c rule: code_cases)
  case (escape e)
  then show ?thesis by (simp add: scan_escape del: scan_text.simps)
next
  case control
  have "char_of (code c) = c" by (simp add: code_def)
  with control scan_control [of "code c" a r] show ?thesis by (simp add: control_hex del: scan_text.simps)
next
  case plain_char
  then show ?thesis by simp
qed (simp_all add: json_char_def unescape_def)

lemma scan_chars: "scan_text (InText a) (concat (map json_char s) @ r) = scan_text (InText (rev s @ a)) r"
  by (induction s arbitrary: a) (simp_all add: scan_char)

lemma scans_string: "scans (json_string s) [TLit (JStr s)]"
proof -
  have "begin_token (CHR 0x22) = ([], InText [])" by (simp add: begin_token_def json_space_def punct_def code_def)
  then show ?thesis by (simp add: scans_def json_string_def scan_chars append_Cons_fun)
qed

subsubsection \<open>Values\<close>

lemma delim_punct: "punct c = Some t \<Longrightarrow> ends_word (c # s)"
  by (simp add: ends_word_def delim_def)

lemma delim_newline: "ends_word (newline ind @ s)"
  by (simp add: ends_word_def delim_def newline_def json_space_def code_def)

lemma delim_puncts [simp]:
  "ends_word (CHR '','' # s)" "ends_word (CHR '']'' # s)" "ends_word (CHR ''}'' # s)" "ends_word (CHR '':'' # s)"
  by (auto intro!: delim_punct simp: punct_def)

text \<open>What stands between the elements: a comma, and white space behind it.\<close>

definition comma_space :: "string \<Rightarrow> bool" where
  "comma_space sep \<longleftrightarrow> (\<exists>ws. sep = CHR '','' # ws \<and> list_all json_space ws)"

lemma scans_spaces: "list_all json_space ws \<Longrightarrow> scans s ts \<Longrightarrow> scans (ws @ s) ts"
  by (induction ws) (simp_all add: scans_space)

lemma punct_scans:
  "scans s ts \<Longrightarrow> scans (CHR '','' # s) (TComma # ts)"
  "scans s ts \<Longrightarrow> scans (CHR '':'' # s) (TColon # ts)"
  "scans s ts \<Longrightarrow> scans (CHR ''['' # s) (TOpenArr # ts)"
  "scans s ts \<Longrightarrow> scans (CHR '']'' # s) (TCloseArr # ts)"
  "scans s ts \<Longrightarrow> scans (CHR ''{'' # s) (TOpen # ts)"
  "scans s ts \<Longrightarrow> scans (CHR ''}'' # s) (TClose # ts)"
  by (rule scans_punct; simp add: punct_def json_space_def code_def)+

lemma scans_join:
  assumes "comma_space sep" "\<And>x. x \<in> set xs \<Longrightarrow> scans (f x) (g x)"
  shows "scans (join sep (map f xs)) (separated (map g xs))"
  using assms(2)
proof (induction xs rule: induct_list012)
  case 1
  then show ?case by (simp add: scans_Nil)
next
  case (2 x)
  then show ?case by simp
next
  case (3 x y zs)
  obtain ws where sep: "sep = CHR '','' # ws" "list_all json_space ws"
    using assms(1) by (auto simp: comma_space_def)
  have "scans (join sep (map f (y # zs))) (separated (map g (y # zs)))" using 3 by simp
  then have "scans (sep @ join sep (map f (y # zs))) (TComma # separated (map g (y # zs)))"
    using sep by (simp add: punct_scans scans_spaces)
  with 3(3) [of x] have "scans (f x @ sep @ join sep (map f (y # zs))) (g x @ TComma # separated (map g (y # zs)))"
    using sep by (intro scans_append) simp_all
  then show ?case by simp
qed

lemma scans_field:
  assumes "list_all json_space ws" "scans s ts"
  shows "scans (json_string k @ CHR '':'' # ws @ s) (TLit (JStr k) # TColon # ts)"
  using scans_append [OF scans_string [of k], of "CHR '':'' # ws @ s" "TColon # ts"] assms
  by (simp add: punct_scans scans_spaces)

lemma scans_literals:
  "scans ''null'' [TLit JNull]" "scans ''true'' [TLit (JBool True)]" "scans ''false'' [TLit (JBool False)]"
  by (rule scans_word; simp add: word_token_def delim_def json_space_def punct_def code_def)+

lemma scans_text: "scans (json_text v) (tokens v)"
proof (induction v rule: json_text.induct)
  case (5 xs)
  then have "scans (join '','' (map json_text xs)) (separated (map tokens xs))"
    by (intro scans_join) (simp_all add: comma_space_def)
  then have "scans (join '','' (map json_text xs) @ '']'') (separated (map tokens xs) @ [TCloseArr])"
    by (intro scans_append) (simp_all add: punct_scans scans_Nil)
  then show ?case by (simp add: punct_scans)
next
  case (6 fs)
  have "scans (join '','' (map (\<lambda>(k, v). json_string k @ '':'' @ json_text v) fs))
      (separated (map (\<lambda>(k, v). [TLit (JStr k), TColon] @ tokens v) fs))"
    using 6 scans_field [of "[]"] by (intro scans_join) (auto simp: comma_space_def)
  then have "scans (join '','' (map (\<lambda>(k, v). json_string k @ '':'' @ json_text v) fs) @ ''}'')
      (separated (map (\<lambda>(k, v). [TLit (JStr k), TColon] @ tokens v) fs) @ [TClose])"
    by (intro scans_append) (simp_all add: punct_scans scans_Nil)
  then show ?case by (simp add: punct_scans)
qed (simp_all add: scans_literals scans_int scans_string)

lemma space_chars [simp]: "json_space (CHR '' '')" "json_space (CHR 0x0a)"
  by (simp_all add: json_space_def code_def)

lemma scans_lines:
  assumes "list_all json_space ind"
  shows "scans (json_lines ind v) (tokens v)"
  using assms
proof (induction ind v rule: json_lines.induct)
  case (1 ind xs)
  show ?case
  proof (cases "xs = []")
    case True
    then show ?thesis by (simp add: punct_scans scans_Nil)
  next
    case False
    define inner where "inner = ind @ ''  ''"
    have inner: "list_all json_space inner"
      using "1.prems" by (simp add: inner_def)
    have "scans (join ('','' @ newline inner) (map (json_lines inner) xs)) (separated (map tokens xs))"
      using 1 False inner
      by (intro scans_join) (simp_all add: comma_space_def inner_def newline_def)
    then have "scans (join ('','' @ newline inner) (map (json_lines inner) xs) @ newline ind @ '']'')
        (separated (map tokens xs) @ [TCloseArr])"
      using "1.prems" by (intro scans_append) (simp_all add: punct_scans scans_Nil scans_newline delim_newline)
    then show ?thesis using False inner
      by (simp add: punct_scans scans_newline Let_def flip: inner_def)
  qed
next
  case (2 ind fs)
  show ?case
  proof (cases "fs = []")
    case True
    then show ?thesis by (simp add: punct_scans scans_Nil)
  next
    case False
    define inner where "inner = ind @ ''  ''"
    have inner: "list_all json_space inner"
      using "2.prems" by (simp add: inner_def)
    have space: "list_all json_space '' ''" by (simp add:)
    have "scans (join ('','' @ newline inner) (map (\<lambda>(k, v). json_string k @ '': '' @ json_lines inner v) fs))
        (separated (map (\<lambda>(k, v). [TLit (JStr k), TColon] @ tokens v) fs))"
    proof (rule scans_join)
      show "comma_space ('','' @ newline inner)"
        using inner by (simp add: comma_space_def newline_def)
      fix p assume p: "p \<in> set fs"
      obtain k v where kv: "p = (k, v)" by (cases p)
      have "scans (json_lines inner v) (tokens v)"
        using 2(1) [OF False inner_def p kv [symmetric]] inner by simp
      with scans_field [OF space this] kv
      show "scans (case p of (k, v) \<Rightarrow> json_string k @ '': '' @ json_lines inner v)
          (case p of (k, v) \<Rightarrow> [TLit (JStr k), TColon] @ tokens v)" by simp
    qed
    then have "scans (join ('','' @ newline inner) (map (\<lambda>(k, v). json_string k @ '': '' @ json_lines inner v) fs) @ newline ind @ ''}'')
        (separated (map (\<lambda>(k, v). [TLit (JStr k), TColon] @ tokens v) fs) @ [TClose])"
      using "2.prems" by (intro scans_append) (simp_all add: punct_scans scans_Nil scans_newline delim_newline)
    then show ?thesis using False inner
      by (simp add: punct_scans scans_newline Let_def flip: inner_def)
  qed
qed (simp_all add: scans_literals scans_int scans_string)

subsection \<open>Parsing what was printed\<close>

text \<open>Values whose objects have each key once.\<close>

fun distinct_keys :: "json \<Rightarrow> bool" where
  "distinct_keys (JArr xs) \<longleftrightarrow> list_all distinct_keys xs"
| "distinct_keys (JObj fs) \<longleftrightarrow> distinct (map fst fs) \<and> list_all (\<lambda>(k, v). distinct_keys v) fs"
| "distinct_keys v \<longleftrightarrow> True"

lemma set_key_fresh: "k \<notin> fst ` set fs \<Longrightarrow> set_key k v fs = fs @ [(k, v)]"
  by (induction fs) auto

lemma pda_run_append: "pda_run (ts @ us) p = (case pda_run ts p of None \<Rightarrow> None | Some p' \<Rightarrow> pda_run us p')"
  by (induction ts arbitrary: p) (simp_all split: option.splits)

text \<open>\<open>ts\<close> are read as the value \<open>v\<close>, whatever is around it, and also as the first value of an array.\<close>

definition reads :: "token list \<Rightarrow> json \<Rightarrow> bool" where
  "reads ts v \<longleftrightarrow>
     (\<forall>st. pda_run ts (AtValue, st) = Some (After v, st) \<and>
           pda_run ts (AtFirstValue, InArr [] # st) = Some (After v, InArr [] # st))"

lemma reads_elements:
  assumes "\<forall>v \<in> set xs. reads (g v) v" "xs \<noteq> []"
  shows "pda_run (separated (map g xs) @ [TCloseArr]) (AtValue, InArr ys # st) = Some (After (JArr (ys @ xs)), st)"
  using assms
proof (induction xs arbitrary: ys rule: induct_list012)
  case (2 x)
  then show ?case by (simp add: pda_run_append reads_def)
next
  case (3 x y zs)
  have IH: "pda_run (separated (map g (y # zs)) @ [TCloseArr]) (AtValue, InArr (ys @ [x]) # st) = Some (After (JArr ((ys @ [x]) @ y # zs)), st)"
    using 3(2) [of "ys @ [x]"] 3(3) by simp
  have "pda_run (g x) (AtValue, InArr ys # st) = Some (After x, InArr ys # st)" using 3(3) by (simp add: reads_def)
  with IH show ?case by (simp add: pda_run_append)
qed simp

lemma reads_fields:
  assumes "\<forall>(k, v) \<in> set fs. reads (tokens v) v" "distinct (map fst (gs @ fs))" "fs \<noteq> []"
  shows "pda_run (separated (map (\<lambda>(k, v). [TLit (JStr k), TColon] @ tokens v) fs) @ [TClose]) (AtKey gs, st)
     = Some (After (JObj (gs @ fs)), st)"
  using assms
proof (induction fs arbitrary: gs rule: induct_list012)
  case (2 p)
  obtain k v where p: "p = (k, v)" by (cases p)
  with 2 have "set_key k v gs = gs @ [(k, v)]" by (intro set_key_fresh) simp
  with 2 p show ?case by (simp add: pda_run_append reads_def)
next
  case (3 p q rs)
  obtain k v where p: "p = (k, v)" by (cases p)
  with 3(4) have fresh: "set_key k v gs = gs @ [(k, v)]" by (intro set_key_fresh) simp
  have IH: "pda_run (separated (map (\<lambda>(k, v). [TLit (JStr k), TColon] @ tokens v) (q # rs)) @ [TClose]) (AtKey (gs @ [p]), st)
      = Some (After (JObj ((gs @ [p]) @ q # rs)), st)"
    using 3(2) [of "gs @ [p]"] 3(3,4) by simp
  have "pda_run (tokens v) (AtValue, InObj gs k # st) = Some (After v, InObj gs k # st)"
    using 3(3) p by (simp add: reads_def)
  with IH fresh p show ?case by (simp add: pda_run_append)
qed simp

lemma separated_map_Cons: "separated (map g (x # xs)) = g x @ (if xs = [] then [] else TComma # separated (map g xs))"
  by (cases xs) simp_all

text \<open>The first element and the first key are read as the others are.\<close>

lemma first_value:
  "reads (g x) x \<Longrightarrow> pda_run (g x @ us) (AtFirstValue, InArr [] # st) = pda_run (g x @ us) (AtValue, InArr [] # st)"
  by (simp add: pda_run_append reads_def)

lemma reads_tokens: "distinct_keys v \<Longrightarrow> reads (tokens v) v"
proof (induction v rule: json_text.induct)
  case (5 xs)
  then have each: "\<forall>v \<in> set xs. reads (tokens v) v" by (simp add: list_all_iff)
  show ?case
  proof (cases xs)
    case Nil
    then show ?thesis by (simp add: reads_def)
  next
    case (Cons x ys)
    have "pda_run (separated (map tokens xs) @ [TCloseArr]) (AtFirstValue, InArr [] # st) = Some (After (JArr xs), st)" for st
    proof -
      have "pda_run (separated (map tokens xs) @ [TCloseArr]) (AtFirstValue, InArr [] # st)
          = pda_run (separated (map tokens xs) @ [TCloseArr]) (AtValue, InArr [] # st)"
        using each Cons first_value [of tokens x] by (simp only: Cons separated_map_Cons append_assoc list.set_intros)
      also have "\<dots> = Some (After (JArr xs), st)"
        using reads_elements [of xs tokens "[]" st] each Cons by simp
      finally show ?thesis .
    qed
    then show ?thesis by (simp add: reads_def)
  qed
next
  case (6 fs)
  then have each: "\<forall>(k, v) \<in> set fs. reads (tokens v) v" by (auto simp: list_all_iff)
  show ?case
  proof (cases fs)
    case Nil
    then show ?thesis by (simp add: reads_def)
  next
    case (Cons p rs)
    obtain k v where p: "p = (k, v)" by (cases p)
    obtain us where us: "separated (map (\<lambda>(k, v). [TLit (JStr k), TColon] @ tokens v) fs) @ [TClose] = TLit (JStr k) # us"
      by (cases "map (\<lambda>(k, v). [TLit (JStr k), TColon] @ tokens v) rs") (simp_all add: Cons p)
    have "pda_run (separated (map (\<lambda>(k, v). [TLit (JStr k), TColon] @ tokens v) fs) @ [TClose]) (AtFirstKey, st)
        = Some (After (JObj fs), st)" for st
    proof -
      have "pda_run (TLit (JStr k) # us) (AtFirstKey, st) = pda_run (TLit (JStr k) # us) (AtKey [], st)" by simp
      moreover have "pda_run (TLit (JStr k) # us) (AtKey [], st) = Some (After (JObj fs), st)"
        using reads_fields [of fs "[]" st, OF each] "6.prems" Cons unfolding us by simp
      ultimately show ?thesis by (simp only: us)
    qed
    then show ?thesis by (simp add: reads_def)
  qed
qed (simp_all add: reads_def)

lemma parse_scanned:
  assumes "scans s (tokens v)" "list_all json_space ws" "distinct_keys v"
  shows "JSON_parse (s @ ws) = Inr v"
proof -
  have blank: "scan_text Between ws = Some []"
    using scans_spaces [OF assms(2) scans_Nil] unfolding scans_def
    by (auto simp: ends_word_def dest: spec [of _ "[]"])
  have "ends_word ws" using assms(2) by (cases ws) (simp_all add: ends_word_def delim_def)
  with assms(1) blank have "scan_text Between (s @ ws) = Some (tokens v)" by (simp add: scans_def)
  moreover have "pda_run (tokens v) (AtValue, []) = Some (After v, [])"
    using reads_tokens [OF assms(3)] by (simp add: reads_def)
  ultimately show ?thesis by (simp add: JSON_parse_def)
qed

lemma parse_text: "distinct_keys v \<Longrightarrow> JSON_parse (json_text v) = Inr v"
  using parse_scanned [OF scans_text, of "[]"] by simp

lemma parse_pretty: "distinct_keys v \<Longrightarrow> list_all json_space ws \<Longrightarrow> JSON_parse (json_pretty v @ ws) = Inr v"
  by (rule parse_scanned) (simp_all add: json_pretty_def scans_lines)

subsection \<open>What parsing yields\<close>

text \<open>The typing of the automaton: every object under construction has each key once.\<close>

fun token_ok :: "token \<Rightarrow> bool" where
  "token_ok (TLit v) \<longleftrightarrow> distinct_keys v"
| "token_ok _ \<longleftrightarrow> True"

fun place_ok :: "place \<Rightarrow> bool" where
  "place_ok (AtKey fs) \<longleftrightarrow> distinct_keys (JObj fs)"
| "place_ok (AtColon fs k) \<longleftrightarrow> distinct_keys (JObj fs)"
| "place_ok (After v) \<longleftrightarrow> distinct_keys v"
| "place_ok _ \<longleftrightarrow> True"

fun frame_ok :: "frame \<Rightarrow> bool" where
  "frame_ok (InArr xs) \<longleftrightarrow> list_all distinct_keys xs"
| "frame_ok (InObj fs k) \<longleftrightarrow> distinct_keys (JObj fs)"

definition pda_ok :: "pda \<Rightarrow> bool" where
  "pda_ok p \<longleftrightarrow> place_ok (fst p) \<and> list_all frame_ok (snd p)"

lemma set_key_keys: "fst ` set (set_key k v fs) = insert k (fst ` set fs)"
  by (induction k v fs rule: set_key.induct) auto

lemma set_key_ok: "distinct_keys (JObj fs) \<Longrightarrow> distinct_keys v \<Longrightarrow> distinct_keys (JObj (set_key k v fs))"
  by (induction k v fs rule: set_key.induct) (auto simp: set_key_keys)

lemma value_step_ok: "value_step t st = Some p \<Longrightarrow> token_ok t \<Longrightarrow> list_all frame_ok st \<Longrightarrow> pda_ok p"
  by (cases t) (auto simp: pda_ok_def)

lemma key_step_ok:
  "key_step t fs st = Some p \<Longrightarrow> distinct_keys (JObj fs) \<Longrightarrow> list_all frame_ok st \<Longrightarrow> pda_ok p"
  by (induction t fs st rule: key_step.induct) (auto simp: pda_ok_def)

lemma after_step_ok:
  "after_step t v st = Some p \<Longrightarrow> distinct_keys v \<Longrightarrow> list_all frame_ok st \<Longrightarrow> pda_ok p"
  by (induction t v st rule: after_step.induct) (auto simp: pda_ok_def simp del: distinct_keys.simps(2) intro: set_key_ok)

lemma pda_step_ok: "pda_step t p = Some p' \<Longrightarrow> token_ok t \<Longrightarrow> pda_ok p \<Longrightarrow> pda_ok p'"
proof (induction t p rule: pda_step.induct)
  case (2 t st)
  then show ?case
    by (auto simp: pda_ok_def intro: value_step_ok split: token.splits list.splits frame.splits)
next
  case (4 t st)
  have "distinct_keys (JObj [])" by simp
  with 4 key_step_ok [of t "[]" st p'] show ?case by (auto simp: pda_ok_def split: if_splits)
qed (auto simp: pda_ok_def simp del: distinct_keys.simps(2) dest: value_step_ok key_step_ok after_step_ok split: if_splits)

lemma pda_run_ok: "pda_run ts p = Some p' \<Longrightarrow> list_all token_ok ts \<Longrightarrow> pda_ok p \<Longrightarrow> pda_ok p'"
  by (induction ts arbitrary: p) (auto dest: pda_step_ok split: option.splits)

lemma begin_token_ok: "list_all token_ok (fst (begin_token c))"
  by (auto simp: begin_token_def punct_def split: if_splits)

lemma word_token_ok: "word_token w = Some t \<Longrightarrow> token_ok t"
  by (auto simp: word_token_def split: if_splits)

lemma scan_step_ok: "scan_step s c = Some (ts, s') \<Longrightarrow> list_all token_ok ts"
  using begin_token_ok [of c]
  by (cases s) (auto simp: Let_def word_token_ok split: if_splits option.splits prod.splits)

lemma scan_end_ok: "scan_end s = Some ts \<Longrightarrow> list_all token_ok ts"
  by (cases s) (auto simp: word_token_ok)

lemma scan_text_ok: "scan_text s t = Some ts \<Longrightarrow> list_all token_ok ts"
proof (induction t arbitrary: s ts)
  case (Cons c t)
  then show ?case by (auto simp: scan_step_ok split: option.splits)
qed (simp add: scan_end_ok)


text \<open>
  What \<open>JSON.stringify\<close> writes, in either layout and with white space behind it, \<open>JSON.parse\<close> reads as the
  same value, provided no object has a key twice; and the compact layout is injective on such values.
\<close>

theorem json_round_trip:
  assumes "distinct_keys v"
  shows "JSON_parse (json_text v) = Inr v \<and> JSON_parse (json_pretty v @ [CHR 0x0a]) = Inr v"
  using assms parse_pretty [of v "[CHR 0x0a]"] by (simp add: parse_text)

theorem json_round_trip_witness:
  "let v = JObj [(''name'', JStr [CHR 0x22, CHR 0x0a, CHR ''a'']), (''n'', JNum (-70)), (''list'', JArr [JNull, JArr [], JBool True])]
   in distinct_keys v \<and> JSON_parse (json_pretty v @ [CHR 0x0a]) = Inr v"
  using json_round_trip [of "JObj [(''name'', JStr [CHR 0x22, CHR 0x0a, CHR ''a'']), (''n'', JNum (-70)),
    (''list'', JArr [JNull, JArr [], JBool True])]"] by (simp add: Let_def)

end
