(* ===== verification/Operator.thy ===== *)
theory Operator
  imports Accounts Json "HOL-Library.Sublist"
begin

text \<open>
  Operating a rollup: the checks of \<open>packages/ts/src/preflight/index.ts\<close> and the advisor of
  \<open>copilot/index.ts\<close>. Both read several surfaces of the node and degrade when one of them fails. The
  percentage a report prints is a floating-point product, the argument \<open>percent_text\<close>; nothing depends
  on it.

  Shown: a preflight passes exactly when the parameters are readable, the given configuration is valid
  and the balance, where it can be read, covers the stake with the buffer, and never throws; advice names
  every surface that failed and omits its data, lists the fraud investigations that mention the rollup,
  and always suggests something.
\<close>

subsection \<open>Preflight\<close>

datatype CheckStatus = CheckOk | CheckWarn | CheckFail

record PreflightCheck =
  pc_id :: string
  pc_label :: string
  pc_status :: CheckStatus
  pc_detail :: "string option"
  pc_hint :: "string option"

record PreflightResult =
  pr_ok :: bool
  pr_checks :: "PreflightCheck list"

record PreflightOptions =
  po_config :: "RollupConfig option"
  po_signerAddress :: "string option"
  po_expectedNetwork :: "NetworkName option"
  po_feeBufferUqor :: "string option"

definition check :: "string \<Rightarrow> string \<Rightarrow> CheckStatus \<Rightarrow> string option \<Rightarrow> string option \<Rightarrow> PreflightCheck" where
  "check i label status detail hint =
     \<lparr>pc_id = i, pc_label = label, pc_status = status, pc_detail = detail, pc_hint = hint\<rparr>"

fun networkName :: "NetworkName \<Rightarrow> string" where
  "networkName testnet = ''testnet''"
| "networkName mainnet = ''mainnet''"

text \<open>
  The first \<open>try\<close>: when printing the parameters throws, the checks pushed before stay, and so do the
  parameters that were read.
\<close>

definition params_checks ::
  "(string \<Rightarrow> string) \<Rightarrow> RdkClient \<Rightarrow> ParamsView option \<times> PreflightCheck list" where
  "params_checks percent_text client =
     (let unreachable = (\<lambda>e. check ''rest'' ''REST endpoint reachable'' CheckFail (Some (message e))
            (Some ''Set QORE_REST_URL to a reachable node REST (LCD) endpoint.''))
      in case client_params client of
           Inl e \<Rightarrow> (None, [unreachable e])
         | Inr params \<Rightarrow>
             let reachable = check ''rest'' ''REST endpoint reachable'' CheckOk
                   (Some (ep_rest (nc_endpoints (rk_network client)))) None
             in case uqorToQor (UStr (pv_minStakeForRollup params)) DENOM_EXPONENT of
                  Inl e \<Rightarrow> (Some params, [reachable, unreachable e])
                | Inr q \<Rightarrow> (Some params, [reachable,
                    check ''params'' ''Module parameters readable'' CheckOk
                      (Some (''min stake '' @ q @ '' QOR, burn '' @ percent_text (pv_rollupCreationBurnRate params) @ ''%''))
                      None]))"

definition network_check :: "RdkClient \<Rightarrow> NetworkName option \<Rightarrow> PreflightCheck list" where
  "network_check client expected =
     (case expected of
        None \<Rightarrow> []
      | Some n \<Rightarrow>
          let match = (nc_name (rk_network client) = n) in
          [check ''network'' ''Network matches expectation'' (if match then CheckOk else CheckWarn)
             (Some (''client is '' @ networkName (nc_name (rk_network client)) @ '' ('' @ nc_chainId (rk_network client) @ '')''))
             (if match then None else Some (''Expected '' @ networkName n @ ''.''))])"

definition config_check :: "RollupConfig option \<Rightarrow> PreflightCheck list" where
  "config_check config =
     (case config of
        None \<Rightarrow> []
      | Some c \<Rightarrow>
          let r = validateRollupConfig c in
          [check ''config'' ''Rollup config valid''
             (if vr_valid r then (if vr_warnings r \<noteq> [] then CheckWarn else CheckOk) else CheckFail)
             (if vr_valid r
              then Some (case vr_warnings r of [] \<Rightarrow> ''compatibility matrix satisfied'' | w # _ \<Rightarrow> w)
              else (case vr_errors r of [] \<Rightarrow> None | e # _ \<Rightarrow> Some e))
             (if vr_valid r then None else Some ''Fix the configuration errors before creating.'')])"

definition balance_report :: "RdkClient \<Rightarrow> ParamsView \<Rightarrow> string \<Rightarrow> string option \<Rightarrow> error + PreflightCheck" where
  "balance_report client params address feeBuffer =
     res_bind (getBalance (rk_rest client) address BASE_DENOM) (\<lambda>bal.
     res_bind (js_BigInt (NStr (pv_minStakeForRollup params))) (\<lambda>stake.
     res_bind (js_BigInt (NStr (or_default feeBuffer ''1000000''))) (\<lambda>buffer.
     let required = stake + buffer in
     res_bind (js_BigInt (NStr bal)) (\<lambda>have_it.
     let ok = (required \<le> have_it) in
     res_bind (uqorToQor (UStr bal) DENOM_EXPONENT) (\<lambda>h.
     res_bind (uqorToQor (UStr (show_int required)) DENOM_EXPONENT) (\<lambda>need. Inr
       (check ''balance'' ''Balance covers stake + fees'' (if ok then CheckOk else CheckFail)
          (Some (''have '' @ h @ '' QOR, need ~'' @ need @ '' QOR''))
          (if ok then None else Some ''Fund the operator account (see the keys & funding guide).''))))))))"

definition balance_check :: "RdkClient \<Rightarrow> ParamsView \<Rightarrow> string \<Rightarrow> string option \<Rightarrow> PreflightCheck" where
  "balance_check client params address feeBuffer =
     (case balance_report client params address feeBuffer of
        Inr c \<Rightarrow> c
      | Inl e \<Rightarrow> check ''balance'' ''Balance readable'' CheckWarn (Some (message e)) None)"

definition signer_checks ::
  "RdkClient \<Rightarrow> ParamsView option \<Rightarrow> string option \<Rightarrow> string option \<Rightarrow> PreflightCheck list" where
  "signer_checks client params signerAddress feeBuffer =
     (if \<not> falsy signerAddress then
        [check ''signer'' ''Signer configured'' CheckOk signerAddress None] @
        (case params of None \<Rightarrow> [] | Some p \<Rightarrow> [balance_check client p (the signerAddress) feeBuffer])
      else
        [check ''signer'' ''Signer configured'' CheckWarn (Some ''no signer'')
           (Some ''Set QORE_OPERATOR_PRIVATE_KEY_HEX or QORE_MNEMONIC to create/operate.'')])"

definition checkPreflight ::
  "(string \<Rightarrow> string) \<Rightarrow> RdkClient \<Rightarrow> PreflightOptions \<Rightarrow> PreflightResult" where
  "checkPreflight percent_text client options =
     (let (params, c1) = params_checks percent_text client;
          checks = c1 @ network_check client (po_expectedNetwork options) @ config_check (po_config options) @
            signer_checks client params (po_signerAddress options) (po_feeBufferUqor options)
      in \<lparr>pr_ok = list_all (\<lambda>c. pc_status c \<noteq> CheckFail) checks, pr_checks = checks\<rparr>)"

subsection \<open>Advice\<close>

text \<open>\<open>JSON.stringify\<close> without indentation.\<close>

definition mentions :: "json \<Rightarrow> string \<Rightarrow> bool" where
  "mentions r needle \<longleftrightarrow> sublist (toLowerCase needle) (toLowerCase (json_text r))"

datatype SuggestionLevel = LevelInfo | LevelWarn | LevelAction

record CopilotSuggestion =
  cs_level :: SuggestionLevel
  cs_message :: string

record RollupAdvice =
  ra_rollupId :: string
  ra_status :: string
  ra_feeEstimate :: "json option"
  ra_networkRecommendations :: "json option"
  ra_fraudInvestigations :: "json list"
  ra_rlAgentStatus :: "json option"
  ra_suggestions :: "CopilotSuggestion list"
  ra_warnings :: "string list"

definition attempt :: "string \<Rightarrow> error + 'a \<Rightarrow> 'a option \<times> string list" where
  "attempt label r =
     (case r of Inr x \<Rightarrow> (Some x, []) | Inl err \<Rightarrow> (None, [label @ '': '' @ message err]))"

definition advice_suggestions :: "RollupView option \<Rightarrow> json list \<Rightarrow> json option \<Rightarrow> json option \<Rightarrow> CopilotSuggestion list" where
  "advice_suggestions rollup fraud urgency netRecs =
     (let s = \<lambda>level msg. \<lparr>cs_level = level, cs_message = msg\<rparr>;
          found =
            (case rollup of
               None \<Rightarrow> []
             | Some r \<Rightarrow> if rv_status r \<noteq> '''' \<and> rv_status r \<noteq> ''active''
                 then [s LevelWarn (''Rollup status is '' @ quote (rv_status r) @
                   '' - operator action may be required before it settles batches.'')] else []) @
            (if fraud \<noteq> []
             then [s LevelAction (show_nat (length fraud) @ '' open fraud investigation(s) reference this rollup'' @
               '' - review batch validity before the challenge window closes.'')] else []) @
            (if urgency \<noteq> None
             then [s LevelInfo (''A live QCAI fee estimate is available'' @
               '' - prefer it over a static gas price for batch submission.'')] else []) @
            (case netRecs of
               None \<Rightarrow> []
             | Some n \<Rightarrow> if mentions n ''congest''
                 then [s LevelWarn (''QCAI reports network congestion'' @
                   '' - consider raising the fee or deferring non-urgent batches.'')] else [])
      in if found = [] then [s LevelInfo ''No issues flagged by the QCAI advisory surfaces.''] else found)"

text \<open>The JSON-RPC client's request counter is the state that changes.\<close>

definition getRollupAdvice :: "RdkClient \<Rightarrow> string \<Rightarrow> RdkClient \<times> RollupAdvice" where
  "getRollupAdvice client rollupId =
     (let (rollup, w1) = attempt ''rollup'' (getRollup (rk_rest client) rollupId);
          (urgency, w2) = attempt ''fee-estimate'' (getFeeEstimate (rk_rest client) None);
          (netRecs, w3) = attempt ''network-recommendations'' (getNetworkRecommendations (rk_rest client));
          (allFraud, w4) = attempt ''fraud-investigations'' (getFraudInvestigations (rk_rest client));
          (qor', rl) = getRLAgentStatus (rk_qor client);
          (rlStatus, w5) = attempt ''rl-agent-status'' rl;
          fraud = filter (\<lambda>f. mentions f rollupId) (case allFraud of None \<Rightarrow> [] | Some fs \<Rightarrow> fs)
      in (client\<lparr>rk_qor := qor'\<rparr>,
          \<lparr>ra_rollupId = rollupId, ra_status = (case rollup of None \<Rightarrow> ''unknown'' | Some r \<Rightarrow> rv_status r),
           ra_feeEstimate = urgency, ra_networkRecommendations = netRecs, ra_fraudInvestigations = fraud,
           ra_rlAgentStatus = (case rlStatus of None \<Rightarrow> None | Some v \<Rightarrow> v),
           ra_suggestions = advice_suggestions rollup fraud urgency netRecs,
           ra_warnings = w1 @ w2 @ w3 @ w4 @ w5\<rparr>))"

subsection \<open>Properties\<close>

text \<open>The balance is read, is a number of micro-tokens and covers the stake with the buffer.\<close>

definition underfunded :: "RdkClient \<Rightarrow> ParamsView \<Rightarrow> string \<Rightarrow> string option \<Rightarrow> bool" where
  "underfunded client params address feeBuffer \<longleftrightarrow>
     (\<exists>bal stake buffer amount. getBalance (rk_rest client) address BASE_DENOM = Inr bal \<and>
        js_BigInt (NStr (pv_minStakeForRollup params)) = Inr stake \<and>
        js_BigInt (NStr (or_default feeBuffer ''1000000'')) = Inr buffer \<and> js_BigInt (NStr bal) = Inr amount \<and>
        amount < stake + buffer \<and> (\<exists>h. uqorToQor (UStr bal) DENOM_EXPONENT = Inr h) \<and>
        (\<exists>n. uqorToQor (UStr (show_int (stake + buffer))) DENOM_EXPONENT = Inr n))"

lemma balance_check_fails: "pc_status (balance_check client params address feeBuffer) = CheckFail \<longleftrightarrow>
    underfunded client params address feeBuffer"
  by (auto simp: balance_check_def balance_report_def underfunded_def check_def res_bind_def Let_def not_le
      split: sum.split)

text \<open>
  C32: A preflight never throws, and it passes exactly when the parameters were read and printed, the given
  configuration, if any, is valid, and no balance that could be read falls short of stake and buffer. A
  balance that cannot be read is a warning only.
\<close>

theorem preflight_passes_exactly:
  "pr_ok (checkPreflight percent_text client options) \<longleftrightarrow>
     (\<exists>params q. client_params client = Inr params \<and>
        uqorToQor (UStr (pv_minStakeForRollup params)) DENOM_EXPONENT = Inr q \<and>
        \<not> (\<exists>c. po_config options = Some c \<and> \<not> vr_valid (validateRollupConfig c)) \<and>
        \<not> (\<not> falsy (po_signerAddress options) \<and>
           underfunded client params (the (po_signerAddress options)) (po_feeBufferUqor options)))"
  by (auto simp: checkPreflight_def params_checks_def network_check_def config_check_def signer_checks_def
      check_def Let_def balance_check_fails split: sum.split option.split)

lemma attempted:
  "fst (attempt l r) = (case r of Inr x \<Rightarrow> Some x | Inl _ \<Rightarrow> None)"
  "snd (attempt l r) = (case r of Inr x \<Rightarrow> [] | Inl err \<Rightarrow> [l @ '': '' @ message err])"
  by (simp_all add: attempt_def split: sum.split)

lemma found_fraud:
  "filter P (case (case r of Inr x \<Rightarrow> Some x | Inl _ \<Rightarrow> None) of None \<Rightarrow> [] | Some fs \<Rightarrow> fs) =
   (case r of Inl _ \<Rightarrow> [] | Inr fs \<Rightarrow> filter P fs)"
  by (simp split: sum.split)

lemma suggests_something: "advice_suggestions rollup fraud urgency netRecs \<noteq> []"
  by (simp add: advice_suggestions_def Let_def)

lemma calls_to_action: "LevelAction \<in> cs_level ` set (advice_suggestions rollup fraud urgency netRecs) \<longleftrightarrow> fraud \<noteq> []"
  by (auto simp: advice_suggestions_def Let_def split: option.split)

lemma fst_qor_call: "fst (qor_call q method params) = q\<lparr>qor_id := qor_id q + 1\<rparr>"
  by (simp add: qor_call_def Let_def)

text \<open>
  Advice degrades surface by surface. It never throws; its warnings are one line for each surface that
  failed, in the order they are read; the data of a failed surface is absent; the investigations listed
  are those that mention the rollup, and there is a call to action exactly when there is one; something is
  always suggested; and the only state that changes is the request counter, by one.
\<close>

theorem advice_degrades:
  "(let (client', a) = getRollupAdvice client rollupId; rest = rk_rest client in
    client' = client\<lparr>rk_qor := (rk_qor client)\<lparr>qor_id := qor_id (rk_qor client) + 1\<rparr>\<rparr> \<and>
    ra_warnings a =
      (case getRollup rest rollupId of Inl e \<Rightarrow> [''rollup: '' @ message e] | Inr _ \<Rightarrow> []) @
      (case getFeeEstimate rest None of Inl e \<Rightarrow> [''fee-estimate: '' @ message e] | Inr _ \<Rightarrow> []) @
      (case getNetworkRecommendations rest of Inl e \<Rightarrow> [''network-recommendations: '' @ message e] | Inr _ \<Rightarrow> []) @
      (case getFraudInvestigations rest of Inl e \<Rightarrow> [''fraud-investigations: '' @ message e] | Inr _ \<Rightarrow> []) @
      (case snd (getRLAgentStatus (rk_qor client)) of Inl e \<Rightarrow> [''rl-agent-status: '' @ message e] | Inr _ \<Rightarrow> []) \<and>
    ra_fraudInvestigations a =
      (case getFraudInvestigations rest of Inl _ \<Rightarrow> [] | Inr fs \<Rightarrow> filter (\<lambda>f. mentions f rollupId) fs) \<and>
    (ra_fraudInvestigations a \<noteq> [] \<longleftrightarrow> LevelAction \<in> cs_level ` set (ra_suggestions a)) \<and>
    ra_suggestions a \<noteq> [] \<and>
    ra_status a = (case getRollup rest rollupId of Inl _ \<Rightarrow> ''unknown'' | Inr r \<Rightarrow> rv_status r))"
  by (simp add: getRollupAdvice_def attempted split_beta Let_def getRLAgentStatus_def suggests_something
      calls_to_action fst_qor_call found_fraud split: sum.split)

end
