(* ===== verification/CliArgs.thy ===== *)
theory CliArgs
  imports Denom
begin

text \<open>
  The two argument parsers: \<open>packages/rdk-cli/src/args.ts\<close> of the operator's command line \<open>qorollup\<close>, and
  \<open>cli/src/args.ts\<close> with the template registry \<open>cli/src/templates.ts\<close> of the scaffolding command. The
  object of flags is a map; a flag named \<open>__proto__\<close>, which a JavaScript object treats specially, is outside
  the model. In the hint of the last template the ellipsis of the address is written as three dots.

  Shown: a command line that is rendered with explicit values is parsed back as it was; a flag without a
  value that is not known as boolean takes the next word with it; the scaffolding parser refuses every
  option it does not know and accepts only the networks and package managers that exist.
\<close>

subsection \<open>The operator's arguments\<close>

datatype flag_value = FText string | FTrue

record ParsedCli =
  pl_command :: "string option"
  pl_positionals :: "string list"
  pl_flags :: "string \<rightharpoonup> flag_value"
  pl_help :: bool
  pl_version :: bool

definition BOOLEAN_FLAGS :: "string list" where
  "BOOLEAN_FLAGS = [''json'', ''yes'', ''dry-run'', ''verify'', ''help'', ''version'']"

definition starts :: "string \<Rightarrow> string \<Rightarrow> bool" where
  "starts p s \<longleftrightarrow> take (length p) s = p"

definition eq_sign :: char where "eq_sign = CHR ''=''"

fun parse_loop :: "string list \<Rightarrow> ParsedCli \<Rightarrow> ParsedCli" where
  "parse_loop [] out = out"
| "parse_loop (token # rest) out =
     (if token = ''-h'' \<or> token = ''--help'' then parse_loop rest (out\<lparr>pl_help := True\<rparr>)
      else if token = ''-v'' \<or> token = ''--version'' then parse_loop rest (out\<lparr>pl_version := True\<rparr>)
      else if token = ''-y'' then parse_loop rest (out\<lparr>pl_flags := (pl_flags out)(''yes'' \<mapsto> FTrue)\<rparr>)
      else if starts ''--'' token then
        let body = drop 2 token in
        if eq_sign \<in> set body then
          let k = takeWhile (\<lambda>c. c \<noteq> eq_sign) body in
          parse_loop rest (out\<lparr>pl_flags := (pl_flags out)(k \<mapsto> FText (drop (length k + 1) body))\<rparr>)
        else if body \<in> set BOOLEAN_FLAGS then parse_loop rest (out\<lparr>pl_flags := (pl_flags out)(body \<mapsto> FTrue)\<rparr>)
        else case rest of
               [] \<Rightarrow> out\<lparr>pl_flags := (pl_flags out)(body \<mapsto> FTrue)\<rparr>
             | next_token # rest' \<Rightarrow>
                 if \<not> starts ''-'' next_token
                 then parse_loop rest' (out\<lparr>pl_flags := (pl_flags out)(body \<mapsto> FText next_token)\<rparr>)
                 else parse_loop rest (out\<lparr>pl_flags := (pl_flags out)(body \<mapsto> FTrue)\<rparr>)
      else if pl_command out = None then parse_loop rest (out\<lparr>pl_command := Some token\<rparr>)
      else parse_loop rest (out\<lparr>pl_positionals := pl_positionals out @ [token]\<rparr>))"

definition flag_truthy :: "flag_value option \<Rightarrow> bool" where
  "flag_truthy v = (case v of None \<Rightarrow> False | Some FTrue \<Rightarrow> True | Some (FText s) \<Rightarrow> s \<noteq> '''')"

definition no_arguments :: ParsedCli where
  "no_arguments = \<lparr>pl_command = None, pl_positionals = [], pl_flags = Map.empty, pl_help = False, pl_version = False\<rparr>"

definition parseCli :: "string list \<Rightarrow> ParsedCli" where
  "parseCli argv =
     (let out = parse_loop argv no_arguments;
          out1 = (if flag_truthy (pl_flags out ''help'') then out\<lparr>pl_help := True\<rparr> else out)
      in if flag_truthy (pl_flags out1 ''version'') then out1\<lparr>pl_version := True\<rparr> else out1)"

definition flagStr :: "(string \<rightharpoonup> flag_value) \<Rightarrow> string \<Rightarrow> string option" where
  "flagStr flags k = (case flags k of Some (FText s) \<Rightarrow> Some s | _ \<Rightarrow> None)"

definition flagBool :: "(string \<rightharpoonup> flag_value) \<Rightarrow> string \<Rightarrow> bool" where
  "flagBool flags k \<longleftrightarrow> flags k = Some FTrue \<or> flags k = Some (FText ''true'')"

subsection \<open>Templates\<close>

record TemplateInfo =
  tm_id :: string
  tm_profile :: string
  tm_label :: string
  tm_hint :: string

definition TEMPLATES :: "TemplateInfo list" where
  "TEMPLATES =
    [\<lparr>tm_id = ''defi-rollup'', tm_profile = ''defi'', tm_label = ''DeFi'',
      tm_hint = ''zk-SNARK / dedicated / native / EIP-1559 / EVM. Includes a reference SNARK prover.''\<rparr>,
     \<lparr>tm_id = ''gaming-rollup'', tm_profile = ''gaming'', tm_label = ''Gaming'',
      tm_hint = ''based / based / native / flat gas / custom VM. High throughput, low latency.''\<rparr>,
     \<lparr>tm_id = ''nft-rollup'', tm_profile = ''nft'', tm_label = ''NFT'',
      tm_hint = ''optimistic / dedicated / CosmWasm. Includes the challenge flow and Celestia notice.''\<rparr>,
     \<lparr>tm_id = ''enterprise-rollup'', tm_profile = ''enterprise'', tm_label = ''Enterprise'',
      tm_hint = ''based / based / native / subsidized gas / EVM. Permissioned-friendly.''\<rparr>,
     \<lparr>tm_id = ''custom-rollup'', tm_profile = ''custom'', tm_label = ''Custom'',
      tm_hint = ''Fully parameterized config with every field documented and validated.''\<rparr>,
     \<lparr>tm_id = ''multivm-rollup'', tm_profile = ''custom'', tm_label = ''Multi-VM'',
      tm_hint = ''EVM rollup that calls CosmWasm contracts via the cross-VM precompile (0x...0901).''\<rparr>]"

definition findTemplate :: "string \<Rightarrow> TemplateInfo option" where
  "findTemplate i = find (\<lambda>t. tm_id t = i) TEMPLATES"

fun comma_list :: "string list \<Rightarrow> string" where
  "comma_list [] = ''''"
| "comma_list [x] = x"
| "comma_list (x # y # ys) = x @ '', '' @ comma_list (y # ys)"

definition templateIdList :: string where
  "templateIdList = comma_list (map tm_id TEMPLATES)"

subsection \<open>The scaffolding command's arguments\<close>

record ParsedArgs =
  pa_dir :: "string option"
  pa_template :: "string option"
  pa_network :: "string option"
  pa_packageManager :: "string option"
  pa_yes :: bool
  pa_install :: bool
  pa_local :: bool
  pa_help :: bool
  pa_version :: bool

definition VALID_PM :: "string list" where "VALID_PM = [''pnpm'', ''npm'', ''yarn'']"

definition VALID_NETWORK :: "string list" where "VALID_NETWORK = [''testnet'', ''mainnet'']"

definition expectValue :: "string \<Rightarrow> string option \<Rightarrow> error + string" where
  "expectValue name v = (case v of None \<Rightarrow> Inl (JsError (''Missing value for '' @ name @ ''.'')) | Some s \<Rightarrow> Inr s)"

definition in_quotes :: "string \<Rightarrow> string" where
  "in_quotes s = [CHR 0x22] @ s @ [CHR 0x22]"

definition parsePackageManager :: "string \<Rightarrow> error + string" where
  "parsePackageManager v =
     (if v \<in> set VALID_PM then Inr v
      else Inl (JsError (''Invalid --package-manager '' @ in_quotes v @ ''. Expected one of: '' @ comma_list VALID_PM @ ''.'')))"

definition parseNetwork :: "string \<Rightarrow> error + string" where
  "parseNetwork v =
     (if v \<in> set VALID_NETWORK then Inr v
      else Inl (JsError (''Invalid --network '' @ in_quotes v @ ''. Expected one of: '' @ comma_list VALID_NETWORK @ ''.'')))"

definition head_of :: "string list \<Rightarrow> string option" where
  "head_of xs = (case xs of [] \<Rightarrow> None | x # _ \<Rightarrow> Some x)"

text \<open>
  One turn of the loop: the \<open>switch\<close> on the argument, given the next one, and whether it took that one too.
\<close>

definition keep :: "ParsedArgs \<Rightarrow> error + (ParsedArgs \<times> bool)" where
  "keep out = Inr (out, False)"

definition with_value :: "string \<Rightarrow> string option \<Rightarrow> (string \<Rightarrow> error + ParsedArgs) \<Rightarrow> error + (ParsedArgs \<times> bool)" where
  "with_value name v f = res_bind (expectValue name v) (\<lambda>x. res_bind (f x) (\<lambda>out. Inr (out, True)))"

definition set_network :: "ParsedArgs \<Rightarrow> string \<Rightarrow> error + ParsedArgs" where
  "set_network out v = res_bind (parseNetwork v) (\<lambda>n. Inr (out\<lparr>pa_network := Some n\<rparr>))"

definition set_pm :: "ParsedArgs \<Rightarrow> string \<Rightarrow> error + ParsedArgs" where
  "set_pm out v = res_bind (parsePackageManager v) (\<lambda>p. Inr (out\<lparr>pa_packageManager := Some p\<rparr>))"

definition args_default :: "string \<Rightarrow> ParsedArgs \<Rightarrow> error + (ParsedArgs \<times> bool)" where
  "args_default arg out =
     (if starts ''--template='' arg then keep (out\<lparr>pa_template := Some (drop 11 arg)\<rparr>)
      else if starts ''--network='' arg then res_bind (set_network out (drop 10 arg)) keep
      else if starts ''--package-manager='' arg then res_bind (set_pm out (drop 18 arg)) keep
      else if starts ''--pm='' arg then res_bind (set_pm out (drop 5 arg)) keep
      else if starts ''-t='' arg then keep (out\<lparr>pa_template := Some (drop 3 arg)\<rparr>)
      else if starts ''-'' arg then Inl (JsError (''Unknown option: '' @ arg))
      else if pa_dir out = None then keep (out\<lparr>pa_dir := Some arg\<rparr>)
      else Inl (JsError (''Unexpected argument: '' @ arg)))"

definition args_step :: "string \<Rightarrow> string option \<Rightarrow> ParsedArgs \<Rightarrow> error + (ParsedArgs \<times> bool)" where
  "args_step arg next_arg out =
     (if arg \<in> {''-h'', ''--help''} then keep (out\<lparr>pa_help := True\<rparr>)
      else if arg \<in> {''-v'', ''--version''} then keep (out\<lparr>pa_version := True\<rparr>)
      else if arg \<in> {''-y'', ''--yes''} then keep (out\<lparr>pa_yes := True\<rparr>)
      else if arg = ''--install'' then keep (out\<lparr>pa_install := True\<rparr>)
      else if arg = ''--no-install'' then keep (out\<lparr>pa_install := False\<rparr>)
      else if arg = ''--local'' then keep (out\<lparr>pa_local := True\<rparr>)
      else if arg \<in> {''--template'', ''-t''}
      then with_value ''--template'' next_arg (\<lambda>v. Inr (out\<lparr>pa_template := Some v\<rparr>))
      else if arg = ''--network'' then with_value ''--network'' next_arg (set_network out)
      else if arg \<in> {''--package-manager'', ''--pm''} then with_value ''--package-manager'' next_arg (set_pm out)
      else args_default arg out)"

function args_loop :: "string list \<Rightarrow> ParsedArgs \<Rightarrow> error + ParsedArgs" where
  "args_loop [] out = Inr out"
| "args_loop (arg # rest) out =
     res_bind (args_step arg (head_of rest) out) (\<lambda>(out', took).
       args_loop (if took then drop 1 rest else rest) out')"
  by pat_completeness auto
termination
  by (relation "measure (\<lambda>(argv, out). length argv)") auto

definition default_args :: ParsedArgs where
  "default_args = \<lparr>pa_dir = None, pa_template = None, pa_network = None, pa_packageManager = None, pa_yes = False,
     pa_install = True, pa_local = False, pa_help = False, pa_version = False\<rparr>"

definition parseArgs :: "string list \<Rightarrow> error + ParsedArgs" where
  "parseArgs argv = args_loop argv default_args"

subsection \<open>Properties\<close>

datatype cli_item = Word string | Flag string string

fun item_text :: "cli_item \<Rightarrow> string" where
  "item_text (Word w) = w"
| "item_text (Flag k v) = ''--'' @ k @ [eq_sign] @ v"

fun item_ok :: "cli_item \<Rightarrow> bool" where
  "item_ok (Word w) \<longleftrightarrow> \<not> starts ''-'' w"
| "item_ok (Flag k v) \<longleftrightarrow> eq_sign \<notin> set k \<and> k \<noteq> ''help'' \<and> k \<noteq> ''version''"

definition words_of :: "cli_item list \<Rightarrow> string list" where
  "words_of items = concat (map (\<lambda>i. case i of Word w \<Rightarrow> [w] | Flag k v \<Rightarrow> []) items)"

definition flags_of :: "cli_item list \<Rightarrow> (string \<times> flag_value) list" where
  "flags_of items = concat (map (\<lambda>i. case i of Word w \<Rightarrow> [] | Flag k v \<Rightarrow> [(k, FText v)]) items)"

lemma parse_word:
  assumes "\<not> starts ''-'' w"
  shows "parse_loop (w # rest) out = parse_loop rest
    (if pl_command out = None then out\<lparr>pl_command := Some w\<rparr> else out\<lparr>pl_positionals := pl_positionals out @ [w]\<rparr>)"
proof -
  have "w \<noteq> ''-h''" "w \<noteq> ''--help''" "w \<noteq> ''-v''" "w \<noteq> ''--version''" "w \<noteq> ''-y''" "\<not> starts ''--'' w"
    using assms by (cases w; auto simp: starts_def)+
  then show ?thesis by (simp only: parse_loop.simps(2) if_False simp_thms) simp
qed

lemma words_of_simps [simp]:
  "words_of [] = []" "words_of (Word w # items) = w # words_of items" "words_of (Flag k v # items) = words_of items"
  by (simp_all add: words_of_def)

lemma flags_of_simps [simp]:
  "flags_of [] = []" "flags_of (Word w # items) = flags_of items" "flags_of (Flag k v # items) = (k, FText v) # flags_of items"
  by (simp_all add: flags_of_def)

lemma parse_flag:
  assumes "eq_sign \<notin> set k"
  shows "parse_loop (item_text (Flag k v) # rest) out =
    parse_loop rest (out\<lparr>pl_flags := (pl_flags out)(k \<mapsto> FText v)\<rparr>)"
proof -
  define token where "token = item_text (Flag k v)"
  have t: "takeWhile (\<lambda>c. c \<noteq> eq_sign) (k @ eq_sign # v) = k"
    using assms by (subst takeWhile_append2) auto
  have "eq_sign \<in> set token" by (simp add: token_def)
  then have "token \<noteq> ''-h''" "token \<noteq> ''--help''" "token \<noteq> ''-v''" "token \<noteq> ''--version''" "token \<noteq> ''-y''"
    by (auto simp: eq_sign_def)
  moreover have "drop 2 token = k @ eq_sign # v" "starts ''--'' token" by (simp_all add: token_def starts_def)
  ultimately show ?thesis
    unfolding token_def [symmetric] using t by (simp add: Let_def)
qed

lemma parse_items:
  assumes "list_all item_ok items" "pl_command out = Some c"
  shows "parse_loop (map item_text items) out =
    out\<lparr>pl_positionals := pl_positionals out @ words_of items, pl_flags := pl_flags out ++ map_of (rev (flags_of items))\<rparr>"
  using assms
proof (induction items arbitrary: out)
  case (Cons i items)
  show ?case
  proof (cases i)
    case (Word w)
    with Cons show ?thesis by (simp add: parse_word del: parse_loop.simps)
  next
    case (Flag k v)
    with Cons show ?thesis by (simp add: parse_flag del: parse_loop.simps item_text.simps)
  qed
qed simp

lemma flags_of_ok: "list_all item_ok items \<Longrightarrow> (k, v) \<in> set (flags_of items) \<Longrightarrow> k \<noteq> ''help'' \<and> k \<noteq> ''version''"
proof (induction items)
  case (Cons i items)
  then show ?case by (cases i) auto
qed simp

text \<open>
  Command lines round trip. A command followed by words that do not start with a dash and by flags of the
  form \<open>--name=value\<close>, in any order, is parsed into that command, the words in order and the last value of
  every flag.
\<close>

theorem command_line_round_trip:
  assumes "\<not> starts ''-'' c" "list_all item_ok items"
  shows "parseCli (c # map item_text items) =
    \<lparr>pl_command = Some c, pl_positionals = words_of items, pl_flags = map_of (rev (flags_of items)),
     pl_help = False, pl_version = False\<rparr>"
proof -
  note ok = flags_of_ok [OF assms(2)]
  have "map_of (rev (flags_of items)) ''help'' = None" "map_of (rev (flags_of items)) ''version'' = None"
    using ok [of "''help''"] ok [of "''version''"] by (auto simp: map_of_eq_None_iff)
  then show ?thesis
    using assms parse_items [OF assms(2), of "no_arguments\<lparr>pl_command := Some c\<rparr>" c]
    by (simp add: parseCli_def parse_word Let_def flag_truthy_def no_arguments_def del: parse_loop.simps)
qed

lemma command_line_round_trip_witness:
  "pl_positionals (parseCli [''receipt'', ''my-rollup'', ''--out=r.json'', ''3'']) = [''my-rollup'', ''3'']"
proof -
  have "\<not> starts ''-'' ''receipt''" "list_all item_ok [Word ''my-rollup'', Flag ''out'' ''r.json'', Word ''3'']"
    by (simp_all add: starts_def eq_sign_def)
  from command_line_round_trip [OF this] show ?thesis by (simp add: words_of_def eq_sign_def)
qed

text \<open>
  The watchtower's switch takes the rollup id. \<open>--canonical\<close> is not among the boolean flags, so the word
  behind it becomes its value: the switch reads as off, and a rollup id given after it is lost.
\<close>

theorem canonical_takes_the_rollup_id:
  assumes "\<not> starts ''-'' rollupId" "rollupId \<noteq> ''true''"
  shows "pl_positionals (parseCli [''watchtower'', ''--canonical'', rollupId]) = [] \<and>
    \<not> flagBool (pl_flags (parseCli [''watchtower'', ''--canonical'', rollupId])) ''canonical''"
  using assms
  by (simp add: parseCli_def Let_def starts_def no_arguments_def eq_sign_def BOOLEAN_FLAGS_def flag_truthy_def flagBool_def)

lemma canonical_takes_the_rollup_id_witness:
  "pl_positionals (parseCli [''watchtower'', ''--canonical'', ''my-rollup'']) = []"
  using canonical_takes_the_rollup_id [of "''my-rollup''"] by (simp add: starts_def)

text \<open>
  Accepted scaffolding arguments are usable: whatever the command line, the parser throws or returns a
  network and a package manager that exist, if any, and a directory that does not start with a dash.
\<close>

definition args_ok :: "ParsedArgs \<Rightarrow> bool" where
  "args_ok out \<longleftrightarrow>
     (case pa_network out of None \<Rightarrow> True | Some n \<Rightarrow> n \<in> set VALID_NETWORK) \<and>
     (case pa_packageManager out of None \<Rightarrow> True | Some p \<Rightarrow> p \<in> set VALID_PM) \<and>
     (case pa_dir out of None \<Rightarrow> True | Some d \<Rightarrow> \<not> starts ''-'' d)"

definition yields_ok :: "(error + (ParsedArgs \<times> bool)) \<Rightarrow> bool" where
  "yields_ok r \<longleftrightarrow> (\<forall>out took. r = Inr (out, took) \<longrightarrow> args_ok out)"

lemma yields_if: "(c \<Longrightarrow> yields_ok a) \<Longrightarrow> (\<not> c \<Longrightarrow> yields_ok b) \<Longrightarrow> yields_ok (if c then a else b)"
  by simp

lemma yields_keep: "args_ok out \<Longrightarrow> yields_ok (keep out)"
  by (simp add: yields_ok_def keep_def)

lemma yields_throw: "yields_ok (Inl e)"
  by (simp add: yields_ok_def)

lemma set_network_ok: "args_ok out \<Longrightarrow> set_network out v = Inr out' \<Longrightarrow> args_ok out'"
  by (auto simp: set_network_def parseNetwork_def res_bind_eq_Inr args_ok_def split: if_splits)

lemma set_pm_ok: "args_ok out \<Longrightarrow> set_pm out v = Inr out' \<Longrightarrow> args_ok out'"
  by (auto simp: set_pm_def parsePackageManager_def res_bind_eq_Inr args_ok_def split: if_splits)

lemma yields_values:
  "args_ok out \<Longrightarrow> yields_ok (with_value name nxt (set_network out))"
  "args_ok out \<Longrightarrow> yields_ok (with_value name nxt (set_pm out))"
  "args_ok out \<Longrightarrow> yields_ok (with_value name nxt (\<lambda>v. Inr (out\<lparr>pa_template := Some v\<rparr>)))"
  "args_ok out \<Longrightarrow> yields_ok (res_bind (set_network out v) keep)"
  "args_ok out \<Longrightarrow> yields_ok (res_bind (set_pm out v) keep)"
  by (auto simp: yields_ok_def with_value_def keep_def res_bind_eq_Inr dest: set_network_ok set_pm_ok)
    (simp add: args_ok_def)

lemma args_ok_updates:
  "args_ok out \<Longrightarrow> args_ok (out\<lparr>pa_help := h\<rparr>)" "args_ok out \<Longrightarrow> args_ok (out\<lparr>pa_version := h\<rparr>)"
  "args_ok out \<Longrightarrow> args_ok (out\<lparr>pa_yes := h\<rparr>)" "args_ok out \<Longrightarrow> args_ok (out\<lparr>pa_install := h\<rparr>)"
  "args_ok out \<Longrightarrow> args_ok (out\<lparr>pa_local := h\<rparr>)" "args_ok out \<Longrightarrow> args_ok (out\<lparr>pa_template := t\<rparr>)"
  "args_ok out \<Longrightarrow> \<not> starts ''-'' d \<Longrightarrow> args_ok (out\<lparr>pa_dir := Some d\<rparr>)"
  by (simp_all add: args_ok_def)

lemma args_default_ok: "args_ok out \<Longrightarrow> yields_ok (args_default arg out)"
  unfolding args_default_def
  by (intro yields_if yields_keep yields_throw yields_values args_ok_updates) assumption+

lemma args_step_ok: "args_ok out \<Longrightarrow> yields_ok (args_step arg nxt out)"
  unfolding args_step_def
  by (intro yields_if yields_keep yields_values args_ok_updates args_default_ok) assumption+

lemma args_loop_ok: "args_loop argv out = Inr out' \<Longrightarrow> args_ok out \<Longrightarrow> args_ok out'"
proof (induction argv out rule: args_loop.induct)
  case (2 arg rest out)
  from 2(2) obtain out1 took where st: "args_step arg (head_of rest) out = Inr (out1, took)"
    "args_loop (if took then drop 1 rest else rest) out1 = Inr out'"
    by (auto simp: res_bind_eq_Inr)
  with args_step_ok [OF 2(3), of arg "head_of rest"] have "args_ok out1" by (simp add: yields_ok_def)
  with st(2) 2(1) show ?case by blast
qed simp

theorem scaffold_arguments_usable:
  "case parseArgs argv of Inl e \<Rightarrow> True | Inr out \<Rightarrow> args_ok out"
  using args_loop_ok [of argv default_args]
  by (auto simp: parseArgs_def args_ok_def default_args_def split: sum.split)

end
