(* ===== verification/Manifests.thy ===== *)
theory Manifests
  imports Json
begin

text \<open>
  The text of a rollup manifest: \<open>stringifyManifest\<close> and \<open>parseManifest\<close> of
  \<open>packages/ts/src/manifest/index.ts\<close>, over the record of \<open>Config\<close>.

  A number with a fraction is not among the modelled values: \<open>stringifyManifest\<close> has no value for a
  configuration that holds one. The cast of \<open>parseManifest\<close> checks nothing in the code; what does not carry
  the schema is \<open>None\<close>, which \<open>fromManifest\<close> refuses whatever it is, and what carries the schema without
  being in the declared shape reads as an error. The keys of a configuration are written in the order of the
  presets.

  Shown: a manifest is read back from its text, field by field, and so is the configuration in it.
\<close>

subsection \<open>Printing\<close>

text \<open>\<open>JSON.stringify\<close> leaves out the keys whose value is \<open>undefined\<close>.\<close>

fun present_fields :: "(string \<times> json option) list \<Rightarrow> (string \<times> json) list" where
  "present_fields [] = []"
| "present_fields ((k, None) # fs) = present_fields fs"
| "present_fields ((k, Some v) # fs) = (k, v) # present_fields fs"

fun num_json :: "js_num \<Rightarrow> json option" where
  "num_json (Whole n) = Some (JNum n)"
| "num_json Fraction = None"

fun opt_num_json :: "js_num option \<Rightarrow> json option option" where
  "opt_num_json None = Some None"
| "opt_num_json (Some n) = map_option Some (num_json n)"

definition strings_json :: "(string \<times> string) list \<Rightarrow> json" where
  "strings_json kvs = JObj (map (\<lambda>(k, v). (k, JStr v)) kvs)"

definition notes_json :: "string list \<Rightarrow> json" where
  "notes_json ns = JArr (map JStr ns)"

definition params_json :: "SequencerParams \<Rightarrow> json" where
  "params_json p = JObj (present_fields
     [(''sequencerAddress'', map_option JStr (sp_sequencerAddress p)),
      (''sharedSetMinSize'', map_option JNum (sp_sharedSetMinSize p)),
      (''inclusionDelay'', map_option JNum (sp_inclusionDelay p)),
      (''priorityFeeShare'', map_option JStr (sp_priorityFeeShare p))])"

definition config_json :: "RollupConfig \<Rightarrow> json option" where
  "config_json c =
     Option.bind (num_json (rc_blockTimeMs c)) (\<lambda>blockTimeMs.
     Option.bind (num_json (rc_maxTxPerBlock c)) (\<lambda>maxTxPerBlock.
     Option.bind (opt_num_json (rc_challengeWindowSecs c)) (\<lambda>challengeWindowSecs.
     Option.bind (opt_num_json (rc_maxDaBlobSize c)) (\<lambda>maxDaBlobSize.
     Some (JObj (present_fields
       [(''rollupId'', Some (JStr (rc_rollupId c))),
        (''profile'', Some (JStr (profileWire (rc_profile c)))),
        (''settlement'', Some (JStr (rc_settlement c))),
        (''sequencer'', Some (JStr (rc_sequencer c))),
        (''da'', Some (JStr (rc_da c))),
        (''proofSystem'', Some (JStr (rc_proofSystem c))),
        (''gasModel'', Some (JStr (rc_gasModel c))),
        (''vmType'', Some (JStr (rc_vmType c))),
        (''blockTimeMs'', Some blockTimeMs),
        (''maxTxPerBlock'', Some maxTxPerBlock),
        (''challengeWindowSecs'', challengeWindowSecs),
        (''challengeBondUqor'', map_option JStr (rc_challengeBondUqor c)),
        (''maxDaBlobSize'', maxDaBlobSize),
        (''stakeAmountUqor'', map_option JStr (rc_stakeAmountUqor c)),
        (''sequencerParams'', map_option params_json (rc_sequencerParams c))]))))))"

fun networkWire :: "NetworkName \<Rightarrow> string" where
  "networkWire testnet = ''testnet''"
| "networkWire mainnet = ''mainnet''"

definition manifest_json :: "RollupManifest \<Rightarrow> json option" where
  "manifest_json m =
     map_option (\<lambda>config. JObj (present_fields
       [(''schema'', Some (JStr (mf_schema m))),
        (''version'', Some (JNum (mf_version m))),
        (''network'', Some (JStr (networkWire (mf_network m)))),
        (''chainId'', map_option JStr (mf_chainId m)),
        (''endpoints'', map_option strings_json (mf_endpoints m)),
        (''config'', Some config),
        (''addresses'', map_option strings_json (mf_addresses m)),
        (''createdAt'', map_option JStr (mf_createdAt m)),
        (''notes'', map_option notes_json (mf_notes m))]))
     (config_json (mf_config m))"

definition stringifyManifest :: "RollupManifest \<Rightarrow> string option" where
  "stringifyManifest manifest = map_option (\<lambda>j. json_pretty j @ newline []) (manifest_json manifest)"

subsection \<open>Parsing\<close>

text \<open>The declared type of a field: a value of it, or nothing. A field may also be absent.\<close>

fun as_str :: "json \<Rightarrow> string option" where
  "as_str (JStr s) = Some s"
| "as_str _ = None"

fun as_num :: "json \<Rightarrow> int option" where
  "as_num (JNum n) = Some n"
| "as_num _ = None"

fun all_some :: "'a option list \<Rightarrow> 'a list option" where
  "all_some [] = Some []"
| "all_some (x # xs) = Option.bind x (\<lambda>y. map_option (\<lambda>ys. y # ys) (all_some xs))"

fun as_strs :: "json \<Rightarrow> string list option" where
  "as_strs (JArr xs) = all_some (map as_str xs)"
| "as_strs _ = None"

fun as_strings :: "json \<Rightarrow> (string \<times> string) list option" where
  "as_strings (JObj fs) = all_some (map (\<lambda>(k, v). map_option (Pair k) (as_str v)) fs)"
| "as_strings _ = None"

definition need :: "(json \<Rightarrow> 'a option) \<Rightarrow> json \<Rightarrow> string \<Rightarrow> 'a option" where
  "need cast j k = Option.bind (field_of j k) cast"

fun optional :: "(json \<Rightarrow> 'a option) \<Rightarrow> json option \<Rightarrow> 'a option option" where
  "optional cast None = Some None"
| "optional cast (Some v) = map_option Some (cast v)"

definition maybe :: "(json \<Rightarrow> 'a option) \<Rightarrow> json \<Rightarrow> string \<Rightarrow> 'a option option" where
  "maybe cast j k = optional cast (field_of j k)"

definition as_network :: "json \<Rightarrow> NetworkName option" where
  "as_network j = find (\<lambda>n. JStr (networkWire n) = j) [testnet, mainnet]"

definition as_profile :: "json \<Rightarrow> ProfileName option" where
  "as_profile j = find (\<lambda>p. JStr (profileWire p) = j) [defi, gaming, nft, enterprise, custom]"

definition as_whole :: "json \<Rightarrow> js_num option" where
  "as_whole j = map_option Whole (as_num j)"

fun is_object :: "json \<Rightarrow> bool" where
  "is_object (JObj fs) \<longleftrightarrow> True"
| "is_object _ \<longleftrightarrow> False"

definition as_params :: "json \<Rightarrow> SequencerParams option" where
  "as_params j =
     (if \<not> is_object j then None
      else
        Option.bind (maybe as_str j ''sequencerAddress'') (\<lambda>sequencerAddress.
        Option.bind (maybe as_num j ''sharedSetMinSize'') (\<lambda>sharedSetMinSize.
        Option.bind (maybe as_num j ''inclusionDelay'') (\<lambda>inclusionDelay.
        Option.bind (maybe as_str j ''priorityFeeShare'') (\<lambda>priorityFeeShare.
        Some \<lparr>sp_sequencerAddress = sequencerAddress, sp_sharedSetMinSize = sharedSetMinSize,
          sp_inclusionDelay = inclusionDelay, sp_priorityFeeShare = priorityFeeShare\<rparr>)))))"

definition as_config :: "json \<Rightarrow> RollupConfig option" where
  "as_config j =
     Option.bind (need as_str j ''rollupId'') (\<lambda>rollupId.
     Option.bind (need as_profile j ''profile'') (\<lambda>profile.
     Option.bind (need as_str j ''settlement'') (\<lambda>settlement.
     Option.bind (need as_str j ''sequencer'') (\<lambda>sequencer.
     Option.bind (maybe as_params j ''sequencerParams'') (\<lambda>sequencerParams.
     Option.bind (need as_str j ''da'') (\<lambda>da.
     Option.bind (need as_str j ''proofSystem'') (\<lambda>proofSystem.
     Option.bind (need as_str j ''gasModel'') (\<lambda>gasModel.
     Option.bind (need as_str j ''vmType'') (\<lambda>vmType.
     Option.bind (need as_whole j ''blockTimeMs'') (\<lambda>blockTimeMs.
     Option.bind (need as_whole j ''maxTxPerBlock'') (\<lambda>maxTxPerBlock.
     Option.bind (maybe as_whole j ''challengeWindowSecs'') (\<lambda>challengeWindowSecs.
     Option.bind (maybe as_str j ''challengeBondUqor'') (\<lambda>challengeBondUqor.
     Option.bind (maybe as_whole j ''maxDaBlobSize'') (\<lambda>maxDaBlobSize.
     Option.bind (maybe as_str j ''stakeAmountUqor'') (\<lambda>stakeAmountUqor.
     Some \<lparr>rc_rollupId = rollupId, rc_profile = profile, rc_settlement = settlement, rc_sequencer = sequencer,
       rc_sequencerParams = sequencerParams, rc_da = da, rc_proofSystem = proofSystem, rc_gasModel = gasModel,
       rc_vmType = vmType, rc_blockTimeMs = blockTimeMs, rc_maxTxPerBlock = maxTxPerBlock,
       rc_challengeWindowSecs = challengeWindowSecs, rc_challengeBondUqor = challengeBondUqor,
       rc_maxDaBlobSize = maxDaBlobSize, rc_stakeAmountUqor = stakeAmountUqor\<rparr>)))))))))))))))"

definition as_manifest :: "json \<Rightarrow> RollupManifest option" where
  "as_manifest j =
     Option.bind (need as_str j ''schema'') (\<lambda>schema.
     Option.bind (need as_num j ''version'') (\<lambda>version.
     Option.bind (need as_network j ''network'') (\<lambda>network.
     Option.bind (maybe as_str j ''chainId'') (\<lambda>chainId.
     Option.bind (maybe as_strings j ''endpoints'') (\<lambda>endpoints.
     Option.bind (need as_config j ''config'') (\<lambda>config.
     Option.bind (maybe as_strings j ''addresses'') (\<lambda>addresses.
     Option.bind (maybe as_str j ''createdAt'') (\<lambda>createdAt.
     Option.bind (maybe as_strs j ''notes'') (\<lambda>notes.
     Some \<lparr>mf_schema = schema, mf_version = version, mf_network = network, mf_chainId = chainId,
       mf_endpoints = endpoints, mf_config = config, mf_addresses = addresses, mf_createdAt = createdAt,
       mf_notes = notes\<rparr>)))))))))"

definition parseManifest :: "string \<Rightarrow> error + RollupManifest option" where
  "parseManifest s =
     res_bind (JSON_parse s) (\<lambda>j.
     if field_of j ''schema'' \<noteq> Some (JStr MANIFEST_SCHEMA) then Inr None
     else case as_manifest j of
         None \<Rightarrow> Inl (JsError ''the manifest is not in its declared shape'')
       | Some m \<Rightarrow> Inr (Some m))"

subsection \<open>Reading back\<close>

lemma present_keys: "fst ` set (present_fields fs) \<subseteq> fst ` set fs"
  by (induction fs rule: present_fields.induct) auto

lemma present_distinct: "distinct (map fst fs) \<Longrightarrow> distinct (map fst (present_fields fs))"
  by (induction fs rule: present_fields.induct) (use present_keys in auto)

lemma present_values: "(k, v) \<in> set (present_fields fs) \<longleftrightarrow> (k, Some v) \<in> set fs"
  by (induction fs rule: present_fields.induct) auto

lemma field_present:
  "distinct (map fst fs) \<Longrightarrow> field_of (JObj (present_fields fs)) k = Option.bind (map_of fs k) (\<lambda>v. v)"
proof (induction fs rule: present_fields.induct)
  case (2 k' fs)
  then have "map_of (present_fields fs) k' = None" "map_of fs k' = None"
    using present_keys [of fs] by (auto simp: map_of_eq_None_iff)
  with 2 show ?case by simp
qed simp_all

fun opt_distinct :: "json option \<Rightarrow> bool" where
  "opt_distinct None \<longleftrightarrow> True"
| "opt_distinct (Some j) \<longleftrightarrow> distinct_keys j"

lemma opt_distinct_map: "(\<And>x. v = Some x \<Longrightarrow> distinct_keys (f x)) \<Longrightarrow> opt_distinct (map_option f v)"
  by (cases v) simp_all

lemma present_distinct_keys:
  assumes "distinct (map fst fs)" "\<forall>(k, v) \<in> set fs. opt_distinct v"
  shows "distinct_keys (JObj (present_fields fs))"
  using assms present_distinct [of fs] by (fastforce simp: list_all_iff present_values)

lemma all_some_map: "(\<And>x. f (g x) = Some (h x)) \<Longrightarrow> all_some (map f (map g xs)) = Some (map h xs)"
  by (induction xs) simp_all

lemma as_strs_back [simp]: "as_strs (notes_json ns) = Some ns"
  unfolding notes_json_def using all_some_map [of as_str JStr "\<lambda>x. x" ns] by simp

lemma as_strings_back [simp]: "as_strings (strings_json kvs) = Some kvs"
  by (induction kvs) (auto simp: strings_json_def)

lemma as_network_back [simp]: "as_network (JStr (networkWire n)) = Some n"
  by (cases n) (simp_all add: as_network_def)

lemma as_profile_back [simp]: "as_profile (JStr (profileWire p)) = Some p"
  by (cases p) (simp_all add: as_profile_def)

lemma num_json_back: "num_json n = Some j \<Longrightarrow> as_whole j = Some n"
  by (cases n) (auto simp: as_whole_def)

lemma opt_num_json_back: "opt_num_json n = Some j \<Longrightarrow> optional as_whole j = Some n"
  by (cases n) (auto dest: num_json_back)

lemma optional_back: "(\<And>x. cast (f x) = Some x) \<Longrightarrow> optional cast (map_option f o1) = Some o1"
  by (cases o1) simp_all

lemma bind_id [simp]: "Option.bind (Some x) (\<lambda>v. v) = x"
  by simp

lemma params_back [simp]: "as_params (params_json p) = Some p"
  by (simp add: as_params_def params_json_def maybe_def field_present optional_back del: field_of.simps present_fields.simps)

lemma config_back: "config_json c = Some j \<Longrightarrow> as_config j = Some c"
  by (auto simp: config_json_def as_config_def bind_eq_Some_conv need_def maybe_def field_present
      num_json_back opt_num_json_back optional_back simp del: field_of.simps present_fields.simps)

lemma manifest_back: "manifest_json m = Some j \<Longrightarrow> as_manifest j = Some m"
  by (auto simp: manifest_json_def as_manifest_def need_def maybe_def field_present config_back optional_back
      simp del: field_of.simps present_fields.simps)

lemma manifest_schema: "manifest_json m = Some j \<Longrightarrow> field_of j ''schema'' = Some (JStr (mf_schema m))"
  by (auto simp: manifest_json_def field_present simp del: field_of.simps present_fields.simps)

lemma strings_distinct: "distinct (map fst kvs) \<Longrightarrow> distinct_keys (strings_json kvs)"
  by (auto simp: strings_json_def list_all_iff comp_def case_prod_unfold)

lemma params_distinct [simp]: "distinct_keys (params_json p)"
  unfolding params_json_def by (rule present_distinct_keys) (auto intro: opt_distinct_map)

lemma num_json_distinct: "num_json n = Some j \<Longrightarrow> distinct_keys j"
  by (cases n) auto

lemma opt_num_json_distinct: "opt_num_json n = Some j \<Longrightarrow> opt_distinct j"
  by (cases n) (auto dest: num_json_distinct)

lemma config_distinct: "config_json c = Some j \<Longrightarrow> distinct_keys j"
  by (auto simp: config_json_def bind_eq_Some_conv num_json_distinct opt_num_json_distinct
      intro!: present_distinct_keys opt_distinct_map simp del: present_fields.simps)

definition keyed_once :: "(string \<times> string) list option \<Rightarrow> bool" where
  "keyed_once kvs \<longleftrightarrow> (case kvs of None \<Rightarrow> True | Some l \<Rightarrow> distinct (map fst l))"

lemma manifest_distinct:
  "manifest_json m = Some j \<Longrightarrow> keyed_once (mf_endpoints m) \<Longrightarrow> keyed_once (mf_addresses m) \<Longrightarrow> distinct_keys j"
  by (auto simp: manifest_json_def keyed_once_def config_distinct strings_distinct notes_json_def list_all_iff
      split: option.splits intro!: present_distinct_keys opt_distinct_map simp del: present_fields.simps)

lemma parse_stringified:
  assumes "stringifyManifest m = Some t" "mf_schema m = MANIFEST_SCHEMA"
    "keyed_once (mf_endpoints m)" "keyed_once (mf_addresses m)"
  shows "parseManifest t = Inr (Some m)"
proof -
  from assms(1) obtain j where j: "manifest_json m = Some j" "t = json_pretty j @ newline []"
    by (auto simp: stringifyManifest_def)
  from j(1) assms(3,4) have "distinct_keys j" by (rule manifest_distinct)
  then have "JSON_parse t = Inr j" unfolding j(2) by (rule parse_pretty) (simp add: newline_def)
  with j(1) assms(2) show ?thesis by (simp add: parseManifest_def manifest_schema manifest_back)
qed

text \<open>
  A manifest that was built from a configuration and written down is read back as the same manifest, and
  loading it gives a builder that holds exactly that configuration, optional fields included.
\<close>

theorem manifest_text_round_trip:
  assumes "stringifyManifest (toManifest config o1) = Some t"
    and "keyed_once (mo_endpoints o1)" "keyed_once (mo_addresses o1)"
  shows "parseManifest t = Inr (Some (toManifest config o1)) \<and>
    res_bind (parseManifest t) fromManifest = Inr config"
  using parse_stringified [OF assms(1)] assms(2,3)
  by (simp add: toManifest_def fromManifest_def)

definition demo_manifest :: RollupManifest where
  "demo_manifest = toManifest ((PRESET_DEFAULTS nft)\<lparr>rc_rollupId := ''art''\<rparr>)
     \<lparr>mo_network = testnet, mo_chainId = Some ''qorechain-diana'', mo_endpoints = Some [(''rest'', ''http://localhost:1317'')],
      mo_addresses = None, mo_createdAt = None, mo_notes = Some [''first'']\<rparr>"

theorem manifest_text_round_trip_witness:
  "\<exists>t. stringifyManifest demo_manifest = Some t \<and> parseManifest t = Inr (Some demo_manifest)"
proof -
  obtain t where t: "stringifyManifest demo_manifest = Some t"
    by (auto simp: stringifyManifest_def manifest_json_def demo_manifest_def toManifest_def config_json_def preset_base_def)
  with manifest_text_round_trip [of "(PRESET_DEFAULTS nft)\<lparr>rc_rollupId := ''art''\<rparr>" _ t] show ?thesis
    by (auto simp: demo_manifest_def keyed_once_def)
qed

end
