(* ===== verification/Cli.thy ===== *)
theory Cli
  imports CliArgs Manifests Operator Health CrossVm
begin

text \<open>
  The frame of the operator's command line: \<open>packages/rdk-cli/src/output.ts\<close> and \<open>context.ts\<close>.

  A command is a value of \<open>'a io\<close>: the effects it had, in order, and its result or the error it threw.
  Effects are what it gives to the output sink, the files it writes, the questions it asks and the
  transactions it hands over for signing. What it meets outside the repository, the files, the user's
  answers, key derivation and signing, is the record \<open>cli_world\<close>. It also holds the platform's texts for a
  date, a percentage, a map of attributes and a number that is no integer, what building a receipt makes of a
  batch index that is no integer, and, for the commands that watch until they are interrupted, what each tick
  meets until then. The texts of the files that a command writes are \<open>file_text\<close>. The properties are those of the commands, in
  \<open>Commands\<close>.
\<close>

subsection \<open>Effects\<close>

datatype shown =
    ShownPreflight PreflightResult
  | ShownDryRun string CreationCost
  | ShownCreated string int string
  | ShownStatus RollupView RollupHealth
  | ShownParams ParamsView
  | ShownSuggestion ProfileSuggestion
  | ShownAction string string string int
  | ShownKey string string
  | ShownManifest RollupManifest
  | ShownImport RollupConfig bool "string list"
  | ShownFaucet FaucetResult
  | ShownAdvice RollupAdvice
  | ShownReceipt SettlementReceipt "ReceiptVerification option"
  | ShownVerdict bool "SettlementReceipt option" ReceiptVerification
  | ShownUnreadable string
  | ShownHealth RollupHealth

text \<open>\<open>LineOf\<close> is a line with the JSON text of a value, \<open>Printed\<close> is \<open>console.log\<close> outside the sink.\<close>

datatype out_event =
    Line string
  | Success string
  | Warning string
  | Failure string
  | Json shown
  | LineOf shown
  | Printed string

datatype file_content = ManifestText RollupManifest | ReceiptText SettlementReceipt

text \<open>The texts of the files, from the values written into them.\<close>

definition receipt_json :: "SettlementReceipt \<Rightarrow> json option" where
  "receipt_json r =
     map_option (\<lambda>version. JObj (present_fields
       [(''version'', Some version),
        (''chainId'', map_option JStr (sr_chainId r)),
        (''rollupId'', Some (JStr (sr_rollupId r))),
        (''layerId'', Some (JStr (sr_layerId r))),
        (''batchIndex'', Some (JNum (sr_batchIndex r))),
        (''creator'', Some (JStr (sr_creator r))),
        (''algorithm'', Some (JStr (sr_algorithm r))),
        (''stateRoot'', Some (JStr (sr_stateRoot r))),
        (''layerHeight'', Some (JNum (sr_layerHeight r))),
        (''validatorSetHash'', Some (JStr (sr_validatorSetHash r))),
        (''mainChainHeight'', Some (JNum (sr_mainChainHeight r))),
        (''anchoredAt'', Some (JNum (sr_anchoredAt r))),
        (''pqcSignature'', Some (JStr (sr_pqcSignature r))),
        (''batchStateRoot'', Some (JStr (sr_batchStateRoot r))),
        (''transactionCount'', map_option JNum (sr_transactionCount r)),
        (''compressedStateProof'', map_option JStr (sr_compressedStateProof r))]))
     (num_json (sr_version r))"

fun file_text :: "file_content \<Rightarrow> string option" where
  "file_text (ManifestText m) = stringifyManifest m"
| "file_text (ReceiptText r) = map_option (\<lambda>j. json_pretty j @ newline []) (receipt_json r)"

datatype io_event = Out out_event | WriteFile string file_content | Asked string | Sent broadcast

type_synonym 'a io = "io_event list \<times> (error + 'a)"

definition io_ret :: "'a \<Rightarrow> 'a io" where
  "io_ret x = ([], Inr x)"

definition io_throw :: "error \<Rightarrow> 'a io" where
  "io_throw e = ([], Inl e)"

definition io_bind :: "'a io \<Rightarrow> ('a \<Rightarrow> 'b io) \<Rightarrow> 'b io" where
  "io_bind m f = (case snd m of Inl e \<Rightarrow> (fst m, Inl e) | Inr x \<Rightarrow> (fst m @ fst (f x), snd (f x)))"

definition io_lift :: "error + 'a \<Rightarrow> 'a io" where
  "io_lift r = ([], r)"

definition io_do :: "io_event list \<Rightarrow> 'a io \<Rightarrow> 'a io" where
  "io_do es m = (es @ fst m, snd m)"

definition say :: "out_event list \<Rightarrow> 'a io \<Rightarrow> 'a io" where
  "say os m = io_do (map Out os) m"

text \<open>A transaction: what the client hands over for signing is an effect, in order.\<close>

definition io_tx :: "tx_result \<Rightarrow> DeliverTxResponse io" where
  "io_tx r = (map Sent (fst r), snd r)"

definition fail_with :: "string \<Rightarrow> int io" where
  "fail_with text = say [Failure text] (io_ret 1)"

subsection \<open>Output\<close>

text \<open>What \<open>ConsoleOutput\<close> lets through: in JSON mode only JSON values.\<close>

fun console_shows :: "bool \<Rightarrow> out_event \<Rightarrow> bool" where
  "console_shows jsonMode (Json _) = True"
| "console_shows jsonMode (Printed _) = True"
| "console_shows jsonMode _ = (\<not> jsonMode)"

text \<open>\<open>CaptureOutput\<close>; the marks before a text are written \<open>v\<close> and \<open>!\<close>, the JSON line is its value.\<close>

record CaptureOutput =
  co2_lines :: "(string + shown) list"
  co2_errors :: "string list"
  co2_jsonValue :: "shown option"

fun capture :: "out_event \<Rightarrow> CaptureOutput \<Rightarrow> CaptureOutput" where
  "capture (Line t) c = c\<lparr>co2_lines := co2_lines c @ [Inl t]\<rparr>"
| "capture (Success t) c = c\<lparr>co2_lines := co2_lines c @ [Inl (''v '' @ t)]\<rparr>"
| "capture (Warning t) c = c\<lparr>co2_lines := co2_lines c @ [Inl (''! '' @ t)]\<rparr>"
| "capture (Failure t) c = c\<lparr>co2_errors := co2_errors c @ [t]\<rparr>"
| "capture (Json v) c = c\<lparr>co2_jsonValue := Some v, co2_lines := co2_lines c @ [Inr v]\<rparr>"
| "capture (LineOf v) c = c\<lparr>co2_lines := co2_lines c @ [Inr v]\<rparr>"
| "capture (Printed t) c = c"

subsection \<open>The context\<close>

record cli_world =
  wd_tx :: tx_env
  wd_sdk :: key_sdk
  wd_pqcVerify :: pqc_verifier
  wd_shake :: "bytes \<Rightarrow> bytes"
  wd_confirm :: "string \<Rightarrow> bool"
  wd_mnemonic :: string
  wd_readFile :: "string \<Rightarrow> error + string"
  wd_percent :: "string \<Rightarrow> string"
  wd_iso :: "int \<Rightarrow> string"
  wd_attributes :: "(string \<rightharpoonup> string) \<Rightarrow> string"
  wd_odd_index :: "string \<Rightarrow> error + SettlementReceipt"
  wd_number :: "string \<Rightarrow> string"
  wd_polls :: "watch_env list"
  wd_ticks :: "tick_env list"

record CliContext =
  cx_client :: RdkClient
  cx_json :: bool
  cx_yes :: bool
  cx_network :: NetworkName
  cx_signerEnv :: cli_env
  cx_gasPrice :: string
  cx_faucetUrl :: "string option"

type_synonym flags = "string \<rightharpoonup> flag_value"

definition resolveNetwork :: "flags \<Rightarrow> cli_env \<Rightarrow> NetworkName" where
  "resolveNetwork flags env =
     (if orElse (flagStr flags ''network'') (env ''QORE_NETWORK'') = Some ''mainnet'' then mainnet else testnet)"

definition set_endpoint :: "string option \<Rightarrow> string option" where
  "set_endpoint v = (if falsy v then None else v)"

definition buildContext :: "flags \<Rightarrow> cli_env \<Rightarrow> fetch_like \<Rightarrow> CliContext" where
  "buildContext flags env fetch =
     (let network = resolveNetwork flags env;
          pick_one = \<lambda>flag var. orElse (flagStr flags flag) (env var);
          endpoints = \<lparr>eo_rest = set_endpoint (pick_one ''rest'' ''QORE_REST_URL''),
            eo_rpc = set_endpoint (pick_one ''rpc'' ''QORE_RPC_URL''), eo_grpc = None,
            eo_evmRpc = set_endpoint (pick_one ''evm-rpc'' ''QORE_EVM_RPC_URL'')\<rparr>;
          signerEnv = (Map.empty :: cli_env)
            (''QORE_OPERATOR_PRIVATE_KEY_HEX'' := pick_one ''key'' ''QORE_OPERATOR_PRIVATE_KEY_HEX'',
             ''QORE_MNEMONIC'' := pick_one ''mnemonic'' ''QORE_MNEMONIC'',
             ''QORE_PQC_SEED_HEX'' := pick_one ''pqc-seed'' ''QORE_PQC_SEED_HEX'')
      in \<lparr>cx_client = createRdkClient (Some network) endpoints fetch, cx_json = flagBool flags ''json'',
          cx_yes = flagBool flags ''yes'', cx_network = network, cx_signerEnv = signerEnv,
          cx_gasPrice = or_default (pick_one ''gas-price'' ''QORE_GAS_PRICE'') ''0.15uqor'',
          cx_faucetUrl = pick_one ''faucet-url'' ''QORE_FAUCET_URL''\<rparr>)"

fun derivationName :: "PqcDerivation \<Rightarrow> string" where
  "derivationName canonical = ''canonical''"
| "derivationName legacy = ''legacy''"
| "derivationName seed = ''seed''"

text \<open>\<open>connectTx\<close> of the context: the signer, its post-quantum key as the chain has it, then the client.\<close>

definition cli_connect :: "cli_world \<Rightarrow> CliContext \<Rightarrow> RdkTxClient io" where
  "cli_connect w ctx =
     io_bind (io_lift (signerFromEnv (wd_sdk w) (cx_signerEnv ctx) ACCOUNT_PREFIX)) (\<lambda>signer.
     case signer of
       None \<Rightarrow> io_throw (JsError (''No signing key. Set QORE_OPERATOR_PRIVATE_KEY_HEX or QORE_MNEMONIC '' @
                 ''(or pass --key/--mnemonic).''))
     | Some s \<Rightarrow>
         io_bind (io_lift (os_getAccounts s)) (\<lambda>accounts.
         case accounts of
           [] \<Rightarrow> io_throw (JsError ''Cannot read properties of undefined'')
         | account # _ \<Rightarrow>
             io_bind (io_lift (pqcKeypairFromEnv (wd_sdk w) (cx_client ctx) account (cx_signerEnv ctx))) (\<lambda>pqc.
             case pqc of
               None \<Rightarrow> io_throw (JsError (''No post-quantum key: mainnet and testnet refuse a classical-only transaction. Use '' @
                 ''QORE_MNEMONIC (or --mnemonic), or set QORE_PQC_SEED_HEX (or --pqc-seed) to your '' @
                 ''32-byte ML-DSA-87 seed alongside QORE_OPERATOR_PRIVATE_KEY_HEX.''))
             | Some p \<Rightarrow>
                 say (if \<not> rk2_registered p
                      then [Line (''Registering your post-quantum key ('' @ derivationName (rk2_derivation p) @
                              '') with this transaction.'')] else [])
                   (io_lift (connectTx (wd_tx w) (cx_client ctx) s
                     \<lparr>ho_pqcKeypair = Some (rk2_keypair p), ho_rest = None, ho_signBytesVersion = None,
                      ho_includePqcPublicKey = Some (rk2_includePqcPublicKey p),
                      co_gasPrice = Some (PriceText (cx_gasPrice ctx))\<rparr>)))))"

end
