(* ===== verification/Commands.thy ===== *)
theory Commands
  imports Cli
begin

text \<open>
  The command handlers of \<open>qorollup\<close>, \<open>packages/rdk-cli/src/commands.ts\<close>, on the effects of \<open>Cli\<close>.
  Ellipses and dashes outside the modelled characters are written \<open>...\<close> and \<open>-\<close>. A file given to a command
  is a text, parsed as JSON and read into the declared shape of what it should hold. The two commands that watch until they are
  interrupted are given what happens until then as a sequence of ticks. What holds of the commands is shown
  in \<open>Entry\<close>.
\<close>

subsection \<open>Arguments\<close>

definition first_positional :: "ParsedCli \<Rightarrow> string option" where
  "first_positional parsed = head_of (pl_positionals parsed)"

definition second_positional :: "ParsedCli \<Rightarrow> string option" where
  "second_positional parsed = head_of (drop 1 (pl_positionals parsed))"

definition resolveSignerAddress :: "cli_world \<Rightarrow> CliContext \<Rightarrow> error + string option" where
  "resolveSignerAddress w ctx =
     res_bind (signerFromEnv (wd_sdk w) (cx_signerEnv ctx) ACCOUNT_PREFIX) (\<lambda>signer.
     case signer of
       None \<Rightarrow> Inr None
     | Some s \<Rightarrow> res_bind (os_getAccounts s) (\<lambda>accounts. Inr (head_of accounts)))"

definition profileFromFlags :: "ParsedCli \<Rightarrow> ProfileName" where
  "profileFromFlags parsed =
     (let p = or_default (flagStr (pl_flags parsed) ''profile'') ''defi'' in
      case find (\<lambda>n. profileWire n = p) PROFILE_NAMES of Some n \<Rightarrow> n | None \<Rightarrow> defi)"

definition builderFromFlags :: "ParsedCli \<Rightarrow> RollupConfig" where
  "builderFromFlags parsed =
     makePreset (profileFromFlags parsed) (no_overrides\<lparr>ov_rollupId :=
       Some (or_default (orElse (flagStr (pl_flags parsed) ''rollup-id'') (first_positional parsed)) '''')\<rparr>)"

definition rollupIdArg :: "ParsedCli \<Rightarrow> string option" where
  "rollupIdArg parsed = orElse (flagStr (pl_flags parsed) ''rollup-id'') (first_positional parsed)"

text \<open>\<open>confirmOrYes\<close>: no question with \<open>--yes\<close>.\<close>

definition confirmOrYes :: "cli_world \<Rightarrow> CliContext \<Rightarrow> string \<Rightarrow> bool io" where
  "confirmOrYes w ctx text = (if cx_yes ctx then io_ret True else ([Asked text], Inr (wd_confirm w text)))"

definition exit_code :: "bool \<Rightarrow> int" where
  "exit_code ok = (if ok then 0 else 1)"

text \<open>Printing \<open>a ?? b\<close>.\<close>

definition int_or :: "string \<Rightarrow> int option \<Rightarrow> string" where
  "int_or d v = (case v of None \<Rightarrow> d | Some n \<Rightarrow> show_int n)"

subsection \<open>Preflight and creation\<close>

definition check_line :: "PreflightCheck \<Rightarrow> out_event" where
  "check_line c =
     (let tail = pc_label c @ (if falsy (pc_detail c) then '''' else '' - '' @ the (pc_detail c)) @
            (if falsy (pc_hint c) then '''' else '' ('' @ the (pc_hint c) @ '')'')
      in case pc_status c of CheckOk \<Rightarrow> Success tail | CheckWarn \<Rightarrow> Warning tail | CheckFail \<Rightarrow> Failure tail)"

definition cmdDoctor :: "cli_world \<Rightarrow> CliContext \<Rightarrow> ParsedCli \<Rightarrow> int io" where
  "cmdDoctor w ctx parsed =
     io_bind (io_lift (resolveSignerAddress w ctx)) (\<lambda>signerAddress.
     let config = (if falsy (flagStr (pl_flags parsed) ''profile'') then None else Some (builderFromFlags parsed));
         result = checkPreflight (wd_percent w) (cx_client ctx)
           \<lparr>po_config = config, po_signerAddress = signerAddress, po_expectedNetwork = Some (cx_network ctx),
            po_feeBufferUqor = None\<rparr>
     in if cx_json ctx then say [Json (ShownPreflight result)] (io_ret (exit_code (pr_ok result)))
        else say ([Line (''Preflight ('' @ networkName (cx_network ctx) @ '' - '' @
                     nc_chainId (rk_network (cx_client ctx)) @ ''):'')] @
                  map check_line (pr_checks result) @
                  [Line (if pr_ok result then ''All checks passed.'' else ''Some checks failed.'')])
               (io_ret (exit_code (pr_ok result))))"

definition create_input :: "string \<Rightarrow> ProfileName \<Rightarrow> string \<Rightarrow> string \<Rightarrow> CreateRollupInput" where
  "create_input rollupId profile vmType stake =
     \<lparr>ci_creator = '''', ci_rollupId = rollupId, ci_profile = profileWire profile, ci_vmType = vmType,
      ci_stakeAmount = NStr stake\<rparr>"

definition no_connect_options :: RdkTxClientConnectOptions where
  "no_connect_options = \<lparr>ho_pqcKeypair = None, ho_rest = None, ho_signBytesVersion = None,
     ho_includePqcPublicKey = None, co_gasPrice = None\<rparr>"

text \<open>The dry run goes to the recording backend, so nothing is handed over for signing.\<close>

definition create_dry_run :: "cli_world \<Rightarrow> CliContext \<Rightarrow> RollupConfig \<Rightarrow> string \<Rightarrow> CreationCost \<Rightarrow> int io" where
  "create_dry_run w ctx cfg stake cost =
     io_bind (io_lift (resolveSignerAddress w ctx)) (\<lambda>address.
     io_bind (io_lift (fromClient (wd_tx w) (mock_capability (newMockTxClient None None))
        (or_default address ''qor1operator'') no_connect_options None)) (\<lambda>tx.
     io_bind (io_lift (snd (createRollup (wd_tx w) tx
        (create_input (rc_rollupId cfg) (rc_profile cfg) (rc_vmType cfg) stake) plain_options))) (\<lambda>_.
     say ([Success ''Dry run OK - would submit MsgCreateRollup (no broadcast).''] @
          (if cx_json ctx then [Json (ShownDryRun (rc_rollupId cfg) cost)] else []))
       (io_ret 0))))"

definition create_submit :: "cli_world \<Rightarrow> CliContext \<Rightarrow> RollupConfig \<Rightarrow> string \<Rightarrow> int io" where
  "create_submit w ctx cfg stake =
     io_bind (cli_connect w ctx) (\<lambda>tx.
     io_bind (io_lift (builder_toCreateMsg cfg (tc_address tx) (Some stake))) (\<lambda>m.
     io_bind (io_tx (createRollup (wd_tx w) tx
        (create_input (cm_rollupId m) (cm_profile m) (cm_vmType m) (cm_stakeAmount m)) plain_options)) (\<lambda>res.
     let created = findRdkEvent (dr_events res) ''rollup_created'' in
     say ([Success (''Created - tx '' @ dr_transactionHash res @ '' (code '' @ show_int (dr_code res) @ '')'')] @
          (case created of None \<Rightarrow> [] | Some e \<Rightarrow> [Line (''rollup_created: '' @ wd_attributes w (de_attributes e))]) @
          (if cx_json ctx then [Json (ShownCreated (dr_transactionHash res) (dr_code res) (rc_rollupId cfg))] else []))
       (io_ret (exit_code (dr_code res = 0))))))"

definition cmdCreate :: "cli_world \<Rightarrow> CliContext \<Rightarrow> ParsedCli \<Rightarrow> int io" where
  "cmdCreate w ctx parsed =
     (let cfg = builderFromFlags parsed; validation = builder_validationResult cfg in
      if rc_rollupId cfg = '''' then fail_with ''a rollup id is required (--rollup-id <id>)''
      else if \<not> vr_valid validation then fail_with (''invalid config: '' @ join ''; '' (vr_errors validation))
      else
        say (map Warning (vr_warnings validation))
        (io_bind (io_lift (client_params (cx_client ctx))) (\<lambda>params.
         let stake = or_default (flagStr (pl_flags parsed) ''stake-uqor'') (pv_minStakeForRollup params) in
         io_bind (io_lift (estimateCreationCost (UStr stake) (Some (pv_rollupCreationBurnRate params)))) (\<lambda>cost.
         say [Line (''Create rollup '' @ quote (rc_rollupId cfg) @ '' (profile '' @ profileWire (rc_profile cfg) @ '', '' @
                 rc_settlement cfg @ ''/'' @ rc_vmType cfg @ '')'')]
         (io_bind (io_lift (uqorToQor (UStr (cc_stakeUqor cost)) DENOM_EXPONENT)) (\<lambda>staked.
          io_bind (io_lift (uqorToQor (UStr (cc_burnUqor cost)) DENOM_EXPONENT)) (\<lambda>burned.
          say [Line (''Stake '' @ staked @ '' QOR - burned on creation: '' @ burned @ '' QOR'')]
         (if flagBool (pl_flags parsed) ''dry-run'' then create_dry_run w ctx cfg stake cost
          else
            io_bind (confirmOrYes w ctx (''Create '' @ quote (rc_rollupId cfg) @ '' on '' @ networkName (cx_network ctx) @ ''?'')) (\<lambda>ok.
            if \<not> ok then say [Line ''Cancelled.''] (io_ret 1)
            else create_submit w ctx cfg stake)))))))))"

subsection \<open>Reading\<close>

definition describeWindow :: "cli_world \<Rightarrow> ChallengeWindowStatus \<Rightarrow> string" where
  "describeWindow w c =
     (if \<not> cw_open c then ''challenge window closed''
      else if cw_mode c = Time
      then ''challenge window closes in '' @ int_or ''undefined'' (cw_secondsRemaining c) @ ''s (at '' @
           wd_iso w (or_default (cw_deadlineSecs c) 0 * 1000) @ '')''
      else ''challenge window closes in '' @ int_or ''undefined'' (cw_blocksRemaining c) @ '' blocks (after height '' @
           int_or ''undefined'' (cw_deadlineHeight c) @ '')'')"

definition status_lines :: "cli_world \<Rightarrow> string \<Rightarrow> RollupView \<Rightarrow> RollupHealth \<Rightarrow> out_event list" where
  "status_lines w rollupId rollup health =
     [Line (''Rollup '' @ rollupId), Line (''  status:     '' @ rv_status rollup),
      Line (''  profile:    '' @ rv_profile rollup), Line (''  settlement: '' @ rv_settlementMode rollup),
      Line (''  DA:         '' @ rv_daBackend rollup), Line (''  VM:         '' @ vmTypeLabel (rv_vmType rollup))] @
     (if rh_hasBatches health then
        let age = (case rh_batchAgeSecs health of
              Some s \<Rightarrow> show_int s @ ''s''
            | None \<Rightarrow> (case rh_batchAgeBlocks health of Some b \<Rightarrow> show_int b @ '' blocks'' | None \<Rightarrow> ''unknown''))
        in [Line (''  latest batch #'' @ int_or ''undefined'' (rh_latestBatchIndex health) @ '' ('' @
              or_default (rh_latestBatchStatus health) ''undefined'' @ ''), age '' @ age)] @
           (case rh_challengeWindow health of None \<Rightarrow> [] | Some c \<Rightarrow> [Line (''  '' @ describeWindow w c)]) @
           (case rh_heldBackBy health of
              None \<Rightarrow> []
            | Some (i, s) \<Rightarrow> [Warning (''  finality held back: batches finalize in order, and batch #'' @ show_int i @
                '' is '' @ s)])
      else [Line ''  no settlement batches yet'']) @
     [Line (if rh_healthy health then ''Healthy.'' else ''Attention needed.'')]"

definition cmdStatus :: "cli_world \<Rightarrow> CliContext \<Rightarrow> ParsedCli \<Rightarrow> int io" where
  "cmdStatus w ctx parsed =
     (if falsy (rollupIdArg parsed) then fail_with ''usage: qorollup status <rollup-id>''
      else
        let rollupId = the (rollupIdArg parsed) in
        io_bind (io_lift (getRollup (rk_rest (cx_client ctx)) rollupId)) (\<lambda>rollup.
        io_bind (io_lift (getRollupHealth (cx_client ctx) rollupId no_health_options)) (\<lambda>health.
        if cx_json ctx then say [Json (ShownStatus rollup health)] (io_ret 0)
        else say (status_lines w rollupId rollup health) (io_ret 0))))"

definition cmdParams :: "cli_world \<Rightarrow> CliContext \<Rightarrow> int io" where
  "cmdParams w ctx =
     io_bind (io_lift (client_params (cx_client ctx))) (\<lambda>params.
     if cx_json ctx then say [Json (ShownParams params)] (io_ret 0)
     else
       say [Line ''Module parameters (live):'', Line (''  max rollups:        '' @ show_int (pv_maxRollups params))]
       (io_bind (io_lift (uqorToQor (UStr (pv_minStakeForRollup params)) DENOM_EXPONENT)) (\<lambda>q.
        say [Line (''  min stake:          '' @ q @ '' QOR''),
             Line (''  creation burn:      '' @ wd_percent w (pv_rollupCreationBurnRate params) @ ''%''),
             Line (''  challenge window:   '' @ show_int (pv_defaultChallengeWindow params) @ ''s''),
             Line (''  max DA blob size:   '' @ show_int (pv_maxDaBlobSize params) @ '' bytes''),
             Line (''  blob retention:     '' @ show_int (pv_blobRetentionBlocks params) @ '' blocks''),
             Line (''  max batches/block:  '' @ show_int (pv_maxBatchesPerBlock params))]
          (io_ret 0))))"

definition cmdSuggest :: "CliContext \<Rightarrow> ParsedCli \<Rightarrow> int io" where
  "cmdSuggest ctx parsed =
     (let words = join '' '' (pl_positionals parsed);
          useCase = (if words \<noteq> '''' then words
                     else if \<not> falsy (flagStr (pl_flags parsed) ''use-case'') then the (flagStr (pl_flags parsed) ''use-case'')
                     else '''')
      in if useCase = '''' then fail_with (''usage: qorollup suggest '' @ quote ''<describe your app>'')
         else
           let suggestion = snd (suggestProfile useCase (rk_qor (cx_client ctx)) None) in
           if cx_json ctx then say [Json (ShownSuggestion suggestion)] (io_ret 0)
           else say [Success (''Suggested profile: '' @ ps_profile suggestion @ '' (source: '' @
                  (case ps_source suggestion of advisory \<Rightarrow> ''advisory'' | fallback \<Rightarrow> ''fallback'') @ '')'')] (io_ret 0))"

subsection \<open>Lifecycle, keys, manifests and the faucet\<close>

fun status_of :: "string \<Rightarrow> RollupStatus option" where
  "status_of s = find (\<lambda>r. rollupStatusName r = s) ROLLUP_STATUSES"

text \<open>
  The status the chain reports guards the transaction; an empty one is no guard, and one that is none of the
  four is in no list of allowed ones.
\<close>

definition lifecycle_tx :: "cli_world \<Rightarrow> RdkTxClient \<Rightarrow> RollupAction \<Rightarrow> string \<Rightarrow> string option \<Rightarrow> string \<Rightarrow> tx_result" where
  "lifecycle_tx w tx action rollupId reason status =
     (if status \<noteq> '''' \<and> status_of status = None then refuse (RollupActionRefused (rollupActionName action) status)
      else
        let current = (if status = '''' then None else status_of status) in
        case action of
          pause \<Rightarrow> pauseRollup (wd_tx w) tx rollupId reason current plain_options
        | resume \<Rightarrow> resumeRollup (wd_tx w) tx rollupId current plain_options
        | stop \<Rightarrow> stopRollup (wd_tx w) tx rollupId current plain_options)"

definition cmdLifecycle :: "cli_world \<Rightarrow> CliContext \<Rightarrow> ParsedCli \<Rightarrow> RollupAction \<Rightarrow> int io" where
  "cmdLifecycle w ctx parsed action =
     (if falsy (rollupIdArg parsed) then fail_with (''usage: qorollup '' @ rollupActionName action @ '' <rollup-id>'')
      else
        let rollupId = the (rollupIdArg parsed) in
        io_bind (io_lift (getRollup (rk_rest (cx_client ctx)) rollupId)) (\<lambda>rollup.
        io_bind (confirmOrYes w ctx (rollupActionName action @ '' rollup '' @ quote rollupId @ '' (currently '' @
             rv_status rollup @ '')?'')) (\<lambda>ok.
        if \<not> ok then say [Line ''Cancelled.''] (io_ret 1)
        else
          io_bind (cli_connect w ctx) (\<lambda>tx.
          io_bind (io_tx (lifecycle_tx w tx action rollupId (flagStr (pl_flags parsed) ''reason'') (rv_status rollup))) (\<lambda>res.
          say ([Success (rollupActionName action @ '' submitted - tx '' @ dr_transactionHash res @ '' (code '' @
                   show_int (dr_code res) @ '')'')] @
               (if cx_json ctx
                then [Json (ShownAction (rollupActionName action) rollupId (dr_transactionHash res) (dr_code res))] else []))
            (io_ret (exit_code (dr_code res = 0))))))))"

definition cmdKeygen :: "cli_world \<Rightarrow> CliContext \<Rightarrow> int io" where
  "cmdKeygen w ctx =
     io_bind (io_lift (ks_deriveNativeAccount (wd_sdk w) (wd_mnemonic w))) (\<lambda>account.
     if cx_json ctx then say [Json (ShownKey (na_address account) (wd_mnemonic w))] (io_ret 0)
     else say [Warning ''Store this mnemonic securely and OFFLINE. Anyone with it controls the account.'',
               Line (''address:  '' @ na_address account), Line (''mnemonic: '' @ wd_mnemonic w)] (io_ret 0))"

definition endpoint_list :: "Endpoints \<Rightarrow> (string \<times> string) list" where
  "endpoint_list e = [(''rest'', ep_rest e), (''rpc'', ep_rpc e), (''grpc'', ep_grpc e), (''evmRpc'', ep_evmRpc e)]"

definition manifest_export :: "CliContext \<Rightarrow> ParsedCli \<Rightarrow> int io" where
  "manifest_export ctx parsed =
     (let rollupId = flagStr (pl_flags parsed) ''rollup-id'' in
      if falsy rollupId then fail_with ''a rollup id is required (--rollup-id <id>)''
      else
        let config = makePreset (profileFromFlags parsed) (no_overrides\<lparr>ov_rollupId := rollupId\<rparr>);
            manifest = toManifest config
              \<lparr>mo_network = cx_network ctx, mo_chainId = Some (nc_chainId (rk_network (cx_client ctx))),
               mo_endpoints = Some (endpoint_list (nc_endpoints (rk_network (cx_client ctx)))), mo_addresses = None,
               mo_createdAt = flagStr (pl_flags parsed) ''created-at'', mo_notes = None\<rparr>;
            outFile = flagStr (pl_flags parsed) ''out''
        in if \<not> falsy outFile
           then io_do [WriteFile (the outFile) (ManifestText manifest)]
             (say [Success (''Wrote manifest to '' @ the outFile)] (io_ret 0))
           else if cx_json ctx then say [Json (ShownManifest manifest)] (io_ret 0)
           else say [LineOf (ShownManifest manifest)] (io_ret 0))"

definition manifest_import :: "cli_world \<Rightarrow> CliContext \<Rightarrow> ParsedCli \<Rightarrow> int io" where
  "manifest_import w ctx parsed =
     (let file = orElse (second_positional parsed) (flagStr (pl_flags parsed) ''file'') in
      if falsy file then fail_with ''usage: qorollup manifest import <file>''
      else
        io_bind (io_lift (wd_readFile w (the file))) (\<lambda>text.
        io_bind (io_lift (parseManifest text)) (\<lambda>manifest.
        io_bind (io_lift (fromManifest manifest)) (\<lambda>config.
        let r = builder_validationResult config in
        say (if cx_json ctx then [Json (ShownImport config (vr_valid r) (vr_errors r))]
             else [Line (''Loaded rollup '' @ quote (rc_rollupId config) @ '' ('' @ profileWire (rc_profile config) @ '')''),
                   Line (if vr_valid r then ''Config valid.'' else ''Invalid: '' @ join ''; '' (vr_errors r))])
          (io_ret (exit_code (vr_valid r)))))))"

definition cmdManifest :: "cli_world \<Rightarrow> CliContext \<Rightarrow> ParsedCli \<Rightarrow> int io" where
  "cmdManifest w ctx parsed =
     (let sub = first_positional parsed in
      if sub = Some ''export'' then manifest_export ctx parsed
      else if sub = Some ''import'' then manifest_import w ctx parsed
      else fail_with ''usage: qorollup manifest <export|import> [...]'')"

definition cmdFaucet :: "fetch_like \<Rightarrow> CliContext \<Rightarrow> ParsedCli \<Rightarrow> int io" where
  "cmdFaucet fetch ctx parsed =
     (let address = orElse (first_positional parsed) (flagStr (pl_flags parsed) ''address'') in
      if falsy address then fail_with ''usage: qorollup faucet <address>''
      else
        io_bind (io_lift (requestFaucet fetch
          \<lparr>fo_url = cx_faucetUrl ctx, fo_address = the address, fo_denom = None\<rparr>)) (\<lambda>result.
        say ([Success (''Faucet request accepted (status '' @ show_nat (fr_status result) @ '').'')] @
             (if cx_json ctx then [Json (ShownFaucet result)] else [])) (io_ret 0)))"

subsection \<open>Withdrawals\<close>

record WithdrawSpec =
  ws_rollupId :: string
  ws_batchIndex :: int
  ws_index :: int
  ws_withdrawals :: "Withdrawal list option"
  ws_leaves :: "string list option"
  ws_recipient :: "string option"
  ws_denom :: "string option"
  ws_amount :: "numeric option"

text \<open>The file's JSON read into the declared shape.\<close>

definition text_field :: "json \<Rightarrow> string \<Rightarrow> string option" where
  "text_field j k = map_option js_String (field_of j k)"

definition amount_field :: "json \<Rightarrow> numeric option" where
  "amount_field j = (case field_of j ''amount'' of Some (JNum n) \<Rightarrow> Some (NNum n) | Some (JStr s) \<Rightarrow> Some (NStr s) | _ \<Rightarrow> None)"

definition present :: "json \<Rightarrow> string \<Rightarrow> json option" where
  "present j k = (if field_of j k = Some JNull then None else field_of j k)"

definition spec_of_json :: "json \<Rightarrow> WithdrawSpec" where
  "spec_of_json j = \<lparr>ws_rollupId = text_of (field_of j ''rollupId''), ws_batchIndex = num_or 0 (field_of j ''batchIndex''),
     ws_index = num_or 0 (field_of j ''index''),
     ws_withdrawals = map_option (\<lambda>v. map (\<lambda>x. \<lparr>wd_recipient = text_of (field_of x ''recipient''),
        wd_denom = text_of (field_of x ''denom''), wd_amount = or_default (amount_field x) (NStr '''')\<rparr>) (asArray (Some v)))
        (present j ''withdrawals''),
     ws_leaves = map_option (\<lambda>v. map js_String (asArray (Some v))) (present j ''leaves''),
     ws_recipient = text_field j ''recipient'', ws_denom = text_field j ''denom'', ws_amount = amount_field j\<rparr>"

datatype withdraw_parts = Parts WithdrawalProof "string option" "string option" "numeric option"

text \<open>The proof and what is withdrawn: from the batch's withdrawals, or from its leaves.\<close>

definition withdraw_proof ::
  "cli_world \<Rightarrow> CliContext \<Rightarrow> WithdrawSpec \<Rightarrow> BatchView option \<Rightarrow> withdraw_parts option io" where
  "withdraw_proof w ctx spec batch =
     (case ws_withdrawals spec of
        Some ws \<Rightarrow>
          (case batch of
             None \<Rightarrow> say [Failure ''the batch must be readable to know which leaf encoding it commits (v1 or v2)''] (io_ret None)
           | Some b \<Rightarrow>
               io_bind (io_lift (transitionRootVersionForBatch (getAppliedPlanHeight (rk_rest (cx_client ctx)))
                  (bv_submittedAt b) (bv_withdrawalsBound b))) (\<lambda>version.
               io_bind (io_lift (withdrawalsTree (wd_shake w) ws
                  \<lparr>wo_rollupId = ws_rollupId spec, wo_version = version,
                   wo_chainId = Some (nc_chainId (rk_network (cx_client ctx)))\<rparr>)) (\<lambda>tree.
               io_bind (io_lift (wt_proof tree (ws_index spec))) (\<lambda>proof.
               let x = ws ! nat (ws_index spec) in
               io_ret (Some (Parts proof (Some (wd_recipient x)) (Some (wd_denom x)) (Some (wd_amount x))))))))
      | None \<Rightarrow>
          case ws_leaves spec of
            Some leaves \<Rightarrow>
              io_bind (io_lift (res_mapM hexToBytes leaves)) (\<lambda>ls.
              io_bind (io_lift (assembleWithdrawalProof (wd_shake w) ls (ws_index spec) CHAIN_TREE)) (\<lambda>proof.
              io_ret (Some (Parts proof (ws_recipient spec) (ws_denom spec) (ws_amount spec)))))
          | None \<Rightarrow> say [Failure ''the withdrawal spec needs `withdrawals` (or `leaves`)''] (io_ret None))"

text \<open>The root of the proof against the one the batch committed; \<open>None\<close> when the batch could not be read.\<close>

definition root_mismatch :: "BatchView option \<Rightarrow> WithdrawalProof \<Rightarrow> error + string option" where
  "root_mismatch batch proof =
     (case batch of
        None \<Rightarrow> Inr None
      | Some b \<Rightarrow>
          res_bind (decodeWireBytes (bv_withdrawalsRoot b)) (\<lambda>r.
          let onChain = bytesToHex r in
          Inr (if onChain \<noteq> bytesToHex (wp_withdrawalsRoot proof)
               then Some (''the computed withdrawals root '' @ bytesToHex (wp_withdrawalsRoot proof) @ '' is not the batch'' @
                      [CHR 0x27] @ ''s ('' @ (if onChain = '''' then ''empty'' else onChain) @
                      ''); the chain would refuse this proof'')
               else None)))"

definition withdraw_submit ::
  "cli_world \<Rightarrow> CliContext \<Rightarrow> WithdrawSpec \<Rightarrow> WithdrawalProof \<Rightarrow> string \<Rightarrow> string \<Rightarrow> numeric \<Rightarrow> int io" where
  "withdraw_submit w ctx spec proof recipient denom amount =
     io_bind (cli_connect w ctx) (\<lambda>tx.
     let input = buildExecuteWithdrawalInput (tc_address tx) (ws_rollupId spec) (NNum (ws_batchIndex spec)) recipient denom
           amount proof
     in io_bind (io_tx (executeWithdrawal (wd_tx w) tx input plain_options)) (\<lambda>res.
        say [Success (''Withdrawal submitted - tx '' @ dr_transactionHash res @ '' (code '' @ show_int (dr_code res) @ '')'')]
          (io_ret (exit_code (dr_code res = 0)))))"

definition withdraw_with :: "cli_world \<Rightarrow> CliContext \<Rightarrow> ParsedCli \<Rightarrow> WithdrawSpec \<Rightarrow> BatchView option \<Rightarrow> int io" where
  "withdraw_with w ctx parsed spec batch =
     io_bind (withdraw_proof w ctx spec batch) (\<lambda>parts.
     case parts of
       None \<Rightarrow> io_ret 1
     | Some (Parts proof recipient denom amount) \<Rightarrow>
         if recipient = None \<or> denom = None \<or> amount = None
         then fail_with ''the withdrawal spec needs recipient, denom and amount (or `withdrawals`)''
         else
           io_bind (io_lift (root_mismatch batch proof)) (\<lambda>mismatch.
           case mismatch of
             Some text \<Rightarrow> fail_with text
           | None \<Rightarrow>
               if flagBool (pl_flags parsed) ''dry-run''
               then say [Success (''Assembled withdrawal proof ('' @ show_nat (length (wp_proof proof)) @
                      '' sibling hashes). Dry run - not submitted.'')] (io_ret 0)
               else withdraw_submit w ctx spec proof (the recipient) (the denom) (the amount)))"

definition cmdWithdraw :: "cli_world \<Rightarrow> CliContext \<Rightarrow> ParsedCli \<Rightarrow> int io" where
  "cmdWithdraw w ctx parsed =
     (let file = flagStr (pl_flags parsed) ''file'' in
      if falsy file then fail_with ''usage: qorollup withdraw --file <withdrawal.json>''
      else
        io_bind (io_lift (wd_readFile w (the file))) (\<lambda>text.
        io_bind (io_lift (JSON_parse text)) (\<lambda>j.
        let spec = spec_of_json j in
        case getBatch (rk_rest (cx_client ctx)) (ws_rollupId spec) (ws_batchIndex spec) of
          Inr b \<Rightarrow> withdraw_with w ctx parsed spec (Some b)
        | Inl err \<Rightarrow>
            if \<not> flagBool (pl_flags parsed) ''dry-run''
            then fail_with (''cannot read batch '' @ show_int (ws_batchIndex spec) @ '' of '' @ ws_rollupId spec @ '': '' @
                   message err)
            else withdraw_with w ctx parsed spec None)))"

subsection \<open>Advice and watching\<close>

definition advice_line :: "CopilotSuggestion \<Rightarrow> out_event" where
  "advice_line s = Line (''  ['' @
     (case cs_level s of LevelAction \<Rightarrow> ''ACTION'' | LevelWarn \<Rightarrow> ''WARN '' | LevelInfo \<Rightarrow> ''info '') @ ''] '' @ cs_message s)"

definition cmdAdvise :: "CliContext \<Rightarrow> ParsedCli \<Rightarrow> int io" where
  "cmdAdvise ctx parsed =
     (if falsy (rollupIdArg parsed) then fail_with ''usage: qorollup advise <rollup-id>''
      else
        let rollupId = the (rollupIdArg parsed);
            advice = snd (getRollupAdvice (cx_client ctx) rollupId)
        in if cx_json ctx then say [Json (ShownAdvice advice)] (io_ret 0)
           else say ([Line (''QCAI Copilot - '' @ rollupId @ '' (status: '' @ ra_status advice @ '')'')] @
                  map advice_line (ra_suggestions advice) @
                  (if ra_fraudInvestigations advice \<noteq> []
                   then [Line (''  '' @ show_nat (length (ra_fraudInvestigations advice)) @
                           '' fraud investigation(s) reference this rollup.'')] else []) @
                  map (\<lambda>x. Warning (''advisory unavailable - '' @ x)) (ra_warnings advice))
                (io_ret 0))"

text \<open>The text of \<open>Number(s)\<close> for an option given as \<open>s\<close>.\<close>

definition number_text :: "cli_world \<Rightarrow> string \<Rightarrow> string" where
  "number_text w s = (case string_to_bigint s of Some n \<Rightarrow> show_int n | None \<Rightarrow> wd_number w s)"

definition watch_line :: "watch_event \<Rightarrow> out_event" where
  "watch_line e = (case e of
       OnUpdate h \<Rightarrow> Line (''['' @ rh_status h @ ''] batch #'' @ int_or ''-'' (rh_latestBatchIndex h) @ '' ('' @
         or_default (rh_latestBatchStatus h) ''none'' @ '') '' @ (if rh_healthy h then ''healthy'' else ''attention''))
     | OnPollError err \<Rightarrow> Warning (message err))"

text \<open>
  The handlers given to the monitor and to the watchtower neither throw nor stop it; the interrupt comes
  while a tick waits or between two ticks, here as the \<open>Stop\<close> that ends the run.
\<close>

definition cli_poll :: "CliContext \<Rightarrow> watch_env \<Rightarrow> watch_env poll" where
  "cli_poll ctx env = Tick (env\<lparr>we_client := cx_client ctx, we_nowSecs := None, we_stop_in := (\<lambda>_. False),
     we_throws := (\<lambda>_. None)\<rparr>)"

definition cmdWatch :: "cli_world \<Rightarrow> CliContext \<Rightarrow> ParsedCli \<Rightarrow> int io" where
  "cmdWatch w ctx parsed =
     (if falsy (rollupIdArg parsed) then fail_with ''usage: qorollup watch <rollup-id>''
      else
        let rollupId = the (rollupIdArg parsed);
            run = poll_run (\<lambda>env. watch_tick env rollupId) watch_stop (map (cli_poll ctx) (wd_polls w) @ [Stop]) new_watch
        in say (Line (''Watching '' @ rollupId @ '' (every '' @
                  number_text w (or_default (flagStr (pl_flags parsed) ''interval'') ''5000'') @ ''ms; Ctrl-C to stop)...'') #
                map watch_line (rw_trace run)) (io_ret 0))"

definition tower_line :: "cli_world \<Rightarrow> wt_event \<Rightarrow> out_event" where
  "tower_line w e = (case e of
       OnBatch b \<Rightarrow> Line (''new batch #'' @ show_int (bv_batchIndex b) @ '' ('' @ bv_status b @ '') state '' @
         take 16 (bv_stateRoot b) @ ''...'')
     | OnInvalid info \<Rightarrow> Warning (''batch #'' @ show_int (bv_batchIndex (bd_batch info)) @
         '' does not publish the canonical transition root: a challenge would win'' @
         (case bd_window info of None \<Rightarrow> '''' | Some c \<Rightarrow> '' ('' @ describeWindow w c @ '')''))
     | OnDeadline info \<Rightarrow> Warning (''batch #'' @ show_int (bv_batchIndex (bd_batch info)) @ '' '' @
         (case bd_window info of None \<Rightarrow> ''challenge window closing'' | Some c \<Rightarrow> describeWindow w c))
     | OnError err \<Rightarrow> Warning (message err))"

definition cli_tower_options :: "cli_world \<Rightarrow> CliContext \<Rightarrow> string \<Rightarrow> bool \<Rightarrow> WatchtowerOptions" where
  "cli_tower_options w ctx rollupId judging =
     \<lparr>wo_validate = (if judging then Some (transitionRootValidator (wd_shake w) (cx_client ctx) rollupId) else None),
      wo_deadlineWarnSecs = None, wo_deadlineWarnBlocks = None, wo_challengeWindowSecs = None\<rparr>"

definition cli_tick :: "cli_world \<Rightarrow> CliContext \<Rightarrow> string \<Rightarrow> bool \<Rightarrow> tick_env \<Rightarrow> tick_env poll" where
  "cli_tick w ctx rollupId judging env =
     Tick (env\<lparr>te_client := cx_client ctx, te_options := cli_tower_options w ctx rollupId judging,
       te_stop_in := (\<lambda>_. False), te_throws := (\<lambda>_. None)\<rparr>)"

definition cmdWatchtower :: "cli_world \<Rightarrow> CliContext \<Rightarrow> ParsedCli \<Rightarrow> int io" where
  "cmdWatchtower w ctx parsed =
     (if falsy (rollupIdArg parsed)
      then fail_with ''usage: qorollup watchtower <rollup-id> [--interval <ms>] [--canonical]''
      else
        let rollupId = the (rollupIdArg parsed);
            judging = flagBool (pl_flags parsed) ''canonical'';
            run = poll_run (\<lambda>env. tower_tick env rollupId) tower_stop
              (map (cli_tick w ctx rollupId judging) (wd_ticks w) @ [Stop])
              (new_tower (cli_tower_options w ctx rollupId judging))
        in say ([Line (''Watchtower on '' @ rollupId @ '' (every '' @
                   number_text w (or_default (flagStr (pl_flags parsed) ''interval'') ''5000'') @ ''ms; Ctrl-C to stop).''),
                 Line (if judging
                   then ''Checking each optimistic batch against the chain'' @ [CHR 0x27] @
                        ''s transition-root rule; this CLI reports, it does not challenge.''
                   else ''Note: pass --canonical to flag batches that break the chain'' @ [CHR 0x27] @
                        ''s transition-root rule; this CLI only reports.'')] @
                map (tower_line w) (tw_trace run)) (io_ret 0))"

subsection \<open>Receipts\<close>

definition RECEIPT_FIELDS :: "string list" where
  "RECEIPT_FIELDS = [''version'', ''rollupId'', ''layerId'', ''batchIndex'', ''creator'', ''algorithm'', ''stateRoot'',
     ''layerHeight'', ''validatorSetHash'', ''mainChainHeight'', ''anchoredAt'', ''pqcSignature'']"

text \<open>
  What the file says is parsed and shape-checked; standard input is the file \<open>-\<close>. The cast to
  \<open>SettlementReceipt\<close> reads each field in its declared type; a version that is no whole number is no
  supported one.
\<close>

definition readReceiptFile :: "cli_world \<Rightarrow> string \<Rightarrow> error + json" where
  "readReceiptFile w path =
     (case wd_readFile w path of
        Inl err \<Rightarrow> Inl (JsError (''cannot read receipt '' @ (if path = ''-'' then ''from stdin'' else quote path) @ '': '' @
                     message err))
      | Inr raw \<Rightarrow>
          (case JSON_parse raw of
             Inl err \<Rightarrow> Inl (JsError (''receipt is not valid JSON: '' @ message err))
           | Inr obj \<Rightarrow>
               if \<not> (case obj of JObj _ \<Rightarrow> True | _ \<Rightarrow> False) then Inl (JsError ''receipt is not a JSON object'')
               else
                 let missing = filter (\<lambda>f. field_of obj f = None) RECEIPT_FIELDS in
                 if missing \<noteq> []
                 then Inl (JsError (''receipt is missing required field(s): '' @ join '', '' missing))
                 else Inr obj))"

definition receipt_of_json :: "json \<Rightarrow> SettlementReceipt" where
  "receipt_of_json j =
     (let t = \<lambda>k. text_of (field_of j k); n = \<lambda>k. num_or 0 (field_of j k) in
      \<lparr>sr_version = (case field_of j ''version'' of Some (JNum v) \<Rightarrow> Whole v | _ \<Rightarrow> Fraction),
       sr_chainId = text_field j ''chainId'', sr_rollupId = t ''rollupId'', sr_layerId = t ''layerId'',
       sr_batchIndex = n ''batchIndex'', sr_creator = t ''creator'', sr_algorithm = t ''algorithm'',
       sr_stateRoot = t ''stateRoot'', sr_layerHeight = n ''layerHeight'', sr_validatorSetHash = t ''validatorSetHash'',
       sr_mainChainHeight = n ''mainChainHeight'', sr_anchoredAt = n ''anchoredAt'', sr_pqcSignature = t ''pqcSignature'',
       sr_batchStateRoot = t ''batchStateRoot'',
       sr_transactionCount = map_option (\<lambda>v. num_or 0 (Some v)) (field_of j ''transactionCount''),
       sr_compressedStateProof = text_field j ''compressedStateProof''\<rparr>)"

definition CHECK_LABELS :: "((ReceiptChecks \<Rightarrow> bool) \<times> string) list" where
  "CHECK_LABELS =
     [(ck_rollupLayerBinding, ''rollup belongs to the receipt'' @ [CHR 0x27] @ ''s layer''),
      (ck_batchStateRoot, ''chain'' @ [CHR 0x27] @ ''s batch carries the receipt'' @ [CHR 0x27] @ ''s state root''),
      (ck_anchorOnChain, ''a matching anchor exists on chain (heights, time, validator set, tx count, proof)''),
      (ck_creatorAuthority, ''creator matches the chain and has a registered key''),
      (ck_chainBinding, ''receipt names the network that was queried''),
      (ck_pqcSignature, ''quantum-safe anchor signature verifies'')]"

text \<open>The texts of the reasons the verification gives; \<open>version\<close> is the JSON text of the receipt's version.\<close>

definition field_texts :: "SettlementReceipt \<Rightarrow> AnchorView \<Rightarrow> string \<Rightarrow> string \<times> string" where
  "field_texts r a name =
     (if name = ''validatorSetHash'' then (json_string (sr_validatorSetHash r), json_string (av_validatorSetHash a))
      else if name = ''mainChainHeight'' then (show_int (sr_mainChainHeight r), show_int (av_mainChainHeight a))
      else if name = ''anchoredAt'' then (show_int (sr_anchoredAt r), show_int (av_anchoredAt a))
      else if name = ''transactionCount''
      then (int_or ''undefined'' (sr_transactionCount r), show_int (av_transactionCount a))
      else (json_string (toLowerCase (or_default (sr_compressedStateProof r) '''')),
            json_string (toLowerCase (av_compressedStateProof a))))"

fun reason_text :: "string \<Rightarrow> SettlementReceipt \<Rightarrow> AnchorView option \<Rightarrow> receipt_reason \<Rightarrow> string" where
  "reason_text version r a (UnsupportedVersion _) = ''unsupported receipt version '' @ version @
     '' (this release verifies versions '' @ join '' and '' (map show_int SUPPORTED_RECEIPT_VERSIONS) @ '')''"
| "reason_text version r a (UnsupportedAlgorithm alg) = ''unsupported algorithm '' @ json_string alg @
     '': QoreChain anchors are signed with '' @ RECEIPT_ALGORITHM"
| "reason_text version r a (MissingField f) = (if f = ''chainId'' then ''a version-2 receipt must name its chain (chainId)''
     else ''a version-2 receipt must carry '' @ f)"
| "reason_text version r a NoClient = ''no client supplied - pass `client` to verify against chain state; a receipt on its own proves nothing''"
| "reason_text version r a SignatureOnlyValid = ''signature is valid for the supplied key, but nothing was checked '' @
     ''against the chain - pass `client` to verify settlement''"
| "reason_text version r a SignatureOnlyInvalid = ''signature did not verify against the supplied key''"
| "reason_text version r a (RollupNotFound i e) = ''rollup '' @ quote i @ '' not found on chain: '' @ message e"
| "reason_text version r a (OtherLayer l l') = ''rollup '' @ quote (sr_rollupId r) @ '' is anchored to layer '' @
     quote (if l = '''' then ''(none)'' else l) @ '', not '' @ quote l'"
| "reason_text version r a (BatchNotFound i e) = ''batch '' @ show_int i @ '' not found on chain: '' @ message e"
| "reason_text version r a OtherStateRoot = ''the chain'' @ [CHR 0x27] @ ''s batch does not carry the receipt'' @ [CHR 0x27] @
     ''s state root (stateRoot and batchStateRoot)''"
| "reason_text version r a (AnchorsUnreadable l e) = ''could not read anchors for layer '' @ quote l @ '': '' @ message e"
| "reason_text version r a NoMatchingAnchor = ''no anchor on chain matches this receipt - it is fabricated or superseded''"
| "reason_text version r a (FieldMismatch f) = (case a of None \<Rightarrow> '''' | Some x \<Rightarrow>
     ''receipt'' @ [CHR 0x27] @ ''s '' @ f @ '' '' @ fst (field_texts r x f) @ '' does not match the chain'' @ [CHR 0x27] @
     ''s anchor ('' @ snd (field_texts r x f) @ '')'')"
| "reason_text version r a (KeyUnresolved e) = ''could not resolve the creator'' @ [CHR 0x27] @ ''s post-quantum key: '' @ message e"
| "reason_text version r a (OtherCreator c c') = ''receipt names creator '' @ quote c @ '' but the chain says the rollup'' @
     [CHR 0x27] @ ''s creator is '' @ quote c'"
| "reason_text version r a (NoKey c) = ''no post-quantum key is registered for creator '' @ c"
| "reason_text version r a (OtherChain c c') = ''receipt is for chain '' @ quote c @ '' but this client is connected to '' @
     quote c' @ '' - verify it against a node for its own network''"
| "reason_text version r a (SignatureRefused v h) = ''Dilithium-5 anchor signature did not verify against the creator'' @
     [CHR 0x27] @ ''s registered key (checked as '' @ (case v of V1 \<Rightarrow> ''v1'' | V2 \<Rightarrow> ''v2'') @
     '', for an anchor at height '' @ show_int h @ '')''"

definition verification_reason :: "string \<Rightarrow> string \<Rightarrow> SettlementReceipt \<Rightarrow> ReceiptVerification \<Rightarrow> string" where
  "verification_reason none version r v =
     (case rr_reason v of None \<Rightarrow> none | Some x \<Rightarrow> reason_text version r (rr_anchor v) x)"

definition GENUINE :: "string \<Rightarrow> string" where
  "GENUINE network = ''Receipt is genuine on '' @ network @ '': the rollup and its layer, the batch'' @ [CHR 0x27] @
     ''s state root, the anchor (state root, layer and Main Chain heights, anchor time, validator set, '' @
     ''transaction count, proof, signature), the creator and the network all match live chain '' @
     ''state, and the signature verifies under the creator'' @ [CHR 0x27] @ ''s registered key. '' @
     ''Your trust anchor is the node you queried.''"

definition verify_lines :: "CliContext \<Rightarrow> string \<Rightarrow> SettlementReceipt \<Rightarrow> ReceiptVerification \<Rightarrow> out_event list" where
  "verify_lines ctx version r v =
     [Line (''Receipt claims - '' @ sr_rollupId r @ '' batch #'' @ show_int (sr_batchIndex r)),
      Line (''  layer:        '' @ sr_layerId r @ '' @ height '' @ show_int (sr_layerHeight r)),
      Line (''  state root:   '' @ sr_stateRoot r), Line (''  creator:      '' @ sr_creator r),
      Line (''  checked on:   '' @ networkName (cx_network ctx)), Line ''''] @
     map (\<lambda>(passed, label). Line (''  '' @ (if passed (rr_checks v) then ''PASS'' else ''FAIL'') @ ''  '' @ label)) CHECK_LABELS @
     [Line '''',
      if rr_valid v then Success (GENUINE (networkName (cx_network ctx)))
      else Failure (''Receipt is NOT verified - '' @ verification_reason ''unknown reason'' version r v)]"

text \<open>The relying party's path. Only what the chain holds is returned as the receipt.\<close>

definition cmdReceiptVerify :: "cli_world \<Rightarrow> CliContext \<Rightarrow> ParsedCli \<Rightarrow> int io" where
  "cmdReceiptVerify w ctx parsed =
     (if falsy (second_positional parsed) then fail_with ''usage: qorollup receipt verify <file>   (use - for stdin)''
      else
        case readReceiptFile w (the (second_positional parsed)) of
          Inl err \<Rightarrow> if cx_json ctx then say [Json (ShownUnreadable (message err))] (io_ret 1) else fail_with (message err)
        | Inr obj \<Rightarrow>
            let receipt = receipt_of_json obj;
                verification = verifySettlementReceipt (wd_pqcVerify w) receipt (Some (cx_client ctx)) None
            in say (if cx_json ctx
                    then [Json (ShownVerdict (rr_valid verification) (rr_verifiedReceipt verification) verification)]
                    else verify_lines ctx (json_text (or_default (field_of obj ''version'') JNull)) receipt verification)
                 (io_ret (exit_code (rr_valid verification))))"

definition receipt_lines :: "string \<Rightarrow> string \<Rightarrow> SettlementReceipt \<Rightarrow> string option \<Rightarrow> out_event list" where
  "receipt_lines rollupId batchIndex r outFile =
     [Line (''Settlement receipt - '' @ rollupId @ '' batch #'' @ batchIndex),
      Line (''  layer:        '' @ sr_layerId r @ '' @ height '' @ show_int (sr_layerHeight r)),
      Line (''  state root:   '' @ sr_stateRoot r), Line (''  main height:  '' @ show_int (sr_mainChainHeight r)),
      Line (''  algorithm:    '' @ sr_algorithm r),
      Line (''  signature:    '' @ take 24 (sr_pqcSignature r) @ ''... ('' @ show_nat (length (sr_pqcSignature r) div 2) @
        (if even (length (sr_pqcSignature r)) then '''' else ''.5'') @ '' bytes)'')] @
     (if falsy outFile then [] else [Line (''  written to:   '' @ the outFile)])"

definition cmdReceipt :: "cli_world \<Rightarrow> CliContext \<Rightarrow> ParsedCli \<Rightarrow> int io" where
  "cmdReceipt w ctx parsed =
     (if first_positional parsed = Some ''verify'' then cmdReceiptVerify w ctx parsed
      else
        let idxRaw = orElse (second_positional parsed) (flagStr (pl_flags parsed) ''batch'') in
        if falsy (rollupIdArg parsed) \<or> idxRaw = None
        then fail_with (''usage: qorollup receipt <rollup-id> <batch-index> [--verify] [--out <file>]'' @ [CHR 0x0a] @
               ''       qorollup receipt verify <file>   (verify a receipt you were given; - for stdin)'')
        else
          let rollupId = the (rollupIdArg parsed) in
          io_bind (io_lift (case string_to_bigint (the idxRaw) of
              Some n \<Rightarrow> buildSettlementReceipt (cx_client ctx) rollupId n
            | None \<Rightarrow> wd_odd_index w (the idxRaw))) (\<lambda>receipt.
          let verification = (if flagBool (pl_flags parsed) ''verify''
                then Some (verifySettlementReceipt (wd_pqcVerify w) receipt (Some (cx_client ctx)) None) else None);
              outFile = flagStr (pl_flags parsed) ''out'';
              result = exit_code (case verification of None \<Rightarrow> True | Some v \<Rightarrow> rr_valid v)
          in io_do (if falsy outFile then [] else [WriteFile (the outFile) (ReceiptText receipt)])
             (if cx_json ctx then say [Json (ShownReceipt receipt verification)] (io_ret result)
              else say (receipt_lines rollupId (number_text w (the idxRaw)) receipt outFile @
                     (case verification of
                        None \<Rightarrow> []
                      | Some v \<Rightarrow>
                          [if rr_valid v
                           then Success (''Verified against chain state - the anchor exists on chain and its quantum-safe '' @
                             ''signature checks out under the creator'' @ [CHR 0x27] @ ''s registered key.'')
                           else Failure (''Verification FAILED - '' @
                             verification_reason ''undefined'' (show_int RECEIPT_VERSION) receipt v)]))
                   (io_ret result))))"

end
