(* ===== verification/Entry.thy ===== *)
theory Entry
  imports Commands
begin

text \<open>
  The entry point of \<open>qorollup\<close>, \<open>packages/rdk-cli/src/index.ts\<close>, and what holds of a run of the tool. The
  version is read from the package's own file, and resolving a path and the path of a URL are the platform's:
  all three are parameters.

  Shown: a run ends with the exit code 0 or 1, and with 1 whenever it reports a failure; at most one
  transaction is handed over for signing, and none by a dry run, without the consent that is asked for, for
  an invalid configuration, for a lifecycle action that the rollup's status does not allow or for a
  withdrawal whose root is not the batch's; \<open>receipt verify\<close> ends with 0 exactly for a receipt that
  verifies; in JSON mode standard output is at most one JSON value, and nothing when a command throws. Files
  pass from one run to another: a receipt that was written is judged as the receipt itself, and an exported
  manifest is imported as the configuration it was made from.
\<close>

subsection \<open>Dispatch\<close>

definition HELP :: string where
  "HELP = join [CHR 0x0a] [
     ''qorollup - operate QoreChain rollups.'',
     '''',
     ''Usage: qorollup <command> [args] [--flags]'',
     '''',
     ''Commands:'',
     ''  doctor                     Preflight checks (endpoints, params, signer, balance, config)'',
     ''  create --rollup-id <id>    Create a rollup (--profile, --stake-uqor, --dry-run)'',
     ''  status <id>                Rollup status + health'',
     ''  watch <id>                 Live status (--interval <ms>)'',
     ''  advise <id>                QCAI Copilot advice (fees, network, fraud, RL agent)'',
     ''  receipt <id> <batch>       Quantum-safe settlement receipt (--verify, --out <file>)'',
     ''  watchtower <id>            Auto-challenger: watch batches + challenge deadlines'',
     ''  params                     Live module parameters'',
     ''  suggest \"<use case>\"       QCAI-assisted profile suggestion'',
     ''  pause|resume|stop <id>     Lifecycle transitions (creator only)'',
     ''  keygen                     Generate a new operator key (mnemonic + address)'',
     ''  manifest export|import     Export/import a rollup manifest (--out <file> / <file>)'',
     ''  withdraw --file <json>     Assemble + submit a withdrawal (--dry-run)'',
     ''  faucet <address>           Request testnet funds (needs a faucet URL)'',
     '''',
     ''Global flags:'',
     ''  --network testnet|mainnet      default testnet'',
     ''  --rest/--rpc/--evm-rpc <url>   endpoint overrides (or QORE_*_URL)'',
     ''  --mnemonic/--key <value>       signer (or QORE_MNEMONIC / QORE_OPERATOR_PRIVATE_KEY_HEX)'',
     ''  --pqc-seed <hex>               ML-DSA-87 seed for --key (or QORE_PQC_SEED_HEX); every tx signs hybrid'',
     ''  --profile <name>               defi|gaming|nft|enterprise|custom'',
     ''  --json                         machine-readable output'',
     ''  -y, --yes                      skip confirmations'',
     ''  -h, --help / -v, --version'',
     ''''
   ]"

text \<open>The command table; \<open>None\<close> is the default branch.\<close>

definition dispatch :: "cli_world \<Rightarrow> fetch_like \<Rightarrow> CliContext \<Rightarrow> ParsedCli \<Rightarrow> string \<Rightarrow> int io option" where
  "dispatch w fetch ctx parsed command =
     map_of
       [(''doctor'', cmdDoctor w ctx parsed), (''create'', cmdCreate w ctx parsed), (''status'', cmdStatus w ctx parsed),
        (''watch'', cmdWatch w ctx parsed), (''advise'', cmdAdvise ctx parsed), (''receipt'', cmdReceipt w ctx parsed),
        (''watchtower'', cmdWatchtower w ctx parsed), (''params'', cmdParams w ctx), (''suggest'', cmdSuggest ctx parsed),
        (''pause'', cmdLifecycle w ctx parsed pause), (''resume'', cmdLifecycle w ctx parsed resume),
        (''stop'', cmdLifecycle w ctx parsed stop), (''keygen'', cmdKeygen w ctx), (''manifest'', cmdManifest w ctx parsed),
        (''withdraw'', cmdWithdraw w ctx parsed), (''faucet'', cmdFaucet fetch ctx parsed)] command"

definition run_command :: "cli_world \<Rightarrow> fetch_like \<Rightarrow> CliContext \<Rightarrow> ParsedCli \<Rightarrow> string \<Rightarrow> int io" where
  "run_command w fetch ctx parsed command =
     (case dispatch w fetch ctx parsed command of
        Some m \<Rightarrow> m
      | None \<Rightarrow> say [Failure (''unknown command: '' @ command), Printed HELP] (io_ret 1))"

text \<open>\<open>try ... catch\<close>: the effects of what threw stay.\<close>

definition io_catch :: "'a io \<Rightarrow> (error \<Rightarrow> 'a io) \<Rightarrow> 'a io" where
  "io_catch m h = (case snd m of Inl e \<Rightarrow> io_do (fst m) (h e) | Inr _ \<Rightarrow> m)"

definition cli_run :: "string \<Rightarrow> cli_world \<Rightarrow> fetch_like \<Rightarrow> cli_env \<Rightarrow> string list \<Rightarrow> int io" where
  "cli_run version w fetch env argv =
     (let parsed = parseCli argv in
      if pl_version parsed then say [Printed version] (io_ret 0)
      else if pl_help parsed \<or> falsy (pl_command parsed) then say [Printed HELP] (io_ret 0)
      else io_catch (run_command w fetch (buildContext (pl_flags parsed) env fetch) parsed (the (pl_command parsed)))
        (\<lambda>e. fail_with (message e)))"

definition isEntryPoint :: "(string \<Rightarrow> error + string) \<Rightarrow> (string \<Rightarrow> error + string) \<Rightarrow> string option \<Rightarrow> string \<Rightarrow> bool" where
  "isEntryPoint realpath fileURLToPath argv1 moduleUrl =
     (if falsy argv1 then False
      else res_catch
        (res_bind (realpath (the argv1)) (\<lambda>script.
         res_bind (fileURLToPath moduleUrl) (\<lambda>path.
         res_bind (realpath path) (\<lambda>here. Inr (script = here))))) (\<lambda>_. False))"

subsection \<open>What a run did\<close>

definition transactions :: "'a io \<Rightarrow> broadcast list" where
  "transactions m = List.map_filter (\<lambda>e. case e of Sent b \<Rightarrow> Some b | _ \<Rightarrow> None) (fst m)"

definition outputs :: "'a io \<Rightarrow> out_event list" where
  "outputs m = List.map_filter (\<lambda>e. case e of Out x \<Rightarrow> Some x | _ \<Rightarrow> None) (fst m)"

definition failures :: "out_event list \<Rightarrow> string list" where
  "failures os = List.map_filter (\<lambda>x. case x of Failure t \<Rightarrow> Some t | _ \<Rightarrow> None) os"

definition files :: "'a io \<Rightarrow> (string \<times> file_content) list" where
  "files m = List.map_filter (\<lambda>e. case e of WriteFile p c \<Rightarrow> Some (p, c) | _ \<Rightarrow> None) (fst m)"

text \<open>What reaches standard output in JSON mode.\<close>

definition on_stdout :: "'a io \<Rightarrow> out_event list" where
  "on_stdout m = filter (console_shows True) (outputs m)"

lemma events_append [simp]:
  "List.map_filter f (xs @ ys) = List.map_filter f xs @ List.map_filter f ys"
  by (simp add: List.map_filter_def)

text \<open>How the three views go through the composition of commands.\<close>

lemma transactions_simps [simp]:
  "transactions (io_ret x) = []" "transactions (io_lift r) = []" "transactions (io_throw e) = []"
  "transactions (say os m) = transactions m" "transactions (fail_with t) = []"
  by (simp_all add: transactions_def io_ret_def io_lift_def io_throw_def say_def io_do_def fail_with_def
      List.map_filter_def)

lemma transactions_bind:
  "transactions (io_bind m f) = transactions m @ (case snd m of Inl e \<Rightarrow> [] | Inr x \<Rightarrow> transactions (f x))"
  by (simp add: io_bind_def transactions_def split: sum.split)

lemma transactions_tx [simp]: "transactions (io_tx q) = fst q"
  by (simp add: transactions_def io_tx_def List.map_filter_def comp_def)

lemma transactions_do_files [simp]: "transactions (io_do [WriteFile p c] m) = transactions m"
  "transactions (io_do [] m) = transactions m"
  by (simp_all add: transactions_def io_do_def)

lemma outputs_simps [simp]:
  "outputs (io_ret x) = []" "outputs (io_lift r) = []" "outputs (io_throw e) = []"
  "outputs (say os m) = os @ outputs m" "outputs (fail_with t) = [Failure t]" "outputs (io_tx q) = []"
  "outputs (io_do [WriteFile p c] m) = outputs m" "outputs (io_do [] m) = outputs m"
  by (simp_all add: outputs_def io_ret_def io_lift_def io_throw_def say_def io_do_def fail_with_def io_tx_def
      List.map_filter_def comp_def)

lemma outputs_bind:
  "outputs (io_bind m f) = outputs m @ (case snd m of Inl e \<Rightarrow> [] | Inr x \<Rightarrow> outputs (f x))"
  by (simp add: io_bind_def outputs_def split: sum.split)

lemma result_simps [simp]:
  "snd (io_ret x) = Inr x" "snd (io_lift r) = r" "snd (io_throw e) = Inl e" "snd (say os m) = snd m"
  "snd (fail_with t) = Inr 1" "snd (io_tx q) = snd q" "snd (io_do es m) = snd m"
  by (simp_all add: io_ret_def io_lift_def io_throw_def say_def io_do_def fail_with_def io_tx_def)

lemma result_bind: "snd (io_bind m f) = (case snd m of Inl e \<Rightarrow> Inl e | Inr x \<Rightarrow> snd (f x))"
  by (simp add: io_bind_def split: sum.split)

text \<open>Asking and connecting say nothing that counts and send nothing.\<close>

lemma confirm_simps [simp]:
  "transactions (confirmOrYes w ctx q) = []" "outputs (confirmOrYes w ctx q) = []"
  "snd (confirmOrYes w ctx q) = Inr (cx_yes ctx \<or> wd_confirm w q)"
  by (simp_all add: confirmOrYes_def transactions_def outputs_def io_ret_def)

lemma connect_transactions [simp]: "transactions (cli_connect w ctx) = []"
  by (simp add: cli_connect_def transactions_bind split: sum.split option.split list.split)

lemma failures_simps [simp]:
  "failures [] = []" "failures (xs @ ys) = failures xs @ failures ys" "failures (Line t # os) = failures os"
  "failures (Success t # os) = failures os" "failures (Warning t # os) = failures os"
  "failures (Failure t # os) = t # failures os" "failures (Json v # os) = failures os"
  "failures (LineOf v # os) = failures os" "failures (Printed t # os) = failures os"
  by (simp_all add: failures_def)

lemma connect_outputs [simp]:
  "failures (outputs (cli_connect w ctx)) = []" "filter (console_shows True) (outputs (cli_connect w ctx)) = []"
  by (simp_all add: cli_connect_def outputs_bind split: sum.split option.split list.split)

subsection \<open>Transactions\<close>

text \<open>At most one transaction, and only if \<open>g\<close>.\<close>

definition sends :: "bool \<Rightarrow> 'a io \<Rightarrow> bool" where
  "sends g m \<longleftrightarrow> length (transactions m) \<le> (if g then 1 else 0)"

lemma sends_none [simp]: "transactions m = [] \<Longrightarrow> sends g m"
  by (simp add: sends_def)

lemma sends_say [simp]: "sends g (say os m) \<longleftrightarrow> sends g m"
  by (simp add: sends_def)

lemma sends_bind: "transactions m = [] \<Longrightarrow> (\<And>x. snd m = Inr x \<Longrightarrow> sends g (f x)) \<Longrightarrow> sends g (io_bind m f)"
  by (auto simp: sends_def transactions_bind split: sum.split)

lemma sends_tx: "outcome g a r \<Longrightarrow> (\<And>x. transactions (f x) = []) \<Longrightarrow> sends g (io_bind (io_tx r) f)"
  by (auto simp: sends_def outcome_def transactions_bind split: sum.split)

lemma sends_mono: "sends g m \<Longrightarrow> (g \<Longrightarrow> g') \<Longrightarrow> sends g' m"
  by (auto simp: sends_def split: if_splits)

lemma sends_create:
  "(\<And>x. transactions (f x) = []) \<Longrightarrow> sends True (io_bind (io_tx (createRollup env c i opts)) f)"
  using run_op_outcome [of env c "OpCreate i" opts] by (auto intro: sends_mono [OF sends_tx])

lemma sends_withdrawal:
  "(\<And>x. transactions (f x) = []) \<Longrightarrow> sends True (io_bind (io_tx (executeWithdrawal env c i opts)) f)"
  using run_op_outcome [of env c "OpWithdraw i" opts] by (auto intro: sends_mono [OF sends_tx])

lemma create_dry_run_quiet [simp]: "transactions (create_dry_run w ctx cfg stake cost) = []"
  by (simp add: create_dry_run_def transactions_bind split: sum.split)

lemma create_submit_sends: "sends True (create_submit w ctx cfg stake)"
  unfolding create_submit_def
  by (rule sends_bind, simp, rule sends_bind, simp, rule sends_create) (simp add: Let_def)

definition may_act :: "RollupAction \<Rightarrow> string \<Rightarrow> bool" where
  "may_act action status \<longleftrightarrow>
     status = '''' \<or> (case status_of status of None \<Rightarrow> False | Some s \<Rightarrow> canPerformRollupAction action s)"

lemma lifecycle_tx_outcome: "outcome (may_act action status) (tc_address tx) (lifecycle_tx w tx action rid reason status)"
proof (cases "status \<noteq> '''' \<and> status_of status = None")
  case True
  then show ?thesis by (simp add: lifecycle_tx_def outcome_refuse)
next
  case False
  define cur where "cur = (if status = '''' then None else status_of status)"
  define op where "op = (case action of pause \<Rightarrow> OpPause rid reason cur | resume \<Rightarrow> OpResume rid cur | stop \<Rightarrow> OpStop rid cur)"
  have eq: "lifecycle_tx w tx action rid reason status = run_op (wd_tx w) tx op plain_options"
    using False by (cases action) (auto simp: lifecycle_tx_def cur_def op_def)
  have "op_guard (wd_tx w) tx op \<Longrightarrow> may_act action status"
    using False by (cases action) (auto simp: op_def cur_def allowed_def may_act_def split: if_splits)
  with run_op_outcome [of "wd_tx w" tx op plain_options] eq show ?thesis by (auto simp: outcome_def)
qed

text \<open>The proof is against the root that the batch committed.\<close>

definition against_committed_root :: "cli_world \<Rightarrow> CliContext \<Rightarrow> WithdrawSpec \<Rightarrow> BatchView \<Rightarrow> bool" where
  "against_committed_root w ctx spec b \<longleftrightarrow>
     (case snd (withdraw_proof w ctx spec (Some b)) of
        Inr (Some (Parts proof recipient denom amount)) \<Rightarrow>
          decodeWireBytes (bv_withdrawalsRoot b) = Inr (wp_withdrawalsRoot proof)
      | _ \<Rightarrow> False)"

lemma withdraw_proof_quiet [simp]: "transactions (withdraw_proof w ctx spec batch) = []"
  by (simp add: withdraw_proof_def Let_def transactions_bind split: option.split sum.split)

lemma withdraw_submit_sends: "sends True (withdraw_submit w ctx spec proof r d a)"
  unfolding withdraw_submit_def Let_def
  by (rule sends_bind, simp, rule sends_withdrawal) simp

lemma withdraw_with_sends:
  "sends (\<not> flagBool (pl_flags parsed) ''dry-run'' \<and> against_committed_root w ctx spec b)
     (withdraw_with w ctx parsed spec (Some b))"
  unfolding withdraw_with_def
  by (rule sends_bind, simp)
    (auto simp: root_mismatch_def against_committed_root_def res_bind_eq_Inr Let_def split: option.splits withdraw_parts.splits if_splits
      intro!: sends_bind sends_mono [OF withdraw_submit_sends])

lemma withdraw_dry_quiet:
  "flagBool (pl_flags parsed) ''dry-run'' \<Longrightarrow> transactions (withdraw_with w ctx parsed spec batch) = []"
  by (simp add: withdraw_with_def transactions_bind split: option.split withdraw_parts.split sum.split)

subsection \<open>Exit codes\<close>

text \<open>A command that returns ends with 1, or with 0 having reported no failure.\<close>

definition honest :: "int io \<Rightarrow> bool" where
  "honest m \<longleftrightarrow> (case snd m of Inl e \<Rightarrow> True | Inr c \<Rightarrow> c = 1 \<or> (c = 0 \<and> failures (outputs m) = []))"

lemma honest_ret [simp]: "honest (io_ret c) \<longleftrightarrow> c = 1 \<or> c = 0"
  by (auto simp: honest_def)

lemma honest_fail [simp]: "honest (fail_with t)"
  by (simp add: honest_def)

lemma exit_code_simps [simp]: "exit_code ok = 0 \<longleftrightarrow> ok" "exit_code ok = 1 \<longleftrightarrow> \<not> ok"
  by (simp_all add: exit_code_def)

lemma honest_code [simp]:
  "honest (say os (io_ret (exit_code ok))) \<longleftrightarrow> \<not> ok \<or> failures os = []"
  "honest (say os (io_ret 0)) \<longleftrightarrow> failures os = []" "honest (say os (io_ret 1))"
  by (auto simp: honest_def exit_code_def)

lemma honest_say: "failures os = [] \<Longrightarrow> honest m \<Longrightarrow> honest (say os m)"
  by (simp add: honest_def split: sum.splits)

lemma io_do_none [simp]: "io_do [] m = m"
  by (simp add: io_do_def)

lemma honest_do: "honest m \<Longrightarrow> honest (io_do [WriteFile p c] m)"
  by (simp add: honest_def split: sum.splits)

lemma honest_bind:
  "failures (outputs m) = [] \<Longrightarrow> (\<And>x. snd m = Inr x \<Longrightarrow> honest (f x)) \<Longrightarrow> honest (io_bind m f)"
  by (cases "snd m") (auto simp: honest_def outputs_bind result_bind split: sum.split)

lemma honest_lift: "(\<And>x. r = Inr x \<Longrightarrow> honest (f x)) \<Longrightarrow> honest (io_bind (io_lift r) f)"
  by (rule honest_bind) simp_all

lemma failures_Cons: "failures (x # xs) = failures [x] @ failures xs"
  by (cases x) simp_all

lemma failures_none: "(\<And>x. x \<in> set os \<Longrightarrow> failures [x] = []) \<Longrightarrow> failures os = []"
  by (induction os) (simp_all, metis append_Nil failures_Cons)

lemma failures_map [simp]: "failures (map Warning xs) = []" "failures (map (\<lambda>x. Warning (g x)) us) = []"
  by (rule failures_none; auto)+

lemmas honest_rules = honest_say honest_do honest_bind honest_lift

lemma failures_checks: "pr_ok (checkPreflight pct c o1) \<Longrightarrow> failures (map check_line (pr_checks (checkPreflight pct c o1))) = []"
  by (rule failures_none)
    (auto simp: checkPreflight_def check_line_def Let_def list_all_iff split: prod.splits CheckStatus.split)

lemma honest_doctor: "honest (cmdDoctor w ctx parsed)"
  unfolding cmdDoctor_def Let_def by (auto simp: failures_checks intro!: honest_rules)

lemma honest_create: "honest (cmdCreate w ctx parsed)"
  unfolding cmdCreate_def create_dry_run_def create_submit_def Let_def by (auto intro!: honest_rules split: option.split)

lemma honest_status: "honest (cmdStatus w ctx parsed)"
  unfolding cmdStatus_def status_lines_def Let_def by (auto intro!: honest_rules split: option.split)

lemma honest_params: "honest (cmdParams w ctx)"
  unfolding cmdParams_def by (auto intro!: honest_rules)

lemma honest_suggest: "honest (cmdSuggest ctx parsed)"
  unfolding cmdSuggest_def Let_def by auto

lemma honest_lifecycle: "honest (cmdLifecycle w ctx parsed action)"
  unfolding cmdLifecycle_def Let_def by (auto intro!: honest_rules)

lemma honest_keygen: "honest (cmdKeygen w ctx)"
  unfolding cmdKeygen_def by (auto intro!: honest_rules)

lemma honest_manifest: "honest (cmdManifest w ctx parsed)"
  unfolding cmdManifest_def manifest_export_def manifest_import_def Let_def by (auto intro!: honest_rules)

lemma honest_faucet: "honest (cmdFaucet fetch ctx parsed)"
  unfolding cmdFaucet_def Let_def by (auto intro!: honest_rules)

lemma withdraw_proof_failures:
  "snd (withdraw_proof w ctx spec batch) = Inr (Some p) \<Longrightarrow> failures (outputs (withdraw_proof w ctx spec batch)) = []"
  by (simp add: withdraw_proof_def Let_def outputs_bind result_bind split: option.splits sum.splits)

lemma honest_withdraw_with: "honest (withdraw_with w ctx parsed spec batch)"
proof (cases "snd (withdraw_proof w ctx spec batch)")
  case (Inl e)
  then show ?thesis by (simp add: withdraw_with_def honest_def result_bind)
next
  case (Inr p)
  show ?thesis
  proof (cases p)
    case None
    with Inr show ?thesis by (simp add: withdraw_with_def honest_def result_bind)
  next
    case (Some q)
    with Inr have "failures (outputs (withdraw_proof w ctx spec batch)) = []" by (simp add: withdraw_proof_failures)
    then show ?thesis unfolding withdraw_with_def withdraw_submit_def Let_def
      by (auto intro!: honest_rules split: option.split withdraw_parts.split)
  qed
qed

lemma honest_withdraw: "honest (cmdWithdraw w ctx parsed)"
  unfolding cmdWithdraw_def Let_def by (auto intro!: honest_lift honest_withdraw_with split: sum.split)

lemma failures_events [simp]:
  "failures (map watch_line xs) = []" "failures (map (tower_line w) ys) = []" "failures (map advice_line zs) = []"
  by (rule failures_none; auto simp: watch_line_def tower_line_def advice_line_def split: watch_event.splits wt_event.splits)+

lemma honest_watch: "honest (cmdWatch w ctx parsed)"
  unfolding cmdWatch_def Let_def by simp

lemma honest_watchtower: "honest (cmdWatchtower w ctx parsed)"
  unfolding cmdWatchtower_def Let_def by simp

lemma honest_advise: "honest (cmdAdvise ctx parsed)"
  unfolding cmdAdvise_def Let_def by simp

lemma honest_receipt_verify: "honest (cmdReceiptVerify w ctx parsed)"
  unfolding cmdReceiptVerify_def verify_lines_def CHECK_LABELS_def Let_def by (auto split: sum.split)

lemma receipt_lines_quiet [simp]: "failures (receipt_lines rid i r out) = []"
  by (simp add: receipt_lines_def)

lemma honest_receipt: "honest (cmdReceipt w ctx parsed)"
  unfolding cmdReceipt_def Let_def
  by (auto intro!: honest_receipt_verify honest_lift honest_do split: option.split)

lemma honest_command: "honest (run_command w fetch ctx parsed c)"
  unfolding run_command_def dispatch_def
  by (simp add: honest_doctor honest_create honest_status honest_watch honest_advise honest_receipt honest_watchtower
      honest_params honest_suggest honest_lifecycle honest_keygen honest_manifest honest_withdraw honest_faucet)

subsection \<open>JSON mode\<close>

text \<open>A command that returns has printed at most one value, one that throws none.\<close>

abbreviation hidden :: "out_event list \<Rightarrow> bool" where
  "hidden os \<equiv> filter (console_shows True) os = []"

definition frugal :: "'a io \<Rightarrow> bool" where
  "frugal m \<longleftrightarrow> length (on_stdout m) \<le> (case snd m of Inl e \<Rightarrow> 0 | Inr c \<Rightarrow> 1)"

lemma frugal_ret [simp]: "frugal (io_ret c)" "frugal (fail_with t)"
  by (simp_all add: frugal_def on_stdout_def)

lemma frugal_last [simp]: "frugal (say os (io_ret c)) \<longleftrightarrow> length (filter (console_shows True) os) \<le> 1"
  by (simp add: frugal_def on_stdout_def)

lemma frugal_say [simp]: "hidden os \<Longrightarrow> frugal (say os (io_bind m f)) \<longleftrightarrow> frugal (io_bind m f)"
  by (simp add: frugal_def on_stdout_def)

lemma frugal_do: "frugal m \<Longrightarrow> frugal (io_do [WriteFile p c] m)"
  by (simp add: frugal_def on_stdout_def)

lemma frugal_bind: "hidden (outputs m) \<Longrightarrow> (\<And>x. snd m = Inr x \<Longrightarrow> frugal (f x)) \<Longrightarrow> frugal (io_bind m f)"
  by (cases "snd m") (auto simp: frugal_def on_stdout_def outputs_bind result_bind)

lemma frugal_lift: "(\<And>x. r = Inr x \<Longrightarrow> frugal (f x)) \<Longrightarrow> frugal (io_bind (io_lift r) f)"
  by (rule frugal_bind) simp_all

lemmas frugal_rules = frugal_do frugal_bind frugal_lift

lemma hidden_lines [simp]:
  "hidden (map check_line cs)" "hidden (map Warning xs)" "hidden (map watch_line es)"
  "hidden (map (tower_line w) ws)" "hidden (map advice_line zs)" "hidden (map (\<lambda>x. Warning (g x)) us)"
  "hidden (receipt_lines rid i r out)" "hidden (verify_lines ctx v r x)" "hidden (status_lines w rid ro h)"
  by (auto simp: filter_empty_conv check_line_def watch_line_def tower_line_def advice_line_def receipt_lines_def
      verify_lines_def status_lines_def Let_def
      split: CheckStatus.split watch_event.split wt_event.split option.splits if_splits)

lemma frugal_doctor: "frugal (cmdDoctor w ctx parsed)"
  unfolding cmdDoctor_def Let_def by (auto intro!: frugal_rules)

lemma frugal_create: "frugal (cmdCreate w ctx parsed)"
  unfolding cmdCreate_def create_dry_run_def create_submit_def Let_def by (auto intro!: frugal_rules split: option.split)

lemma frugal_status: "frugal (cmdStatus w ctx parsed)"
  unfolding cmdStatus_def Let_def by (auto intro!: frugal_rules)

lemma frugal_params: "frugal (cmdParams w ctx)"
  unfolding cmdParams_def by (auto intro!: frugal_rules)

lemma frugal_suggest: "frugal (cmdSuggest ctx parsed)"
  unfolding cmdSuggest_def Let_def by auto

lemma frugal_lifecycle: "frugal (cmdLifecycle w ctx parsed action)"
  unfolding cmdLifecycle_def Let_def by (auto intro!: frugal_rules)

lemma frugal_keygen: "frugal (cmdKeygen w ctx)"
  unfolding cmdKeygen_def by (auto intro!: frugal_rules)

lemma frugal_manifest: "frugal (cmdManifest w ctx parsed)"
  unfolding cmdManifest_def manifest_export_def manifest_import_def Let_def by (auto intro!: frugal_rules)

lemma frugal_faucet: "frugal (cmdFaucet fetch ctx parsed)"
  unfolding cmdFaucet_def Let_def by (auto intro!: frugal_rules)

lemma withdraw_proof_hidden [simp]: "hidden (outputs (withdraw_proof w ctx spec batch))"
  by (simp add: withdraw_proof_def Let_def outputs_bind split: option.split sum.split)

lemma frugal_withdraw_with: "frugal (withdraw_with w ctx parsed spec batch)"
  unfolding withdraw_with_def withdraw_submit_def Let_def
  by (auto intro!: frugal_rules split: option.split withdraw_parts.split)

lemma frugal_withdraw: "frugal (cmdWithdraw w ctx parsed)"
  unfolding cmdWithdraw_def Let_def by (auto intro!: frugal_lift frugal_withdraw_with split: sum.split)

lemma frugal_watch: "frugal (cmdWatch w ctx parsed)"
  unfolding cmdWatch_def Let_def by simp

lemma frugal_watchtower: "frugal (cmdWatchtower w ctx parsed)"
  unfolding cmdWatchtower_def Let_def by simp

lemma frugal_advise: "frugal (cmdAdvise ctx parsed)"
  unfolding cmdAdvise_def Let_def by simp

lemma frugal_receipt_verify: "frugal (cmdReceiptVerify w ctx parsed)"
  unfolding cmdReceiptVerify_def Let_def by (simp split: sum.split)

lemma frugal_receipt: "frugal (cmdReceipt w ctx parsed)"
  unfolding cmdReceipt_def Let_def
  by (auto intro!: frugal_receipt_verify frugal_lift frugal_do split: option.split)

lemma frugal_command: "frugal (run_command w fetch ctx parsed c)"
  unfolding run_command_def dispatch_def
  by (simp add: frugal_doctor frugal_create frugal_status frugal_watch frugal_advise frugal_receipt frugal_watchtower
      frugal_params frugal_suggest frugal_lifecycle frugal_keygen frugal_manifest frugal_withdraw frugal_faucet)

subsection \<open>Properties\<close>

text \<open>
  C23: \<open>qorollup create\<close> hands over at most one transaction, and only for a configuration with an id that
  the validation accepts, outside a dry run, and with the user's consent: \<open>--yes\<close>, or an affirmative answer
  to the question that names the rollup and the network.
\<close>

theorem creation_needs_consent:
  "length (transactions (cmdCreate w ctx parsed)) \<le>
     (let cfg = builderFromFlags parsed in
      if rc_rollupId cfg \<noteq> '''' \<and> vr_valid (builder_validationResult cfg) \<and> \<not> flagBool (pl_flags parsed) ''dry-run'' \<and>
         (cx_yes ctx \<or> wd_confirm w (''Create '' @ quote (rc_rollupId cfg) @ '' on '' @ networkName (cx_network ctx) @ ''?''))
      then 1 else 0)"
proof -
  define cfg where "cfg = builderFromFlags parsed"
  have "sends (rc_rollupId cfg \<noteq> '''' \<and> vr_valid (builder_validationResult cfg) \<and> \<not> flagBool (pl_flags parsed) ''dry-run'' \<and>
      (cx_yes ctx \<or> wd_confirm w (''Create '' @ quote (rc_rollupId cfg) @ '' on '' @ networkName (cx_network ctx) @ ''?'')))
    (cmdCreate w ctx parsed)"
    unfolding cmdCreate_def cfg_def [symmetric] Let_def
    by (auto intro!: sends_bind sends_mono [OF create_submit_sends])
  then show ?thesis by (simp add: sends_def cfg_def Let_def)
qed

text \<open>
  \<open>qorollup pause\<close>, \<open>resume\<close> and \<open>stop\<close> hand over at most one transaction, and only for a rollup that
  the chain returned, whose status allows the action, and with the user's consent to the question that
  names the action and the status.
\<close>

theorem lifecycle_needs_consent:
  "length (transactions (cmdLifecycle w ctx parsed action)) \<le>
     (case getRollup (rk_rest (cx_client ctx)) (the (rollupIdArg parsed)) of
        Inl e \<Rightarrow> 0
      | Inr rollup \<Rightarrow>
          if may_act action (rv_status rollup) \<and>
             (cx_yes ctx \<or> wd_confirm w (rollupActionName action @ '' rollup '' @ quote (the (rollupIdArg parsed)) @
                '' (currently '' @ rv_status rollup @ '')?''))
          then 1 else 0)"
proof (cases "getRollup (rk_rest (cx_client ctx)) (the (rollupIdArg parsed))")
  case (Inl e)
  then show ?thesis by (simp add: cmdLifecycle_def Let_def transactions_bind)
next
  case (Inr r)
  have "sends (may_act action (rv_status r) \<and>
      (cx_yes ctx \<or> wd_confirm w (rollupActionName action @ '' rollup '' @ quote (the (rollupIdArg parsed)) @
         '' (currently '' @ rv_status r @ '')?''))) (cmdLifecycle w ctx parsed action)"
    unfolding cmdLifecycle_def Let_def
    using Inr by (auto intro!: sends_bind sends_mono [OF sends_tx [OF lifecycle_tx_outcome]])
  then show ?thesis by (simp add: sends_def Inr)
qed





subsection \<open>Files handed from one command to another\<close>

lemma files_simps [simp]:
  "files (io_ret x) = []" "files (say os m) = files m" "files (fail_with t) = []"
  "files (io_do [WriteFile p c] m) = (p, c) # files m"
  by (simp_all add: files_def io_ret_def say_def io_do_def fail_with_def List.map_filter_def)

lemma field_of_text [simp]: "text_of (Some (JStr s)) = s" "text_of (map_option JStr (Some s)) = s"
  by (simp_all add: text_of_def)

lemma num_or_JNum [simp]: "num_or n (Some (JNum i)) = i"
  by (simp add: num_or_def)

lemma receipt_fields: "receipt_json r = Some j \<Longrightarrow> is_object j \<and> list_all (\<lambda>f. field_of j f \<noteq> None) RECEIPT_FIELDS"
  by (cases "sr_version r") (auto simp: receipt_json_def RECEIPT_FIELDS_def field_present simp del: field_of.simps present_fields.simps)

lemma receipt_back: "receipt_json r = Some j \<Longrightarrow> receipt_of_json j = r"
  by (cases "sr_version r")
    (auto simp: receipt_json_def receipt_of_json_def text_field_def field_present option.map_comp option.map_ident comp_def Let_def
      simp del: field_of.simps present_fields.simps)

lemma receipt_distinct: "receipt_json r = Some j \<Longrightarrow> distinct_keys j"
  by (cases "sr_version r")
    (auto simp: receipt_json_def intro!: present_distinct_keys opt_distinct_map simp del: present_fields.simps)

lemma receipt_parsed: "file_text (ReceiptText r) = Some t \<Longrightarrow> \<exists>j. receipt_json r = Some j \<and> JSON_parse t = Inr j"
  using parse_pretty [OF receipt_distinct, of r _ "newline []"] by (auto simp: newline_def)

lemma receipt_file_read:
  assumes "file_text (ReceiptText r) = Some t" "wd_readFile w path = Inr t"
  shows "\<exists>j. readReceiptFile w path = Inr j \<and> receipt_of_json j = r"
proof -
  obtain j where j: "receipt_json r = Some j" "JSON_parse t = Inr j" using receipt_parsed [OF assms(1)] by blast
  have "filter (\<lambda>f. field_of j f = None) RECEIPT_FIELDS = []"
    using receipt_fields [OF j(1)] by (simp add: filter_empty_conv list_all_iff)
  moreover have "\<exists>fs. j = JObj fs" using receipt_fields [OF j(1)] by (cases j) simp_all
  ultimately show ?thesis using j assms(2) receipt_back by (auto simp: readReceiptFile_def)
qed

lemma receipt_text_verdict:
  assumes "file_text (ReceiptText r) = Some t"
  shows "snd (cmdReceiptVerify (w\<lparr>wd_readFile := (\<lambda>_. Inr t)\<rparr>) ctx (parsed\<lparr>pl_positionals := [''verify'', c # path]\<rparr>)) = Inr 0 \<longleftrightarrow>
    rr_valid (verifySettlementReceipt (wd_pqcVerify w) r (Some (cx_client ctx)) None)"
proof -
  define w' where "w' = w\<lparr>wd_readFile := (\<lambda>_. Inr t)\<rparr>"
  obtain j where j: "readReceiptFile w' (c # path) = Inr j" "receipt_of_json j = r"
    using receipt_file_read [OF assms, of w' "c # path"] by (auto simp: w'_def)
  have "wd_pqcVerify w' = wd_pqcVerify w" by (simp add: w'_def)
  moreover have "second_positional (parsed\<lparr>pl_positionals := [''verify'', c # path]\<rparr>) = Some (c # path)"
    by (simp add: second_positional_def head_of_def)
  ultimately show ?thesis
    using assms j unfolding w'_def
    by (simp add: cmdReceiptVerify_def falsy_def exit_code_def Let_def del: file_text.simps)
qed

lemma receipt_text_given: "file_text (ReceiptText r) = None \<longleftrightarrow> sr_version r = Fraction"
  by (cases "sr_version r") (simp_all add: receipt_json_def)

text \<open>
  C26: A settlement receipt survives being handed over as a file. The text of a receipt with a whole version is
  read back by \<open>qorollup receipt verify\<close> as the same receipt: the exit code is the verdict on the receipt
  that was written, for whatever client verifies it.
\<close>

theorem receipt_file_verdict:
  "case file_text (ReceiptText r) of
     None \<Rightarrow> sr_version r = Fraction
   | Some t \<Rightarrow>
       (snd (cmdReceiptVerify (w\<lparr>wd_readFile := (\<lambda>_. Inr t)\<rparr>) ctx (parsed\<lparr>pl_positionals := [''verify'', c # path]\<rparr>)) = Inr 0 \<longleftrightarrow>
        rr_valid (verifySettlementReceipt (wd_pqcVerify w) r (Some (cx_client ctx)) None))"
  using receipt_text_given [of r] receipt_text_verdict [of r _ w ctx c path parsed]
  by (simp del: file_text.simps split: option.split)

lemma preset_json: "\<exists>j. config_json (makePreset p (no_overrides\<lparr>ov_rollupId := r\<rparr>)) = Some j"
  by (cases p) (simp_all add: makePreset_def builder_set_def no_overrides_def over_def preset_base_def config_json_def)

text \<open>
  C30: What \<open>qorollup manifest export\<close> writes, \<open>qorollup manifest import\<close> loads: the file is written exactly when a
  rollup id and a file name are given, its text is read back, and the import reports the configuration of the
  chosen preset under that id, with its validation result as the exit code.
\<close>

theorem exported_manifest_imports:
  "length (files (manifest_export ctx parsed)) =
     (if falsy (flagStr (pl_flags parsed) ''rollup-id'') \<or> falsy (flagStr (pl_flags parsed) ''out'') then 0 else 1) \<and>
   list_all (\<lambda>(path, c).
     case file_text c of
       None \<Rightarrow> False
     | Some t \<Rightarrow>
         let config = makePreset (profileFromFlags parsed) (no_overrides\<lparr>ov_rollupId := flagStr (pl_flags parsed) ''rollup-id''\<rparr>);
             run = manifest_import (w\<lparr>wd_readFile := (\<lambda>_. Inr t)\<rparr>) (other\<lparr>cx_json := True\<rparr>)
               (parsed'\<lparr>pl_positionals := [''import'', path]\<rparr>)
         in snd run = Inr (exit_code (vr_valid (validateRollupConfig config))) \<and>
            outputs run = [Json (ShownImport config (vr_valid (validateRollupConfig config)) (vr_errors (validateRollupConfig config)))])
     (files (manifest_export ctx parsed))"
proof (cases "falsy (flagStr (pl_flags parsed) ''rollup-id'') \<or> falsy (flagStr (pl_flags parsed) ''out'')")
  case True
  then show ?thesis by (auto simp: manifest_export_def Let_def)
next
  case False
  define config where
    "config = makePreset (profileFromFlags parsed) (no_overrides\<lparr>ov_rollupId := flagStr (pl_flags parsed) ''rollup-id''\<rparr>)"
  define m where "m = toManifest config
     \<lparr>mo_network = cx_network ctx, mo_chainId = Some (nc_chainId (rk_network (cx_client ctx))),
      mo_endpoints = Some (endpoint_list (nc_endpoints (rk_network (cx_client ctx)))), mo_addresses = None,
      mo_createdAt = flagStr (pl_flags parsed) ''created-at'', mo_notes = None\<rparr>"
  obtain path where path: "flagStr (pl_flags parsed) ''out'' = Some path" "path \<noteq> ''''"
    using False by (auto simp: falsy_def)
  have written: "files (manifest_export ctx parsed) = [(path, ManifestText m)]"
    using False path by (simp add: manifest_export_def Let_def m_def config_def)
  obtain j where "config_json config = Some j" using preset_json unfolding config_def by blast
  then obtain t where t: "stringifyManifest m = Some t"
    by (auto simp: m_def stringifyManifest_def manifest_json_def toManifest_def)
  then have "parseManifest t = Inr (Some m)"
    by (rule parse_stringified) (simp_all add: m_def toManifest_def keyed_once_def endpoint_list_def)
  then have "res_bind (parseManifest t) fromManifest = Inr config" by (simp add: fromManifest_def m_def toManifest_def)
  with t path written False show ?thesis
    by (simp add: config_def [symmetric] manifest_import_def second_positional_def head_of_def Let_def io_bind_def io_lift_def
        builder_validationResult_def orElse_def falsy_def outputs_def say_def io_do_def io_ret_def List.map_filter_def
        \<open>parseManifest t = Inr (Some m)\<close>)
qed

end
