(* ===== verification/Pipeline.thy ===== *)
theory Pipeline
  imports Entry
begin

text \<open>
  From the submission of a batch to the verdict on its receipt: the transaction client, the chain's record,
  \<open>qorollup receipt\<close> and \<open>qorollup receipt verify\<close> in one story. The chain is not part of the repository; what it
  shows after it has taken up a batch is the condition \<open>chain_holds\<close> on the answers of a node, by the mapping of
  message fields to view fields that the kit documents.

  Shown: a batch that the creator submits with the anchor signature the client attaches has a receipt, the
  receipt can be written to a file and handed over, and whoever verifies the file is told that it is genuine.
\<close>

subsection \<open>What the chain shows of a batch\<close>

text \<open>
  The rollup with its layer and creator, the batch with its state root, the anchor made of the message and no
  other anchor of that root, and the creator's key.
\<close>

definition chain_holds :: "RestClient \<Rightarrow> string \<Rightarrow> string \<Rightarrow> MsgSubmitBatch \<Rightarrow> int \<Rightarrow> int \<Rightarrow> bytes \<Rightarrow> bool" where
  "chain_holds rest layer creator m height time pk \<longleftrightarrow>
     (case getRollup rest (msb_rollupId m) of Inl e \<Rightarrow> False
      | Inr rollup \<Rightarrow> rv_layerId rollup = layer \<and> rv_creator rollup = creator) \<and>
     (case getBatch rest (msb_rollupId m) (msb_batchIndex m) of Inl e \<Rightarrow> False
      | Inr batch \<Rightarrow> bv_stateRoot batch = bytesToHex (msb_stateRoot m)) \<and>
     (case getAnchors rest layer of Inl e \<Rightarrow> False
      | Inr anchors \<Rightarrow>
          anchor_of_batch layer m height time \<in> set anchors \<and>
          list_all (\<lambda>a. av_stateRoot a \<noteq> bytesToHex (msb_stateRoot m) \<or> a = anchor_of_batch layer m height time) anchors) \<and>
     (case getPqcAccount rest creator of Inl e \<Rightarrow> False
      | Inr account \<Rightarrow> qv_publicKey account = bytesToHex pk)"

text \<open>The receipt of a recorded batch.\<close>

definition receipt_of_batch :: "RdkClient \<Rightarrow> string \<Rightarrow> string \<Rightarrow> MsgSubmitBatch \<Rightarrow> int \<Rightarrow> int \<Rightarrow> SettlementReceipt" where
  "receipt_of_batch client layer creator m height time =
     receiptFromParts (msb_rollupId m) layer (msb_batchIndex m) creator (anchor_of_batch layer m height time)
       (bytesToHex (msb_stateRoot m)) (nc_chainId (rk_network client))"

lemma find_only:
  assumes "x \<in> set xs" "P x" "\<And>y. y \<in> set xs \<Longrightarrow> P y \<Longrightarrow> y = x"
  shows "find P xs = Some x"
proof (cases "find P xs")
  case None
  with assms(1,2) show ?thesis by (simp add: find_None_iff)
next
  case (Some y)
  then have "y \<in> set xs" "P y" by (auto simp: find_Some_iff in_set_conv_nth)
  with Some assms(3) show ?thesis by simp
qed

lemma recorded_receipt_built:
  assumes "chain_holds (rk_rest client) layer creator m height time pk" "layer \<noteq> ''''" "msb_stateRoot m \<noteq> []"
  shows "buildSettlementReceipt client (msb_rollupId m) (msb_batchIndex m) =
    Inr (receipt_of_batch client layer creator m height time)"
proof -
  let ?a = "anchor_of_batch layer m height time"
  from assms(1) obtain rollup batch anchors where h:
    "getRollup (rk_rest client) (msb_rollupId m) = Inr rollup" "rv_layerId rollup = layer" "rv_creator rollup = creator"
    "getBatch (rk_rest client) (msb_rollupId m) (msb_batchIndex m) = Inr batch" "bv_stateRoot batch = bytesToHex (msb_stateRoot m)"
    "getAnchors (rk_rest client) layer = Inr anchors" "?a \<in> set anchors"
    "\<And>a. a \<in> set anchors \<Longrightarrow> av_stateRoot a = bytesToHex (msb_stateRoot m) \<Longrightarrow> a = ?a"
    by (auto simp: chain_holds_def list_all_iff split: sum.splits)
  have root: "av_stateRoot ?a = bytesToHex (msb_stateRoot m)" "bytesToHex (msb_stateRoot m) \<noteq> ''''"
    using assms(3) by (simp_all add: anchor_of_batch_def)
  have "find (\<lambda>a. av_stateRoot a \<noteq> '''' \<and> av_stateRoot a = bytesToHex (msb_stateRoot m)) anchors = Some ?a"
  proof (rule find_only [OF h(7)])
    show "av_stateRoot ?a \<noteq> '''' \<and> av_stateRoot ?a = bytesToHex (msb_stateRoot m)" unfolding root(1) using root(2) by blast
    show "y = ?a" if "y \<in> set anchors" "av_stateRoot y \<noteq> '''' \<and> av_stateRoot y = bytesToHex (msb_stateRoot m)" for y
      using that h(8) by blast
  qed
  moreover have "wire_root_hex (bv_stateRoot batch) = Inr (bytesToHex (msb_stateRoot m))"
    unfolding h(5) by (simp add: wire_root_hex_def)
  ultimately show ?thesis
    using h(1-4,6) root assms(2) by (simp add: buildSettlementReceipt_def receipt_of_batch_def)
qed

lemma receipt_of_batch_fields [simp]:
  "sr_creator (receipt_of_batch client layer creator m height time) = creator"
  "sr_layerId (receipt_of_batch client layer creator m height time) = layer"
  "sr_stateRoot (receipt_of_batch client layer creator m height time) = bytesToHex (msb_stateRoot m)"
  "sr_version (receipt_of_batch client layer creator m height time) = Whole RECEIPT_VERSION"
  by (simp_all add: receipt_of_batch_def receiptFromParts_def anchor_of_batch_def)

lemma recorded_receipt_valid:
  assumes "chain_holds (rk_rest client) layer creator m height time pk" "layer \<noteq> ''''" "msb_stateRoot m \<noteq> []" "pk \<noteq> []"
    and "nc_chainId (rk_network client) \<noteq> ''''" "nc_anchorSignV2Height (rk_network client) \<le> height"
    and "signatureOver pqcVerify (anchor_of_batch layer m height time) (bytesToHex pk) (nc_chainId (rk_network client)) V2"
  shows "rr_valid (verifySettlementReceipt pqcVerify (receipt_of_batch client layer creator m height time) (Some client) None)"
proof -
  from assms(1) obtain account where account: "getPqcAccount (rk_rest client) creator = Inr account" "qv_publicKey account = bytesToHex pk"
    by (auto simp: chain_holds_def split: sum.splits)
  have only: "a = anchor_of_batch layer m height time"
    if "getAnchors (rk_rest client) layer = Inr anchors" "a \<in> set anchors" "av_stateRoot a = bytesToHex (msb_stateRoot m)" for anchors a
    using assms(1) that by (auto simp: chain_holds_def list_all_iff)
  have "anchorSignBytesVersionFor (av_mainChainHeight (anchor_of_batch layer m height time))
      (nc_anchorSignV2Height (rk_network client)) = V2"
    using assms(6) by (simp add: anchorSignBytesVersionFor_def anchor_of_batch_def)
  with built_receipt_valid [OF recorded_receipt_built [OF assms(1-3)] assms(5), of account pqcVerify None] assms(4,7) account only
  show ?thesis by (metis receipt_of_batch_fields(1,2,3) bytesToHex_eq_Nil)
qed

subsection \<open>The two commands\<close>

lemma receipt_written:
  assumes "pl_positionals parsed = [rid, show_int n]" "flagStr (pl_flags parsed) ''rollup-id'' = None"
    and "flagStr (pl_flags parsed) ''out'' = Some (c # path)" "rid \<noteq> ''verify''" "rid \<noteq> ''''"
    and "buildSettlementReceipt (cx_client ctx) rid n = Inr r"
  shows "files (cmdReceipt w ctx parsed) = [(c # path, ReceiptText r)]"
  using assms
  by (simp add: cmdReceipt_def first_positional_def second_positional_def rollupIdArg_def orElse_def head_of_def falsy_def Let_def
      files_def io_bind_def io_lift_def io_do_def say_def io_ret_def List.map_filter_def split: option.split)

subsection \<open>Properties\<close>

text \<open>
  C21: From submission to verdict. A hybrid client submits a batch without a signature of the caller's and attaches
  one itself. Once the chain holds the batch and its anchor, \<open>qorollup receipt\<close> writes the batch's receipt into
  the file it is given, and \<open>qorollup receipt verify\<close>, run on that file by anybody against the chain, ends with 0;
  for any signature scheme that accepts its own signatures, past the height from which anchors bind the chain.
\<close>

theorem submission_to_verdict:
  assumes "falsy_bytes (si_anchorSignature input)"
    and "fst (submitBatch env c input opts) = [b]" "call_messages b = [\<lparr>eo_typeUrl = u, eo_value = SubmitBatch m\<rparr>]"
    and "msb_anchorSignature m \<noteq> []" "msb_stateRoot m \<noteq> []" "pk \<noteq> []"
    and "\<And>h msg. tc_hybrid c = Some h \<Longrightarrow>
      wd_pqcVerify w pk msg (tv_pqcSign env (pk_secretKey (hc_pqcKeypair h)) msg) = Inr True"
    and "getRollup (client_rest env c) (msb_rollupId m) = Inr rollup" "rv_layerId rollup \<noteq> ''''"
    and "uc_getChainId (tc_client c) = Some (Inr (nc_chainId (rk_network (cx_client ctx))))"
      "nc_chainId (rk_network (cx_client ctx)) \<noteq> ''''" "nc_anchorSignV2Height (rk_network (cx_client ctx)) \<le> height"
    and "chain_holds (rk_rest (cx_client ctx)) (rv_layerId rollup) (tc_address c) m height time pk"
    and "pl_positionals parsed = [msb_rollupId m, show_int (msb_batchIndex m)]" "msb_rollupId m \<notin> {'''', ''verify''}"
      "flagStr (pl_flags parsed) ''rollup-id'' = None" "flagStr (pl_flags parsed) ''out'' = Some (ch # path)"
  shows "\<exists>t. file_text (ReceiptText (receipt_of_batch (cx_client ctx) (rv_layerId rollup) (tc_address c) m height time)) = Some t \<and>
    files (cmdReceipt w ctx parsed) =
      [(ch # path, ReceiptText (receipt_of_batch (cx_client ctx) (rv_layerId rollup) (tc_address c) m height time))] \<and>
    snd (cmdReceiptVerify (w\<lparr>wd_readFile := (\<lambda>_. Inr t)\<rparr>) ctx (parsed'\<lparr>pl_positionals := [''verify'', ch # path]\<rparr>)) = Inr 0"
proof -
  let ?r = "receipt_of_batch (cx_client ctx) (rv_layerId rollup) (tc_address c) m height time"
  obtain i where "anchored_input env c input (or_default (so_anchor opts) AnchorAuto) = Inr i"
    "submitBatchMsg (i\<lparr>si_sequencer := tc_address c\<rparr>) = Inr \<lparr>eo_typeUrl = u, eo_value = SubmitBatch m\<rparr>"
    using submit_sends [OF assms(2,3)] .
  then have "si_rollupId input = msb_rollupId m"
    using submit_msg_fields(6) [of "i\<lparr>si_sequencer := tc_address c\<rparr>"] anchored_input_cases by fastforce
  with attached_anchor_signed [OF assms(1-4,6), of "wd_pqcVerify w" height time] assms(7,8,10)
  have "signatureOver (wd_pqcVerify w) (anchor_of_batch (rv_layerId rollup) m height time) (bytesToHex pk)
      (nc_chainId (rk_network (cx_client ctx))) V2" by auto
  then have "rr_valid (verifySettlementReceipt (wd_pqcVerify w) ?r (Some (cx_client ctx)) None)"
    by (rule recorded_receipt_valid [OF assms(13,9,5,6,11,12)])
  moreover have "file_text (ReceiptText ?r) \<noteq> None"
    unfolding receipt_text_given by simp
  moreover have "files (cmdReceipt w ctx parsed) = [(ch # path, ReceiptText ?r)]"
    using assms(15) by (intro receipt_written [OF assms(14,16,17)] recorded_receipt_built [OF assms(13,9,5)]) auto
  ultimately show ?thesis using receipt_text_verdict by blast
qed

text \<open>Amy's batch on the node of \<open>demo_body\<close>, and two parties that talk to it.\<close>

definition demo_world :: cli_world where
  "demo_world = \<lparr>wd_tx = demo_env, wd_sdk = toy_sdk, wd_pqcVerify = trusting, wd_shake = toy_hash, wd_confirm = (\<lambda>_. True),
     wd_mnemonic = '''', wd_readFile = (\<lambda>_. Inl (JsError ''absent'')), wd_percent = (\<lambda>s. s), wd_iso = show_int,
     wd_attributes = (\<lambda>_. ''''), wd_odd_index = (\<lambda>_. Inl (JsError ''odd'')), wd_number = (\<lambda>s. s), wd_polls = [], wd_ticks = []\<rparr>"

definition demo_context :: CliContext where
  "demo_context = \<lparr>cx_client = demo_client, cx_json = True, cx_yes = True, cx_network = testnet, cx_signerEnv = Map.empty,
     cx_gasPrice = '''', cx_faucetUrl = None\<rparr>"

definition demo_call :: "string list \<Rightarrow> ParsedCli" where
  "demo_call args = \<lparr>pl_command = Some ''receipt'', pl_positionals = args, pl_flags = [''out'' \<mapsto> FText ''r.json''],
     pl_help = False, pl_version = False\<rparr>"

lemma demo_chain_holds: "chain_holds (rk_rest demo_client) ''l'' ''amy'' demo_msg 7000000 5 [0xdd]"
  by code_simp

lemma demo_anchored:
  "falsy_bytes (si_anchorSignature demo_batch)" "msb_anchorSignature demo_msg \<noteq> []" "msb_stateRoot demo_msg \<noteq> []"
  "msb_rollupId demo_msg = ''r''" "msb_batchIndex demo_msg = 0" "tc_address demo_tx = ''amy''"
  "uc_getChainId (tc_client demo_tx) = Some (Inr ''qorechain-diana'')"
  by (simp_all add: demo_batch_def falsy_bytes_def demo_msg_def demo_tx_def demo_transport_def)

lemma demo_network:
  "nc_chainId (rk_network demo_client) = ''qorechain-diana''" "nc_anchorSignV2Height (rk_network demo_client) \<le> 7000000"
  by (simp_all add: demo_client_def createRdkClient_def getNetwork_def Let_def)

lemma demo_rollup:
  "case getRollup (client_rest demo_env demo_tx) ''r'' of Inl e \<Rightarrow> False | Inr rollup \<Rightarrow> rv_layerId rollup = ''l''"
  by code_simp

lemma submission_to_verdict_witness:
  "\<exists>t. map fst (files (cmdReceipt demo_world demo_context (demo_call [''r'', ''0'']))) = [''r.json''] \<and>
    snd (cmdReceiptVerify (demo_world\<lparr>wd_readFile := (\<lambda>_. Inr t)\<rparr>) demo_context (demo_call [''verify'', ''r.json''])) = Inr 0"
proof -
  obtain b where b: "fst (submitBatch demo_env demo_tx demo_batch no_options) = [b]"
    "call_messages b = [\<lparr>eo_typeUrl = MsgSubmitBatch_typeUrl, eo_value = SubmitBatch demo_msg\<rparr>]"
    using demo_submit by (auto simp: map_eq_Cons_conv)
  obtain rollup where rollup: "getRollup (client_rest demo_env demo_tx) ''r'' = Inr rollup" "rv_layerId rollup = ''l''"
    using demo_rollup by (auto split: sum.splits)
  have v: "wd_pqcVerify demo_world pk msg s = Inr True" for pk msg s by (simp add: demo_world_def trusting_def)
  have c: "cx_client demo_context = demo_client" by (simp add: demo_context_def)
  have z: "show_int 0 = ''0''" by code_simp
  have call: "demo_call [''verify'', ''r.json''] = (demo_call [])\<lparr>pl_positionals := [''verify'', CHR ''r'' # ''.json'']\<rparr>"
    by (simp add: demo_call_def)
  show ?thesis
    unfolding call
    using submission_to_verdict [OF demo_anchored(1) b demo_anchored(2,3), of "[0xdd]" demo_world rollup demo_context 7000000 5
        "demo_call [''r'', ''0'']" "CHR ''r''" "''.json''" "demo_call []"] v rollup demo_chain_holds demo_network
    by (auto simp: demo_anchored c z demo_call_def flagStr_def)
qed

end
