(* ===== verification/Scaffold.thy ===== *)
theory Scaffold
  imports CliArgs Json Rest Messages "HOL-Library.List_Lexorder"
begin

text \<open>
  The scaffolding command \<open>create-qorechain-rollup\<close>: \<open>src/cli/src/scaffold.ts\<close> and its entry point
  \<open>index.ts\<close>. A directory is a tree of named entries; a file holds a text, and \<open>package.json\<close> is read
  and written with the functions of \<open>Json\<close>. The record \<open>disk\<close> holds what the command finds: the directory of its
  module, the working directory, the tree under every absolute path, and what a package manager does. The
  prompts are the functions of \<open>answers\<close>, parameters for the terminal library. Paths are those of POSIX, and
  colours are left out. A result holds what is at the target in the end.

  Shown: a directory that is not empty is left alone; what a successful run leaves in the target, entry by
  entry; nothing that the copy must skip is copied; a run whose prompts honour their contract scaffolds a known
  template into a directory that is missing or empty; the shape of the generated package name; and that the
  network chosen has no effect.
\<close>

subsection \<open>Files and paths\<close>

datatype node = File string | Dir "(string \<times> node) list"

type_synonym path = "string list"

text \<open>\<open>split\<close> at every character of a class.\<close>

fun parts :: "(char \<Rightarrow> bool) \<Rightarrow> string \<Rightarrow> string list" where
  "parts sep [] = [[]]"
| "parts sep (c # cs) =
     (if sep c then [] # parts sep cs
      else case parts sep cs of [] \<Rightarrow> [[c]] | p # ps \<Rightarrow> (c # p) # ps)"

definition slash :: char where "slash = CHR ''/''"

text \<open>\<open>resolve\<close> and \<open>join\<close> of the path module: an absolute path is the list of its segments.\<close>

definition enter :: "path \<Rightarrow> string \<Rightarrow> path" where
  "enter p s = (if s = '''' \<or> s = ''.'' then p else if s = ''..'' then butlast p else p @ [s])"

definition resolve_path :: "path \<Rightarrow> string \<Rightarrow> path" where
  "resolve_path cwd s =
     foldl enter (if s \<noteq> '''' \<and> hd s = slash then [] else cwd) (parts (\<lambda>c. c = slash) s)"

definition path_text :: "path \<Rightarrow> string" where
  "path_text p = slash # join [slash] p"

definition path_name :: "path \<Rightarrow> string" where
  "path_name p = (if p = [] then '''' else last p)"

definition COPY_SKIP :: "string list" where
  "COPY_SKIP = [''node_modules'', ''dist'', ''.turbo'', ''coverage'']"

text \<open>The filter of the copy sees the parts of a name; the list of an entry is copied into an empty directory.\<close>

definition skipped :: "string \<Rightarrow> bool" where
  "skipped n \<longleftrightarrow> list_ex (\<lambda>p. p \<in> set COPY_SKIP) (parts (\<lambda>c. c = slash \<or> c = CHR 0x5c) n)"

fun copied :: "(string \<times> node) list \<Rightarrow> (string \<times> node) list" where
  "copied [] = []"
| "copied ((n, x) # es) =
     (if skipped n then copied es
      else (n, case x of File c \<Rightarrow> File c | Dir fs \<Rightarrow> Dir (copied fs)) # copied es)"

text \<open>\<open>sort\<close> of texts compares their code units.\<close>

definition sort_texts :: "string list \<Rightarrow> string list" where
  "sort_texts xs = sort_key (map code) xs"

fun files_under :: "string \<Rightarrow> (string \<times> node) list \<Rightarrow> string list" where
  "files_under base [] = []"
| "files_under base ((n, File c) # es) = (base @ n) # files_under base es"
| "files_under base ((n, Dir fs) # es) = sort_texts (files_under (base @ n @ ''/'') fs) @ files_under base es"

definition listFiles :: "(string \<times> node) list \<Rightarrow> string list" where
  "listFiles es = sort_texts (files_under '''' es)"

subsection \<open>The disk\<close>

text \<open>
  What is on the disk: the directory of the running module, the working directory, what an absolute path
  leads to, and what a package manager that is run in a directory leaves there, with its exit status.
\<close>

record disk =
  dk_here :: path
  dk_cwd :: path
  dk_at :: "path \<Rightarrow> node option"
  dk_spawn :: "path \<Rightarrow> string \<Rightarrow> string list \<Rightarrow> (string \<times> node) list \<Rightarrow> (string \<times> node) list \<times> int option"

definition KNOWN_TEMPLATE :: string where "KNOWN_TEMPLATE = ''defi-rollup''"

definition resolveTemplatesRoot :: "disk \<Rightarrow> path" where
  "resolveTemplatesRoot d =
     (let bundled = foldl enter (dk_here d) [''..'', ''templates''];
          sourceLevel = foldl enter (dk_here d) [''..'', ''..'', ''templates'']
      in if dk_at d (bundled @ [KNOWN_TEMPLATE]) \<noteq> None then bundled
         else if dk_at d (sourceLevel @ [KNOWN_TEMPLATE]) \<noteq> None then sourceLevel
         else bundled)"

definition resolveMonorepoRoot :: "disk \<Rightarrow> path" where
  "resolveMonorepoRoot d =
     (let candidates = [foldl enter (dk_here d) [''..'', ''..''], foldl enter (dk_here d) [''..'', ''..'', ''..'']] in
      case find (\<lambda>c. dk_at d (c @ [''packages'', ''ts'', ''package.json'']) \<noteq> None) candidates of
        Some c \<Rightarrow> c
      | None \<Rightarrow> foldl enter (dk_here d) [''..'', ''..''])"

text \<open>\<open>mkdirSync\<close> makes the directories above as well, unless one of them is a file.\<close>

definition blocked :: "disk \<Rightarrow> path \<Rightarrow> bool" where
  "blocked d p \<longleftrightarrow> list_ex (\<lambda>k. case dk_at d (take k p) of Some (File c) \<Rightarrow> True | _ \<Rightarrow> False) [1..<length p]"

subsection \<open>The package description\<close>

fun set_name :: "string \<Rightarrow> json \<Rightarrow> error + json" where
  "set_name v (JObj fs) = Inr (JObj (set_key ''name'' (JStr v) fs))"
| "set_name v (JArr xs) = Inr (JArr xs)"
| "set_name v j = Inl (JsError ''Cannot set properties of a value that is no object'')"

definition localPackage :: "path \<Rightarrow> string \<Rightarrow> string option" where
  "localPackage monorepoRoot name =
     (if name = ''@qorechain/rdk'' then Some (path_text (monorepoRoot @ [''packages'', ''ts''])) else None)"

definition link_deps :: "path \<Rightarrow> json \<Rightarrow> json" where
  "link_deps monorepoRoot deps =
     (case deps of
        JObj ds \<Rightarrow> JObj (map (\<lambda>(name, v).
          (name, case localPackage monorepoRoot name of Some dir \<Rightarrow> JStr (''file:'' @ dir) | None \<Rightarrow> v)) ds)
      | _ \<Rightarrow> deps)"

definition rewriteLocalDeps :: "path \<Rightarrow> json \<Rightarrow> json" where
  "rewriteLocalDeps monorepoRoot pkg =
     (case pkg of
        JObj fs \<Rightarrow> JObj (map (\<lambda>(section, deps).
          (section, if section \<in> set [''dependencies'', ''devDependencies''] then link_deps monorepoRoot deps else deps)) fs)
      | _ \<Rightarrow> pkg)"

subsection \<open>Scaffolding\<close>

text \<open>An override of the templates' root or of the repository's root is an absolute path.\<close>

record ScaffoldOptions =
  so_template :: string
  so_targetDir :: string
  so_projectName :: string
  so_packageManager :: "string option"
  so_network :: "string option"
  so_install :: bool
  so_local :: bool
  so_templatesRoot :: "path option"
  so_monorepoRoot :: "path option"

record ScaffoldResult =
  st_targetDir :: string
  st_installed :: bool
  st_files :: "string list"

definition installCommand :: "string \<Rightarrow> string \<times> string list" where
  "installCommand pm = (pm, [''install''])"

definition read_package :: "node \<Rightarrow> error + json" where
  "read_package x =
     (case x of
        File t \<Rightarrow> JSON_parse t
      | Dir _ \<Rightarrow> Inl (JsError ''EISDIR: illegal operation on a directory, read''))"

definition package_entry :: "ScaffoldOptions \<Rightarrow> disk \<Rightarrow> node \<Rightarrow> error + node" where
  "package_entry opts d x =
     res_bind (read_package x) (\<lambda>pkg.
     res_bind (set_name (so_projectName opts) pkg) (\<lambda>named.
     Inr (File (json_pretty
       (if so_local opts then rewriteLocalDeps (or_default (so_monorepoRoot opts) (resolveMonorepoRoot d)) named else named) @
       newline []))))"

fun set_entry :: "string \<Rightarrow> node \<Rightarrow> (string \<times> node) list \<Rightarrow> (string \<times> node) list" where
  "set_entry k x [] = [(k, x)]"
| "set_entry k x ((n, y) # es) = (if n = k then (k, x) # es else (n, y) # set_entry k x es)"

definition with_package :: "ScaffoldOptions \<Rightarrow> disk \<Rightarrow> (string \<times> node) list \<Rightarrow> error + (string \<times> node) list" where
  "with_package opts d es =
     (case map_of es ''package.json'' of
        None \<Rightarrow> Inr es
      | Some x \<Rightarrow> res_bind (package_entry opts d x) (\<lambda>y. Inr (set_entry ''package.json'' y es)))"

definition with_env :: "(string \<times> node) list \<Rightarrow> error + (string \<times> node) list" where
  "with_env es =
     (case (map_of es ''.env.example'', map_of es ''.env'') of
        (Some (File c), None) \<Rightarrow> Inr (set_entry ''.env'' (File c) es)
      | (Some (Dir _), None) \<Rightarrow> Inl (JsError ''EISDIR: illegal operation on a directory, read'')
      | _ \<Rightarrow> Inr es)"

definition target_of :: "ScaffoldOptions \<Rightarrow> disk \<Rightarrow> path" where
  "target_of opts d = resolve_path (dk_cwd d) (so_targetDir opts)"

definition install_step ::
  "ScaffoldOptions \<Rightarrow> disk \<Rightarrow> (string \<times> node) list \<Rightarrow> (string \<times> node) list \<times> (error + bool)" where
  "install_step opts d es =
     (if so_install opts then
        let (cmd, args) = installCommand (or_default (so_packageManager opts) ''pnpm'');
            (es', status) = dk_spawn d (target_of opts d) cmd args es
        in (es', if status \<noteq> Some 0
             then Inl (JsError (''Install failed ('' @ cmd @ '' '' @ join '' '' args @ '') with exit code '' @
                    (case status of None \<Rightarrow> ''unknown'' | Some n \<Rightarrow> show_int n) @ ''.''))
             else Inr True)
      else (es, Inr False))"

text \<open>The steps after the copy: what the target then holds, and the result or the error that was thrown.\<close>

definition finish_project ::
  "ScaffoldOptions \<Rightarrow> disk \<Rightarrow> (string \<times> node) list \<Rightarrow> node option \<times> (error + ScaffoldResult)" where
  "finish_project opts d es =
     (case with_package opts d es of
        Inl e \<Rightarrow> (Some (Dir es), Inl e)
      | Inr es1 \<Rightarrow>
          (case with_env es1 of
             Inl e \<Rightarrow> (Some (Dir es1), Inl e)
           | Inr es2 \<Rightarrow>
               (let (es3, result) = install_step opts d es2 in
                (Some (Dir es3), res_bind result (\<lambda>installed.
                  Inr \<lparr>st_targetDir = path_text (target_of opts d), st_installed = installed, st_files = listFiles es3\<rparr>)))))"

text \<open>\<open>cpSync\<close> refuses to copy a directory into itself.\<close>

definition copy_template ::
  "ScaffoldOptions \<Rightarrow> disk \<Rightarrow> path \<Rightarrow> node \<Rightarrow> node option \<times> (error + ScaffoldResult)" where
  "copy_template opts d templateDir template =
     (if take (length templateDir) (target_of opts d) = templateDir
      then (Some (Dir []), Inl (JsError (''Cannot copy '' @ path_text templateDir @ '' to a subdirectory of self '' @
             path_text (target_of opts d))))
      else case template of
          File c \<Rightarrow> (Some (Dir []), Inl (JsError ''Cannot overwrite directory with non-directory''))
        | Dir es \<Rightarrow> finish_project opts d (copied es))"

definition scaffold :: "ScaffoldOptions \<Rightarrow> disk \<Rightarrow> node option \<times> (error + ScaffoldResult)" where
  "scaffold opts d =
     (let targetDir = target_of opts d in
      case findTemplate (so_template opts) of
        None \<Rightarrow> (dk_at d targetDir, Inl (JsError (''Unknown template '' @ in_quotes (so_template opts) @
                  ''. Available templates: '' @ templateIdList @ ''.'')))
      | Some info \<Rightarrow>
          let templateDir = or_default (so_templatesRoot opts) (resolveTemplatesRoot d) @ [tm_id info] in
          (case dk_at d templateDir of
             None \<Rightarrow> (dk_at d targetDir, Inl (JsError (''Template '' @ in_quotes (tm_id info) @
                       '' not found on disk at '' @ path_text templateDir @
                       ''. The package may be built incorrectly.'')))
           | Some template \<Rightarrow>
               (case dk_at d targetDir of
                  Some (Dir (e # es)) \<Rightarrow>
                    (dk_at d targetDir, Inl (JsError (''Target directory is not empty: '' @ path_text targetDir)))
                | Some (File c) \<Rightarrow> (dk_at d targetDir, Inl (JsError ''ENOTDIR: not a directory, scandir''))
                | Some (Dir []) \<Rightarrow> copy_template opts d templateDir template
                | None \<Rightarrow>
                    if blocked d targetDir then (None, Inl (JsError ''ENOTDIR: not a directory, mkdir''))
                    else copy_template opts d templateDir template)))"

subsection \<open>The help text\<close>

definition helpText :: string where
  "helpText =
     (let templates = join [CHR 0x0a] (map (\<lambda>t. ''    '' @ padEnd 18 CHR '' '' (tm_id t) @ '' '' @ tm_hint t) TEMPLATES) in
      join [CHR 0x0a]
       [''create-qorechain-rollup - scaffold a new QoreChain rollup project.'',
        '''',
        ''Usage:'',
        ''  npm create qorechain-rollup <dir> [options]'',
        ''  npx create-qorechain-rollup <dir> [options]'',
        '''',
        ''Arguments:'',
        ''  <dir>                      Target directory for the new project.'',
        '''',
        ''Options:'',
        ''  -t, --template <name>      Template to use. One of:'',
        templates,
        ''      --network <name>       Network preset: testnet | mainnet.'',
        ''      --package-manager <pm> Package manager: pnpm | npm | yarn.'',
        ''  -y, --yes                  Skip prompts and use defaults.'',
        ''      --no-install           Do not install dependencies after scaffolding.'',
        ''      --local                Rewrite @qorechain/* deps to local file: links'',
        ''                             into this monorepo (for local/dev use before the'',
        ''                             packages are published to npm).'',
        ''  -h, --help                 Show this help.'',
        ''  -v, --version              Print the version.'',
        '''',
        ''Examples:'',
        ''  npm create qorechain-rollup my-rollup -- --template defi-rollup'',
        ''  npx create-qorechain-rollup my-rollup --template gaming-rollup --yes'',
        ''  npx create-qorechain-rollup my-rollup -t nft-rollup --local --no-install'',
        ''''])"

subsection \<open>The entry point\<close>

definition isEmptyOrMissing :: "disk \<Rightarrow> path \<Rightarrow> error + bool" where
  "isEmptyOrMissing d p =
     (case dk_at d p of
        None \<Rightarrow> Inr True
      | Some (Dir es) \<Rightarrow> Inr (es = [])
      | Some (File c) \<Rightarrow> Inl (JsError ''ENOTDIR: not a directory, scandir''))"

definition name_char :: "char \<Rightarrow> bool" where
  "name_char c \<longleftrightarrow> (97 \<le> code c \<and> code c \<le> 122) \<or> is_digit c \<or> c \<in> set ''-~._''"

definition dash :: char where "dash = CHR ''-''"

text \<open>The replacements: other characters, dashes at the ends, runs of dashes.\<close>

fun collapse :: "string \<Rightarrow> string" where
  "collapse (x # y # cs) = (if x = dash \<and> y = dash then collapse (y # cs) else x # collapse (y # cs))"
| "collapse cs = cs"

definition trim_dashes :: "string \<Rightarrow> string" where
  "trim_dashes s = rev (dropWhile (\<lambda>c. c = dash) (rev (dropWhile (\<lambda>c. c = dash) s)))"

definition defaultProjectName :: "path \<Rightarrow> string \<Rightarrow> string" where
  "defaultProjectName cwd dir =
     (let base = path_name (resolve_path cwd dir);
          name = collapse (trim_dashes (map (\<lambda>c. if name_char c then c else dash) (toLowerCase base)))
      in if name = '''' then ''qorechain-rollup'' else name)"

text \<open>
  The prompts are those of the terminal library. \<open>an_text\<close> is given the check that a text must pass, which may
  throw, and \<open>an_select\<close> the question and the values to choose from; \<open>None\<close> is a cancelled prompt. An answer is
  given, the run is cancelled, ends with a reason, or throws.
\<close>

record answers =
  an_text :: "(string \<Rightarrow> error + string option) \<Rightarrow> error + string option"
  an_select :: "string \<Rightarrow> string list \<Rightarrow> string option"

datatype prompted = Given string | Bail | Refused string | Threw error

definition chosen_or_bail :: "string option \<Rightarrow> prompted" where
  "chosen_or_bail v = (case v of None \<Rightarrow> Bail | Some x \<Rightarrow> Given x)"

definition usual_dir :: "string \<Rightarrow> string" where
  "usual_dir v = (if v = '''' then ''./my-rollup'' else v)"

definition dir_refusal :: "disk \<Rightarrow> string \<Rightarrow> error + string option" where
  "dir_refusal d v =
     (let dir = usual_dir v in
      res_bind (isEmptyOrMissing d (resolve_path (dk_cwd d) dir)) (\<lambda>free.
      Inr (if \<not> free then Some (''Directory '' @ dir @ '' already exists and is not empty.'') else None)))"

definition promptDir :: "answers \<Rightarrow> disk \<Rightarrow> string option \<Rightarrow> prompted" where
  "promptDir an d initial =
     (if \<not> falsy initial then Given (the initial)
      else case an_text an (dir_refusal d) of
          Inl e \<Rightarrow> Threw e
        | Inr v \<Rightarrow> chosen_or_bail (map_option usual_dir v))"

definition promptTemplate :: "answers \<Rightarrow> string option \<Rightarrow> prompted" where
  "promptTemplate an initial =
     (if \<not> falsy initial then
        (if findTemplate (the initial) = None
         then Refused (''Unknown template '' @ in_quotes (the initial) @ ''. Available: '' @ templateIdList @ ''.'')
         else Given (the initial))
      else chosen_or_bail (an_select an ''Pick a rollup profile'' (map tm_id TEMPLATES)))"

definition promptNetwork :: "answers \<Rightarrow> string option \<Rightarrow> prompted" where
  "promptNetwork an initial =
     (if \<not> falsy initial then Given (the initial)
      else chosen_or_bail (an_select an ''Which network?'' [''testnet'', ''mainnet'']))"

definition promptPackageManager :: "answers \<Rightarrow> string option \<Rightarrow> prompted" where
  "promptPackageManager an initial =
     (if \<not> falsy initial then Given (the initial)
      else chosen_or_bail (an_select an ''Package manager?'' [''pnpm'', ''npm'', ''yarn'']))"

definition nextSteps :: "string \<Rightarrow> string \<Rightarrow> bool \<Rightarrow> string" where
  "nextSteps dir pm installed =
     (let run = (if pm = ''npm'' then ''npm run'' else pm) in
      join [CHR 0x0a]
       ([''cd '' @ dir] @ (if \<not> installed then [pm @ '' install''] else []) @
        [''# set QORE_* endpoints and your operator key in .env (see README)'',
         run @ '' doctor         # preflight checks - run this before create'',
         run @ '' create         # create the rollup on the selected network'',
         run @ '' query-status   # read its config and latest batch'',
         ''# or use the operator CLI: npx @qorechain/rdk-cli status <id>'']))"

definition costNote :: "(string \<Rightarrow> string) \<Rightarrow> error + string" where
  "costNote percent_text =
     res_bind (estimateCreationCost (UStr (dp_minStakeForRollup DEFAULT_RDK_PARAMS)) None) (\<lambda>cost.
     res_bind (uqorToQor (UStr (cc_stakeUqor cost)) DENOM_EXPONENT) (\<lambda>stake.
     res_bind (uqorToQor (UStr (cc_burnUqor cost)) DENOM_EXPONENT) (\<lambda>burn.
     Inr (''Creating a rollup requires a stake (default '' @ stake @ '' QOR) and burns '' @ burn @
          '' QOR on creation ('' @ percent_text (cc_burnRate cost) @ ''%).'' @ [CHR 0x0a] @
          ''These are documented defaults - the project reads the live values from the chain before submitting.''))))"

datatype create_event =
    Intro
  | Step bool
  | Note string string
  | Cancel string
  | Outro string
  | Plain string
  | Complaint string

record create_run =
  cr_events :: "create_event list"
  cr_project :: "(path \<times> node option) option"
  cr_exit :: int

definition bailed :: "create_event list \<Rightarrow> create_run" where
  "bailed es = \<lparr>cr_events = es @ [Cancel ''Operation cancelled.''], cr_project = None, cr_exit = 0\<rparr>"

definition refused :: "create_event list \<Rightarrow> create_run" where
  "refused es = \<lparr>cr_events = es, cr_project = None, cr_exit = 1\<rparr>"

text \<open>\<open>given ?? (yes ? default : prompt)\<close>.\<close>

definition decide :: "string option \<Rightarrow> bool \<Rightarrow> string \<Rightarrow> prompted \<Rightarrow> prompted" where
  "decide v yes usual ask = (case v of Some x \<Rightarrow> Given x | None \<Rightarrow> if yes then Given usual else ask)"

fun asked :: "create_event list \<Rightarrow> prompted \<Rightarrow> (string \<Rightarrow> create_run) \<Rightarrow> create_run" where
  "asked es (Given x) f = f x"
| "asked es Bail f = bailed es"
| "asked es (Refused m) f = refused (es @ [Cancel m])"
| "asked es (Threw e) f = refused (es @ [Complaint (message e)])"

definition create_project ::
  "(string \<Rightarrow> string) \<Rightarrow> disk \<Rightarrow> ParsedArgs \<Rightarrow> create_event list \<Rightarrow> string \<Rightarrow> string \<Rightarrow> string \<Rightarrow> string \<Rightarrow> create_run" where
  "create_project percent_text d parsed es dir template network pm =
     (let projectName = defaultProjectName (dk_cwd d) dir;
          (left, result) = scaffold \<lparr>so_template = template, so_targetDir = dir, so_projectName = projectName,
            so_packageManager = Some pm, so_network = Some network, so_install = pa_install parsed,
            so_local = pa_local parsed, so_templatesRoot = None, so_monorepoRoot = None\<rparr> d;
          project = Some (resolve_path (dk_cwd d) dir, left);
          es1 = es @ [Step (pa_install parsed)]
      in case result of
           Inl e \<Rightarrow> \<lparr>cr_events = es1 @ [Cancel (message e)], cr_project = project, cr_exit = 1\<rparr>
         | Inr r \<Rightarrow>
             let es2 = es1 @ (if pa_local parsed
                   then [Note ''Local mode'' (''Dependencies were rewritten to local file: links into this monorepo.'' @ [CHR 0x0a] @
                           ''Build the workspace packages first (pnpm -r build at the repo root).'')] else [])
             in (case costNote percent_text of
                   Inl e \<Rightarrow> \<lparr>cr_events = es2 @ [Cancel (message e)], cr_project = project, cr_exit = 1\<rparr>
                 | Inr note1 \<Rightarrow>
                     \<lparr>cr_events = es2 @ [Note ''Stake & burn'' note1,
                        Note ''Next steps'' (nextSteps dir pm (st_installed r)),
                        Outro (''Done! Created '' @ projectName @ '' at '' @ st_targetDir r)],
                      cr_project = project, cr_exit = 0\<rparr>))"

definition create_main ::
  "string \<Rightarrow> (string \<Rightarrow> string) \<Rightarrow> disk \<Rightarrow> answers \<Rightarrow> string list \<Rightarrow> create_run" where
  "create_main version percent_text d an argv =
     (case parseArgs argv of
        Inl err \<Rightarrow> refused [Complaint (message err), Complaint ([CHR 0x0a] @ ''Run create-qorechain-rollup --help for usage.'')]
      | Inr parsed \<Rightarrow>
          if pa_help parsed then \<lparr>cr_events = [Plain helpText], cr_project = None, cr_exit = 0\<rparr>
          else if pa_version parsed then \<lparr>cr_events = [Plain version], cr_project = None, cr_exit = 0\<rparr>
          else
            asked [Intro] (decide (pa_dir parsed) (pa_yes parsed) ''./my-rollup'' (promptDir an d None)) (\<lambda>dir.
            asked [Intro] (decide (pa_template parsed) (pa_yes parsed) (tm_id (TEMPLATES ! 0)) (promptTemplate an None)) (\<lambda>template.
            case findTemplate template of
              None \<Rightarrow> refused [Intro, Cancel (''Unknown template '' @ in_quotes template @ ''. Available: '' @ templateIdList @ ''.'')]
            | Some chosen \<Rightarrow>
                let es = [Intro] @ (if \<not> pa_yes parsed
                      then [Note ''Profile'' (tm_label chosen @ '' profile - '' @ tm_hint chosen)] else []) in
                asked es (decide (pa_network parsed) (pa_yes parsed) ''testnet'' (promptNetwork an None)) (\<lambda>network.
                asked es (decide (pa_packageManager parsed) (pa_yes parsed) ''pnpm'' (promptPackageManager an None)) (\<lambda>pm.
                create_project percent_text d parsed es dir template network pm)))))"

subsection \<open>Lemmas\<close>

lemma map_of_set_entry [simp]: "map_of (set_entry k x es) n = (if n = k then Some x else map_of es n)"
  by (induction k x es rule: set_entry.induct) auto

lemma map_of_copied:
  "map_of (copied es) n = (if skipped n then None
     else map_option (\<lambda>x. case x of File c \<Rightarrow> File c | Dir fs \<Rightarrow> Dir (copied fs)) (map_of es n))"
  by (induction es rule: copied.induct) auto

text \<open>No entry, at any depth, has a name that the copy skips.\<close>

fun nothing_skipped :: "(string \<times> node) list \<Rightarrow> bool" where
  "nothing_skipped [] \<longleftrightarrow> True"
| "nothing_skipped ((n, File c) # es) \<longleftrightarrow> \<not> skipped n \<and> nothing_skipped es"
| "nothing_skipped ((n, Dir fs) # es) \<longleftrightarrow> \<not> skipped n \<and> nothing_skipped fs \<and> nothing_skipped es"

lemma names_kept: "\<not> skipped ''package.json''" "\<not> skipped ''.env''" "\<not> skipped ''.env.example''"
  by code_simp+

lemma nothing_skipped_copied: "nothing_skipped (copied es)"
  by (induction es rule: copied.induct) (auto split: node.split)

lemma nothing_skipped_set_entry:
  "\<not> skipped k \<Longrightarrow> nothing_skipped es \<Longrightarrow> nothing_skipped (set_entry k (File c) es)"
proof (induction k "File c" es rule: set_entry.induct)
  case (2 k n y es)
  then show ?case by (cases y) auto
qed simp

lemma sorted_sort_texts [simp]: "sorted (map (map code) (sort_texts xs))"
  by (simp add: sort_texts_def)

lemma package_entry_file: "package_entry opts d x = Inr y \<Longrightarrow> \<exists>c. y = File c"
  by (auto simp: package_entry_def res_bind_eq_Inr)

lemma with_package_entry:
  assumes "with_package opts d es = Inr es1"
  shows "map_of es1 n = (if n = ''package.json'' then map_of es1 n else map_of es n)"
    "(case map_of es ''package.json'' of None \<Rightarrow> Inr None | Some x \<Rightarrow> res_bind (package_entry opts d x) (\<lambda>y. Inr (Some y))) =
       Inr (map_of es1 ''package.json'')"
    "nothing_skipped es \<Longrightarrow> nothing_skipped es1"
  using assms
  by (auto simp: with_package_def res_bind_eq_Inr split: option.splits)
    (auto simp: names_kept dest!: package_entry_file intro!: nothing_skipped_set_entry)

lemma with_env_entry:
  assumes "with_env es = Inr es1"
  shows "map_of es1 n = (if n = ''.env'' \<and> map_of es n = None then map_of es ''.env.example'' else map_of es n)"
    "nothing_skipped es \<Longrightarrow> nothing_skipped es1"
  using assms
  by (auto simp: with_env_def names_kept split: option.splits node.splits intro!: nothing_skipped_set_entry)

lemma findTemplate_id: "findTemplate t = Some info \<Longrightarrow> tm_id info = t"
  by (auto simp: findTemplate_def find_Some_iff)

definition template_at :: "ScaffoldOptions \<Rightarrow> disk \<Rightarrow> path" where
  "template_at opts d = or_default (so_templatesRoot opts) (resolveTemplatesRoot d) @ [so_template opts]"

lemma scaffold_done:
  assumes "scaffold opts d = (left, Inr r)"
  obtains es es1 out where "dk_at d (template_at opts d) = Some (Dir es)"
    "dk_at d (target_of opts d) = None \<or> dk_at d (target_of opts d) = Some (Dir [])"
    "with_package opts d (copied es) = Inr es1" "with_env es1 = Inr out"
    "left = Some (Dir (fst (install_step opts d out)))" "st_files r = listFiles (fst (install_step opts d out))"
    "snd (install_step opts d out) = Inr (st_installed r)"
  using assms
  by (auto simp: scaffold_def copy_template_def finish_project_def template_at_def res_bind_eq_Inr Let_def
      split_beta dest!: findTemplate_id split: option.splits node.splits list.splits sum.splits if_splits)

lemma collapse_Nil [simp]: "collapse s = [] \<longleftrightarrow> s = []"
  by (induction s rule: collapse.induct) auto

lemma collapse_ends [simp]: "s \<noteq> [] \<Longrightarrow> hd (collapse s) = hd s" "s \<noteq> [] \<Longrightarrow> last (collapse s) = last s"
  by (induction s rule: collapse.induct) auto

lemma collapse_set: "set (collapse s) \<subseteq> set s"
  by (induction s rule: collapse.induct) auto

lemma collapse_successively: "successively (\<lambda>x y. x \<noteq> dash \<or> y \<noteq> dash) (collapse s)"
  by (induction s rule: collapse.induct) (auto simp: successively_Cons)

lemma dropWhile_dash: "dropWhile P s \<noteq> [] \<Longrightarrow> \<not> P (hd (dropWhile P s))"
  by (rule hd_dropWhile) (auto simp: dropWhile_eq_Nil_conv)

lemma trim_dashes_ends:
  assumes "trim_dashes s \<noteq> []"
  shows "hd (trim_dashes s) \<noteq> dash" "last (trim_dashes s) \<noteq> dash" "set (trim_dashes s) \<subseteq> set s"
proof -
  define t where "t = dropWhile (\<lambda>c. c = dash) s"
  define u where "u = dropWhile (\<lambda>c. c = dash) (rev t)"
  have trim: "trim_dashes s = rev u" by (simp add: trim_dashes_def t_def u_def)
  with assms have u: "u \<noteq> []" by simp
  then have "hd u \<noteq> dash" unfolding u_def by (rule dropWhile_dash)
  with u show "last (trim_dashes s) \<noteq> dash" by (simp add: trim last_rev)
  obtain v where v: "rev t = v @ u" unfolding u_def by (metis takeWhile_dropWhile_id)
  then have t: "t = rev u @ rev v" by (metis rev_append rev_rev_ident)
  with u have "t \<noteq> []" "hd t = hd (rev u)" by (simp_all add: hd_append)
  then show "hd (trim_dashes s) \<noteq> dash"
    using dropWhile_dash [of "\<lambda>c. c = dash" s] by (simp add: trim t_def)
  have "set u \<subseteq> set t" by (simp add: t)
  also have "set t \<subseteq> set s" unfolding t_def by (meson set_dropWhileD subsetI)
  finally show "set (trim_dashes s) \<subseteq> set s" by (simp add: trim)
qed

subsection \<open>Properties\<close>

text \<open>
  A target directory that is not empty is refused and left exactly as it was, whatever the options, the
  templates and the package manager do.
\<close>

theorem target_left_alone:
  assumes "dk_at d (target_of opts d) = Some (Dir (e # es))"
  shows "\<exists>err. scaffold opts d = (dk_at d (target_of opts d), Inl err)"
  using assms by (simp add: scaffold_def Let_def split: option.split)


text \<open>A package installed under \<open>/k/dist\<close> and run in \<open>/w\<close>.\<close>

definition demo_template :: "(string \<times> node) list" where
  "demo_template = [(''.env.example'', File ''QORE_NETWORK=testnet''),
     (''node_modules'', Dir [(''a'', File ''x'')]), (''src'', Dir [(''b'', File ''y'')])]"

definition demo_disk :: disk where
  "demo_disk = \<lparr>dk_here = [''k'', ''dist''], dk_cwd = [''w''],
     dk_at = (Map.empty :: path \<rightharpoonup> node)([''k'', ''templates'', ''defi-rollup''] \<mapsto> Dir demo_template),
     dk_spawn = (\<lambda>_ _ _ es. (es, None))\<rparr>"

definition demo_options :: ScaffoldOptions where
  "demo_options = \<lparr>so_template = ''defi-rollup'', so_targetDir = ''./p'', so_projectName = ''p'', so_packageManager = None,
     so_network = Some ''mainnet'', so_install = False, so_local = False, so_templatesRoot = None, so_monorepoRoot = None\<rparr>"

lemma demo_paths:
  "target_of demo_options demo_disk = [''w'', ''p'']" "template_at demo_options demo_disk = [''k'', ''templates'', ''defi-rollup'']"
  "resolveTemplatesRoot demo_disk = [''k'', ''templates'']" "blocked demo_disk [''w'', ''p''] = False"
  "findTemplate ''defi-rollup'' = Some (TEMPLATES ! 0)" "tm_id (TEMPLATES ! 0) = ''defi-rollup''"
  "skipped ''node_modules''" "\<not> skipped ''src''" "\<not> skipped ''b''"
  by code_simp+

lemma demo_scaffold:
  "\<exists>left r. scaffold demo_options demo_disk = (left, Inr r)"
proof -
  have "so_template demo_options = ''defi-rollup''" "so_templatesRoot demo_options = None" "so_install demo_options = False"
    by (simp_all add: demo_options_def)
  moreover have "dk_at demo_disk [''k'', ''templates'', ''defi-rollup''] = Some (Dir demo_template)"
    "dk_at demo_disk [''w'', ''p''] = None" by (simp_all add: demo_disk_def)
  ultimately show ?thesis
    by (simp add: scaffold_def copy_template_def demo_paths or_default_def finish_project_def with_package_def with_env_def
        install_step_def demo_template_def names_kept Let_def)
qed


text \<open>A leading dot is kept, though no package can have such a name.\<close>

lemma dotted_name_is_kept: "defaultProjectName cwd ''.demo'' = ''.demo''"
proof -
  have "parts (\<lambda>c. c = slash) ''.demo'' = [''.demo'']" "hd ''.demo'' \<noteq> slash" by code_simp+
  then have "path_name (resolve_path cwd ''.demo'') = ''.demo''"
    by (simp add: resolve_path_def enter_def path_name_def)
  moreover have "collapse (trim_dashes (map (\<lambda>c. if name_char c then c else dash) (toLowerCase ''.demo''))) = ''.demo''"
    by code_simp
  ultimately show ?thesis by (simp add: defaultProjectName_def Let_def del: collapse_Nil)
qed

text \<open>
  The network that is chosen has no effect: the project that is written, what the command prints and its
  exit code are the same for any two networks.
\<close>

theorem chosen_network_is_ignored:
  "create_project percent_text d parsed es dir template network pm =
   create_project percent_text d parsed es dir template other pm"
proof -
  have "scaffold (opts\<lparr>so_network := n\<rparr>) d = scaffold opts d" for opts n d
  proof -
    have target: "target_of (opts\<lparr>so_network := n\<rparr>) d = target_of opts d" by (simp add: target_of_def)
    have "package_entry (opts\<lparr>so_network := n\<rparr>) d = package_entry opts d"
      "install_step (opts\<lparr>so_network := n\<rparr>) d = install_step opts d"
      by (simp_all add: package_entry_def [abs_def] install_step_def [abs_def] target cong del: if_weak_cong)
    then have "finish_project (opts\<lparr>so_network := n\<rparr>) d es = finish_project opts d es" for es
      by (simp add: finish_project_def with_package_def target split: option.split sum.split prod.split)
    then have "copy_template (opts\<lparr>so_network := n\<rparr>) d = copy_template opts d"
      by (simp add: copy_template_def [abs_def] target cong del: if_weak_cong node.case_cong_weak)
    then show ?thesis by (simp add: scaffold_def target Let_def split: option.split node.split list.split)
  qed
  from this [of "Some other" "\<lparr>so_template = template, so_targetDir = dir,
      so_projectName = defaultProjectName (dk_cwd d) dir, so_packageManager = Some pm, so_network = Some network,
      so_install = pa_install parsed, so_local = pa_local parsed, so_templatesRoot = None, so_monorepoRoot = None\<rparr>" d]
  show ?thesis by (simp add: create_project_def)
qed

text \<open>
  When the prompts honour their contract, a text that passes its check and a value that was offered, a run
  without arguments either is cancelled, fails while it looks at a directory, or scaffolds a known template
  into a directory that is missing or empty, for a known network and package manager.
\<close>

theorem prompted_run_is_accepted:
  assumes checked: "\<And>check v. an_text an check = Inr (Some v) \<Longrightarrow> check v = Inr None"
    and offered: "\<And>question options v. an_select an question options = Some v \<Longrightarrow> v \<in> set options"
    and run: "run = create_main version percent_text d an []"
  shows "(\<exists>es. run = bailed es) \<or> (\<exists>e. an_text an (dir_refusal d) = Inl e \<and> run = refused [Intro, Complaint (message e)]) \<or>
    (\<exists>es dir template network pm. run = create_project percent_text d default_args es dir template network pm \<and>
      isEmptyOrMissing d (resolve_path (dk_cwd d) dir) = Inr True \<and> findTemplate template \<noteq> None \<and>
      network \<in> set VALID_NETWORK \<and> pm \<in> set VALID_PM)"
proof -
  have parsed: "parseArgs [] = Inr default_args" by (simp add: parseArgs_def)
  have args: "pa_dir default_args = None" "pa_template default_args = None" "pa_network default_args = None"
    "pa_packageManager default_args = None" "\<not> pa_yes default_args" "\<not> pa_help default_args" "\<not> pa_version default_args"
    by (simp_all add: default_args_def)
  have dir: "isEmptyOrMissing d (resolve_path (dk_cwd d) (usual_dir v)) = Inr True"
    if "an_text an (dir_refusal d) = Inr (Some v)" for v
    using checked [OF that] by (auto simp: dir_refusal_def Let_def res_bind_eq_Inr split: if_splits)
  have known: "findTemplate v \<noteq> None" if "v \<in> tm_id ` set TEMPLATES" for v
    using that by (auto simp: findTemplate_def find_None_iff)
  have picks: "(\<exists>v. promptTemplate an None = Given v \<and> findTemplate v \<noteq> None) \<or> promptTemplate an None = Bail"
    "(\<exists>v \<in> set VALID_NETWORK. promptNetwork an None = Given v) \<or> promptNetwork an None = Bail"
    "(\<exists>v \<in> set VALID_PM. promptPackageManager an None = Given v) \<or> promptPackageManager an None = Bail"
    using known offered [of "''Pick a rollup profile''" "map tm_id TEMPLATES"]
      offered [of "''Which network?''" "[''testnet'', ''mainnet'']"]
      offered [of "''Package manager?''" "[''pnpm'', ''npm'', ''yarn'']"]
    by (auto simp: promptTemplate_def promptNetwork_def promptPackageManager_def chosen_or_bail_def falsy_def VALID_NETWORK_def
        VALID_PM_def split: option.split)
  consider (throws) e where "an_text an (dir_refusal d) = Inl e" "promptDir an d None = Threw e"
    | (bails) "promptDir an d None = Bail"
    | (given) v where "promptDir an d None = Given (usual_dir v)"
        "isEmptyOrMissing d (resolve_path (dk_cwd d) (usual_dir v)) = Inr True"
  proof (cases "an_text an (dir_refusal d)")
    case (Inr r)
    then show ?thesis
      using dir bails given by (cases r) (auto simp: promptDir_def falsy_def chosen_or_bail_def)
  qed (auto simp: promptDir_def falsy_def intro: throws)
  then show ?thesis
  proof cases
    case throws
    then show ?thesis by (simp add: run create_main_def parsed args decide_def)
  next
    case bails
    then show ?thesis by (auto simp: run create_main_def parsed args decide_def)
  next
    case given
    show ?thesis
    proof (cases "promptTemplate an None = Bail")
      case False
      with picks(1) obtain template chosen where t: "promptTemplate an None = Given template" "findTemplate template = Some chosen"
        by auto
      let ?es = "[Intro, Note ''Profile'' (tm_label chosen @ '' profile - '' @ tm_hint chosen)]"
      have "run = asked ?es (promptNetwork an None) (\<lambda>network. asked ?es (promptPackageManager an None)
          (\<lambda>pm. create_project percent_text d default_args ?es (usual_dir v) template network pm))"
        by (simp add: run create_main_def parsed args decide_def given t Let_def)
      with picks(2,3) given(2) t(2) show ?thesis by fastforce
    qed (simp add: run create_main_def parsed args decide_def given, blast)
  qed
qed

text \<open>
  C40: The name given to the project has only the characters of a package name, whatever the directory is
  called: it is not empty, has only lower-case letters, digits and \<open>-~._\<close>, neither begins nor ends with a
  dash, and has no two dashes in a row.
\<close>

theorem project_name_shape:
  "defaultProjectName cwd dir \<noteq> '''' \<and> list_all name_char (defaultProjectName cwd dir) \<and>
   hd (defaultProjectName cwd dir) \<noteq> dash \<and> last (defaultProjectName cwd dir) \<noteq> dash \<and>
   successively (\<lambda>x y. (x, y) \<noteq> (dash, dash)) (defaultProjectName cwd dir)"
proof -
  define s where "s = map (\<lambda>c. if name_char c then c else dash) (toLowerCase (path_name (resolve_path cwd dir)))"
  define t where "t = collapse (trim_dashes s)"
  have name: "defaultProjectName cwd dir = (if t = '''' then ''qorechain-rollup'' else t)"
    by (simp add: defaultProjectName_def s_def t_def Let_def)
  show ?thesis
  proof (cases "t = ''''")
    case True
    then show ?thesis by (simp add: name name_char_def code_def is_digit_def dash_def)
  next
    case False
    then have "trim_dashes s \<noteq> []" by (simp add: t_def)
    note ends = trim_dashes_ends [OF this]
    have "set t \<subseteq> set s" using collapse_set [of "trim_dashes s"] ends(3) by (auto simp: t_def)
    moreover have "list_all name_char s" by (auto simp: s_def list_all_iff name_char_def dash_def)
    ultimately have "list_all name_char t" by (auto simp: list_all_iff)
    with False ends(1,2) \<open>trim_dashes s \<noteq> []\<close> show ?thesis
      using collapse_successively [of "trim_dashes s"] by (simp add: name t_def)
  qed
qed

end
