(* ===== verification/Packaging.thy ===== *)
theory Packaging
  imports Scaffold
begin

text \<open>
  The build step that puts the templates into the published package, \<open>src/cli/scripts/copy-templates.mjs\<close>, on
  the tree of files of \<open>Scaffold\<close>. Its filter, unlike that of the scaffolding command, looks at the whole path of
  a source file, and leaves out \<open>.env\<close>.

  Shown: a project scaffolded from the published package gets what it would get from the repository, as long
  as the template has no \<open>.env\<close> and no directory above the repository has a name that is skipped; below one that has, the
  package is built without templates, and the step reports success.
\<close>

definition SKIP :: "string list" where
  "SKIP = [''node_modules'', ''dist'', ''.turbo'', ''coverage'', ''.env'']"

definition unpacked :: "path \<Rightarrow> bool" where
  "unpacked p \<longleftrightarrow>
     list_ex (\<lambda>s. s \<in> set SKIP) (concat (map (parts (\<lambda>c. c = slash \<or> c = CHR 0x5c)) p))"

text \<open>The entries that \<open>cp\<close> writes, and what it does with the directory itself.\<close>

fun packed :: "path \<Rightarrow> (string \<times> node) list \<Rightarrow> (string \<times> node) list" where
  "packed src [] = []"
| "packed src ((n, x) # es) =
     (if unpacked (src @ [n]) then packed src es
      else (n, case x of File c \<Rightarrow> File c | Dir fs \<Rightarrow> Dir (packed (src @ [n]) fs)) # packed src es)"

definition packed_root :: "path \<Rightarrow> node \<Rightarrow> error + (string \<times> node) list" where
  "packed_root src x =
     (if unpacked src then Inr []
      else case x of
          File c \<Rightarrow> Inl (JsError ''cannot overwrite directory with non-directory'')
        | Dir es \<Rightarrow> Inr (packed src es))"

text \<open>What is then at the package's templates, what is printed, and the exit code.\<close>

definition copy_templates :: "disk \<Rightarrow> node option \<times> create_event list \<times> int" where
  "copy_templates d =
     (let cliRoot = foldl enter (dk_here d) [''..''];
          src = foldl enter cliRoot [''..'', ''templates''];
          dest = cliRoot @ [''templates'']
      in case dk_at d src of
           None \<Rightarrow> (dk_at d dest, [Complaint (''templates source not found at '' @ path_text src)], 1)
         | Some x \<Rightarrow>
             (case packed_root src x of
                Inl e \<Rightarrow> (Some (Dir []), [Complaint (message e)], 1)
              | Inr es \<Rightarrow> (Some (Dir es), [Plain (''Copied templates -> '' @ path_text dest)], 0)))"

subsection \<open>From the package and from the repository\<close>

text \<open>No entry, at any depth, has \<open>.env\<close> among the parts of its name.\<close>

fun without_env :: "(string \<times> node) list \<Rightarrow> bool" where
  "without_env [] \<longleftrightarrow> True"
| "without_env ((n, x) # es) \<longleftrightarrow>
     ''.env'' \<notin> set (parts (\<lambda>c. c = slash \<or> c = CHR 0x5c) n) \<and>
     (case x of File c \<Rightarrow> True | Dir fs \<Rightarrow> without_env fs) \<and> without_env es"

lemma unpacked_snoc:
  "\<not> unpacked src \<Longrightarrow> ''.env'' \<notin> set (parts (\<lambda>c. c = slash \<or> c = CHR 0x5c) n) \<Longrightarrow> unpacked (src @ [n]) \<longleftrightarrow> skipped n"
  by (auto simp: unpacked_def skipped_def SKIP_def COPY_SKIP_def list_ex_iff)

lemma copied_packed: "\<not> unpacked src \<Longrightarrow> without_env es \<Longrightarrow> copied (packed src es) = copied es"
proof (induction src es rule: packed.induct)
  case (2 src n x es)
  then show ?case by (cases x) (auto simp: unpacked_snoc)
qed simp

lemma packed_entry:
  "\<not> unpacked (src @ [n]) \<Longrightarrow> map_of (packed src es) n =
     map_option (\<lambda>x. case x of File c \<Rightarrow> File c | Dir fs \<Rightarrow> Dir (packed (src @ [n]) fs)) (map_of es n)"
  by (induction src es rule: packed.induct) auto

lemma template_parts: "t \<in> set TEMPLATES \<Longrightarrow> parts (\<lambda>c. c = slash \<or> c = CHR 0x5c) (tm_id t) = [tm_id t] \<and> tm_id t \<notin> set SKIP"
proof -
  have "list_all (\<lambda>t. parts (\<lambda>c. c = slash \<or> c = CHR 0x5c) (tm_id t) = [tm_id t] \<and> tm_id t \<notin> set SKIP) TEMPLATES"
    by code_simp
  then show "t \<in> set TEMPLATES \<Longrightarrow> ?thesis" by (simp add: list_all_iff)
qed

text \<open>
  What the published package scaffolds is what the repository scaffolds: each template of the registry is in
  the package, and after the filter of the scaffolding command its entries are those of the repository's
  template.
\<close>

theorem package_scaffolds_the_same:
  assumes "dk_at d (foldl enter (dk_here d) [''..'', ''..'', ''templates'']) = Some (Dir ts)"
    and "\<not> unpacked (foldl enter (dk_here d) [''..'', ''..'', ''templates''])"
    and "t \<in> set TEMPLATES" "map_of ts (tm_id t) = Some (Dir es)" "without_env es"
  shows "\<exists>out es'. fst (copy_templates d) = Some (Dir out) \<and> snd (snd (copy_templates d)) = 0 \<and>
    map_of out (tm_id t) = Some (Dir es') \<and> copied es' = copied es"
proof -
  let ?src = "foldl enter (dk_here d) [''..'', ''..'', ''templates'']"
  have kept: "\<not> unpacked (?src @ [tm_id t])"
    using assms(2) template_parts [OF assms(3)] by (auto simp: unpacked_def list_ex_iff)
  then have "map_of (packed ?src ts) (tm_id t) = Some (Dir (packed (?src @ [tm_id t]) es))"
    using assms(4) by (simp add: packed_entry)
  moreover have "copied (packed (?src @ [tm_id t]) es) = copied es"
    by (rule copied_packed [OF kept assms(5)])
  ultimately show ?thesis
    using assms(1,2) by (simp add: copy_templates_def packed_root_def Let_def)
qed

lemma package_scaffolds_the_same_witness:
  "\<exists>d out. fst (copy_templates d) = Some (Dir out) \<and> map_of out ''defi-rollup'' \<noteq> None"
proof -
  define d where "d = demo_disk\<lparr>dk_here := [''k'', ''cli'', ''scripts''],
    dk_at := (Map.empty :: path \<rightharpoonup> node)([''k'', ''templates''] \<mapsto> Dir [(''defi-rollup'', Dir demo_template)])\<rparr>"
  have src: "foldl enter (dk_here d) [''..'', ''..'', ''templates''] = [''k'', ''templates'']"
    by (simp add: d_def enter_def)
  have "\<not> unpacked [''k'', ''templates'']" "without_env demo_template" "TEMPLATES ! 0 \<in> set TEMPLATES"
    by code_simp+
  with package_scaffolds_the_same [of d "[(''defi-rollup'', Dir demo_template)]" "TEMPLATES ! 0" demo_template] show ?thesis
    unfolding src demo_paths(6) by (auto simp: d_def)
qed

text \<open>A repository below a directory that is called \<open>dist\<close> is packed without any template, and without complaint.\<close>

lemma packed_below_dist:
  assumes "dk_at d (foldl enter (dk_here d) [''..'', ''..'', ''templates'']) = Some (Dir ts)"
    and "''dist'' \<in> set (foldl enter (dk_here d) [''..'', ''..'', ''templates''])"
  shows "fst (copy_templates d) = Some (Dir []) \<and> snd (snd (copy_templates d)) = 0"
proof -
  have "parts (\<lambda>c. c = slash \<or> c = CHR 0x5c) ''dist'' = [''dist'']" by code_simp
  then have "unpacked (foldl enter (dk_here d) [''..'', ''..'', ''templates''])"
    using assms(2) by (force simp: unpacked_def SKIP_def list_ex_iff)
  then show ?thesis using assms(1) by (simp add: copy_templates_def packed_root_def Let_def)
qed

end
