(* ===== verification/Templates.thy ===== *)
theory Templates
  imports Entry
begin

text \<open>
  The programs of the project templates, \<open>src/templates/*\<close>: what a scaffolded rollup project runs.

  The six templates share \<open>client.ts\<close>, \<open>signer.ts\<close>, \<open>create.ts\<close>, \<open>doctor.ts\<close>, \<open>status.ts\<close> and
  \<open>query-status.ts\<close> up to the default rollup id and the profile's name; they differ in \<open>rollup.config.ts\<close> and
  \<open>submit-batch.ts\<close>, and three have a program of their own: \<open>challenge.ts\<close> of the NFT rollup, \<open>prover.ts\<close> of
  the DeFi rollup and \<open>crossvm-call.ts\<close> of the multi-VM rollup. A program is a value of \<open>'a io\<close>, as a command of
  \<open>qorollup\<close> is: \<open>console.log\<close> is a \<open>Line\<close>, \<open>console.warn\<close> a \<open>Warning\<close>, \<open>console.error\<close> a \<open>Failure\<close>, and the
  result is the exit code. What a project meets outside the repository is the record \<open>project\<close>: its
  environment, \<open>fetch\<close>, key derivation and signing, the hash, the prover, the text of a percentage, the
  integer that \<open>Number\<close> reads in a text, and what becomes of a batch index that is none; no transaction does,
  since \<open>BigInt\<close> throws on it.

  Shown: what an optimistic template publishes is the root that the fraud rule accepts; the challenge program
  challenges exactly the batches that the fraud rule rejects, with a proof that is upheld; the DeFi template
  pays no fee while the rollup has no verification key; every program hands over at most one transaction, and
  creation sends the network's own minimum stake for a valid configuration.
\<close>

subsection \<open>Client and signer\<close>

datatype Template =
  defi_rollup | gaming_rollup | nft_rollup | enterprise_rollup | custom_rollup | multivm_rollup

record project =
  pj_env :: cli_env
  pj_fetch :: fetch_like
  pj_sdk :: key_sdk
  pj_tx :: tx_env
  pj_shake :: "bytes \<Rightarrow> bytes"
  pj_keccak :: "bytes \<Rightarrow> bytes"
  pj_percent :: "string \<Rightarrow> string"
  pj_artifacts :: bool
  pj_prove :: "int \<times> int \<Rightarrow> error + (json \<times> json)"
  pj_verify :: "json \<Rightarrow> json \<Rightarrow> error + bool"
  pj_whole :: "string \<Rightarrow> int option"
  pj_odd_index :: "string \<Rightarrow> out_event list \<times> (error + int)"

fun default_rollup_id :: "Template \<Rightarrow> string" where
  "default_rollup_id defi_rollup = ''my-defi-rollup''"
| "default_rollup_id gaming_rollup = ''my-gaming-rollup''"
| "default_rollup_id nft_rollup = ''my-nft-rollup''"
| "default_rollup_id enterprise_rollup = ''my-enterprise-rollup''"
| "default_rollup_id custom_rollup = ''my-custom-rollup''"
| "default_rollup_id multivm_rollup = ''my-multivm-rollup''"

definition ROLLUP_ID :: "project \<Rightarrow> Template \<Rightarrow> string" where
  "ROLLUP_ID p t = or_default (pj_env p ''QORE_ROLLUP_ID'') (default_rollup_id t)"

definition GAS_PRICE :: "project \<Rightarrow> string" where
  "GAS_PRICE p = or_default (pj_env p ''QORE_GAS_PRICE'') ''0.15uqor''"

text \<open>The cast does not check the name; the constructor of the client throws on one that is no network.\<close>

definition project_network :: "project \<Rightarrow> error + NetworkName" where
  "project_network p =
     (let name = pj_env p ''QORE_NETWORK'' in
      if falsy name \<or> name = Some ''testnet'' then Inr testnet
      else if name = Some ''mainnet'' then Inr mainnet
      else Inl (JsError (''Cannot read properties of undefined (reading '' @ apos ''endpoints'' @ '')'')))"

definition getClient :: "project \<Rightarrow> error + RdkClient" where
  "getClient p =
     res_bind (project_network p) (\<lambda>network. Inr
       (createRdkClient (Some network)
         \<lparr>eo_rest = set_endpoint (pj_env p ''QORE_REST_URL''), eo_rpc = set_endpoint (pj_env p ''QORE_RPC_URL''),
          eo_grpc = None, eo_evmRpc = set_endpoint (pj_env p ''QORE_EVM_RPC_URL'')\<rparr> (pj_fetch p)))"

definition getSigner :: "project \<Rightarrow> error + OfflineSigner" where
  "getSigner p =
     res_bind (signerFromEnv (pj_sdk p) (pj_env p) ACCOUNT_PREFIX) (\<lambda>signer.
     case signer of
       None \<Rightarrow> Inl (JsError ''No signing key. Set QORE_MNEMONIC or QORE_OPERATOR_PRIVATE_KEY_HEX in .env.'')
     | Some s \<Rightarrow> Inr s)"

definition CLASSICAL_ONLY :: string where
  "CLASSICAL_ONLY =
     ''No post-quantum key configured, so this client signs classical-only - which mainnet and '' @
     ''testnet refuse on the native lane. Set QORE_MNEMONIC, or QORE_PQC_SEED_HEX alongside '' @
     ''QORE_OPERATOR_PRIVATE_KEY_HEX.''"

definition connectOperator :: "project \<Rightarrow> RdkClient \<Rightarrow> RdkTxClient io" where
  "connectOperator p client =
     io_bind (io_lift (getSigner p)) (\<lambda>signer.
     io_bind (io_lift (os_getAccounts signer)) (\<lambda>accounts.
     case accounts of
       [] \<Rightarrow> io_throw (JsError ''Cannot read properties of undefined'')
     | account # _ \<Rightarrow>
         io_bind (io_lift (pqcKeypairFromEnv (pj_sdk p) client account (pj_env p))) (\<lambda>pqc.
         let options = no_connect_options\<lparr>co_gasPrice := Some (PriceText (GAS_PRICE p))\<rparr> in
         case pqc of
           None \<Rightarrow> say [Warning CLASSICAL_ONLY] (io_lift (connectTx (pj_tx p) client signer options))
         | Some k \<Rightarrow>
             say (if \<not> rk2_registered k
                  then [Line (''Registering your post-quantum key ('' @ derivationName (rk2_derivation k) @
                          '') with this transaction.'')] else [])
               (io_lift (connectTx (pj_tx p) client signer
                 (options\<lparr>ho_pqcKeypair := Some (rk2_keypair k),
                   ho_includePqcPublicKey := Some (rk2_includePqcPublicKey k)\<rparr>))))))"

text \<open>\<open>main().catch\<close>: the reason on standard error, and the exit code 1.\<close>

definition main :: "int io \<Rightarrow> int io" where
  "main m = io_catch m (\<lambda>e. fail_with (message e))"

subsection \<open>Configurations\<close>

definition own_fields :: Overrides where
  "own_fields = no_overrides\<lparr>ov_settlement := Some ''optimistic'', ov_sequencer := Some ''dedicated'',
     ov_da := Some ''native'', ov_proofSystem := Some ''fraud'', ov_gasModel := Some ''standard'',
     ov_vmType := Some ''evm'', ov_blockTimeMs := Some (Whole 1000), ov_maxTxPerBlock := Some (Whole 10000)\<rparr>"

definition under_id :: "project \<Rightarrow> Template \<Rightarrow> Overrides" where
  "under_id p t = no_overrides\<lparr>ov_rollupId := Some (ROLLUP_ID p t)\<rparr>"

fun buildConfig :: "project \<Rightarrow> Template \<Rightarrow> RollupConfig" where
  "buildConfig p defi_rollup = makePreset defi (under_id p defi_rollup)"
| "buildConfig p gaming_rollup = makePreset gaming (under_id p gaming_rollup)"
| "buildConfig p nft_rollup = makePreset nft (under_id p nft_rollup)"
| "buildConfig p enterprise_rollup = makePreset enterprise (under_id p enterprise_rollup)"
| "buildConfig p custom_rollup = builder_set (makePreset custom (under_id p custom_rollup)) own_fields"
| "buildConfig p multivm_rollup = builder_set (makePreset custom (under_id p multivm_rollup)) own_fields"

fun template_profile :: "Template \<Rightarrow> string" where
  "template_profile defi_rollup = ''defi''"
| "template_profile gaming_rollup = ''gaming''"
| "template_profile nft_rollup = ''nft''"
| "template_profile enterprise_rollup = ''enterprise''"
| "template_profile custom_rollup = ''custom''"
| "template_profile multivm_rollup = ''custom''"

subsection \<open>Creating, checking and reading\<close>

definition create_program :: "project \<Rightarrow> Template \<Rightarrow> int io" where
  "create_program p t =
     io_bind (io_lift (builder_validate (buildConfig p t))) (\<lambda>config.
     say (map (\<lambda>w. Warning (''note: '' @ w)) (vr_warnings (builder_validationResult config)))
     (io_bind (io_lift (getClient p)) (\<lambda>client.
      io_bind (io_lift (client_params client)) (\<lambda>params.
      io_bind (io_lift (estimateCreationCost (UStr (pv_minStakeForRollup params))
        (Some (pv_rollupCreationBurnRate params)))) (\<lambda>cost.
      say [Line (''Creating rollup '' @ quote (ROLLUP_ID p t) @ '' (profile: '' @ template_profile t @ '')'')]
      (io_bind (io_lift (uqorToQor (UStr (cc_stakeUqor cost)) DENOM_EXPONENT)) (\<lambda>staked.
       io_bind (io_lift (uqorToQor (UStr (cc_burnUqor cost)) DENOM_EXPONENT)) (\<lambda>burned.
       say [Line (''Stake: '' @ staked @ '' QOR - burned on creation: '' @ burned @ '' QOR'')]
       (io_bind (connectOperator p client) (\<lambda>tx.
        io_bind (io_lift (builder_toCreateMsg config (tc_address tx) (Some (pv_minStakeForRollup params)))) (\<lambda>m.
        io_bind (io_tx (createRollup (pj_tx p) tx
          (create_input (cm_rollupId m) (cm_profile m) (cm_vmType m) (cm_stakeAmount m)) plain_options)) (\<lambda>res.
        say [Line (''Submitted: '' @ dr_transactionHash res @ '' (code '' @ show_int (dr_code res) @ '')'')]
          (io_ret 0)))))))))))))"

definition check_mark :: "CheckStatus \<Rightarrow> string" where
  "check_mark s = (case s of CheckOk \<Rightarrow> ''OK '' | CheckWarn \<Rightarrow> ''!! '' | CheckFail \<Rightarrow> ''XX '')"

definition check_text :: "PreflightCheck \<Rightarrow> out_event" where
  "check_text c = Line (check_mark (pc_status c) @ '' '' @ pc_label c @
     (if falsy (pc_detail c) then '''' else '' - '' @ the (pc_detail c)) @
     (if falsy (pc_hint c) then '''' else '' ('' @ the (pc_hint c) @ '')''))"

definition doctor_program :: "project \<Rightarrow> Template \<Rightarrow> int io" where
  "doctor_program p t =
     io_bind (io_lift (getClient p)) (\<lambda>client.
     io_bind (io_lift (signerFromEnv (pj_sdk p) (pj_env p) ACCOUNT_PREFIX)) (\<lambda>signer.
     io_bind (io_lift (case signer of
         None \<Rightarrow> Inr None
       | Some s \<Rightarrow> res_bind (os_getAccounts s) (\<lambda>accounts. Inr (head_of accounts)))) (\<lambda>signerAddress.
     io_bind (io_lift (project_network p)) (\<lambda>network.
     let r = checkPreflight (pj_percent p) client
           \<lparr>po_config = Some (buildConfig p t), po_signerAddress = signerAddress,
            po_expectedNetwork = Some network, po_feeBufferUqor = None\<rparr>
     in say (map check_text (pr_checks r) @
             [Line (if pr_ok r then ''All checks passed.'' else ''Some checks failed.'')])
          (io_ret (exit_code (pr_ok r)))))))"

definition status_program :: "project \<Rightarrow> Template \<Rightarrow> int io" where
  "status_program p t =
     io_bind (io_lift (getClient p)) (\<lambda>client.
     io_bind (io_lift (getRollupHealth client (ROLLUP_ID p t)
       \<lparr>he_tip = None, he_nowSecs = None, he_challengeWindowSecs = None\<rparr>)) (\<lambda>health.
     say [LineOf (ShownHealth health)] (io_ret 0)))"

definition query_status_program :: "project \<Rightarrow> Template \<Rightarrow> int io" where
  "query_status_program p t =
     io_bind (io_lift (getClient p)) (\<lambda>client.
     io_bind (io_lift (getRollup (rk_rest client) (ROLLUP_ID p t))) (\<lambda>rollup.
     say [Line ''Rollup:'', Line (''  status:     '' @ rv_status rollup), Line (''  profile:    '' @ rv_profile rollup),
          Line (''  settlement: '' @ rv_settlementMode rollup), Line (''  DA backend: '' @ rv_daBackend rollup),
          Line (''  VM:         '' @ rv_vmType rollup)]
     (case getLatestBatch (rk_rest client) (ROLLUP_ID p t) of
        Inr batch \<Rightarrow>
          say [Line ''Latest batch:'', Line (''  index:   '' @ show_int (bv_batchIndex batch)),
               Line (''  status:  '' @ bv_status batch), Line (''  txCount: '' @ show_int (bv_txCount batch))] (io_ret 0)
      | Inl _ \<Rightarrow> say [Line ''No settlement batches submitted yet.''] (io_ret 0))))"

subsection \<open>Submitting a batch\<close>

definition ZERO_ROOT :: string where
  "ZERO_ROOT = ''0x'' @ concat (replicate 32 ''00'')"

definition batch_zero :: "string \<Rightarrow> bytes_like \<Rightarrow> bytes option \<Rightarrow> SubmitBatchInput" where
  "batch_zero rollupId stateRoot proof =
     \<lparr>si_sequencer = '''', si_rollupId = rollupId, si_batchIndex = NNum 0, si_stateRoot = stateRoot,
      si_prevStateRoot = Some (Hex ZERO_ROOT), si_txCount = NNum 1, si_dataHash = None,
      si_proof = map_option Raw proof, si_withdrawalsRoot = None, si_anchorSignature = None,
      si_validatorSetHash = None\<rparr>"

definition submitted_line :: "DeliverTxResponse \<Rightarrow> out_event" where
  "submitted_line res = Line (''Batch submitted: '' @ dr_transactionHash res @ '' (code '' @ show_int (dr_code res) @ '')'')"

fun versionText :: "TransitionRootVersion \<Rightarrow> string" where
  "versionText V1 = ''v1''"
| "versionText V2 = ''v2''"

text \<open>The canonical root of batch 0 with one transaction, without data and without withdrawals.\<close>

definition first_transition :: "RdkClient \<Rightarrow> string \<Rightarrow> TransitionInput" where
  "first_transition client rollupId =
     \<lparr>ti_prevStateRoot = Hex ZERO_ROOT, ti_dataHash = None, ti_txCount = 1,
      ti_chainId = Some (nc_chainId (rk_network client)), ti_rollupId = Some rollupId, ti_withdrawalsRoot = None\<rparr>"

definition submit_optimistic :: "project \<Rightarrow> Template \<Rightarrow> int io" where
  "submit_optimistic p t =
     io_bind (io_lift (getClient p)) (\<lambda>client.
     io_bind (connectOperator p client) (\<lambda>tx.
     io_bind (io_lift (transitionRootVersionFor (isProtocolFeatureEnabled (rk_rest client)))) (\<lambda>version.
     io_bind (io_lift (batchTransitionRoot (pj_shake p) (first_transition client (ROLLUP_ID p t)) version)) (\<lambda>stateRoot.
     say (if t = nft_rollup \<and> \<not> isDaBackendAvailable ''celestia''
          then [Warning ''note: Celestia DA is planned but not yet active - using native DA for now.''] else [])
     (io_bind (io_lift (if t = nft_rollup then assertDaBackendAvailable ''native'' else Inr ())) (\<lambda>_.
      io_bind (io_tx (submitBatch (pj_tx p) tx (batch_zero (ROLLUP_ID p t) (Raw stateRoot) None) no_options)) (\<lambda>res.
      say [Line (''State root '' @ versionText version @ '': '' @ bytesToHex stateRoot), submitted_line res] (io_ret 0))))))))"

definition ONES_ROOT :: string where
  "ONES_ROOT = ''0x'' @ concat (replicate 32 ''11'')"

definition submit_based :: "project \<Rightarrow> Template \<Rightarrow> int io" where
  "submit_based p t =
     io_bind (io_lift (getClient p)) (\<lambda>client.
     io_bind (connectOperator p client) (\<lambda>tx.
     io_bind (io_tx (submitBatch (pj_tx p) tx (batch_zero (ROLLUP_ID p t) (Hex ONES_ROOT) None) no_options)) (\<lambda>res.
     say [submitted_line res] (io_ret 0))))"

definition encodeProof :: "json \<Rightarrow> json \<Rightarrow> bytes" where
  "encodeProof proof publicSignals =
     utf8_encode (json_text (JObj [(''proof'', proof), (''publicSignals'', publicSignals)]))"

definition generateProof :: "project \<Rightarrow> int \<times> int \<Rightarrow> bytes io" where
  "generateProof p input =
     (if pj_artifacts p then
        io_bind (io_lift (pj_prove p input)) (\<lambda>(proof, publicSignals).
        io_bind (io_lift (pj_verify p proof publicSignals)) (\<lambda>ok.
        if \<not> ok then io_throw (JsError ''local proof verification failed'')
        else say [Line ''Generated and locally verified a Groth16 proof.''] (io_ret (encodeProof proof publicSignals))))
      else
        say [Warning (''[reference] Circuit artifacts not found - returning a placeholder proof. '' @
               ''Run `pnpm circuit:build` (requires circom) to produce a real proof.'')]
          (io_ret (utf8_encode ''PLACEHOLDER_PROOF'')))"

definition submit_zk :: "project \<Rightarrow> Template \<Rightarrow> int io" where
  "submit_zk p t =
     io_bind (io_lift (getClient p)) (\<lambda>client.
     io_bind (connectOperator p client) (\<lambda>tx.
     io_bind (io_lift (getRollup (rk_rest client) (ROLLUP_ID p t))) (\<lambda>rollup.
     if rv_hasVerificationKey rollup \<noteq> Some True
     then fail_with (''Rollup '' @ quote (ROLLUP_ID p t) @ '' has no ZK verification key registered, and this chain release offers no '' @
            ''way to register one, so the chain would refuse this batch after charging its fee. Nothing was sent.'')
     else
       io_bind (generateProof p (3, 11)) (\<lambda>proof.
       io_bind (io_tx (submitBatch (pj_tx p) tx (batch_zero (ROLLUP_ID p t) (Hex ONES_ROOT) (Some proof)) no_options)) (\<lambda>res.
       say [submitted_line res] (io_ret 0))))))"

fun submit_program :: "project \<Rightarrow> Template \<Rightarrow> int io" where
  "submit_program p defi_rollup = submit_zk p defi_rollup"
| "submit_program p gaming_rollup = submit_based p gaming_rollup"
| "submit_program p enterprise_rollup = submit_based p enterprise_rollup"
| "submit_program p nft_rollup = submit_optimistic p nft_rollup"
| "submit_program p custom_rollup = submit_optimistic p custom_rollup"
| "submit_program p multivm_rollup = submit_optimistic p multivm_rollup"

subsection \<open>Challenging\<close>

definition challenge_batch :: "project \<Rightarrow> RdkClient \<Rightarrow> string \<Rightarrow> int \<Rightarrow> int io" where
  "challenge_batch p client rollupId batchIndex =
     io_bind (io_lift (getBatch (rk_rest client) rollupId batchIndex)) (\<lambda>batch.
     io_bind (io_lift (transitionRootVersionForBatch (getAppliedPlanHeight (rk_rest client))
       (bv_submittedAt batch) (bv_withdrawalsBound batch))) (\<lambda>version.
     io_bind (io_lift (decodeWireBytes (bv_prevStateRoot batch))) (\<lambda>prevStateRoot.
     io_bind (io_lift (decodeWireBytes (bv_dataHash batch))) (\<lambda>dataHash.
     io_bind (io_lift (decodeWireBytes (bv_withdrawalsRoot batch))) (\<lambda>withdrawalsRoot.
     io_bind (io_lift (batchTransitionRoot (pj_shake p)
       \<lparr>ti_prevStateRoot = Raw prevStateRoot, ti_dataHash = Some (Raw dataHash), ti_txCount = bv_txCount batch,
        ti_chainId = Some (nc_chainId (rk_network client)), ti_rollupId = Some rollupId,
        ti_withdrawalsRoot = Some (Raw withdrawalsRoot)\<rparr> version)) (\<lambda>canonical_root.
     io_bind (io_lift (decodeWireBytes (bv_stateRoot batch))) (\<lambda>stateRoot.
     let published = bytesToHex stateRoot in
     if published = bytesToHex canonical_root
     then say [Line (''Batch '' @ show_int batchIndex @ '' is honest ('' @ versionText version @ '' root '' @ published @
            ''); a challenge would be dismissed and forfeit the bond, so none was sent.'')] (io_ret 0)
     else
       io_bind (connectOperator p client) (\<lambda>tx.
       io_bind (io_lift (fraudProof (Raw prevStateRoot) (Raw canonical_root))) (\<lambda>proof.
       io_bind (io_tx (challengeBatch (pj_tx p) tx
         \<lparr>bi_challenger = '''', bi_rollupId = rollupId, bi_batchIndex = NNum batchIndex, bi_proof = Raw proof\<rparr>
         plain_options)) (\<lambda>res.
       say [Line (''Batch '' @ show_int batchIndex @ '' published '' @ published @ '', the '' @ versionText version @
              '' root is '' @ bytesToHex canonical_root @ '': challenge submitted '' @ dr_transactionHash res @
              '' (code '' @ show_int (dr_code res) @ '')'')] (io_ret 0)))))))))))"

definition challenge_program :: "project \<Rightarrow> int io" where
  "challenge_program p =
     io_bind (io_lift (getClient p)) (\<lambda>client.
     let index = or_default (pj_env p ''QORE_BATCH_INDEX'') ''0'' in
     case pj_whole p index of
       Some n \<Rightarrow> challenge_batch p client (ROLLUP_ID p nft_rollup) n
     | None \<Rightarrow> say (fst (pj_odd_index p index)) (io_lift (snd (pj_odd_index p index))))"

subsection \<open>A call across virtual machines\<close>

definition crossvm_program :: "project \<Rightarrow> int io" where
  "crossvm_program p =
     io_bind (io_lift (getClient p)) (\<lambda>client.
     let nativeContract = or_default (pj_env p ''QORE_CW_CONTRACT'') ''qor1examplecontractxxxxxxxxxxxxxxxxxxxxxxx'';
         executeMsg = json_text (JObj [(''increment'', JObj [])])
     in
     io_bind (io_lift (crossVmTargetReady (pj_fetch p) (ep_rest (nc_endpoints (rk_network client))) nativeContract)) (\<lambda>(ready, reason).
     say ([Line (''Cross-VM call to '' @ nativeContract @ '' on '' @ nc_chainId (rk_network client) @ '': '' @
             (if ready then ''READY'' else ''NOT READY'')),
           Line (''  '' @ reason)] @
          (if \<not> ready then [Line ''  A call sent now would not reach the contract.''] else []) @ [Line ''''])
     (io_bind (io_lift (encodeCrossVmCalldata (pj_keccak p)
        \<lparr>xc_contract = nativeContract, xc_msg = Text executeMsg, xc_targetVm = Some CROSS_VM_TARGET_NATIVE\<rparr>)) (\<lambda>calldata.
      say [Line (''Cross-VM precompile : '' @ CROSS_VM_PRECOMPILE),
           Line (''Signature           : '' @ CROSS_VM_DEFAULT_SIGNATURE),
           Line (''Selector            : '' @ functionSelector (pj_keccak p) CROSS_VM_DEFAULT_SIGNATURE),
           Line (''Target              : '' @ nativeContract @ '' (QoreChain Native)''),
           Line (''Execute msg         : '' @ executeMsg),
           Line (''EVM calldata        : '' @ calldata),
           Line '''',
           Line ''Send an EVM transaction with:'',
           Line (''  to:   '' @ CROSS_VM_PRECOMPILE),
           Line ''  data: <the calldata above>''] (io_ret 0)))))"

subsection \<open>At most one transaction\<close>

text \<open>The programs of a project.\<close>

datatype Program =
  PCreate Template | PDoctor Template | PStatus Template | PQuery Template | PSubmit Template | PChallenge | PCrossVm

fun program :: "project \<Rightarrow> Program \<Rightarrow> int io" where
  "program p (PCreate t) = main (create_program p t)"
| "program p (PDoctor t) = main (doctor_program p t)"
| "program p (PStatus t) = main (status_program p t)"
| "program p (PQuery t) = main (query_status_program p t)"
| "program p (PSubmit t) = main (submit_program p t)"
| "program p PChallenge = main (challenge_program p)"
| "program p PCrossVm = crossvm_program p"

lemma sent_bind:
  "b \<in> set (transactions (io_bind m f)) \<longleftrightarrow>
     b \<in> set (transactions m) \<or> (\<exists>x. snd m = Inr x \<and> b \<in> set (transactions (f x)))"
  by (auto simp: transactions_bind split: sum.split)

lemma transactions_main [simp]: "transactions (main m) = transactions m"
  by (auto simp: main_def io_catch_def transactions_def io_do_def fail_with_def say_def io_ret_def List.map_filter_def
      split: sum.split)

lemma connect_quiet [simp]: "transactions (connectOperator p client) = []"
  by (simp add: connectOperator_def Let_def transactions_bind split: sum.split list.split option.split)

lemma proof_quiet [simp]: "transactions (generateProof p input) = []"
  by (simp add: generateProof_def transactions_bind split: sum.split prod.split)

lemma snd_io [simp]: "snd (io_lift r) = r" "snd (io_tx q) = snd q" "snd (say os m) = snd m"
  by (simp_all add: io_lift_def io_tx_def say_def io_do_def)

lemma no_options_submit: "no_options = submit_options plain_options None"
  by (simp add: no_options_def submit_options_def plain_options_def)

lemma sends_submit:
  "(\<And>x. transactions (f x) = []) \<Longrightarrow> sends True (io_bind (io_tx (submitBatch env c i no_options)) f)"
  using run_op_outcome [of env c "OpSubmit i None" plain_options]
  by (auto simp: no_options_submit intro: sends_mono [OF sends_tx])

text \<open>The challenge program against the fraud rule of the kit.\<close>

lemma challenge_transactions:
  "transactions (challenge_batch p client rollupId n) =
     (case res_bind (getBatch (rk_rest client) rollupId n) (fraudProofForBatch (pj_shake p) client rollupId) of
        Inr (Some proof) \<Rightarrow>
          (case snd (connectOperator p client) of
             Inl e \<Rightarrow> []
           | Inr tx \<Rightarrow> fst (challengeBatch (pj_tx p) tx
               \<lparr>bi_challenger = '''', bi_rollupId = rollupId, bi_batchIndex = NNum n, bi_proof = Raw proof\<rparr> plain_options))
      | _ \<Rightarrow> [])"
  by (auto simp: challenge_batch_def fraudProofForBatch_def canonicalRootFor_def sameBytes_def Let_def transactions_bind
      res_bind_def split: sum.split)

lemma challenge_once: "length (fst (challengeBatch env c i plain_options)) \<le> Suc 0"
  using run_op_outcome [of env c "OpChallenge i" plain_options] by (auto simp: outcome_def)

lemma sends_challenge_batch:
  "sends (\<exists>batch proof. getBatch (rk_rest client) rollupId n = Inr batch \<and>
      fraudProofForBatch (pj_shake p) client rollupId batch = Inr (Some proof))
     (challenge_batch p client rollupId n)"
  by (auto simp: sends_def challenge_transactions res_bind_def challenge_once split: sum.split option.split)

text \<open>When a program may pay a fee.\<close>

fun due :: "project \<Rightarrow> Program \<Rightarrow> bool" where
  "due p (PCreate t) \<longleftrightarrow> vr_valid (validateRollupConfig (buildConfig p t))"
| "due p (PSubmit t) \<longleftrightarrow> t \<noteq> defi_rollup \<or>
     (\<exists>client rollup. getClient p = Inr client \<and> getRollup (rk_rest client) (ROLLUP_ID p t) = Inr rollup \<and>
        rv_hasVerificationKey rollup = Some True)"
| "due p PChallenge \<longleftrightarrow>
     (\<exists>client n batch proof. getClient p = Inr client \<and> pj_whole p (or_default (pj_env p ''QORE_BATCH_INDEX'') ''0'') = Some n \<and>
        getBatch (rk_rest client) (ROLLUP_ID p nft_rollup) n = Inr batch \<and>
        fraudProofForBatch (pj_shake p) client (ROLLUP_ID p nft_rollup) batch = Inr (Some proof))"
| "due p _ \<longleftrightarrow> False"

lemma sends_create_program: "sends (vr_valid (validateRollupConfig (buildConfig p t))) (create_program p t)"
proof (cases "vr_valid (validateRollupConfig (buildConfig p t))")
  case True
  have "sends True (create_program p t)"
    unfolding create_program_def by (intro sends_bind sends_create; simp add: sends_bind sends_create)
  with True show ?thesis by simp
next
  case False
  then show ?thesis
    by (simp add: create_program_def builder_validate_def assertValidRollupConfig_def transactions_bind res_bind_def Let_def)
qed

lemma sends_submit_program: "sends (due p (PSubmit t)) (submit_program p t)"
proof (cases t)
  case defi_rollup
  have "sends (due p (PSubmit defi_rollup)) (submit_zk p defi_rollup)"
    unfolding submit_zk_def
    by (rule sends_bind, simp, rule sends_bind, simp, rule sends_bind, simp)
      (auto intro!: sends_bind sends_mono [OF sends_submit])
  with defi_rollup show ?thesis by simp
qed (auto simp: submit_based_def submit_optimistic_def intro!: sends_bind sends_submit)

lemma sends_reading:
  "transactions (doctor_program p t) = []" "transactions (status_program p t) = []"
  "transactions (query_status_program p t) = []" "transactions (crossvm_program p) = []"
  by (simp_all add: doctor_program_def status_program_def query_status_program_def crossvm_program_def Let_def
      transactions_bind split: sum.split prod.split)

text \<open>
  C24: A program of a project hands over at most one transaction, and none when no fee is due: not for an invalid
  configuration, not for a ZK batch while the chain reports no verification key, not for a batch that the
  fraud rule accepts, and never from a program that only reads.
\<close>

theorem project_pays_when_due:
  "length (transactions (program p prog)) \<le> (if due p prog then 1 else 0)"
proof -
  have "sends (due p prog) (program p prog)"
  proof (cases prog)
    case PChallenge
    have "sends (due p PChallenge) (challenge_program p)"
      unfolding challenge_program_def Let_def
      by (rule sends_bind) (auto intro: sends_mono [OF sends_challenge_batch] split: option.split)
    with PChallenge show ?thesis by (simp add: sends_def)
  qed (use sends_create_program sends_submit_program in \<open>auto simp: sends_def sends_reading simp del: submit_program.simps\<close>)
  then show ?thesis by (simp add: sends_def)
qed

subsection \<open>The roots that are published\<close>

text \<open>What the chain reports of a batch that was submitted with the message \<open>m\<close>.\<close>

definition recorded :: "MsgSubmitBatch \<Rightarrow> BatchView \<Rightarrow> bool" where
  "recorded m batch \<longleftrightarrow>
     decodeWireBytes (bv_stateRoot batch) = Inr (msb_stateRoot m) \<and>
     decodeWireBytes (bv_prevStateRoot batch) = Inr (msb_prevStateRoot m) \<and>
     decodeWireBytes (bv_dataHash batch) = Inr (msb_dataHash m) \<and>
     decodeWireBytes (bv_withdrawalsRoot batch) = Inr (msb_withdrawalsRoot m) \<and>
     bv_txCount batch = msb_txCount m"

lemma zero_root: "toBytes (Hex ZERO_ROOT) = Inr (replicate 32 0)"
  by code_simp

lemma zero_given: "ZERO_ROOT \<noteq> []"
  by (simp add: ZERO_ROOT_def)

lemma submitted_fields:
  assumes "b \<in> set (fst (submitBatch env tx (batch_zero rollupId (Raw root) None) no_options))"
    and "call_messages b = [obj]" "eo_value obj = SubmitBatch m"
  shows "msb_stateRoot m = root \<and> msb_prevStateRoot m = replicate 32 0 \<and> msb_dataHash m = [] \<and>
    msb_withdrawalsRoot m = [] \<and> msb_txCount m = 1 \<and> msb_rollupId m = rollupId \<and> msb_proof m = []"
proof -
  let ?i = "batch_zero rollupId (Raw root) None"
  have one: "fst (submitBatch env tx ?i no_options) = [b]"
    using run_op_outcome [of env tx "OpSubmit ?i None" plain_options] assms(1)
    by (auto simp: no_options_submit outcome_def)
  obtain i where i: "anchored_input env tx ?i AnchorAuto = Inr i"
    "submitBatchMsg (i\<lparr>si_sequencer := tc_address tx\<rparr>) = Inr obj"
    using submit_sends [OF one assms(2)] by (auto simp: no_options_def or_default_def)
  from anchored_input_cases [OF i(1)] obtain a where a: "i = ?i\<lparr>si_anchorSignature := a\<rparr>"
    by (auto simp: batch_zero_def)
  show ?thesis
    using i(2) a assms(3) zero_root zero_given
    by (auto simp: submitBatchMsg_def res_bind_eq_Inr big_def MsgSubmitBatch_fromPartial_def or_default_def batch_zero_def
        bytes_or_empty_def EMPTY_def)
qed

text \<open>The first transition has the root that the batch view of its message has.\<close>

lemma first_root:
  "batchTransitionRoot shake (first_transition client rollupId) v =
   batchTransitionRoot shake
     \<lparr>ti_prevStateRoot = Raw (replicate 32 0), ti_dataHash = Some (Raw []), ti_txCount = 1,
      ti_chainId = Some (nc_chainId (rk_network client)), ti_rollupId = Some rollupId, ti_withdrawalsRoot = Some (Raw [])\<rparr> v"
  using zero_root
  by (cases v) (simp_all add: first_transition_def batchTransitionRoot_def batchTransitionRootV1_def batchTransitionRootV2_def
      rootV1_parts_def rootV2_parts_def bytesOf_def del: toBytes.simps(1))

text \<open>
  C6: What an optimistic template publishes, the fraud rule accepts: for the batch that \<open>submit-batch.ts\<close> hands
  over, the kit's validator accepts every report of that batch which is judged under the binding that
  was in force when the root was computed. The message claims no data hash and carries no proof.
\<close>

theorem optimistic_template_root_accepted:
  assumes "t \<in> {nft_rollup, custom_rollup, multivm_rollup}" "getClient p = Inr client"
    and "b \<in> set (transactions (program p (PSubmit t)))" "call_messages b = [obj]" "eo_value obj = SubmitBatch m"
    and "recorded m batch"
    and "transitionRootVersionForBatch (getAppliedPlanHeight (rk_rest client)) (bv_submittedAt batch) (bv_withdrawalsBound batch)
      = transitionRootVersionFor (isProtocolFeatureEnabled (rk_rest client))"
  shows "transitionRootValidator (pj_shake p) client (ROLLUP_ID p t) batch = Inr True \<and>
    fraudProofForBatch (pj_shake p) client (ROLLUP_ID p t) batch = Inr None \<and>
    msb_rollupId m = ROLLUP_ID p t \<and> msb_dataHash m = [] \<and> msb_proof m = []"
proof -
  have "b \<in> set (transactions (submit_optimistic p t))" using assms(1,3) by auto
  with assms(2) obtain tx v root where v: "transitionRootVersionFor (isProtocolFeatureEnabled (rk_rest client)) = Inr v"
    and root: "batchTransitionRoot (pj_shake p) (first_transition client (ROLLUP_ID p t)) v = Inr root"
    and sent: "b \<in> set (fst (submitBatch (pj_tx p) tx (batch_zero (ROLLUP_ID p t) (Raw root) None) no_options))"
    by (auto simp: submit_optimistic_def sent_bind)
  note m = submitted_fields [OF sent assms(4,5)]
  have "canonicalRootFor (pj_shake p) client (ROLLUP_ID p t) batch = Inr root"
    using v root assms(6,7) m by (simp add: canonicalRootFor_def recorded_def first_root)
  with m assms(6) show ?thesis
    by (simp add: transitionRootValidator_def fraudProofForBatch_def recorded_def)
qed

text \<open>A project for the witnesses: a key of its own, no post-quantum key, and the node of \<open>demo_body\<close>.\<close>

definition demo_project :: project where
  "demo_project =
     \<lparr>pj_env = (Map.empty :: cli_env)(''QORE_OPERATOR_PRIVATE_KEY_HEX'' \<mapsto> ''aa'', ''QORE_ROLLUP_ID'' \<mapsto> ''abc''),
      pj_fetch = tv_fetch demo_env, pj_sdk = toy_sdk,
      pj_tx = demo_env\<lparr>tv_connectWithSigner := (\<lambda>url signer price. Inr demo_transport)\<rparr>,
      pj_shake = toy_hash, pj_keccak = toy_hash, pj_percent = (\<lambda>s. s), pj_artifacts = False,
      pj_prove = (\<lambda>_. Inr (JNull, JNull)), pj_verify = (\<lambda>_ _. Inr True), pj_whole = string_to_bigint,
      pj_odd_index = (\<lambda>_. ([], Inr 1))\<rparr>"

definition demo_operator :: RdkTxClient where
  "demo_operator = \<lparr>tc_client = demo_transport, tc_address = ''amy'', tc_hybrid = None, tc_gasPrice = Some ''0.15uqor''\<rparr>"

lemma demo_getClient: "getClient demo_project = Inr demo_client"
  by (simp add: getClient_def project_network_def demo_project_def falsy_def set_endpoint_def demo_client_def demo_env_def
      createRdkClient_def)

lemma demo_texts: "trim ''aa'' = ''aa''" "hexToBytes ''aa'' = Inr [0xaa]"
  by code_simp+

lemma demo_env_vars [simp]:
  "pj_env demo_project ''QORE_OPERATOR_PRIVATE_KEY_HEX'' = Some ''aa''" "pj_env demo_project ''QORE_PQC_SEED_HEX'' = None"
  "pj_env demo_project ''QORE_MNEMONIC'' = None" "pj_env demo_project ''QORE_GAS_PRICE'' = None"
  "pj_env demo_project ''QORE_ROLLUP_ID'' = Some ''abc''"
  by (simp_all add: demo_project_def)

lemma demo_signer: "getSigner demo_project = Inr \<lparr>os_signDirect = True, os_getAccounts = Inr [''amy'']\<rparr>"
proof -
  have "ks_directSigner (pj_sdk demo_project) k h = Inr \<lparr>os_signDirect = True, os_getAccounts = Inr [''amy'']\<rparr>" for k h
    by (simp add: demo_project_def toy_sdk_def)
  then show ?thesis by (simp add: getSigner_def signerFromEnv_def nonblank_def demo_texts)
qed

lemma demo_connect: "snd (connectOperator demo_project demo_client) = Inr demo_operator"
proof -
  have "connectTx (pj_tx demo_project) demo_client \<lparr>os_signDirect = True, os_getAccounts = Inr [''amy'']\<rparr>
      (no_connect_options\<lparr>co_gasPrice := Some (PriceText ''0.15uqor'')\<rparr>) = Inr demo_operator"
    by (simp add: connectTx_def tx_connect_def no_connect_options_def gas_price_def hybridConfigFrom_def demo_operator_def
        demo_project_def demo_env_def)
  then show ?thesis
    by (simp add: connectOperator_def demo_signer pqcKeypairFromEnv_def nonblank_def GAS_PRICE_def or_default_def
        io_bind_def io_lift_def say_def io_do_def Let_def)
qed

lemma demo_version:
  "transitionRootVersionFor (isProtocolFeatureEnabled (rk_rest demo_client)) = Inr V1"
  "transitionRootVersionForBatch (getAppliedPlanHeight (rk_rest demo_client)) 0 None = Inr V1"
proof -
  have "map_sum (\<lambda>_. ()) id (transitionRootVersionFor (isProtocolFeatureEnabled (rk_rest demo_client))) = Inr V1"
    "map_sum (\<lambda>_. ()) id (transitionRootVersionForBatch (getAppliedPlanHeight (rk_rest demo_client)) 0 None) = Inr V1"
    by code_simp+
  then show "transitionRootVersionFor (isProtocolFeatureEnabled (rk_rest demo_client)) = Inr V1"
    "transitionRootVersionForBatch (getAppliedPlanHeight (rk_rest demo_client)) 0 None = Inr V1"
    by (auto simp: map_sum_def split: sum.splits)
qed

lemma demo_sent:
  "\<exists>root m. transactions (submit_optimistic demo_project custom_rollup) =
       [Classical ''amy'' [\<lparr>eo_typeUrl = MsgSubmitBatch_typeUrl, eo_value = SubmitBatch m\<rparr>] FeeAuto ''''] \<and>
     msb_stateRoot m = root \<and> length root = 32"
proof -
  obtain root where root: "batchTransitionRoot (pj_shake demo_project) (first_transition demo_client ''abc'') V1 = Inr root"
    "length root = 32"
    using zero_root length_toy_hash
    by (auto simp: first_transition_def batchTransitionRoot_def batchTransitionRootV1_def rootV1_parts_def bytesOf_def
        shake32_def qorehash_def demo_project_def simp del: toBytes.simps(1))
  have id: "ROLLUP_ID demo_project custom_rollup = ''abc''" by (simp add: ROLLUP_ID_def or_default_def)
  define i where "i = batch_zero ''abc'' (Raw root) None"
  have "anchored_input (pj_tx demo_project) demo_operator i AnchorAuto = Inr i"
    by (simp add: anchored_input_def i_def batch_zero_def falsy_bytes_def tryAnchorSignature_def demo_operator_def)
  moreover obtain m where m: "submitBatchMsg (i\<lparr>si_sequencer := ''amy''\<rparr>) = Inr \<lparr>eo_typeUrl = MsgSubmitBatch_typeUrl, eo_value = SubmitBatch m\<rparr>"
    "msb_stateRoot m = root"
    using zero_root zero_given
    by (auto simp: submitBatchMsg_def i_def batch_zero_def big_def bytes_or_empty_def MsgSubmitBatch_fromPartial_def or_default_def
        simp del: toBytes.simps(1))
  ultimately have "fst (submitBatch (pj_tx demo_project) demo_operator i no_options) =
      [Classical ''amy'' [\<lparr>eo_typeUrl = MsgSubmitBatch_typeUrl, eo_value = SubmitBatch m\<rparr>] FeeAuto '''']"
    by (simp add: submitBatch_def no_options_def or_default_def i_def batch_zero_def withdrawalsRootError_def check_data_hash_def
        falsy_bytes_def before_def tx_broadcast_def demo_operator_def)
  then have "transactions (submit_optimistic demo_project custom_rollup) =
      [Classical ''amy'' [\<lparr>eo_typeUrl = MsgSubmitBatch_typeUrl, eo_value = SubmitBatch m\<rparr>] FeeAuto '''']"
    by (simp add: submit_optimistic_def transactions_bind demo_getClient demo_connect demo_version root(1) id i_def split: sum.split)
  with m(2) root(2) show ?thesis by blast
qed

lemma optimistic_template_root_accepted_witness:
  "\<exists>batch. transitionRootValidator (pj_shake demo_project) demo_client (ROLLUP_ID demo_project custom_rollup) batch = Inr True"
proof -
  obtain m where m: "transactions (program demo_project (PSubmit custom_rollup)) =
      [Classical ''amy'' [\<lparr>eo_typeUrl = MsgSubmitBatch_typeUrl, eo_value = SubmitBatch m\<rparr>] FeeAuto '''']"
    using demo_sent by auto
  define batch where "batch = (sample_batch 0)\<lparr>bv_stateRoot := bytesToHex (msb_stateRoot m),
    bv_prevStateRoot := bytesToHex (msb_prevStateRoot m), bv_dataHash := bytesToHex (msb_dataHash m),
    bv_withdrawalsRoot := bytesToHex (msb_withdrawalsRoot m), bv_txCount := msb_txCount m,
    bv_submittedAt := 0, bv_withdrawalsBound := None\<rparr>"
  have recorded: "recorded m batch" by (simp add: recorded_def batch_def)
  have "bv_submittedAt batch = 0" "bv_withdrawalsBound batch = None" by (simp_all add: batch_def)
  with optimistic_template_root_accepted [OF _ demo_getClient _ _ _ recorded, of custom_rollup] m demo_version
  show ?thesis by (intro exI [of _ batch]) (simp del: program.simps)
qed

subsection \<open>Configurations and creation\<close>

lemma config_fields:
  "rc_rollupId (buildConfig p t) = ROLLUP_ID p t" "profileWire (rc_profile (buildConfig p t)) = template_profile t"
  by (cases t; simp add: makePreset_def builder_set_def over_def under_id_def own_fields_def no_overrides_def)+

lemma template_ok: "config_ok (buildConfig p t) \<longleftrightarrow> isValidRollupId (ROLLUP_ID p t)"
  by (cases t; simp add: config_ok_def makePreset_def builder_set_def over_def under_id_def own_fields_def no_overrides_def
      preset_base_def DEFAULT_RDK_PARAMS_def)

text \<open>
  Every template's configuration is one that the chain accepts, whatever the environment, exactly when the
  rollup id has the chain's grammar; the default ids have it. It names the template's own profile, and only
  the NFT template's configuration is warned about.
\<close>

theorem template_configs_valid:
  "(vr_valid (validateRollupConfig (buildConfig p t)) \<longleftrightarrow> isValidRollupId (ROLLUP_ID p t)) \<and>
   isValidRollupId (default_rollup_id t) \<and>
   rc_rollupId (buildConfig p t) = ROLLUP_ID p t \<and> profileWire (rc_profile (buildConfig p t)) = template_profile t \<and>
   (vr_warnings (validateRollupConfig (buildConfig p t)) = [] \<longleftrightarrow> t \<noteq> nft_rollup)"
proof -
  have "isValidRollupId (default_rollup_id t)"
    by (cases t; simp; code_simp)
  moreover have "vr_warnings (validateRollupConfig (buildConfig p t)) = [] \<longleftrightarrow> t \<noteq> nft_rollup"
    by (cases t; simp add: validateRollupConfig_def Let_def isDaBackendAvailable_def makePreset_def builder_set_def over_def
        under_id_def own_fields_def no_overrides_def preset_base_def)
  ultimately show ?thesis by (simp add: validate_valid config_fields template_ok)
qed

text \<open>
  C8: The challenge program does what the kit's fraud rule says: it hands over a challenge exactly for a batch
  that \<open>fraudProofForBatch\<close> has a proof for, with that proof, once the client connects. For every other
  batch it sends nothing, so no bond is put at risk.
\<close>

theorem challenge_follows_the_fraud_rule:
  "transactions (program p PChallenge) =
     (case (getClient p, pj_whole p (or_default (pj_env p ''QORE_BATCH_INDEX'') ''0'')) of
        (Inr client, Some n) \<Rightarrow>
          (case res_bind (getBatch (rk_rest client) (ROLLUP_ID p nft_rollup) n)
                  (fraudProofForBatch (pj_shake p) client (ROLLUP_ID p nft_rollup)) of
             Inr (Some proof) \<Rightarrow>
               (case snd (connectOperator p client) of
                  Inl e \<Rightarrow> []
                | Inr tx \<Rightarrow> fst (challengeBatch (pj_tx p) tx
                    \<lparr>bi_challenger = '''', bi_rollupId = ROLLUP_ID p nft_rollup, bi_batchIndex = NNum n,
                     bi_proof = Raw proof\<rparr> plain_options))
           | _ \<Rightarrow> [])
      | _ \<Rightarrow> [])"
  by (simp add: challenge_program_def Let_def transactions_bind challenge_transactions split: sum.split option.split)

lemma broadcast_messages: "b \<in> set (fst (tx_broadcast env c ms opts)) \<Longrightarrow> call_messages b = ms"
  using broadcast_calls [of env c ms opts] by (cases "fst (tx_broadcast env c ms opts)") auto

text \<open>
  Creation stakes what the chain asks for. The message that \<open>create.ts\<close> hands over is signed by the
  connected account and names the project's rollup id, its template's profile and the wire value of its
  virtual machine; its stake is the minimum that the chain reports at that moment.
\<close>

theorem creation_stakes_the_minimum:
  assumes "b \<in> set (transactions (program p (PCreate t)))"
  shows "\<exists>client params tx m. getClient p = Inr client \<and> client_params client = Inr params \<and>
    snd (connectOperator p client) = Inr tx \<and>
    call_messages b = [\<lparr>eo_typeUrl = MsgCreateRollup_typeUrl, eo_value = CreateRollup m\<rparr>] \<and>
    mcr_creator m = tc_address tx \<and> mcr_rollupId m = ROLLUP_ID p t \<and> mcr_profile m = template_profile t \<and>
    mcr_vmType m = vmTypeWireValue (rc_vmType (buildConfig p t)) \<and>
    js_BigInt (NStr (pv_minStakeForRollup params)) = Inr (mcr_stakeAmount m)"
proof -
  from assms obtain client params tx cm where *: "getClient p = Inr client" "client_params client = Inr params"
    "snd (connectOperator p client) = Inr tx"
    "builder_toCreateMsg (buildConfig p t) (tc_address tx) (Some (pv_minStakeForRollup params)) = Inr cm"
    "b \<in> set (fst (createRollup (pj_tx p) tx (create_input (cm_rollupId cm) (cm_profile cm) (cm_vmType cm) (cm_stakeAmount cm)) plain_options))"
    by (auto simp: create_program_def builder_validate_def sent_bind res_bind_eq_Inr)
  have cm: "cm_rollupId cm = ROLLUP_ID p t" "profileWire (cm_profile cm) = template_profile t"
    "cm_vmType cm = rc_vmType (buildConfig p t)" "cm_stakeAmount cm = pv_minStakeForRollup params"
    using *(4) config_fields [of p t]
    by (auto simp: builder_toCreateMsg_def res_bind_eq_Inr orElse_def Let_def split: if_splits)
  show ?thesis
    using * cm
    by (auto simp: createRollup_def create_input_def before_mem createRollupMsg_def big_def res_bind_eq_Inr
        MsgCreateRollup_fromPartial_def or_default_def dest!: broadcast_messages split: option.splits)
qed

lemma demo_created:
  "\<exists>b. b \<in> set (transactions (program demo_project (PCreate custom_rollup)))"
proof -
  have id: "ROLLUP_ID demo_project custom_rollup = ''abc''" by (simp add: ROLLUP_ID_def or_default_def)
  have abc: "isValidRollupId ''abc''" "rollupIdError ''abc'' = None" by code_simp+
  let ?c = "buildConfig demo_project custom_rollup"
  have ok: "config_ok ?c" using template_ok [of demo_project custom_rollup] by (simp add: id abc)
  have params: "map_sum (\<lambda>_. ()) (\<lambda>q. (pv_minStakeForRollup q, pv_rollupCreationBurnRate q)) (client_params demo_client) = Inr (''0'', ''0'')"
    by code_simp
  obtain q where q: "client_params demo_client = Inr q" "pv_minStakeForRollup q = ''0''" "pv_rollupCreationBurnRate q = ''0''"
    using params by (cases "client_params demo_client") auto
  have "map_sum (\<lambda>_. ()) (\<lambda>c. (cc_stakeUqor c, cc_burnUqor c)) (estimateCreationCost (UStr ''0'') (Some ''0'')) = Inr (''0'', ''0'')"
    by code_simp
  then obtain cost where cost: "estimateCreationCost (UStr ''0'') (Some ''0'') = Inr cost" "cc_stakeUqor cost = ''0''" "cc_burnUqor cost = ''0''"
    by (cases "estimateCreationCost (UStr ''0'') (Some ''0'')") auto
  have shown: "uqorToQor (UStr ''0'') DENOM_EXPONENT = Inr ''0''" by code_simp
  have zero: "string_to_bigint ''0'' = Some 0" by code_simp
  have fields: "rc_rollupId ?c = ''abc''" using config_fields(1) [of demo_project custom_rollup] id by simp
  show ?thesis
    using ok
    by (simp add: create_program_def builder_validate_def assertValidRollupConfig_def validate_valid transactions_bind demo_getClient
        demo_connect q cost shown builder_toCreateMsg_def falsy_def orElse_def createRollup_def create_input_def fields abc
        createRollupMsg_def big_def zero before_def tx_broadcast_def demo_operator_def Let_def
        del: buildConfig.simps)
qed

lemma creation_stakes_the_minimum_witness:
  "\<exists>b m. b \<in> set (transactions (program demo_project (PCreate custom_rollup))) \<and>
     call_messages b = [\<lparr>eo_typeUrl = MsgCreateRollup_typeUrl, eo_value = CreateRollup m\<rparr>] \<and>
     mcr_rollupId m = ''abc'' \<and> mcr_profile m = ''custom''"
proof -
  obtain b where b: "b \<in> set (transactions (program demo_project (PCreate custom_rollup)))" using demo_created by blast
  from creation_stakes_the_minimum [OF this] b show ?thesis by (auto simp: ROLLUP_ID_def or_default_def)
qed

end
