(* ===== verification/Examples.thy ===== *)
theory Examples
  imports Templates
begin

text \<open>
  The example programs, \<open>src/examples/src/*.ts\<close>, one definition per program, as values of \<open>'a io\<close>: the body of
  its \<open>main\<close>, whose \<open>catch\<close> is the \<open>main\<close> of \<open>Templates\<close>. They reach
  nearly every part of the kit, so what they do is a statement about how the parts fit. Parameters are the
  environment and \<open>fetch\<close> of a \<open>project\<close>, the hexadecimal decoder and the wallet of the signing library, a
  fresh mnemonic, and the texts \<open>console.log\<close> has for a JSON value and for a map of attributes.

  Shown: each example that needs no node prints what its comments promise, whatever the hash; what the two
  examples that broadcast hand over is classical-only, and a batch of them claims a data hash.
\<close>

subsection \<open>Environment\<close>

record example_world =
  ex_project :: project
  ex_fromHex :: "string \<Rightarrow> error + bytes"
  ex_fromMnemonic :: "string \<Rightarrow> string \<Rightarrow> error + OfflineSigner"
  ex_inspect :: "json option \<Rightarrow> string"
  ex_inspectMap :: "(string \<rightharpoonup> string) \<Rightarrow> string"
  ex_mnemonic :: string

definition ex_env :: "example_world \<Rightarrow> cli_env" where
  "ex_env w = pj_env (ex_project w)"

definition next_line :: "string \<Rightarrow> out_event" where
  "next_line s = Line ([CHR 0x0a] @ s)"

definition EXAMPLE_ID :: "example_world \<Rightarrow> string" where
  "EXAMPLE_ID w = or_default (ex_env w ''QORE_ROLLUP_ID'') ''demo-rollup''"

text \<open>The examples' own signer: unlike \<open>signerFromEnv\<close> it trims nothing and strips only a lower-case \<open>0x\<close>.\<close>

definition strip_0x :: "string \<Rightarrow> string" where
  "strip_0x s = (if take 2 s = ''0x'' then drop 2 s else s)"

definition example_signer :: "example_world \<Rightarrow> error + OfflineSigner" where
  "example_signer w =
     (let hex = ex_env w ''QORE_OPERATOR_PRIVATE_KEY_HEX''; mnemonic = ex_env w ''QORE_MNEMONIC'' in
      if \<not> falsy hex
      then res_bind (ex_fromHex w (strip_0x (the hex))) (\<lambda>k. ks_directSigner (pj_sdk (ex_project w)) k ''qor'')
      else if \<not> falsy mnemonic then ex_fromMnemonic w (the mnemonic) ''qor''
      else Inl (JsError ''No signing key found. Set QORE_OPERATOR_PRIVATE_KEY_HEX or QORE_MNEMONIC.''))"

definition example_connect :: "example_world \<Rightarrow> RdkTxClient io" where
  "example_connect w =
     io_bind (io_lift (getClient (ex_project w))) (\<lambda>client.
     io_bind (io_lift (example_signer w)) (\<lambda>signer.
     io_lift (connectTx (pj_tx (ex_project w)) client signer
       (no_connect_options\<lparr>co_gasPrice := Some (PriceText (GAS_PRICE (ex_project w)))\<rparr>))))"

definition SET_BROADCAST :: out_event where
  "SET_BROADCAST = next_line ''Set QORE_BROADCAST=1 (with QORE_RPC_URL and a signing key) to broadcast.''"

subsection \<open>Programs without a node\<close>

definition yes_no :: "bool \<Rightarrow> string" where
  "yes_no b = (if b then ''true'' else ''false'')"

definition profile_lines :: "ProfileName \<Rightarrow> out_event list" where
  "profile_lines profile =
     (let rollupId = profileWire profile @ ''-demo'';
          result = builder_validationResult (makePreset profile (no_overrides\<lparr>ov_rollupId := Some rollupId\<rparr>))
      in [Line (''profile '' @ quote (profileWire profile) @ '' (rollupId: '' @ rollupId @ '')''),
          Line (''  valid:    '' @ yes_no (vr_valid result))] @
         map (\<lambda>e. Line (''  error:    '' @ e)) (vr_errors result) @
         map (\<lambda>w. Line (''  warning:  '' @ w)) (vr_warnings result) @ [Line ''''])"

definition create_from_presets :: "int io" where
  "create_from_presets = say (concat (map profile_lines [defi, gaming, nft, enterprise, custom])) (io_ret 0)"

definition zk_with :: "string \<Rightarrow> string \<Rightarrow> RollupConfig" where
  "zk_with rollupId proofSystem =
     builder_set (makePreset custom (no_overrides\<lparr>ov_rollupId := Some rollupId\<rparr>))
       (no_overrides\<lparr>ov_settlement := Some ''zk'', ov_proofSystem := Some proofSystem\<rparr>)"

definition validate_custom_config :: "int io" where
  "validate_custom_config =
     (let invalidResult = builder_validationResult (zk_with ''custom-invalid'' ''fraud'');
          validResult = builder_validationResult (zk_with ''custom-valid'' ''snark'')
      in say ([Line ''invalid config:'', Line (''  valid: '' @ yes_no (vr_valid invalidResult))] @
              map (\<lambda>e. Line (''  error: '' @ e)) (vr_errors invalidResult) @
              [Line '''', Line ''valid config:'', Line (''  valid: '' @ yes_no (vr_valid validResult))] @
              map (\<lambda>w. Line (''  warning: '' @ w)) (vr_warnings validResult))
           (io_ret 0))"

definition game_config :: RollupConfig where
  "game_config = makePreset gaming (no_overrides\<lparr>ov_rollupId := Some ''my-game'', ov_stakeAmountUqor := Some (Some ''10000000000'')\<rparr>)"

definition game_manifest :: "RollupConfig \<Rightarrow> RollupManifest" where
  "game_manifest config = toManifest config
     \<lparr>mo_network = testnet, mo_chainId = Some ''qorechain-diana'', mo_endpoints = None,
      mo_addresses = Some [(''creator'', ''qor1creator'')], mo_createdAt = None, mo_notes = None\<rparr>"

definition manifest_roundtrip :: "int io" where
  "manifest_roundtrip =
     io_bind (io_lift (builder_build game_config)) (\<lambda>config.
     io_bind (io_lift (case stringifyManifest (game_manifest config) of
         Some t \<Rightarrow> Inr t | None \<Rightarrow> Inl (JsError ''a number with a fraction''))) (\<lambda>json.
     say [Line json]
     (io_bind (io_lift (res_bind (parseManifest json) fromManifest)) (\<lambda>loaded.
      say [Line (''Loaded rollup '' @ quote (rc_rollupId loaded) @ '' (profile '' @ profileWire (rc_profile loaded) @ '')''),
           Line (if vr_valid (builder_validationResult loaded) then ''Config valid.'' else ''Config invalid.'')]
        (io_ret 0)))))"

definition withdrawal_proof :: "(bytes \<Rightarrow> bytes) \<Rightarrow> int io" where
  "withdrawal_proof shake =
     (let leaves = [[1, 1], [2, 2], [3, 3], [4, 4]]; root = binaryMerkleRoot shake leaves default_opts in
      say [Line (''withdrawals_root: 0x'' @ bytesToHex root)]
      (io_bind (io_lift (assembleWithdrawalProof shake leaves 2 default_opts)) (\<lambda>proof.
       say [Line (''proof for leaf #2: '' @ show_nat (length (wp_proof proof)) @ '' sibling hashes''),
            Line (''locally verifies: '' @ yes_no (verifyBinaryMerkleProof shake (leaves ! 2) 2 (wp_proof proof) root default_opts))]
         (io_ret 0))))"

definition offline_mock :: "tx_env \<Rightarrow> int io" where
  "offline_mock env =
     io_bind (io_lift (fromClient env (mock_capability (newMockTxClient None None)) ''qor1operator'' no_connect_options None)) (\<lambda>tx.
     io_bind (io_lift (builder_build (makePreset defi (no_overrides\<lparr>ov_rollupId := Some ''demo''\<rparr>)))) (\<lambda>config.
     let id = rc_rollupId config;
         created = createRollup env tx (create_input id (rc_profile config) (rc_vmType config) ''10000000000'') plain_options;
         paused = pauseRollup env tx id (Some ''demo'') (Some active) plain_options;
         resumed = resumeRollup env tx id (Some RollupStatus.paused) plain_options;
         stopped = stopRollup env tx id (Some active) plain_options;
         calls = fst created @ fst paused @ fst resumed @ fst stopped
     in
     io_bind (io_lift (snd created)) (\<lambda>_.
     io_bind (io_lift (snd paused)) (\<lambda>_.
     io_bind (io_lift (snd resumed)) (\<lambda>_.
     io_bind (io_lift (snd stopped)) (\<lambda>_.
     say ([Line ''Submitted (offline):''] @ map (\<lambda>c. Line (''  '' @ eo_typeUrl (hd (call_messages c)))) calls)
     (io_bind (io_lift (tx_simulate tx (call_messages (hd calls)) None)) (\<lambda>gas.
      say [Line (''Simulated gas for the first message: '' @ show_int gas)] (io_ret 0)))))))))"

subsection \<open>Programs that read\<close>

definition connect_and_read_params :: "example_world \<Rightarrow> int io" where
  "connect_and_read_params w =
     io_bind (io_lift (getClient (ex_project w))) (\<lambda>client.
     let net = rk_network client in
     say [Line (''Network: '' @ networkWire (nc_name net) @ '' (chain id: '' @ nc_chainId net @ '')''),
          Line (''REST endpoint: '' @ ep_rest (nc_endpoints net))]
     (io_bind (io_lift (client_params client)) (\<lambda>params.
      say [Line ''rdk module params:'',
           Line (''  maxRollups:             '' @ show_int (pv_maxRollups params)),
           Line (''  minStakeForRollup:      '' @ pv_minStakeForRollup params @ '' uqor''),
           Line (''  rollupCreationBurnRate: '' @ pv_rollupCreationBurnRate params),
           Line (''  defaultChallengeWindow: '' @ show_int (pv_defaultChallengeWindow params) @ '' s''),
           Line (''  maxDaBlobSize:          '' @ show_int (pv_maxDaBlobSize params) @ '' bytes''),
           Line (''  blobRetentionBlocks:    '' @ show_int (pv_blobRetentionBlocks params)),
           Line (''  maxBatchesPerBlock:     '' @ show_int (pv_maxBatchesPerBlock params))] (io_ret 0))))"

definition keygen_and_health :: "example_world \<Rightarrow> int io" where
  "keygen_and_health w =
     io_bind (io_lift (ks_deriveNativeAccount (pj_sdk (ex_project w)) (ex_mnemonic w))) (\<lambda>account.
     say [Line (''new operator address: '' @ na_address account)]
     (let rollupId = ex_env w ''QORE_ROLLUP_ID''; rest = ex_env w ''QORE_REST_URL'' in
      if falsy rollupId \<or> falsy rest
      then say [Line ''Set QORE_REST_URL and QORE_ROLLUP_ID to read rollup health.''] (io_ret 0)
      else
        io_bind (io_lift (project_network (ex_project w))) (\<lambda>network.
        let client = createRdkClient (Some network)
              \<lparr>eo_rest = rest, eo_rpc = None, eo_grpc = None, eo_evmRpc = None\<rparr> (pj_fetch (ex_project w))
        in io_bind (io_lift (getRollupHealth client (the rollupId)
             \<lparr>he_tip = None, he_nowSecs = None, he_challengeWindowSecs = None\<rparr>)) (\<lambda>health.
           say [LineOf (ShownHealth health)] (io_ret 0)))))"

definition sample_events :: "RawEvent list" where
  "sample_events =
     [\<lparr>ev_type = ''message'', ev_attributes = [(''action'', ''/qorechain.rdk.v1.MsgCreateRollup'')]\<rparr>,
      \<lparr>ev_type = ''rollup_created'', ev_attributes = [(''rollup_id'', ''demo-rollup''),
         (''creator'', ''qor1exampleexampleexampleexampleexampleex''), (''profile'', ''defi'')]\<rparr>,
      \<lparr>ev_type = ''batch_submitted'', ev_attributes = [(''rollup_id'', ''demo-rollup''), (''batch_index'', ''0'')]\<rparr>]"

definition list_rollups_and_events :: "example_world \<Rightarrow> int io" where
  "list_rollups_and_events w =
     (let decoded = decodeRdkEvents sample_events in
      say ([Line (''decoded '' @ show_nat (length decoded) @ '' rdk event(s):'')] @
           map (\<lambda>e. Line (''  '' @ de_type e @ '': '' @ ex_inspectMap w (de_attributes e))) decoded @
           (case findRdkEvent sample_events ''rollup_created'' of
              None \<Rightarrow> []
            | Some created \<Rightarrow> [next_line (''rollup_created -> rollup_id = '' @ or_default (de_attributes created ''rollup_id'') ''undefined'')]))
      (if falsy (ex_env w ''QORE_REST_URL'')
       then say [next_line ''Set QORE_REST_URL to list registered rollups via client.rest.listRollups().''] (io_ret 0)
       else
         io_bind (io_lift (getClient (ex_project w))) (\<lambda>client.
         io_bind (io_lift (rest_listRollups (rk_rest client))) (\<lambda>rollups.
         say ([next_line (show_nat (length rollups) @ '' rollup(s):'')] @
              map (\<lambda>r. Line (''  '' @ rv_rollupId r @ '' - profile '' @ rv_profile r @ '', status '' @ rv_status r @
                '', vm '' @ rv_vmType r)) rollups) (io_ret 0)))))"

definition native_da_blob :: "example_world \<Rightarrow> int io" where
  "native_da_blob w =
     io_bind (io_lift (buildDaBlob (pj_shake (ex_project w)) (Raw (utf8_encode ''hello, data availability'')) None)) (\<lambda>blob.
     say [Line ''native DA blob:'', Line (''  size:     '' @ show_nat (db_size blob) @ '' bytes''),
          Line (''  dataHash: '' @ db_dataHash blob)]
     (io_bind (io_lift (assertDaBackendAvailable ''native'')) (\<lambda>_.
      say [Line (''  backend '' @ quote ''native'' @ '' is available.'')]
      (if falsy (ex_env w ''QORE_REST_URL'')
       then say [next_line ''Set QORE_REST_URL to query a stored blob via client.rest.getBlob(...).''] (io_ret 0)
       else
         io_bind (io_lift (getClient (ex_project w))) (\<lambda>client.
         io_bind (io_lift (getBlob (rk_rest client) (EXAMPLE_ID w) 0)) (\<lambda>stored.
         say [next_line (''stored blob (rollup '' @ quote (EXAMPLE_ID w) @ '', index 0): '' @ ex_inspect w (Some stored))]
           (io_ret 0)))))))"

definition preflight_doctor :: "example_world \<Rightarrow> int io" where
  "preflight_doctor w =
     (let p = ex_project w in
      io_bind (io_lift (project_network p)) (\<lambda>network.
      let client = createRdkClient (Some network)
            \<lparr>eo_rest = set_endpoint (pj_env p ''QORE_REST_URL''), eo_rpc = None, eo_grpc = None,
             eo_evmRpc = set_endpoint (pj_env p ''QORE_EVM_RPC_URL'')\<rparr> (pj_fetch p)
      in
      io_bind (io_lift (signerFromEnv (pj_sdk p) (pj_env p) ACCOUNT_PREFIX)) (\<lambda>signer.
      io_bind (io_lift (case signer of
          None \<Rightarrow> Inr None
        | Some s \<Rightarrow> res_bind (os_getAccounts s) (\<lambda>accounts. Inr (head_of accounts)))) (\<lambda>signerAddress.
      let r = checkPreflight (pj_percent p) client
            \<lparr>po_config = Some (makePreset defi (no_overrides\<lparr>ov_rollupId := Some ''my-defi-rollup''\<rparr>)),
             po_signerAddress = signerAddress, po_expectedNetwork = Some network, po_feeBufferUqor = None\<rparr>
      in say (map (\<lambda>c. Line ((case pc_status c of CheckOk \<Rightarrow> ''OK'' | CheckWarn \<Rightarrow> ''!!'' | CheckFail \<Rightarrow> ''XX'') @ '' '' @
                  pc_label c @ (if falsy (pc_detail c) then '''' else '' - '' @ the (pc_detail c)))) (pr_checks r) @
              [Line (if pr_ok r then ''All checks passed.'' else ''Some checks failed.'')]) (io_ret 0)))))"

definition read_status_jsonrpc :: "example_world \<Rightarrow> int io" where
  "read_status_jsonrpc w =
     io_bind (io_lift (getClient (ex_project w))) (\<lambda>client.
     say [Line (''qor_ JSON-RPC endpoint: '' @ ep_evmRpc (nc_endpoints (rk_network client)))]
     (let (q1, status) = getRollupStatus (rk_qor client) (EXAMPLE_ID w) in
      io_bind (io_lift status) (\<lambda>status.
      say [next_line (''rollup status for '' @ quote (EXAMPLE_ID w) @ '': '' @ ex_inspect w status)]
      (let (q2, batch) = getSettlementBatch q1 (EXAMPLE_ID w) 0 in
       io_bind (io_lift batch) (\<lambda>batch.
       say [next_line (''settlement batch 0: '' @ ex_inspect w batch)]
       (let (q3, blob) = getDABlobStatus q2 (EXAMPLE_ID w) 0 in
        io_bind (io_lift blob) (\<lambda>blob.
        say [next_line (''DA blob 0 status: '' @ ex_inspect w blob)] (io_ret 0))))))))"

definition suggest_profile :: "example_world \<Rightarrow> int io" where
  "suggest_profile w =
     io_bind (io_lift (getClient (ex_project w))) (\<lambda>client.
     let suggestion = snd (suggestProfile ''high-frequency DeFi DEX'' (rk_qor client) None) in
     say ([Line (''Use case:    '' @ quote ''high-frequency DeFi DEX''),
           Line (''Profile:     '' @ ps_profile suggestion),
           Line (''Source:      '' @ (case ps_source suggestion of advisory \<Rightarrow> ''advisory'' | suggestion_source.fallback \<Rightarrow> ''fallback''))] @
          (case ps_raw suggestion of None \<Rightarrow> [] | Some r \<Rightarrow> [Line (''Raw response: '' @ ex_inspect w (Some r))]))
       (io_ret 0))"

subsection \<open>Programs that broadcast\<close>

definition example_batch :: "example_world \<Rightarrow> DaBlob \<Rightarrow> bytes_like option \<Rightarrow> SubmitBatchInput" where
  "example_batch w data_blob proof =
     (batch_zero (EXAMPLE_ID w) (Hex ONES_ROOT) None)\<lparr>si_dataHash := Some (Hex (db_dataHash data_blob)), si_proof := proof\<rparr>"

definition example_paths :: "example_world \<Rightarrow> DaBlob \<Rightarrow> (string \<times> SubmitBatchInput) list" where
  "example_paths w data_blob =
     [(''optimistic'', example_batch w data_blob (Some (Hex (''0x'' @ concat (replicate 32 ''aa''))))),
      (''zk'', example_batch w data_blob (Some (Hex (''0x'' @ concat (replicate 64 ''bb''))))),
      (''based'', example_batch w data_blob None),
      (''sovereign'', example_batch w data_blob None)]"

definition path_lines :: "DaBlob \<Rightarrow> string \<times> SubmitBatchInput \<Rightarrow> out_event list" where
  "path_lines data_blob = (\<lambda>(path, input).
     [Line (''settlement path '' @ quote path @ '':''), Line (''  rollupId:  '' @ si_rollupId input),
      Line (''  dataHash:  '' @ db_dataHash data_blob),
      Line (''  proof:     '' @ (if si_proof input = None then ''none'' else ''present''))])"

fun broadcast_paths :: "tx_env \<Rightarrow> RdkTxClient \<Rightarrow> (string \<times> SubmitBatchInput) list \<Rightarrow> int io" where
  "broadcast_paths env tx [] = io_ret 0"
| "broadcast_paths env tx ((path, input) # rest) =
     io_bind (io_tx (submitBatch env tx input no_options)) (\<lambda>res.
     say [Line (''broadcast '' @ quote path @ '': '' @ dr_transactionHash res @ '' (code '' @ show_int (dr_code res) @ '')'')]
       (broadcast_paths env tx rest))"

definition submit_batch_paths :: "example_world \<Rightarrow> int io" where
  "submit_batch_paths w =
     io_bind (io_lift (buildDaBlob (pj_shake (ex_project w)) (Raw (utf8_encode ''example batch data'')) None)) (\<lambda>data_blob.
     say (concat (map (path_lines data_blob) (example_paths w data_blob)))
     (if ex_env w ''QORE_BROADCAST'' \<noteq> Some ''1'' then say [SET_BROADCAST] (io_ret 0)
      else io_bind (example_connect w) (\<lambda>tx. broadcast_paths (pj_tx (ex_project w)) tx (example_paths w data_blob))))"

definition EXAMPLE_PROOF :: string where
  "EXAMPLE_PROOF = ''0x'' @ concat (replicate 48 ''cc'')"

definition challenge_and_resolve :: "example_world \<Rightarrow> int io" where
  "challenge_and_resolve w =
     say [Line (''Challenging batch 0 of rollup '' @ quote (EXAMPLE_ID w)), Line (''  proof: '' @ EXAMPLE_PROOF)]
     (if ex_env w ''QORE_BROADCAST'' \<noteq> Some ''1'' then say [SET_BROADCAST] (io_ret 0)
      else
        io_bind (example_connect w) (\<lambda>tx.
        io_bind (io_tx (challengeBatch (pj_tx (ex_project w)) tx
          \<lparr>bi_challenger = '''', bi_rollupId = EXAMPLE_ID w, bi_batchIndex = NNum 0, bi_proof = Hex EXAMPLE_PROOF\<rparr>
          plain_options)) (\<lambda>res.
        say [Line (''Challenge submitted: '' @ dr_transactionHash res @ '' (code '' @ show_int (dr_code res) @ '')'')]
          (io_ret 0))))"

subsection \<open>What the examples show\<close>

lemma outputs_says [simp]: "outputs (say os m) = os @ outputs m"
  by (induction os) (simp_all add: outputs_def say_def io_do_def List.map_filter_def comp_def)

lemma presets_shown:
  "outputs create_from_presets = concat (map (\<lambda>q.
     [Line (''profile '' @ quote (profileWire q) @ '' (rollupId: '' @ profileWire q @ ''-demo)''), Line ''  valid:    true''] @
     (if q = nft then [Line (''  warning:  '' @ hd (vr_warnings (validateRollupConfig (PRESET_DEFAULTS nft))))] else []) @
     [Line '''']) [defi, gaming, nft, enterprise, custom])"
  by code_simp

lemma custom_shown:
  "take 2 (outputs validate_custom_config) = [Line ''invalid config:'', Line ''  valid: false'']"
  "last (outputs validate_custom_config) = Line ''  valid: true''"
proof -
  have id: "isValidRollupId ''custom-valid''" by code_simp
  have valid: "config_ok (zk_with ''custom-valid'' ''snark'')" "\<not> config_ok (zk_with ''custom-invalid'' ''fraud'')"
    by (simp_all add: id config_ok_def zk_with_def makePreset_def builder_set_def over_def no_overrides_def preset_base_def
        DEFAULT_RDK_PARAMS_def)
  have "vr_warnings (validateRollupConfig (zk_with ''custom-valid'' ''snark'')) = []"
    by (simp add: zk_with_def validateRollupConfig_def Let_def isDaBackendAvailable_def makePreset_def builder_set_def over_def
        no_overrides_def preset_base_def)
  with valid show "take 2 (outputs validate_custom_config) = [Line ''invalid config:'', Line ''  valid: false'']"
    "last (outputs validate_custom_config) = Line ''  valid: true''"
    by (simp_all add: validate_custom_config_def builder_validationResult_def Let_def yes_no_def validate_valid)
qed

lemma manifest_shown:
  "drop 1 (outputs manifest_roundtrip) = [Line (''Loaded rollup '' @ quote ''my-game'' @ '' (profile gaming)''), Line ''Config valid.'']"
proof -
  have id: "isValidRollupId ''my-game''" "isPositiveIntegerString ''10000000000''" by code_simp+
  have ok: "config_ok game_config"
    by (simp add: id config_ok_def game_config_def makePreset_def builder_set_def over_def no_overrides_def preset_base_def)
  have game: "rc_rollupId game_config = ''my-game''" "rc_profile game_config = gaming"
    by (simp_all add: game_config_def makePreset_def builder_set_def over_def no_overrides_def)
  obtain t where t: "stringifyManifest (game_manifest game_config) = Some t"
    by (auto simp: stringifyManifest_def manifest_json_def game_manifest_def toManifest_def game_config_def makePreset_def
        builder_set_def over_def no_overrides_def preset_base_def config_json_def)
  have "parseManifest t = Inr (Some (game_manifest game_config))"
    by (rule parse_stringified [OF t]) (simp_all add: game_manifest_def toManifest_def keyed_once_def)
  then have "res_bind (parseManifest t) fromManifest = Inr game_config"
    by (simp add: fromManifest_def game_manifest_def toManifest_def)
  with ok t show ?thesis
    by (simp add: manifest_roundtrip_def builder_build_def assertValidRollupConfig_def validate_valid io_bind_def io_lift_def
        builder_validationResult_def game outputs_def say_def io_do_def io_ret_def List.map_filter_def)
qed

lemma withdrawal_shown: "last (outputs (withdrawal_proof shake)) = Line ''locally verifies: true''"
proof -
  let ?ls = "[[1, 1], [2, 2], [3, 3], [4, 4]] :: bytes list"
  obtain q where q: "binaryMerkleProof shake ?ls 2 default_opts = Inr q"
    "verifyBinaryMerkleProof shake (?ls ! nat 2) 2 (siblings q) (binaryMerkleRoot shake ?ls default_opts) default_opts"
    using binaryMerkleProof_complete [of 2 ?ls default_opts shake] by (auto simp: default_opts_def)
  then show ?thesis
    by (simp add: withdrawal_proof_def assembleWithdrawalProof_def io_bind_def io_lift_def outputs_def say_def io_do_def io_ret_def
        List.map_filter_def yes_no_def)
qed

definition mock_tx :: RdkTxClient where
  "mock_tx = \<lparr>tc_client = mock_capability (newMockTxClient None None), tc_address = ''qor1operator'', tc_hybrid = None,
     tc_gasPrice = None\<rparr>"

lemma mock_broadcast:
  "tx_broadcast env mock_tx [m] plain_options =
     ([Classical ''qor1operator'' [m] FeeAuto ''''], snd (mock_signAndBroadcast (newMockTxClient None None) ''qor1operator'' [m] FeeAuto (Some '''')))"
  using mock_records [of mock_tx "newMockTxClient None None" env "[m]" plain_options]
  by (simp add: mock_tx_def plain_options_def or_default_def)

lemma offline_shown:
  "outputs (offline_mock env) = map Line
     [''Submitted (offline):'', ''  '' @ MsgCreateRollup_typeUrl, ''  '' @ MsgPauseRollup_typeUrl, ''  '' @ MsgResumeRollup_typeUrl,
      ''  '' @ MsgStopRollup_typeUrl, ''Simulated gas for the first message: '' @ show_int 120000]"
proof -
  have id: "isValidRollupId ''demo''" "rollupIdError ''demo'' = None" by code_simp+
  define cfg where "cfg = makePreset defi (no_overrides\<lparr>ov_rollupId := Some ''demo''\<rparr>)"
  have cfg: "config_ok cfg" "rc_rollupId cfg = ''demo''"
    using preset_ok [OF id(1), of defi] by (simp_all add: cfg_def makePreset_def builder_set_def over_def no_overrides_def)
  have stake: "string_to_bigint ''10000000000'' = Some (int (nat_of_digits ''10000000000''))"
    by (rule string_to_bigint_digits) (simp_all add: is_digit_def code_def)
  have tx: "fromClient env (mock_capability (newMockTxClient None None)) ''qor1operator'' no_connect_options None = Inr mock_tx"
    by (simp add: fromClient_def no_connect_options_def gas_price_def mock_tx_def)
  have gas: "tx_simulate mock_tx ms None = Inr 120000" for ms
    by (simp add: tx_simulate_def mock_tx_def mock_capability_def mock_simulate_def newMockTxClient_def or_default_def)
  have address: "tc_address mock_tx = ''qor1operator''" "has_rest mock_tx = False"
    by (simp_all add: mock_tx_def has_rest_def)
  show ?thesis
    using cfg
    by (simp add: offline_mock_def tx builder_build_def assertValidRollupConfig_def validate_valid io_bind_def io_lift_def
        createRollup_def create_input_def id address createRollupMsg_def big_def stake pauseRollup_def resumeRollup_def stopRollup_def
        pauseRollupMsg_def resumeRollupMsg_def stopRollupMsg_def check_action_def assertRollupAction_def canPerformRollupAction_def
        check_latest_def before_def mock_broadcast mock_signAndBroadcast_def gas Let_def outputs_def say_def io_do_def io_ret_def
        List.map_filter_def comp_def flip: cfg_def)
qed

text \<open>
  The examples that need no node do what their comments promise. Every preset is shown as valid, and only the
  NFT one with a warning; pairing ZK settlement with a fraud proof is shown as invalid, with a SNARK as valid;
  the manifest is loaded back from its text, and valid; the offline flow submits creation, pause, resume and
  stop, in this order; and the withdrawal proof verifies, for every hash function.
\<close>

theorem offline_examples:
  "outputs create_from_presets = concat (map (\<lambda>q.
     [Line (''profile '' @ quote (profileWire q) @ '' (rollupId: '' @ profileWire q @ ''-demo)''), Line ''  valid:    true''] @
     (if q = nft then [Line (''  warning:  '' @ hd (vr_warnings (validateRollupConfig (PRESET_DEFAULTS nft))))] else []) @
     [Line '''']) [defi, gaming, nft, enterprise, custom]) \<and>
   take 2 (outputs validate_custom_config) = [Line ''invalid config:'', Line ''  valid: false''] \<and>
   last (outputs validate_custom_config) = Line ''  valid: true'' \<and>
   drop 1 (outputs manifest_roundtrip) = [Line (''Loaded rollup '' @ quote ''my-game'' @ '' (profile gaming)''), Line ''Config valid.''] \<and>
   outputs (offline_mock env) = map Line
     [''Submitted (offline):'', ''  '' @ MsgCreateRollup_typeUrl, ''  '' @ MsgPauseRollup_typeUrl, ''  '' @ MsgResumeRollup_typeUrl,
      ''  '' @ MsgStopRollup_typeUrl, ''Simulated gas for the first message: '' @ show_int 120000] \<and>
   last (outputs (withdrawal_proof shake)) = Line ''locally verifies: true''"
  by (intro conjI presets_shown custom_shown manifest_shown offline_shown withdrawal_shown)

text \<open>How the broadcasting examples sign, and what they claim.\<close>

lemma example_classical: "snd (example_connect w) = Inr tx \<Longrightarrow> tc_hybrid tx = None"
proof -
  have "tc_hybrid tx = None" if "connectTx env rk signer (no_connect_options\<lparr>co_gasPrice := g\<rparr>) = Inr tx" for env rk signer g
  proof -
    from that obtain price client accounts where
      "(case accounts of [] \<Rightarrow> Inl (JsError ''signer has no accounts'')
        | a # _ \<Rightarrow> Inr \<lparr>tc_client = client, tc_address = a, tc_hybrid = None, tc_gasPrice = price\<rparr>) = Inr tx"
      by (auto simp: connectTx_def tx_connect_def no_connect_options_def hybridConfigFrom_def res_bind_eq_Inr)
    then show ?thesis by (cases accounts) auto
  qed
  then show "snd (example_connect w) = Inr tx \<Longrightarrow> tc_hybrid tx = None"
    by (auto simp: example_connect_def io_bind_def io_lift_def split: sum.splits)
qed

lemma example_connect_quiet [simp]: "transactions (example_connect w) = []"
  by (simp add: example_connect_def transactions_bind split: sum.split)

lemma broadcast_paths_sent:
  "b \<in> set (transactions (broadcast_paths env tx ps)) \<Longrightarrow> \<exists>(path, input) \<in> set ps. b \<in> set (fst (submitBatch env tx input no_options))"
  by (induction env tx ps rule: broadcast_paths.induct) (auto simp: sent_bind)

lemma example_batch_sent:
  assumes "b \<in> set (fst (submitBatch env tx (example_batch w data_blob proof) no_options))" "tc_hybrid tx = None"
    and "db_dataHash data_blob = ''0x'' @ bytesToHex h"
  shows "\<exists>a fee memo m. b = Classical a [\<lparr>eo_typeUrl = MsgSubmitBatch_typeUrl, eo_value = SubmitBatch m\<rparr>] fee memo \<and>
    msb_dataHash m = h"
proof -
  have claims: "\<not> falsy_bytes (Some (Hex (''0x'' @ bytesToHex h)))" by (simp add: falsy_bytes_def)
  from assms(1,2) obtain i obj where i: "anchored_input env tx (example_batch w data_blob proof) AnchorAuto = Inr i"
    "submitBatchMsg (i\<lparr>si_sequencer := tc_address tx\<rparr>) = Inr obj" "b \<in> set (fst (tx_broadcast env tx [obj] no_options))"
    by (auto simp: submitBatch_def no_options_def or_default_def before_mem split: option.splits)
  from anchored_input_cases [OF i(1)] obtain a where a: "i = (example_batch w data_blob proof)\<lparr>si_anchorSignature := a\<rparr>"
    by (auto simp: example_batch_def batch_zero_def)
  have "\<exists>m. obj = \<lparr>eo_typeUrl = MsgSubmitBatch_typeUrl, eo_value = SubmitBatch m\<rparr> \<and> msb_dataHash m = h"
    using i(2) a assms(3) claims
    by (auto simp: submitBatchMsg_def res_bind_eq_Inr MsgSubmitBatch_fromPartial_def or_default_def example_batch_def batch_zero_def
        bytes_or_empty_def)
  then show ?thesis using i(3) assms(2) by (auto simp: tx_broadcast_def Let_def)
qed

lemma example_challenge_sent:
  assumes "tc_hybrid tx = None"
  shows "fst (challengeBatch env tx \<lparr>bi_challenger = '''', bi_rollupId = rid, bi_batchIndex = NNum 0,
      bi_proof = Hex EXAMPLE_PROOF\<rparr> plain_options) =
    [Classical (tc_address tx) [\<lparr>eo_typeUrl = MsgChallengeBatch_typeUrl, eo_value = ChallengeBatch
       \<lparr>mcb_challenger = tc_address tx, mcb_rollupId = rid, mcb_batchIndex = 0, mcb_proof = replicate 48 0xcc\<rparr>\<rparr>] FeeAuto '''']"
proof -
  have "toBytes (Hex EXAMPLE_PROOF) = Inr (replicate 48 0xcc)" by code_simp
  then show ?thesis
    using assms
    by (simp add: challengeBatch_def before_def challengeBatchMsg_def big_def MsgChallengeBatch_fromPartial_def or_default_def
        tx_broadcast_def Let_def plain_options_def del: toBytes.simps)
qed

text \<open>
  What the broadcasting examples hand over has no post-quantum signature, whichever key is configured. Each
  batch of the first claims the hash of a blob that no transaction stores; the templates say that the chain
  refuses both. The challenge of the second carries 48 bytes, a proof that the chain upholds for no batch.
\<close>

theorem broadcasting_examples:
  "list_all (\<lambda>b. \<exists>a fee memo m.
       b = Classical a [\<lparr>eo_typeUrl = MsgSubmitBatch_typeUrl, eo_value = SubmitBatch m\<rparr>] fee memo \<and>
       msb_dataHash m = qorehash (pj_shake (ex_project w)) [utf8_encode ''example batch data''])
     (transactions (submit_batch_paths w)) \<and>
   transactions (challenge_and_resolve w) =
     (if ex_env w ''QORE_BROADCAST'' \<noteq> Some ''1'' then []
      else case snd (example_connect w) of
          Inl e \<Rightarrow> []
        | Inr tx \<Rightarrow> [Classical (tc_address tx) [\<lparr>eo_typeUrl = MsgChallengeBatch_typeUrl, eo_value = ChallengeBatch
            \<lparr>mcb_challenger = tc_address tx, mcb_rollupId = EXAMPLE_ID w, mcb_batchIndex = 0,
             mcb_proof = replicate 48 0xcc\<rparr>\<rparr>] FeeAuto '''']) \<and>
   \<not> upheld prev canonical_root published (replicate 48 0xcc)"
proof -
  let ?h = "qorehash (pj_shake (ex_project w)) [utf8_encode ''example batch data'']"
  have built: "db_dataHash d = ''0x'' @ bytesToHex ?h"
    if "buildDaBlob (pj_shake (ex_project w)) (Raw (utf8_encode ''example batch data'')) None = Inr d" for d
    using that
    by (auto simp: buildDaBlob_def Let_def split: if_splits)
  have "\<exists>a fee memo m. b = Classical a [\<lparr>eo_typeUrl = MsgSubmitBatch_typeUrl, eo_value = SubmitBatch m\<rparr>] fee memo \<and>
      msb_dataHash m = ?h" if "b \<in> set (transactions (submit_batch_paths w))" for b
  proof -
    from that obtain d tx path input where *: "db_dataHash d = ''0x'' @ bytesToHex ?h" "snd (example_connect w) = Inr tx"
      "(path, input) \<in> set (example_paths w d)" "b \<in> set (fst (submitBatch (pj_tx (ex_project w)) tx input no_options))"
      by (auto simp: submit_batch_paths_def sent_bind dest!: broadcast_paths_sent built split: if_splits)
    then obtain pf where "input = example_batch w d pf" by (auto simp: example_paths_def)
    with * example_batch_sent [OF _ example_classical] show ?thesis by blast
  qed
  then have "list_all (\<lambda>b. \<exists>a fee memo m.
       b = Classical a [\<lparr>eo_typeUrl = MsgSubmitBatch_typeUrl, eo_value = SubmitBatch m\<rparr>] fee memo \<and> msb_dataHash m = ?h)
     (transactions (submit_batch_paths w))" unfolding list_all_iff by blast
  then show ?thesis
    by (simp add: challenge_and_resolve_def transactions_bind example_challenge_sent example_classical upheld_def split: sum.split)
qed

end
