(* ===== verification/Spec2Isabelle.thy ===== *)
theory Spec2Isabelle
  imports MerkleReference Challenge TxClient CrossVm Health Operator CliArgs Entry Pipeline Packaging Examples
begin

text \<open>
  A verification development for the QoreChain rollup development kit: the TypeScript kit
  \<open>packages/ts\<close>, the operator's command line \<open>packages/rdk-cli\<close> (\<open>qorollup\<close>), the scaffolding command
  \<open>cli\<close> (\<open>create-qorechain-rollup\<close>), the programs of the projects it scaffolds (\<open>templates\<close>) and the \<open>examples\<close>. Paths below are under \<open>src/\<close>.

  The program. The kit is a client of the chain's \<open>rdk\<close> module. It computes what the chain computes
  (Merkle trees, withdrawal leaves, transition roots, sign bytes), repeats the chain's rules so that a
  mistake is refused before a fee is paid, reads the chain over REST and JSON-RPC, builds and signs the
  module's transactions, and on top of these watches batches for fraud, verifies settlement receipts
  that others present, reports the health of a rollup and advises its operator. The command line puts
  each of these behind a command; the scaffolding command writes a project that uses the kit, from one of
  six templates.

  Layers and theories, each importing what it calls:
    \<^item> \<open>Prelude\<close>: error values, results (\<open>res_bind\<close> is the sequencing of statements, \<open>Inl\<close> a throw), the
      standard library's texts and numbers, big-endian encodings, and the locales \<open>field_code\<close>,
      \<open>fixed_code\<close> and \<open>length_code\<close> of encodings that can be read back. \<open>Bytes\<close>: \<open>utils/bytes.ts\<close>.
    \<^item> \<open>Merkle\<close> (\<open>bridge/merkle.ts\<close>, \<open>utils/qorehash.ts\<close>), \<open>Withdrawal\<close> (\<open>bridge/withdrawal.ts\<close>) and
      \<open>Transition\<close> (\<open>transition/index.ts\<close>): the commitments. A tree is complete and binding (the locale
      \<open>vector_commitment\<close>), leaves and roots of version 2 determine every field they cover, each up to a
      collision of the hash that the proof exhibits. \<open>MerkleReference\<close>: the loops compute the recursive tree
      that specifications of Merkle trees describe.
    \<^item> \<open>Lifecycle\<close> (\<open>lifecycle/state-machine.ts\<close>), \<open>Rules\<close> (\<open>rules/index.ts\<close>), \<open>Denom\<close> (\<open>utils/denom.ts\<close>,
      \<open>utils/economics.ts\<close>) and \<open>Config\<close> (\<open>config/\<close>, \<open>constants.ts\<close>, \<open>presets/\<close>, \<open>manifest/\<close>, \<open>da/\<close>): state
      machines and challenge windows, grammars, exact amounts, and a validation that is equivalent to a
      list of conditions.
    \<^item> \<open>Wire\<close>, \<open>Codecs\<close> (\<open>tx/codecs.ts\<close>) and \<open>Messages\<close> (\<open>tx/messages.ts\<close>, \<open>tx/registry.ts\<close>): the
      messages, through an abstract protobuf library (the locale \<open>wire_format\<close>, interpreted on a
      reference encoding). Round trips through the registry, and termination of every decoder.
    \<^item> \<open>Views\<close> (\<open>client/views.ts\<close>) and \<open>Rest\<close> (\<open>client/http.ts\<close>, \<open>client/rest.ts\<close>, \<open>client/jsonrpc.ts\<close>,
      \<open>profiles/suggest.ts\<close>): reading the chain, paging included.
    \<^item> \<open>Json\<close>: \<open>JSON.stringify\<close> in both layouts and \<open>JSON.parse\<close>, as a scanner and a pushdown automaton; a
      printed value is read back. \<open>Manifests\<close> (\<open>manifest/\<close>): the text of a manifest, read back field by field.
    \<^item> \<open>Receipts\<close> (\<open>receipts/index.ts\<close>, \<open>client/rdk-client.ts\<close>): a receipt that verifies is on the chain, and a
      receipt that was built verifies.
    \<^item> \<open>Watchtower\<close> and \<open>Challenge\<close> (\<open>watchtower/index.ts\<close>): the polling loop as a state machine whose state
      is the closure's variables; \<open>tower_reach\<close> is its reachability relation. Every batch that breaks the
      rule is reported once, and the proof it comes with is one the chain upholds; the relation \<open>watched\<close>
      follows a tower over a chain that grows, of which it misses nothing.
    \<^item> \<open>TxClient\<close> (\<open>tx/client.ts\<close>, \<open>tx/mock.ts\<close>): what is handed over for signing is the first component of
      a call's result, so that refusing means an empty list.
    \<^item> \<open>CrossVm\<close> (\<open>crossvm/index.ts\<close>): calldata refines the ABI's encoding of dynamic tuples.
    \<^item> \<open>Health\<close> (\<open>health/\<close>, \<open>monitor/\<close>, \<open>events/decode.ts\<close>): the report, the search for the batch that holds
      finality back, the monitor. The locale \<open>poller\<close> is the contract that monitor and watchtower share.
    \<^item> \<open>Accounts\<close> (\<open>accounts/\<close>, \<open>utils/bech32.ts\<close>, \<open>faucet/\<close>, \<open>errors/\<close>) and \<open>Operator\<close> (\<open>preflight/\<close>,
      \<open>copilot/\<close>): keys from the environment, checks and advice.
    \<^item> \<open>CliArgs\<close>, \<open>Cli\<close>, \<open>Commands\<close>, \<open>Entry\<close> (\<open>packages/rdk-cli/src\<close>): the parser, the effects of a command as
      an ordered list of events, every command, and the dispatch. Transactions, output and exit codes
      are views of that list; what holds of each is shown command by command through the same
      composition rules. What one run writes into a file another reads: receipts and manifests pass over.
      \<open>Pipeline\<close>: a batch from its submission, through the chain's record, to the verdict on its receipt.
    \<^item> \<open>Scaffold\<close> (\<open>cli/src\<close>): scaffolding on a tree of files, with the search for the templates, the
      prompts and the flow of the entry point. \<open>Packaging\<close> (\<open>cli/scripts\<close>): the step that puts the templates
      into the published package, which scaffolds what the repository scaffolds.
    \<^item> \<open>Templates\<close> (\<open>templates/*\<close>) and \<open>Examples\<close> (\<open>examples/src\<close>): the programs written against the kit, on the
      same effects. They compose the parts: what an optimistic template publishes is what the fraud rule of
      \<open>Challenge\<close> accepts, the challenge program follows that rule, and a fee is paid only when it is due.

  Modelling decisions. A text is a list of characters up to U+00FF, so its length is its number of UTF-16
  units; dashes and ellipses beyond that are written \<open>-\<close> and \<open>...\<close>. Counting numbers are integers:
  amounts are \<open>bigint\<close> in the code, and a JSON number is the integer the chain serves. Bytes are
  8-bit words, and the 32- and 64-bit encodings wrap where the code's do. A \<open>Promise\<close> is the result it
  settles with; where something can happen while a function waits (the pollers), every such place is
  explicit in the model. Third-party code is a parameter: SHAKE-256, keccak-256, bech32, ML-DSA-87,
  \<open>fetch\<close>, the protobuf reader and writer, the signing clients and key derivation, the
  prover, prompts, the contents of files. What is relied on is a named hypothesis or a locale's law.

  Bounds. The paging loop has the code's own bound of 100000 pages; it is enough for any chain with at
  most 100 times as many batches, which is the hypothesis of the completeness results. A decoder is a
  partial function whose value \<open>None\<close> means that it runs on; that it returns is shown from the law that a
  tag takes at least one byte. The Merkle loops and the argument loops terminate by a measure. The
  pollers run any finite sequence of ticks and stops.

  What the model showed, in \<open>PROJECT.json\<close> with its lemma: a validation or an announcement that throws is not
  repeated, so a bad batch is missed; a reused batch index is never looked at again; an error
  callback that throws ends the watch; a promoted leaf is refused by the
  kit's own verifier; an empty anchor signature satisfies \<open>require\<close>; errors of a node read as \<open>no batches\<close>,
  \<open>not registered\<close> or \<open>feature off\<close>; the network chosen for a scaffolded project has no effect; the
  examples that broadcast hand over what the documented chain refuses; a checkout below a directory called \<open>dist\<close> is
  packed without templates; a failing command in JSON mode prints nothing; \<open>--canonical\<close> takes the rollup id for its value.

  Not modelled. The other implementations of the kit (Go, JVM, Python and Rust under \<open>packages/\<close>) and the
  golden fixtures; the re-exports of \<open>packages/ts/src/index.ts\<close>; the build's configuration and the documentation.
  JSON numbers with a fraction or an exponent and characters above U+00FF read as errors. The terminal's
  colours are left out, and its prompts are parameters. The browser's base64 fallback, the SDK's default registry
  entries and the wall clock of the pollers' timers are left out, the last because a tick may come at
  any time.
\<close>

end
